(* ===== verification/Sdp_Prelude.thy ===== *)
theory Sdp_Prelude
  imports Main "HOL-Library.AList" "HOL-Library.Word" "HOL-Library.Sublist"
begin

text \<open>
  Shared vocabulary of the development: results with panics, state passing, Rust's string
  operations on UTF-8 bytes, hash maps as association lists, and the lemma collections the
  component theories extend.

  A Rust \<^verbatim>\<open>String\<close> is a \<^typ>\<open>string\<close> whose characters are its UTF-8 bytes, so lengths and
  offsets count bytes as Rust's do. A \<^verbatim>\<open>HashMap\<close> or \<^verbatim>\<open>BTreeMap\<close> is an association list, its
  iteration order being the order of the list: theorems quantify over the list and so over
  every order. A \<^verbatim>\<open>HashSet\<close> is a list used through membership, insertion and iteration.
\<close>

named_theorems sdp_simps \<open>unfolding equations of the component operations\<close>
named_theorems name_simps \<open>how resources are named\<close>
named_theorems inv_intros \<open>operations that keep the component invariants\<close>

section \<open>Results\<close>

text \<open>\<^verbatim>\<open>Ok\<close> and \<^verbatim>\<open>Err\<close> of a Rust \<^verbatim>\<open>Result\<close>, and a panic, which ends the process.\<close>

datatype ('e, 'a) res = Ok 'a | Err 'e | Panic string

text \<open>An operation on a state \<open>'s\<close>; \<open>bindR\<close> is sequencing with the \<^verbatim>\<open>?\<close> operator.\<close>

type_synonym ('s, 'e, 'a) act = "'s \<Rightarrow> ('e, 'a) res \<times> 's"

definition bindR :: "('s, 'e, 'a) act \<Rightarrow> ('a \<Rightarrow> ('s, 'e, 'b) act) \<Rightarrow> ('s, 'e, 'b) act" where
  "bindR m f s =
     (case m s of
        (Ok a, s') \<Rightarrow> f a s'
      | (Err e, s') \<Rightarrow> (Err e, s')
      | (Panic p, s') \<Rightarrow> (Panic p, s'))"

text \<open>The \<^verbatim>\<open>?\<close> operator without a state.\<close>

fun and_then :: "('e, 'a) res \<Rightarrow> ('a \<Rightarrow> ('e, 'b) res) \<Rightarrow> ('e, 'b) res" where
  "and_then (Ok a) f = f a"
| "and_then (Err e) f = Err e"
| "and_then (Panic p) f = Panic p"

text \<open>\<open>for x in xs { body }\<close> whose body logs its errors and goes on; a panic ends the loop.\<close>

fun for_each :: "('x \<Rightarrow> ('s, 'e, unit) act) \<Rightarrow> 'x list \<Rightarrow> ('s, 'e, unit) act" where
  "for_each f [] s = (Ok (), s)"
| "for_each f (x # xs) s =
     (case f x s of
        (Panic p, s') \<Rightarrow> (Panic p, s')
      | (_, s') \<Rightarrow> for_each f xs s')"

text \<open>The same loop with \<^verbatim>\<open>?\<close> in its body: the first error leaves it.\<close>

fun try_each :: "('x \<Rightarrow> ('s, 'e, unit) act) \<Rightarrow> 'x list \<Rightarrow> ('s, 'e, unit) act" where
  "try_each f [] s = (Ok (), s)"
| "try_each f (x # xs) s =
     (case f x s of
        (Ok _, s') \<Rightarrow> try_each f xs s'
      | (Err e, s') \<Rightarrow> (Err e, s')
      | (Panic p, s') \<Rightarrow> (Panic p, s'))"

definition map_err :: "('e \<Rightarrow> 'f) \<Rightarrow> ('e, 'a) res \<Rightarrow> ('f, 'a) res" where
  "map_err f r = (case r of Ok a \<Rightarrow> Ok a | Err e \<Rightarrow> Err (f e) | Panic p \<Rightarrow> Panic p)"

definition unwrap_or :: "'a option \<Rightarrow> 'a \<Rightarrow> 'a" where
  "unwrap_or x d = (case x of None \<Rightarrow> d | Some a \<Rightarrow> a)"

definition ok_or :: "'a option \<Rightarrow> 'e \<Rightarrow> ('e, 'a) res" where
  "ok_or x e = (case x of None \<Rightarrow> Err e | Some a \<Rightarrow> Ok a)"

section \<open>Strings\<close>

text \<open>\<^verbatim>\<open>s.split(c)\<close>: the pieces between the separators, never an empty list.\<close>

fun split_char :: "char \<Rightarrow> string \<Rightarrow> string list" where
  "split_char c [] = [[]]"
| "split_char c (x # xs) =
     (if x = c then [] # split_char c xs
      else (case split_char c xs of [] \<Rightarrow> [[x]] | p # ps \<Rightarrow> (x # p) # ps))"

fun join :: "string \<Rightarrow> string list \<Rightarrow> string" where
  "join sep [] = []"
| "join sep [x] = x"
| "join sep (x # y # ys) = x @ sep @ join sep (y # ys)"

text \<open>\<^verbatim>\<open>s.replace("c", r)\<close> for a one-character pattern.\<close>

definition replace_char :: "char \<Rightarrow> string \<Rightarrow> string \<Rightarrow> string" where
  "replace_char c r s = concat (map (\<lambda>x. if x = c then r else [x]) s)"

text \<open>
  \<^verbatim>\<open>to_lowercase\<close> and \<^verbatim>\<open>eq_ignore_ascii_case\<close>. The letters lowered are the ASCII ones; the code
  compares the result with ASCII words that have no letter some non-ASCII character lowers
  to, so on those comparisons this agrees with Unicode lowering.
\<close>

definition ascii_lower :: "char \<Rightarrow> char" where
  "ascii_lower c = (let n = (of_char c :: nat) in if 65 \<le> n \<and> n \<le> 90 then char_of (n + 32) else c)"

definition to_lowercase :: "string \<Rightarrow> string" where
  "to_lowercase s = map ascii_lower s"

definition eq_ignore_ascii_case :: "string \<Rightarrow> string \<Rightarrow> bool" where
  "eq_ignore_ascii_case s t \<longleftrightarrow> to_lowercase s = to_lowercase t"

text \<open>
  \<^verbatim>\<open>String::truncate\<close> cuts at a byte offset and panics (\<open>None\<close>) inside a character, that is
  before a UTF-8 continuation byte.
\<close>

definition is_char_boundary :: "string \<Rightarrow> nat \<Rightarrow> bool" where
  "is_char_boundary s n \<longleftrightarrow>
     n = 0 \<or> n = length s \<or>
     (n < length s \<and> \<not> (128 \<le> (of_char (s ! n) :: nat) \<and> (of_char (s ! n) :: nat) < 192))"

definition truncate_str :: "nat \<Rightarrow> string \<Rightarrow> string option" where
  "truncate_str n s =
     (if n \<le> length s then (if is_char_boundary s n then Some (take n s) else None)
      else Some s)"

text \<open>Length of the whitespace character a string starts with, 0 when it starts with none.\<close>

definition ws_len :: "string \<Rightarrow> nat" where
  "ws_len s =
     (case map (of_char :: char \<Rightarrow> nat) (take 3 s) of
        [] \<Rightarrow> 0
      | x # r \<Rightarrow>
          if (9 \<le> x \<and> x \<le> 13) \<or> x = 32 then 1
          else (case r of
              [] \<Rightarrow> 0
            | y # r' \<Rightarrow>
                if x = 194 \<and> (y = 133 \<or> y = 160) then 2
                else (case r' of
                    [] \<Rightarrow> 0
                  | z # _ \<Rightarrow>
                      if (x = 225 \<and> y = 154 \<and> z = 128) \<or>
                         (x = 226 \<and> y = 128 \<and> ((128 \<le> z \<and> z \<le> 138) \<or> z = 168 \<or> z = 169 \<or> z = 175)) \<or>
                         (x = 226 \<and> y = 129 \<and> z = 159) \<or>
                         (x = 227 \<and> y = 128 \<and> z = 128)
                      then 3 else 0)))"

lemma ws_len_Nil [simp]: "ws_len [] = 0"
  by (simp add: ws_len_def)

function trim_start :: "string \<Rightarrow> string" where
  "trim_start s = (if ws_len s = 0 then s else trim_start (drop (ws_len s) s))"
  by pat_completeness auto
termination
proof (relation "measure length")
  fix s :: string
  assume "ws_len s \<noteq> 0"
  then show "(drop (ws_len s) s, s) \<in> measure length"
    by (cases s) auto
qed simp

declare trim_start.simps [simp del]

definition ws_end :: "string \<Rightarrow> nat" where
  "ws_end s =
     (if 1 \<le> length s \<and> ws_len (drop (length s - 1) s) = 1 then 1
      else if 2 \<le> length s \<and> ws_len (drop (length s - 2) s) = 2 then 2
      else if 3 \<le> length s \<and> ws_len (drop (length s - 3) s) = 3 then 3 else 0)"

function trim_end :: "string \<Rightarrow> string" where
  "trim_end s = (if ws_end s = 0 then s else trim_end (take (length s - ws_end s) s))"
  by pat_completeness auto
termination
proof (relation "measure length")
  fix s :: string
  assume "ws_end s \<noteq> 0"
  then show "(take (length s - ws_end s) s, s) \<in> measure length"
    by (auto simp: ws_end_def split: if_splits)
qed simp

declare trim_end.simps [simp del]

definition trim :: "string \<Rightarrow> string" where
  "trim s = trim_end (trim_start s)"

text \<open>\<^verbatim>\<open>s.trim_end_matches(pat)\<close>: the suffix \<open>pat\<close> is cut as often as it is there.\<close>

function trim_end_matches :: "string \<Rightarrow> string \<Rightarrow> string" where
  "trim_end_matches pat s =
     (if pat \<noteq> [] \<and> suffix pat s then trim_end_matches pat (take (length s - length pat) s) else s)"
  by pat_completeness auto
termination
proof (relation "measure (\<lambda>(pat, s). length s)")
  fix pat s :: string
  assume "pat \<noteq> [] \<and> suffix pat s"
  then show "((pat, take (length s - length pat) s), (pat, s)) \<in> measure (\<lambda>(pat, s). length s)"
    by (cases pat) (auto simp: suffix_def)
qed simp

declare trim_end_matches.simps [simp del]

text \<open>Decimal printing, as \<^verbatim>\<open>format!("{}", n)\<close> does for an unsigned number.\<close>

fun show_nat :: "nat \<Rightarrow> string" where
  "show_nat n =
     (if n < 10 then [char_of (48 + n)] else show_nat (n div 10) @ [char_of (48 + n mod 10)])"

declare show_nat.simps [simp del]


section \<open>Lemmas on results and loops\<close>

lemma bindR_Ok [simp]: "m s = (Ok a, s') \<Longrightarrow> bindR m f s = f a s'"
  and bindR_Err [simp]: "m s = (Err e, s') \<Longrightarrow> bindR m f s = (Err e, s')"
  and bindR_Panic [simp]: "m s = (Panic p, s') \<Longrightarrow> bindR m f s = (Panic p, s')"
  by (simp_all add: bindR_def)

lemma and_then_Ok_iff: "and_then r f = Ok b \<longleftrightarrow> (\<exists>a. r = Ok a \<and> f a = Ok b)"
  by (cases r) auto

lemma and_then_no_panic: "(\<And>q. r \<noteq> Panic q) \<Longrightarrow> (\<And>a q. r = Ok a \<Longrightarrow> f a \<noteq> Panic q) \<Longrightarrow> and_then r f \<noteq> Panic q"
  by (cases r) auto

lemma and_then_Panic_iff: "and_then r f = Panic q \<longleftrightarrow> r = Panic q \<or> (\<exists>a. r = Ok a \<and> f a = Panic q)"
  by (cases r) auto

lemma unwrap_or_simps [simp]: "unwrap_or None d = d" "unwrap_or (Some a) d = a"
  by (simp_all add: unwrap_or_def)

lemma ok_or_simps [simp]: "ok_or None e = Err e" "ok_or (Some a) e = Ok a"
  by (simp_all add: ok_or_def)

lemma map_err_simps [simp]:
  "map_err f (Ok a) = Ok a" "map_err f (Err e) = Err (f e)" "map_err f (Panic p) = Panic p"
  by (simp_all add: map_err_def)

text \<open>A loop keeps what its body keeps.\<close>

lemma for_each_invariant:
  assumes "P s" and "\<And>x t. x \<in> set xs \<Longrightarrow> P t \<Longrightarrow> P (snd (f x t))"
  shows "P (snd (for_each f xs s))"
  using assms
proof (induction xs arbitrary: s)
  case (Cons x xs)
  obtain r t where t: "f x s = (r, t)" by (cases "f x s")
  have "P t" using Cons.prems(1) Cons.prems(2) [of x s] t by simp
  then have "P (snd (for_each f xs t))" using Cons.IH Cons.prems(2) by simp
  with \<open>P t\<close> t show ?case by (cases r) simp_all
qed simp

lemma for_each_append:
  "for_each f (xs @ ys) s =
     (case for_each f xs s of (Panic p, t) \<Rightarrow> (Panic p, t) | (_, t) \<Rightarrow> for_each f ys t)"
proof (induction xs arbitrary: s)
  case Nil
  then show ?case by simp
next
  case (Cons x xs)
  obtain r t where "f x s = (r, t)" by (cases "f x s")
  with Cons show ?case by (cases r) simp_all
qed

lemma for_each_never_err: "fst (for_each f xs s) \<noteq> Err e"
proof (induction xs arbitrary: s)
  case (Cons x xs)
  obtain r t where "f x s = (r, t)" by (cases "f x s")
  with Cons show ?case by (cases r) simp_all
qed simp

lemma try_each_invariant:
  assumes "P s" and "\<And>x t. x \<in> set xs \<Longrightarrow> P t \<Longrightarrow> P (snd (f x t))"
  shows "P (snd (try_each f xs s))"
  using assms
proof (induction xs arbitrary: s)
  case (Cons x xs)
  obtain r t where t: "f x s = (r, t)" by (cases "f x s")
  have "P t" using Cons.prems(1) Cons.prems(2) [of x s] t by simp
  then have "P (snd (try_each f xs t))" using Cons.IH Cons.prems(2) by simp
  with \<open>P t\<close> t show ?case by (cases r) simp_all
qed simp

section \<open>Lemmas on strings\<close>

lemma split_char_nonempty [simp]: "split_char c s \<noteq> []"
  by (induction s) (auto split: list.splits)

lemma split_char_no_sep [simp]: "c \<notin> set s \<Longrightarrow> split_char c s = [s]"
  by (induction s) auto

lemma split_char_pieces: "p \<in> set (split_char c s) \<Longrightarrow> c \<notin> set p"
proof (induction s arbitrary: p)
  case (Cons x xs)
  then show ?case by (cases "split_char c xs") (auto split: if_splits)
qed simp

lemma split_char_append: "c \<notin> set a \<Longrightarrow> split_char c (a @ c # b) = a # split_char c b"
  by (induction a) auto

lemma join_Cons: "ys \<noteq> [] \<Longrightarrow> join sep (x # ys) = x @ sep @ join sep ys"
  by (cases ys) auto

lemma join_split_char: "join [c] (split_char c s) = s"
proof (induction s)
  case (Cons x xs)
  show ?case
  proof (cases "split_char c xs")
    case (Cons p ps)
    with Cons.IH show ?thesis
      by (cases ps) (auto simp: join_Cons)
  qed simp
qed simp

lemma split_char_join:
  "ps \<noteq> [] \<Longrightarrow> \<forall>p \<in> set ps. c \<notin> set p \<Longrightarrow> split_char c (join [c] ps) = ps"
proof (induction ps)
  case (Cons p ps)
  then show ?case by (cases ps) (auto simp: join_Cons split_char_append)
qed simp

lemma split_char_sep: "split_char c (a @ c # b) = split_char c a @ split_char c b"
proof (induction a)
  case (Cons x xs)
  then show ?case by (cases "split_char c xs") auto
qed simp

lemma last_split_char: "c \<notin> set b \<Longrightarrow> last (split_char c (a @ c # b)) = b"
  by (simp add: split_char_sep)

text \<open>A separator that does not occur in the first part determines both parts.\<close>

lemma append_sep_inject:
  assumes "a @ c # b = a' @ c # b'" and "c \<notin> set a" and "c \<notin> set a'"
  shows "a = a' \<and> b = b'"
  using assms
proof (induction a arbitrary: a')
  case Nil
  then show ?case by (cases a') auto
next
  case (Cons x xs)
  then obtain y ys where "a' = y # ys" by (cases a') auto
  with Cons show ?case by auto
qed

lemma replace_char_absent: "c \<notin> set s \<Longrightarrow> replace_char c r s = s"
  by (induction s) (auto simp: replace_char_def)

lemma replace_char_removes: "c \<notin> set r \<Longrightarrow> c \<notin> set (replace_char c r s)"
  by (auto simp: replace_char_def)

lemma replace_char_append [simp]:
  "replace_char c r (s @ t) = replace_char c r s @ replace_char c r t"
  by (simp add: replace_char_def)

lemma length_to_lowercase [simp]: "length (to_lowercase s) = length s"
  by (simp add: to_lowercase_def)

lemma ascii_lower_idem [simp]: "ascii_lower (ascii_lower c) = ascii_lower c"
proof -
  have "of_char (char_of (n + 32 :: nat) :: char) = n + 32" if "n \<le> 90" for n :: nat
    using that by (simp add: of_char_of)
  then show ?thesis by (simp add: ascii_lower_def Let_def)
qed

lemma to_lowercase_idem [simp]: "to_lowercase (to_lowercase s) = to_lowercase s"
  by (simp add: to_lowercase_def)

lemma eq_ignore_ascii_case_refl [simp]: "eq_ignore_ascii_case s s"
  by (simp add: eq_ignore_ascii_case_def)

lemma truncate_str_length: "truncate_str n s = Some t \<Longrightarrow> length t = min n (length s)"
  by (auto simp: truncate_str_def split: if_splits)

lemma truncate_str_prefix: "truncate_str n s = Some t \<Longrightarrow> prefix t s"
  by (auto simp: truncate_str_def take_is_prefix split: if_splits)

text \<open>ASCII strings never panic when cut.\<close>

lemma truncate_str_ascii:
  assumes "\<forall>c \<in> set s. (of_char c :: nat) < 128"
  shows "truncate_str n s = Some (take n s)"
proof (cases "n < length s")
  case True
  then have "s ! n \<in> set s" by simp
  with assms have "(of_char (s ! n) :: nat) < 128" by blast
  with True show ?thesis by (simp add: truncate_str_def is_char_boundary_def)
qed (auto simp: truncate_str_def is_char_boundary_def)

lemma trim_end_matches_once:
  assumes "pat \<noteq> []" and "\<not> suffix pat s"
  shows "trim_end_matches pat (s @ pat) = s"
  using assms by (simp add: trim_end_matches.simps [of pat "s @ pat"] trim_end_matches.simps [of pat s] suffix_def)

lemma trim_start_no_ws: "ws_len s = 0 \<Longrightarrow> trim_start s = s"
  by (simp add: trim_start.simps)

lemma trim_end_no_ws: "ws_end s = 0 \<Longrightarrow> trim_end s = s"
  by (simp add: trim_end.simps)

lemma trim_id: "ws_len s = 0 \<Longrightarrow> ws_end s = 0 \<Longrightarrow> trim s = s"
  by (simp add: trim_def trim_start_no_ws trim_end_no_ws)

section \<open>Lemmas on hash maps\<close>

text \<open>Lookups stay lookups: the library would turn them into membership of the list.\<close>

declare map_of_eq_Some_iff [simp del] Some_eq_map_of_iff [simp del]

lemma map_of_AList_update [simp]: "map_of (AList.update k v al) = (map_of al)(k \<mapsto> v)"
  by (rule update_conv')

lemma map_of_AList_delete [simp]: "map_of (AList.delete k al) = (map_of al)(k := None)"
  by (rule delete_conv')

lemma AList_update_absent: "map_of al k = None \<Longrightarrow> AList.update k v al = al @ [(k, v)]"
  by (induction al) (auto split: if_splits)

lemma distinct_keys_update [simp]:
  "distinct (map fst al) \<Longrightarrow> distinct (map fst (AList.update k v al))"
  by (rule distinct_update)

lemma distinct_keys_delete [simp]:
  "distinct (map fst al) \<Longrightarrow> distinct (map fst (AList.delete k al))"
  by (rule distinct_delete)

lemma set_AList_update:
  "distinct (map fst al) \<Longrightarrow>
     set (AList.update k v al) = insert (k, v) {p \<in> set al. fst p \<noteq> k}"
  by (induction al) (auto simp: image_iff)

lemma set_AList_delete: "set (AList.delete k al) = {p \<in> set al. fst p \<noteq> k}"
  by (auto simp: AList.delete_eq)

end
