(* ===== verification/Kube_Objects.thy ===== *)
theory Kube_Objects
  imports Sdp_Prelude
begin

text \<open>
  The data the two services work on: the constants of \<^verbatim>\<open>annotations.rs\<close> and \<^verbatim>\<open>constants.rs\<close>, the
  service error of \<^verbatim>\<open>errors.rs\<close>, the Kubernetes objects the code reads, the custom resources of
  \<^verbatim>\<open>crd.rs\<close> and the service user of \<^verbatim>\<open>service.rs\<close>.

  Kubernetes objects come from the \<^verbatim>\<open>k8s_openapi\<close> and \<^verbatim>\<open>kube\<close> crates. A record holds the fields the
  code reads or writes; a field ending in \<open>_rest\<close> stands for the remaining ones, which are
  carried along unread. \<open>name_any\<close>, \<open>meta_annotations\<close> and \<open>meta_labels\<close> are what the accessors of
  the same names of \<^verbatim>\<open>kube::ResourceExt\<close> return for the object.
\<close>

section \<open>Constants\<close>

definition SDP_IDP_NAME :: string where
  "SDP_IDP_NAME = ''service''"

definition IDENTITY_MANAGER_SECRET_NAME :: string where
  "IDENTITY_MANAGER_SECRET_NAME = ''sdp-identity-service-creds''"

definition MAX_PATCH_ATTEMPTS :: "8 word" where
  "MAX_PATCH_ATTEMPTS = 15"

definition SDP_K8S_NAMESPACE :: string where
  "SDP_K8S_NAMESPACE = ''sdp-system''"

definition DOMAIN_ANNOTATION :: string where
  "DOMAIN_ANNOTATION = ''k8s.appgate.com''"

definition COMPONENT_ANNOTATION :: string where
  "COMPONENT_ANNOTATION = ''sdp-injector''"

definition appgate_annotate :: "string \<Rightarrow> string" where
  "appgate_annotate a = DOMAIN_ANNOTATION @ ''/'' @ COMPONENT_ANNOTATION @ ''.'' @ a"

definition patch_annotation :: "string \<Rightarrow> string" where
  "patch_annotation a = replace_char (CHR ''/'') ''~1'' a"

definition SDP_INJECTOR_ANNOTATION_SERVICE_ID :: string where
  "SDP_INJECTOR_ANNOTATION_SERVICE_ID = appgate_annotate ''service-id''"

definition SDP_INJECTOR_ANNOTATION_SERVICE_NAME :: string where
  "SDP_INJECTOR_ANNOTATION_SERVICE_NAME = appgate_annotate ''service-name''"

definition SDP_INJECTOR_ANNOTATION_POD_NAME :: string where
  "SDP_INJECTOR_ANNOTATION_POD_NAME = appgate_annotate ''pod-name''"

definition SDP_INJECTOR_ANNOTATION_STRATEGY :: string where
  "SDP_INJECTOR_ANNOTATION_STRATEGY = appgate_annotate ''strategy''"

definition SDP_INJECTOR_ANNOTATION_ENABLED :: string where
  "SDP_INJECTOR_ANNOTATION_ENABLED = appgate_annotate ''enabled''"

definition SDP_INJECTOR_ANNOTATION_CLIENT_VERSION :: string where
  "SDP_INJECTOR_ANNOTATION_CLIENT_VERSION = appgate_annotate ''client-version''"

definition SDP_INJECTOR_ANNOTATION_DISABLE_INIT_CONTAINERS :: string where
  "SDP_INJECTOR_ANNOTATION_DISABLE_INIT_CONTAINERS = appgate_annotate ''disable-init-containers''"

definition SDP_ANNOTATION_CLIENT_CONFIG :: string where
  "SDP_ANNOTATION_CLIENT_CONFIG = appgate_annotate ''client-config''"

definition SDP_ANNOTATION_CLIENT_SECRETS :: string where
  "SDP_ANNOTATION_CLIENT_SECRETS = appgate_annotate ''client-secrets''"

definition SDP_ANNOTATION_CLIENT_DEVICE_ID :: string where
  "SDP_ANNOTATION_CLIENT_DEVICE_ID = appgate_annotate ''device-id''"

definition SDP_ANNOTATION_DNS_SEARCHES :: string where
  "SDP_ANNOTATION_DNS_SEARCHES = appgate_annotate ''dns-searches''"

definition SDP_INJECTOR_LABEL :: string where
  "SDP_INJECTOR_LABEL = ''sdp-injection''"

lemmas annotation_defs =
  SDP_INJECTOR_ANNOTATION_SERVICE_ID_def SDP_INJECTOR_ANNOTATION_SERVICE_NAME_def
  SDP_INJECTOR_ANNOTATION_POD_NAME_def SDP_INJECTOR_ANNOTATION_STRATEGY_def
  SDP_INJECTOR_ANNOTATION_ENABLED_def SDP_INJECTOR_ANNOTATION_CLIENT_VERSION_def
  SDP_INJECTOR_ANNOTATION_DISABLE_INIT_CONTAINERS_def SDP_ANNOTATION_CLIENT_CONFIG_def
  SDP_ANNOTATION_CLIENT_SECRETS_def SDP_ANNOTATION_CLIENT_DEVICE_ID_def
  SDP_ANNOTATION_DNS_SEARCHES_def

section \<open>The service error\<close>

record SDPServiceError =
  who :: "string option"
  err_text :: string

definition from_string :: "string \<Rightarrow> SDPServiceError" where
  "from_string e = \<lparr>who = None, err_text = e\<rparr>"

definition from_error :: "string \<Rightarrow> string \<Rightarrow> SDPServiceError" where
  "from_error pre e = from_string (pre @ '': '' @ e)"

definition with_service :: "SDPServiceError \<Rightarrow> string \<Rightarrow> SDPServiceError" where
  "with_service e w = \<lparr>who = Some w, err_text = err_text e\<rparr>"

definition SDPServiceError_fmt :: "SDPServiceError \<Rightarrow> string" where
  "SDPServiceError_fmt e =
     (case who e of
        Some w \<Rightarrow> ''IdentityService ['' @ w @ ''] error: '' @ err_text e
      | None \<Rightarrow> ''IdentityService error: '' @ err_text e)"

section \<open>Kubernetes objects\<close>

type_synonym string_map = "(string \<times> string) list"

record object_meta =
  meta_name :: "string option"
  generate_name :: "string option"
  name_any :: string
  meta_namespace :: "string option"
  meta_annotations :: string_map
  meta_labels :: string_map

datatype env_var_source =
    ConfigMapKeyRef string string bool
  | SecretKeyRef string string bool
  | FieldRef string

record env_var_t =
  ev_name :: string
  ev_value :: "string option"
  ev_value_from :: "env_var_source option"

record container =
  c_name :: string
  c_image :: "string option"
  c_env :: "env_var_t list option"
  c_rest :: string

record volume =
  v_name :: string
  v_rest :: string

record sysctl =
  sysctl_name :: string
  sysctl_value :: string

record pod_security_context =
  sc_sysctls :: "sysctl list option"
  sc_rest :: string

record pod_spec =
  ps_containers :: "container list"
  ps_init_containers :: "container list option"
  ps_volumes :: "volume list option"
  ps_security_context :: "pod_security_context option"

record pod_status =
  pst_reason :: "string option"
  pst_message :: "string option"

record pod =
  pod_meta :: object_meta
  pod_spec_of :: "pod_spec option"
  pod_status_of :: "pod_status option"

record template_meta =
  tm_annotations :: "string_map option"

record deployment_spec =
  ds_template_metadata :: "template_meta option"

record deployment =
  dep_meta :: object_meta
  dep_spec :: "deployment_spec option"

record kube_namespace =
  ns_meta :: object_meta

record kube_service =
  ks_labels :: "string_map option"
  ks_cluster_ip :: "string option option"

section \<open>Custom resources and the service user\<close>

record SDPServiceSpec =
  sdps_kind :: string
  sdps_name :: string

record SDPService =
  sdps_meta :: object_meta
  sdps_spec :: SDPServiceSpec

record ServiceUser =
  su_id :: string
  su_name :: string
  su_password :: string
  su_profile_url :: string
  su_device_ids :: "string list option"

record ServiceIdentitySpec =
  sis_service_user :: ServiceUser
  sis_service_name :: string
  sis_service_namespace :: string
  sis_labels :: string_map
  sis_disabled :: bool

record ServiceIdentity =
  si_meta_name :: string
  si_spec :: ServiceIdentitySpec

text \<open>\<^verbatim>\<open>ServiceIdentity::new\<close>, which the \<^verbatim>\<open>kube\<close> derive macro gives: an object of this name and spec.\<close>

definition ServiceIdentity_new :: "string \<Rightarrow> ServiceIdentitySpec \<Rightarrow> ServiceIdentity" where
  "ServiceIdentity_new n spec = \<lparr>si_meta_name = n, si_spec = spec\<rparr>"

definition si_credentials :: "ServiceIdentity \<Rightarrow> ServiceUser" where
  "si_credentials si = sis_service_user (si_spec si)"

datatype ServiceCandidate = SCDeployment deployment | SCSDPService SDPService

record ServiceLookup =
  sl_name :: string
  sl_namespace :: string
  sl_labels :: "string_map option"

definition ServiceLookup_new :: "string \<Rightarrow> string \<Rightarrow> string_map option \<Rightarrow> ServiceLookup" where
  "ServiceLookup_new ns n ls = \<lparr>sl_name = n, sl_namespace = ns, sl_labels = ls\<rparr>"

record 'o AdmissionRequest =
  ar_uid :: string
  ar_namespace :: "string option"
  ar_object :: "'o option"

section \<open>Lemmas\<close>

text \<open>The annotation keys are pairwise distinct, and so are the names they get in a JSON pointer.\<close>

lemma appgate_annotate_inject [simp]: "appgate_annotate a = appgate_annotate b \<longleftrightarrow> a = b"
  by (simp add: appgate_annotate_def)

lemma patch_annotation_appgate:
  "patch_annotation (appgate_annotate a) =
     ''k8s.appgate.com~1sdp-injector.'' @ replace_char (CHR ''/'') ''~1'' a"
  by (simp add: patch_annotation_def appgate_annotate_def DOMAIN_ANNOTATION_def
      COMPONENT_ANNOTATION_def replace_char_def)

lemma si_credentials_new [simp]:
  "si_credentials (ServiceIdentity_new n spec) = sis_service_user spec"
  by (simp add: si_credentials_def ServiceIdentity_new_def)

lemma ServiceIdentity_new_sel [simp]:
  "si_meta_name (ServiceIdentity_new n spec) = n" "si_spec (ServiceIdentity_new n spec) = spec"
  by (simp_all add: ServiceIdentity_new_def)

lemma ServiceLookup_new_sel [simp]:
  "sl_name (ServiceLookup_new ns n ls) = n" "sl_namespace (ServiceLookup_new ns n ls) = ns"
  "sl_labels (ServiceLookup_new ns n ls) = ls"
  by (simp_all add: ServiceLookup_new_def)

end
