(* ===== verification/Service_Model.thy ===== *)
theory Service_Model
  imports Kube_Objects
begin

text \<open>
  How resources are named, identified, labelled and selected: the traits of \<^verbatim>\<open>traits.rs\<close>, their
  implementations in \<^verbatim>\<open>kubernetes.rs\<close>, \<^verbatim>\<open>crd.rs\<close> and \<^verbatim>\<open>service.rs\<close>, the injection strategy and the pure
  helpers of \<^verbatim>\<open>service.rs\<close>, and the user names of \<^verbatim>\<open>sdp/auth.rs\<close>.

  Where the code draws a random UUID, the operation takes the drawn text as its argument \<open>u\<close>;
  two draws are two arguments.
\<close>

section \<open>Traits\<close>

definition maybe_service_name :: "string option \<Rightarrow> string \<Rightarrow> (SDPServiceError, string) res" where
  "maybe_service_name ns n =
     (case ok_or ns (from_string ''Namespace not found in resource'') of
        Ok s \<Rightarrow> Ok (s @ ''-'' @ n) | Err e \<Rightarrow> Err e | Panic p \<Rightarrow> Panic p)"

definition maybe_service_id :: "string option \<Rightarrow> string \<Rightarrow> (SDPServiceError, string) res" where
  "maybe_service_id ns n =
     (case ok_or ns (from_string ''Namespace not found in resource'') of
        Ok s \<Rightarrow> Ok (s @ ''_'' @ n) | Err e \<Rightarrow> Err e | Panic p \<Rightarrow> Panic p)"

definition annotation :: "string_map option \<Rightarrow> string \<Rightarrow> string option" where
  "annotation anns k = Option.bind anns (\<lambda>m. map_of m k)"

section \<open>Injection strategy\<close>

datatype SDPInjectionStrategy = EnabledByDefault | DisabledByDefault

fun SDPInjectionStrategy_to_string :: "SDPInjectionStrategy \<Rightarrow> string" where
  "SDPInjectionStrategy_to_string EnabledByDefault = ''enabledByDefault''"
| "SDPInjectionStrategy_to_string DisabledByDefault = ''disabledByDefault''"

definition injection_strategy :: "string_map option \<Rightarrow> SDPInjectionStrategy" where
  "injection_strategy anns =
     (case Option.bind (annotation anns SDP_INJECTOR_ANNOTATION_STRATEGY)
        (\<lambda>v. if to_lowercase v = ''enabledbydefault'' then Some EnabledByDefault
             else if to_lowercase v = ''disabledbydefault'' then Some DisabledByDefault
             else None) of
        Some s \<Rightarrow> s
      | None \<Rightarrow>
          (case annotation anns SDP_INJECTOR_ANNOTATION_ENABLED of
             Some v \<Rightarrow> if to_lowercase v = ''disabled'' then DisabledByDefault else EnabledByDefault
           | None \<Rightarrow> EnabledByDefault))"

definition is_injection_disabled :: "string_map option \<Rightarrow> bool" where
  "is_injection_disabled anns =
     unwrap_or (map_option (\<lambda>v. to_lowercase v = ''false'' \<or> v = ''0'')
       (annotation anns SDP_INJECTOR_ANNOTATION_ENABLED)) False"

definition is_injection_enabled :: "string_map option \<Rightarrow> bool" where
  "is_injection_enabled anns =
     unwrap_or (map_option (\<lambda>v. to_lowercase v = ''true'' \<or> v = ''1'')
       (annotation anns SDP_INJECTOR_ANNOTATION_ENABLED)) False"

definition needs_injection :: "string_map option \<Rightarrow> bool" where
  "needs_injection anns =
     (case injection_strategy anns of
        EnabledByDefault \<Rightarrow> \<not> is_injection_disabled anns
      | DisabledByDefault \<Rightarrow> is_injection_enabled anns)"

section \<open>Pods\<close>

definition pod_annotations :: "pod \<Rightarrow> string_map option" where
  "pod_annotations p = Some (meta_annotations (pod_meta p))"

definition pod_name :: "string \<Rightarrow> pod \<Rightarrow> string" where
  "pod_name u p =
     unwrap_or (annotation (pod_annotations p) SDP_INJECTOR_ANNOTATION_POD_NAME)
       (case generate_name (pod_meta p) of
          Some g \<Rightarrow>
            (let xs = split_char (CHR ''-'') g
             in if length xs > 2 then join ''-'' (take (length xs - 2) xs) else u)
        | None \<Rightarrow> unwrap_or (meta_name (pod_meta p)) u)"

definition pod_namespace :: "pod \<Rightarrow> string option" where
  "pod_namespace p = meta_namespace (pod_meta p)"

definition pod_labels :: "pod \<Rightarrow> (SDPServiceError, string_map) res" where
  "pod_labels p = Ok []"

definition pod_is_candidate :: "pod \<Rightarrow> bool" where
  "pod_is_candidate p = needs_injection (pod_annotations p)"

definition pod_service_name :: "string \<Rightarrow> pod \<Rightarrow> (SDPServiceError, string) res" where
  "pod_service_name u p = maybe_service_name (pod_namespace p) (pod_name u p)"

definition pod_service_id :: "string \<Rightarrow> pod \<Rightarrow> (SDPServiceError, string) res" where
  "pod_service_id u p = maybe_service_id (pod_namespace p) (pod_name u p)"

definition containers :: "pod \<Rightarrow> container list option" where
  "containers p = map_option ps_containers (pod_spec_of p)"

definition init_containers :: "pod \<Rightarrow> container list option" where
  "init_containers p =
     Option.bind (Option.bind (pod_spec_of p) ps_init_containers)
       (\<lambda>xs. if length xs > 0 then Some xs else None)"

definition volumes :: "pod \<Rightarrow> volume list option" where
  "volumes p = Option.bind (pod_spec_of p) ps_volumes"

definition volume_names :: "pod \<Rightarrow> string list option" where
  "volume_names p = map_option (map v_name) (volumes p)"

definition security_context :: "pod \<Rightarrow> pod_security_context option" where
  "security_context p = Option.bind (pod_spec_of p) ps_security_context"

section \<open>Deployments and SDP services\<close>

definition deployment_name :: "string \<Rightarrow> deployment \<Rightarrow> string" where
  "deployment_name u d = (let n = name_any (dep_meta d) in if n \<noteq> [] then n else u)"

definition deployment_namespace :: "deployment \<Rightarrow> string option" where
  "deployment_namespace d = meta_namespace (dep_meta d)"

definition deployment_annotations :: "deployment \<Rightarrow> string_map option" where
  "deployment_annotations d = Some (meta_annotations (dep_meta d))"

definition deployment_is_candidate :: "deployment \<Rightarrow> bool" where
  "deployment_is_candidate d = needs_injection (deployment_annotations d)"

definition extend_labels :: "string_map \<Rightarrow> string \<Rightarrow> string \<Rightarrow> string_map" where
  "extend_labels ls ns n = AList.update ''name'' n (AList.update ''namespace'' ns ls)"

definition deployment_labels :: "string \<Rightarrow> deployment \<Rightarrow> (SDPServiceError, string_map) res" where
  "deployment_labels u d =
     (let n = deployment_name u d
      in ok_or (map_option (\<lambda>ns. extend_labels (meta_labels (dep_meta d)) ns n)
                  (deployment_namespace d))
           (from_string (''Unable to find namespace for Deployment '' @ n)))"

definition sdpservice_name :: "SDPService \<Rightarrow> string" where
  "sdpservice_name s = sdps_name (sdps_spec s)"

definition sdpservice_namespace :: "SDPService \<Rightarrow> string option" where
  "sdpservice_namespace s = meta_namespace (sdps_meta s)"

definition sdpservice_annotations :: "SDPService \<Rightarrow> string_map option" where
  "sdpservice_annotations s = Some (meta_annotations (sdps_meta s))"

definition sdpservice_is_candidate :: "SDPService \<Rightarrow> bool" where
  "sdpservice_is_candidate s = needs_injection (sdpservice_annotations s)"

definition sdpservice_labels :: "SDPService \<Rightarrow> (SDPServiceError, string_map) res" where
  "sdpservice_labels s =
     ok_or (map_option (\<lambda>ns. extend_labels (meta_labels (sdps_meta s)) ns (sdpservice_name s))
              (sdpservice_namespace s))
       (from_string (''Unable to find namespace for Deployment '' @ sdpservice_name s))"

section \<open>Service candidates and lookups\<close>

fun candidate_name :: "string \<Rightarrow> ServiceCandidate \<Rightarrow> string" where
  "candidate_name u (SCDeployment d) = deployment_name u d"
| "candidate_name u (SCSDPService s) = sdpservice_name s"

fun candidate_namespace :: "ServiceCandidate \<Rightarrow> string option" where
  "candidate_namespace (SCDeployment d) = deployment_namespace d"
| "candidate_namespace (SCSDPService s) = sdpservice_namespace s"

fun candidate_is_candidate :: "ServiceCandidate \<Rightarrow> bool" where
  "candidate_is_candidate (SCDeployment d) = deployment_is_candidate d"
| "candidate_is_candidate (SCSDPService s) = sdpservice_is_candidate s"

fun candidate_labels :: "string \<Rightarrow> ServiceCandidate \<Rightarrow> (SDPServiceError, string_map) res" where
  "candidate_labels u (SCDeployment d) = deployment_labels u d"
| "candidate_labels u (SCSDPService s) = sdpservice_labels s"

definition candidate_service_id :: "string \<Rightarrow> ServiceCandidate \<Rightarrow> (SDPServiceError, string) res" where
  "candidate_service_id u c = maybe_service_id (candidate_namespace c) (candidate_name u c)"

definition candidate_service_name :: "string \<Rightarrow> ServiceCandidate \<Rightarrow> (SDPServiceError, string) res" where
  "candidate_service_name u c = maybe_service_name (candidate_namespace c) (candidate_name u c)"

text \<open>\<^verbatim>\<open>ServiceLookup::try_from_service\<close>, from what \<^verbatim>\<open>namespace\<close>, \<^verbatim>\<open>labels\<close> and \<^verbatim>\<open>name\<close> give for the service.\<close>

definition try_from_service ::
  "string option \<Rightarrow> (SDPServiceError, string_map) res \<Rightarrow> string \<Rightarrow> (SDPServiceError, ServiceLookup) res" where
  "try_from_service ns ls n =
     (case ns of
        Some s \<Rightarrow> Ok (ServiceLookup_new s n (Some (case ls of Ok m \<Rightarrow> m | _ \<Rightarrow> [])))
      | None \<Rightarrow> Err (from_string (''Unable to get namespace from f '' @ n)))"

definition lookup_of_candidate ::
  "string \<Rightarrow> string \<Rightarrow> ServiceCandidate \<Rightarrow> (SDPServiceError, ServiceLookup) res" where
  "lookup_of_candidate u1 u2 c =
     try_from_service (candidate_namespace c) (candidate_labels u1 c) (candidate_name u2 c)"

definition lookup_namespace :: "ServiceLookup \<Rightarrow> string option" where
  "lookup_namespace l = Some (sl_namespace l)"

definition lookup_labels :: "ServiceLookup \<Rightarrow> (SDPServiceError, string_map) res" where
  "lookup_labels l = Ok (unwrap_or (sl_labels l) [])"

definition lookup_service_id :: "ServiceLookup \<Rightarrow> (SDPServiceError, string) res" where
  "lookup_service_id l = maybe_service_id (lookup_namespace l) (sl_name l)"

definition lookup_service_name :: "ServiceLookup \<Rightarrow> (SDPServiceError, string) res" where
  "lookup_service_name l = maybe_service_name (lookup_namespace l) (sl_name l)"

section \<open>Service identities\<close>

definition si_name :: "ServiceIdentity \<Rightarrow> string" where
  "si_name si = sis_service_name (si_spec si)"

definition si_namespace :: "ServiceIdentity \<Rightarrow> string" where
  "si_namespace si = sis_service_namespace (si_spec si)"

definition si_service_name :: "ServiceIdentity \<Rightarrow> string" where
  "si_service_name si = si_namespace si @ ''-'' @ si_name si"

definition si_service_id :: "ServiceIdentity \<Rightarrow> string" where
  "si_service_id si = si_namespace si @ ''_'' @ si_name si"

section \<open>Admission requests\<close>

definition admission_request_name :: "string \<Rightarrow> ('o \<Rightarrow> string) \<Rightarrow> 'o AdmissionRequest \<Rightarrow> string" where
  "admission_request_name u nm r = unwrap_or (map_option nm (ar_object r)) u"

definition admission_request_namespace ::
  "('o \<Rightarrow> string option) \<Rightarrow> 'o AdmissionRequest \<Rightarrow> string option" where
  "admission_request_namespace nsf r =
     (case ar_namespace r of Some ns \<Rightarrow> Some ns | None \<Rightarrow> Option.bind (ar_object r) nsf)"

definition podreq_annotations :: "pod AdmissionRequest \<Rightarrow> string_map option" where
  "podreq_annotations r = Option.bind (ar_object r) pod_annotations"

definition podreq_name :: "string \<Rightarrow> pod AdmissionRequest \<Rightarrow> string" where
  "podreq_name u r = admission_request_name u (pod_name u) r"

definition podreq_namespace :: "pod AdmissionRequest \<Rightarrow> string option" where
  "podreq_namespace r = admission_request_namespace pod_namespace r"

definition podreq_service_id :: "string \<Rightarrow> pod AdmissionRequest \<Rightarrow> (SDPServiceError, string) res" where
  "podreq_service_id u r = maybe_service_id (podreq_namespace r) (podreq_name u r)"

definition podreq_service_name :: "string \<Rightarrow> pod AdmissionRequest \<Rightarrow> (SDPServiceError, string) res" where
  "podreq_service_name u r = maybe_service_name (podreq_namespace r) (podreq_name u r)"

definition podreq_is_candidate :: "pod AdmissionRequest \<Rightarrow> bool" where
  "podreq_is_candidate r = unwrap_or (map_option pod_is_candidate (ar_object r)) False"

definition depreq_name :: "string \<Rightarrow> deployment AdmissionRequest \<Rightarrow> string" where
  "depreq_name u r = admission_request_name u (deployment_name u) r"

definition depreq_namespace :: "deployment AdmissionRequest \<Rightarrow> string option" where
  "depreq_namespace r = admission_request_namespace deployment_namespace r"

definition depreq_service_id :: "string \<Rightarrow> deployment AdmissionRequest \<Rightarrow> (SDPServiceError, string) res" where
  "depreq_service_id u r = maybe_service_id (depreq_namespace r) (depreq_name u r)"

definition depreq_is_candidate :: "deployment AdmissionRequest \<Rightarrow> bool" where
  "depreq_is_candidate r = True"

section \<open>User and profile names\<close>

text \<open>
  \<^verbatim>\<open>get_random_suffix\<close> takes \<open>n\<close> characters of the generator's sequence \<open>smp\<close>. A name whose
  cut falls inside a UTF-8 character panics: the result is then \<open>None\<close>.
\<close>

definition get_random_suffix :: "(nat \<Rightarrow> char) \<Rightarrow> nat \<Rightarrow> string" where
  "get_random_suffix smp n = to_lowercase (map smp [0..<n])"

definition get_service_username ::
  "(nat \<Rightarrow> char) \<Rightarrow> string \<Rightarrow> string \<Rightarrow> string \<Rightarrow> string option" where
  "get_service_username smp cluster ns n =
     map_option (\<lambda>p. p @ ''_'' @ get_random_suffix smp 5)
       (truncate_str 122 (cluster @ ''_'' @ ns @ ''_'' @ n))"

definition get_profile_client_url_name :: "(nat \<Rightarrow> char) \<Rightarrow> string \<Rightarrow> (string \<times> string) option" where
  "get_profile_client_url_name smp cluster =
     map_option (\<lambda>short. (short @ ''-'' @ get_random_suffix smp 5, short)) (truncate_str 14 cluster)"

definition user_prefix_name :: "string \<Rightarrow> string" where
  "user_prefix_name name =
     (let parts = split_char (CHR ''_'') name
      in join ''_'' (if length parts = 4 \<or> length parts = 3 then take 3 parts else parts))"

section \<open>The naming contracts\<close>

text \<open>
  The trait \<^verbatim>\<open>MaybeService\<close>: what a client may rely on for any resource with a name and perhaps a
  namespace. Its laws are the trait's two default methods.
\<close>

locale maybe_service_trait =
  fixes ms_namespace :: "'a \<Rightarrow> string option"
    and ms_name :: "'a \<Rightarrow> string"
    and ms_id :: "'a \<Rightarrow> (SDPServiceError, string) res"
    and ms_sname :: "'a \<Rightarrow> (SDPServiceError, string) res"
  assumes ms_id_eq: "ms_id x = maybe_service_id (ms_namespace x) (ms_name x)"
    and ms_sname_eq: "ms_sname x = maybe_service_name (ms_namespace x) (ms_name x)"
begin

lemma ms_id_Ok_iff:
  "ms_id x = Ok s \<longleftrightarrow> (\<exists>ns. ms_namespace x = Some ns \<and> s = ns @ ''_'' @ ms_name x)"
  by (auto simp: ms_id_eq maybe_service_id_def ok_or_def split: option.splits)

lemma ms_sname_Ok_iff:
  "ms_sname x = Ok s \<longleftrightarrow> (\<exists>ns. ms_namespace x = Some ns \<and> s = ns @ ''-'' @ ms_name x)"
  by (auto simp: ms_sname_eq maybe_service_name_def ok_or_def split: option.splits)

lemma ms_id_no_namespace:
  "ms_namespace x = None \<Longrightarrow> ms_id x = Err (from_string ''Namespace not found in resource'')"
  by (simp add: ms_id_eq maybe_service_id_def)

lemma ms_id_never_panics: "ms_id x \<noteq> Panic p"
  by (simp add: ms_id_eq maybe_service_id_def ok_or_def split: option.splits)

lemma ms_id_inject:
  assumes "ms_id x = Ok s" and "ms_id y = Ok s"
    and "ms_namespace x = Some nx" and "CHR ''_'' \<notin> set nx"
    and "ms_namespace y = Some ny" and "CHR ''_'' \<notin> set ny"
  shows "nx = ny \<and> ms_name x = ms_name y"
proof -
  have "nx @ CHR ''_'' # ms_name x = ny @ CHR ''_'' # ms_name y"
    using assms by (auto simp: ms_id_Ok_iff)
  then show ?thesis using assms(4,6) by (rule append_sep_inject)
qed

end

text \<open>The trait \<^verbatim>\<open>Service\<close>: the same with a namespace that is always there.\<close>

locale service_trait =
  fixes svc_namespace :: "'a \<Rightarrow> string"
    and svc_name :: "'a \<Rightarrow> string"
    and svc_id :: "'a \<Rightarrow> string"
    and svc_sname :: "'a \<Rightarrow> string"
  assumes svc_id_eq: "svc_id x = svc_namespace x @ ''_'' @ svc_name x"
    and svc_sname_eq: "svc_sname x = svc_namespace x @ ''-'' @ svc_name x"
begin

sublocale as_maybe: maybe_service_trait "\<lambda>x. Some (svc_namespace x)" svc_name
  "\<lambda>x. Ok (svc_id x)" "\<lambda>x. Ok (svc_sname x)"
  by unfold_locales (simp_all add: svc_id_eq svc_sname_eq maybe_service_id_def maybe_service_name_def)

lemma svc_id_inject:
  assumes "CHR ''_'' \<notin> set (svc_namespace x)" and "CHR ''_'' \<notin> set (svc_namespace y)"
  shows "svc_id x = svc_id y \<longleftrightarrow> svc_namespace x = svc_namespace y \<and> svc_name x = svc_name y"
proof
  assume eq: "svc_id x = svc_id y"
  show "svc_namespace x = svc_namespace y \<and> svc_name x = svc_name y"
    by (rule as_maybe.ms_id_inject [of x "svc_id y" y]) (simp_all add: eq assms)
next
  assume "svc_namespace x = svc_namespace y \<and> svc_name x = svc_name y"
  then show "svc_id x = svc_id y" by (simp add: svc_id_eq)
qed

lemma svc_sname_collision:
  assumes "svc_namespace x = a @ ''-'' @ b" and "svc_name x = c"
    and "svc_namespace y = a" and "svc_name y = b @ ''-'' @ c"
  shows "svc_sname x = svc_sname y"
  using assms by (simp add: svc_sname_eq)

lemma svc_id_neq_sname: "svc_id x \<noteq> svc_sname x"
  by (simp add: svc_id_eq svc_sname_eq)

end

interpretation si: service_trait si_namespace si_name si_service_id si_service_name
  by unfold_locales (simp_all add: si_service_id_def si_service_name_def)

interpretation pod_ms: maybe_service_trait pod_namespace "pod_name u" "pod_service_id u"
  "pod_service_name u" for u
  by unfold_locales (simp_all add: pod_service_id_def pod_service_name_def)

interpretation candidate_ms: maybe_service_trait candidate_namespace "candidate_name u"
  "candidate_service_id u" "candidate_service_name u" for u
  by unfold_locales (simp_all add: candidate_service_id_def candidate_service_name_def)

interpretation lookup_ms: maybe_service_trait lookup_namespace sl_name lookup_service_id
  lookup_service_name
  by unfold_locales (simp_all add: lookup_service_id_def lookup_service_name_def)

interpretation podreq_ms: maybe_service_trait podreq_namespace "podreq_name u" "podreq_service_id u"
  "podreq_service_name u" for u
  by unfold_locales (simp_all add: podreq_service_id_def podreq_service_name_def)

section \<open>Lemmas on candidates and lookups\<close>

lemma lookup_service_id_eq [name_simps]:
  "lookup_service_id l = Ok (sl_namespace l @ ''_'' @ sl_name l)"
  by (simp add: lookup_service_id_def lookup_namespace_def maybe_service_id_def)

lemma lookup_service_name_eq [name_simps]:
  "lookup_service_name l = Ok (sl_namespace l @ ''-'' @ sl_name l)"
  by (simp add: lookup_service_name_def lookup_namespace_def maybe_service_name_def)

lemma lookup_of_candidate_Ok:
  assumes "candidate_namespace c = Some ns"
  shows "\<exists>ls. lookup_of_candidate u1 u2 c = Ok (ServiceLookup_new ns (candidate_name u2 c) (Some ls))"
  using assms by (auto simp: lookup_of_candidate_def try_from_service_def)

lemma candidate_labels_Ok:
  assumes "candidate_namespace c = Some ns"
  shows "\<exists>m. candidate_labels u c = Ok m"
  using assms
  by (cases c) (auto simp: deployment_labels_def sdpservice_labels_def Let_def)

text \<open>A deployment that has a name never draws a UUID.\<close>

fun named_candidate :: "ServiceCandidate \<Rightarrow> bool" where
  "named_candidate (SCDeployment d) \<longleftrightarrow> name_any (dep_meta d) \<noteq> []"
| "named_candidate (SCSDPService s) \<longleftrightarrow> True"

lemma candidate_name_named: "named_candidate c \<Longrightarrow> candidate_name u c = candidate_name v c"
  by (cases c) (auto simp: deployment_name_def Let_def)

lemma extend_labels_lookup:
  "map_of (extend_labels ls ns n) k =
     (if k = ''name'' then Some n else if k = ''namespace'' then Some ns else map_of ls k)"
  by (simp add: extend_labels_def)

section \<open>Lemmas on user names\<close>

lemma length_get_random_suffix [simp]: "length (get_random_suffix smp n) = n"
  by (simp add: get_random_suffix_def)

lemma get_service_username_length:
  "get_service_username smp cl ns n = Some s \<Longrightarrow>
     length s = min 122 (length cl + length ns + length n + 2) + 6"
  by (auto simp: get_service_username_def dest: truncate_str_length)

lemma get_service_username_total:
  assumes "\<forall>c \<in> set (cl @ ns @ n). (of_char c :: nat) < 128"
  shows "\<exists>s. get_service_username smp cl ns n = Some s"
proof -
  have "\<forall>c \<in> set (cl @ ''_'' @ ns @ ''_'' @ n). (of_char c :: nat) < 128" using assms by auto
  then show ?thesis unfolding get_service_username_def by (subst truncate_str_ascii) auto
qed

lemma truncate_str_short: "length s \<le> n \<Longrightarrow> truncate_str n s = Some s"
  by (auto simp: truncate_str_def is_char_boundary_def)

lemma ascii_lower_underscore: "ascii_lower c = CHR ''_'' \<longleftrightarrow> c = CHR ''_''"
proof -
  have "char_of (n + 32) \<noteq> CHR ''_''" if "65 \<le> n" "n \<le> 90" for n :: nat
  proof
    assume "char_of (n + 32) = CHR ''_''"
    then have "of_char (char_of (n + 32) :: char) = (of_char (CHR ''_'') :: nat)" by simp
    with that show False by (simp add: of_char_of)
  qed
  moreover have "ascii_lower (CHR ''_'') = CHR ''_''" by (simp add: ascii_lower_def)
  ultimately show ?thesis by (auto simp: ascii_lower_def Let_def split: if_splits)
qed

lemma get_random_suffix_no_underscore:
  "\<forall>i < n. smp i \<noteq> CHR ''_'' \<Longrightarrow> CHR ''_'' \<notin> set (get_random_suffix smp n)"
  using ascii_lower_underscore by (fastforce simp: get_random_suffix_def to_lowercase_def)

lemma user_prefix_name_parts:
  assumes "\<forall>p \<in> {a, b, c, r}. CHR ''_'' \<notin> set p"
  shows "user_prefix_name (a @ ''_'' @ b @ ''_'' @ c @ ''_'' @ r) = a @ ''_'' @ b @ ''_'' @ c"
proof -
  have "split_char (CHR ''_'') (a @ ''_'' @ b @ ''_'' @ c @ ''_'' @ r) = [a, b, c, r]"
    using assms by (simp add: split_char_append)
  then show ?thesis by (simp add: user_prefix_name_def)
qed

section \<open>Properties\<close>

text \<open>
  Service ids identify services. For namespaces without an underscore, which Kubernetes does
  not admit in a name, two service identities have the same id exactly when they have the same
  namespace and the same name.
\<close>

theorem service_id_identifies:
  assumes "CHR ''_'' \<notin> set (si_namespace x)" and "CHR ''_'' \<notin> set (si_namespace y)"
  shows "si_service_id x = si_service_id y \<longleftrightarrow> si_namespace x = si_namespace y \<and> si_name x = si_name y"
  using assms by (rule si.svc_id_inject)

theorem service_id_identifies_witness:
  "si_service_id (ServiceIdentity_new ''o'' \<lparr>sis_service_user = \<lparr>su_id = ''i'', su_name = ''i'', su_password = ''p'',
       su_profile_url = ''u'', su_device_ids = None\<rparr>, sis_service_name = ''b_c'', sis_service_namespace = ''a'',
       sis_labels = [], sis_disabled = False\<rparr>) \<noteq>
   si_service_id (ServiceIdentity_new ''o'' \<lparr>sis_service_user = \<lparr>su_id = ''i'', su_name = ''i'', su_password = ''p'',
       su_profile_url = ''u'', su_device_ids = None\<rparr>, sis_service_name = ''c'', sis_service_namespace = ''a-b'',
       sis_labels = [], sis_disabled = False\<rparr>)"
  by (subst service_id_identifies) (simp_all add: si_namespace_def si_name_def)

text \<open>
  Object names do not identify services. The service \<open>c\<close> of the namespace \<open>a-b\<close> and the service
  \<open>b-c\<close> of the namespace \<open>a\<close> have different ids, and the same name for the custom resource
  that stores their credentials.
\<close>

theorem service_name_collides:
  assumes "si_namespace x = a @ ''-'' @ b" and "si_name x = c"
    and "si_namespace y = a" and "si_name y = b @ ''-'' @ c"
    and "CHR ''_'' \<notin> set (a @ b)"
  shows "si_service_name x = si_service_name y \<and> si_service_id x \<noteq> si_service_id y"
proof -
  have "si_namespace x \<noteq> si_namespace y" using assms(1,3) by simp
  then have "si_service_id x \<noteq> si_service_id y"
    using assms by (subst si.svc_id_inject) simp_all
  with si.svc_sname_collision [OF assms(1-4)] show ?thesis by simp
qed

theorem service_name_collides_witness:
  "si_service_name (ServiceIdentity_new ''o'' \<lparr>sis_service_user = \<lparr>su_id = ''i'', su_name = ''i'', su_password = ''p'',
       su_profile_url = ''u'', su_device_ids = None\<rparr>, sis_service_name = ''c'', sis_service_namespace = ''a-b'',
       sis_labels = [], sis_disabled = False\<rparr>) =
   si_service_name (ServiceIdentity_new ''o'' \<lparr>sis_service_user = \<lparr>su_id = ''i'', su_name = ''i'', su_password = ''p'',
       su_profile_url = ''u'', su_device_ids = None\<rparr>, sis_service_name = ''b-c'', sis_service_namespace = ''a'',
       sis_labels = [], sis_disabled = False\<rparr>)"
  by (rule service_name_collides [where a = "''a''" and b = "''b''" and c = "''c''", THEN conjunct1])
    (simp_all add: si_namespace_def si_name_def)

text \<open>
  When a resource is injected. With the strategy annotation set to \<^verbatim>\<open>disabledByDefault\<close> (in any
  case) a resource is injected exactly when its enabled annotation says so. Otherwise it is
  injected unless that annotation is \<^verbatim>\<open>false\<close> or \<^verbatim>\<open>0\<close>, or, with no recognised strategy, \<^verbatim>\<open>disabled\<close>.
\<close>

theorem needs_injection_iff:
  "needs_injection anns \<longleftrightarrow>
     (let strat = map_option to_lowercase (annotation anns SDP_INJECTOR_ANNOTATION_STRATEGY);
          enabled = annotation anns SDP_INJECTOR_ANNOTATION_ENABLED
      in if strat = Some ''disabledbydefault''
         then map_option to_lowercase enabled = Some ''true'' \<or> enabled = Some ''1''
         else map_option to_lowercase enabled \<noteq> Some ''false'' \<and> enabled \<noteq> Some ''0'' \<and>
              \<not> (strat \<noteq> Some ''enabledbydefault'' \<and> map_option to_lowercase enabled = Some ''disabled''))"
proof -
  have lower_digits: "to_lowercase ''1'' = ''1''" "to_lowercase ''0'' = ''0''"
    by (simp_all add: to_lowercase_def ascii_lower_def)
  then show ?thesis
    by (cases "annotation anns SDP_INJECTOR_ANNOTATION_STRATEGY";
        cases "annotation anns SDP_INJECTOR_ANNOTATION_ENABLED")
      (auto simp: needs_injection_def injection_strategy_def is_injection_disabled_def
        is_injection_enabled_def Let_def)
qed

text \<open>
  User names fit the controller's limit. A user name built for a service has at most 128
  bytes: the cut prefix, an underscore and the random suffix.
\<close>

theorem service_username_bounded:
  assumes "get_service_username smp cl ns n = Some s"
  shows "length s \<le> 128 \<and> prefix (take 122 (cl @ ''_'' @ ns @ ''_'' @ n) @ ''_'') s"
proof -
  from assms obtain p where p: "truncate_str 122 (cl @ ''_'' @ ns @ ''_'' @ n) = Some p"
    and s: "s = p @ ''_'' @ get_random_suffix smp 5"
    by (auto simp: get_service_username_def)
  then have "p = take 122 (cl @ ''_'' @ ns @ ''_'' @ n)"
    by (auto simp: truncate_str_def split: if_splits)
  with s get_service_username_length [OF assms] show ?thesis by simp
qed

theorem service_username_bounded_witness:
  "length ''c_n_s_aaaaa'' \<le> 128 \<and> prefix (take 122 (''c'' @ ''_'' @ ''n'' @ ''_'' @ ''s'') @ ''_'') ''c_n_s_aaaaa''"
proof (rule service_username_bounded)
  show "get_service_username (\<lambda>_. CHR ''A'') ''c'' ''n'' ''s'' = Some ''c_n_s_aaaaa''"
    by code_simp
qed



end
