(* ===== verification/Device_Id.thy ===== *)
theory Device_Id
  imports Service_Model
begin

text \<open>
  The device id provider of the injector (\<^verbatim>\<open>sdp-injector/src/deviceid.rs\<close>): the pool of released device
  ids of a service, the in-memory identity store, and the provider's message loop.

  A UUID is a 128-bit word. \<open>parse\<close> stands for \<^verbatim>\<open>Uuid::parse_str\<close> of the \<^verbatim>\<open>uuid\<close> crate; a freshly drawn
  UUID is an argument of the operation that draws it. The provider's loop handles one message
  at a time, from whichever of its two channels has one: a run is a list of messages, in any
  interleaving.
\<close>

type_synonym uuid = "128 word"

section \<open>The pool of one service\<close>

datatype ReleasedDeviceId = FromPool uuid | Fresh uuid

type_synonym RegisteredDeviceId = "uuid list"

definition rdi_push :: "uuid \<Rightarrow> RegisteredDeviceId \<Rightarrow> uuid option \<times> RegisteredDeviceId" where
  "rdi_push u ds = (if u \<notin> set ds then (Some u, u # ds) else (None, ds))"

definition rdi_pop :: "uuid \<Rightarrow> RegisteredDeviceId \<Rightarrow> ReleasedDeviceId \<times> RegisteredDeviceId" where
  "rdi_pop fresh ds = (case ds of u # r \<Rightarrow> (FromPool u, r) | [] \<Rightarrow> (Fresh fresh, []))"

section \<open>The store\<close>

record InMemoryIdentityStore =
  identities :: "(string \<times> ServiceIdentity) list"
  registered_device_ids :: "(string \<times> RegisteredDeviceId) list"

definition InMemoryIdentityStore_new :: InMemoryIdentityStore where
  "InMemoryIdentityStore_new = \<lparr>identities = [], registered_device_ids = []\<rparr>"

fun merge_device_ids :: "string list option \<Rightarrow> string list \<Rightarrow> string list \<Rightarrow> string list option" where
  "merge_device_ids dest [] used = dest"
| "merge_device_ids dest (d # ds) used =
     merge_device_ids
       (case dest of
          Some xs \<Rightarrow> if d \<notin> set xs \<and> d \<notin> set used then Some (xs @ [d]) else Some xs
        | None \<Rightarrow> None)
       ds used"

text \<open>The loop of \<^verbatim>\<open>register_or_update\<close> that puts the device ids not known before into the pool.\<close>

fun release_new ::
  "(string \<Rightarrow> uuid option) \<Rightarrow> string list \<Rightarrow> string list \<Rightarrow> RegisteredDeviceId \<Rightarrow> RegisteredDeviceId" where
  "release_new parse current [] ds = ds"
| "release_new parse current (d # rest) ds =
     release_new parse current rest
       (if d \<notin> set current
        then (case parse d of Some u \<Rightarrow> snd (rdi_push u ds) | None \<Rightarrow> ds)
        else ds)"

definition si_device_ids :: "ServiceIdentity \<Rightarrow> string list option" where
  "si_device_ids si = su_device_ids (sis_service_user (si_spec si))"

definition si_set_device_ids :: "string list option \<Rightarrow> ServiceIdentity \<Rightarrow> ServiceIdentity" where
  "si_set_device_ids ds si =
     si\<lparr>si_spec := (si_spec si)\<lparr>sis_service_user :=
       (sis_service_user (si_spec si))\<lparr>su_device_ids := ds\<rparr>\<rparr>\<rparr>"

definition register_or_update ::
  "(string \<Rightarrow> uuid option) \<Rightarrow> ServiceIdentity \<Rightarrow> string list option \<Rightarrow>
   (InMemoryIdentityStore, SDPServiceError, ServiceIdentity) act" where
  "register_or_update parse service used st =
     (let sid = si_service_id service;
          current = unwrap_or (Option.bind (map_of (identities st) sid) si_device_ids) [];
          after = unwrap_or (map_of (identities st) sid) service;
          pool = unwrap_or (map_of (registered_device_ids st) sid) [];
          merged = si_set_device_ids
            (merge_device_ids (si_device_ids after) (unwrap_or (si_device_ids service) [])
               (unwrap_or used [])) after
      in (Ok merged,
          \<lparr>identities = AList.update sid merged (identities st),
           registered_device_ids = AList.update sid
             (release_new parse current (unwrap_or (si_device_ids service) []) pool)
             (registered_device_ids st)\<rparr>))"

definition unregister_service ::
  "string \<Rightarrow> (InMemoryIdentityStore, SDPServiceError, (ServiceIdentity \<times> RegisteredDeviceId) option) act" where
  "unregister_service sid st =
     ((case (map_of (identities st) sid, map_of (registered_device_ids st) sid) of
         (Some s, Some d) \<Rightarrow> Ok (Some (s, d))
       | _ \<Rightarrow> Ok None),
      \<lparr>identities = AList.delete sid (identities st),
       registered_device_ids = AList.delete sid (registered_device_ids st)\<rparr>)"

definition missing_service :: "string \<Rightarrow> SDPServiceError" where
  "missing_service sid = from_string (''ServiceIdentity is missing for service '' @ sid)"

definition pop_device_id ::
  "uuid \<Rightarrow> string \<Rightarrow> (InMemoryIdentityStore, SDPServiceError, ServiceIdentity \<times> uuid) act" where
  "pop_device_id fresh sid st =
     (case (map_of (identities st) sid, map_of (registered_device_ids st) sid) of
        (Some s, Some ds) \<Rightarrow>
          (case rdi_pop fresh ds of
             (r, ds') \<Rightarrow>
               (Ok (s, case r of Fresh u \<Rightarrow> u | FromPool u \<Rightarrow> u),
                st\<lparr>registered_device_ids := AList.update sid ds' (registered_device_ids st)\<rparr>))
      | _ \<Rightarrow> (Err (missing_service sid), st))"

definition push_device_id ::
  "string \<Rightarrow> uuid \<Rightarrow> (InMemoryIdentityStore, SDPServiceError, uuid option) act" where
  "push_device_id sid u st =
     (case (map_of (identities st) sid, map_of (registered_device_ids st) sid) of
        (Some _, Some ds) \<Rightarrow>
          (Ok (Some u),
           st\<lparr>registered_device_ids := AList.update sid (snd (rdi_push u ds)) (registered_device_ids st)\<rparr>)
      | _ \<Rightarrow> (Err (missing_service sid), st))"

section \<open>The provider\<close>

datatype DeviceIdProviderRequestProtocol =
    FoundServiceIdentity ServiceIdentity bool
  | DeletedServiceIdentity ServiceIdentity
  | RequestDeviceId string

datatype DeviceIdProviderResponseProtocol = AssignedDeviceId ServiceIdentity uuid | NotFound

text \<open>
  A message with what its handling reads from outside: the channel it came from, the device ids
  the SDP system reports as onboarded (\<open>None\<close> without an SDP system, as the injector runs it, or
  when the call fails), and the UUID drawn when the pool is empty.
\<close>

datatype provider_event =
    WatcherMsg DeviceIdProviderRequestProtocol "string list option"
  | ProviderMsg DeviceIdProviderRequestProtocol uuid

fun provider_step ::
  "(string \<Rightarrow> uuid option) \<Rightarrow> provider_event \<Rightarrow> InMemoryIdentityStore \<Rightarrow>
   DeviceIdProviderResponseProtocol option \<times> InMemoryIdentityStore" where
  "provider_step parse (WatcherMsg (FoundServiceIdentity s reapplied) used) st =
     (None, snd (register_or_update parse s used st))"
| "provider_step parse (WatcherMsg (DeletedServiceIdentity s) used) st =
     (None, snd (unregister_service (si_service_id s) st))"
| "provider_step parse (WatcherMsg (RequestDeviceId sid) used) st = (None, st)"
| "provider_step parse (ProviderMsg (RequestDeviceId sid) fresh) st =
     (case pop_device_id fresh sid st of
        (Ok (s, u), st') \<Rightarrow> (Some (AssignedDeviceId s u), st')
      | (_, st') \<Rightarrow> (Some NotFound, st'))"
| "provider_step parse (ProviderMsg (FoundServiceIdentity s b) fresh) st = (None, st)"
| "provider_step parse (ProviderMsg (DeletedServiceIdentity s) fresh) st = (None, st)"

fun provider_run ::
  "(string \<Rightarrow> uuid option) \<Rightarrow> provider_event list \<Rightarrow> InMemoryIdentityStore \<Rightarrow>
   DeviceIdProviderResponseProtocol option list \<times> InMemoryIdentityStore" where
  "provider_run parse [] st = ([], st)"
| "provider_run parse (e # es) st =
     (case provider_step parse e st of
        (r, st') \<Rightarrow> (case provider_run parse es st' of (rs, st'') \<Rightarrow> (r # rs, st'')))"

text \<open>The device ids a run assigned to a service, in order.\<close>

fun assigned_to :: "string \<Rightarrow> DeviceIdProviderResponseProtocol option list \<Rightarrow> uuid list" where
  "assigned_to sid [] = []"
| "assigned_to sid (Some (AssignedDeviceId s u) # rs) =
     (if si_service_id s = sid then u # assigned_to sid rs else assigned_to sid rs)"
| "assigned_to sid (_ # rs) = assigned_to sid rs"

section \<open>The store's invariant\<close>

text \<open>
  The two maps have the same keys, every identity is stored under its own id, and no pool holds
  a device id twice.
\<close>

definition store_wf :: "InMemoryIdentityStore \<Rightarrow> bool" where
  "store_wf st \<longleftrightarrow>
     distinct (map fst (identities st)) \<and> distinct (map fst (registered_device_ids st)) \<and>
     (\<forall>sid. map_of (identities st) sid = None \<longleftrightarrow> map_of (registered_device_ids st) sid = None) \<and>
     (\<forall>sid s. map_of (identities st) sid = Some s \<longrightarrow> si_service_id s = sid) \<and>
     (\<forall>sid ds. map_of (registered_device_ids st) sid = Some ds \<longrightarrow> distinct ds)"

lemma si_service_id_set_device_ids [simp]: "si_service_id (si_set_device_ids ds s) = si_service_id s"
  by (simp add: si_service_id_def si_namespace_def si_name_def si_set_device_ids_def)

lemma si_device_ids_set [simp]: "si_device_ids (si_set_device_ids ds s) = ds"
  by (simp add: si_device_ids_def si_set_device_ids_def)

lemma distinct_rdi_push: "distinct ds \<Longrightarrow> distinct (snd (rdi_push u ds))"
  by (simp add: rdi_push_def)

lemma set_rdi_push: "set (snd (rdi_push u ds)) = insert u (set ds)"
  by (auto simp: rdi_push_def)

lemma distinct_release_new: "distinct ds \<Longrightarrow> distinct (release_new parse current new ds)"
proof (induction new arbitrary: ds)
  case (Cons d new)
  then show ?case by (cases "parse d") (simp_all add: distinct_rdi_push)
qed simp

lemma set_release_new:
  "set (release_new parse current new ds) =
     set ds \<union> {u. \<exists>d \<in> set new. d \<notin> set current \<and> parse d = Some u}"
proof (induction new arbitrary: ds)
  case (Cons d new)
  then show ?case by (cases "parse d") (auto simp: set_rdi_push)
qed simp

lemma release_new_known:
  "set new \<subseteq> set current \<Longrightarrow> release_new parse current new ds = ds"
  by (induction new arbitrary: ds) auto

lemma merge_device_ids_None: "merge_device_ids None ds used = None"
  by (induction ds) auto

lemma merge_device_ids_Some:
  "\<exists>zs. merge_device_ids (Some xs) ds used = Some (xs @ zs) \<and>
     set (xs @ zs) = set xs \<union> (set ds - set used) \<and> (distinct xs \<longrightarrow> distinct (xs @ zs))"
proof (induction ds arbitrary: xs)
  case Nil
  then show ?case by auto
next
  case (Cons d ds)
  show ?case
  proof (cases "d \<notin> set xs \<and> d \<notin> set used")
    case True
    from Cons [of "xs @ [d]"] obtain zs where
      "merge_device_ids (Some (xs @ [d])) ds used = Some ((xs @ [d]) @ zs)"
      "set ((xs @ [d]) @ zs) = set (xs @ [d]) \<union> (set ds - set used)"
      "distinct (xs @ [d]) \<longrightarrow> distinct ((xs @ [d]) @ zs)" by blast
    with True show ?thesis by (intro exI [of _ "d # zs"]) auto
  next
    case False
    with Cons [of xs] show ?thesis by auto
  qed
qed

lemma store_wf_new [inv_intros]: "store_wf InMemoryIdentityStore_new"
  by (simp add: store_wf_def InMemoryIdentityStore_new_def)

lemma store_wf_keys: "store_wf st \<Longrightarrow>
    (map_of (identities st) k = None) = (map_of (registered_device_ids st) k = None)"
  by (simp add: store_wf_def)

lemma store_wf_register [inv_intros]:
  assumes wf: "store_wf st"
  shows "store_wf (snd (register_or_update parse s used st))"
proof -
  let ?sid = "si_service_id s"
  have "distinct (unwrap_or (map_of (registered_device_ids st) ?sid) [])"
    using wf by (cases "map_of (registered_device_ids st) ?sid") (auto simp: store_wf_def)
  moreover have "si_service_id (unwrap_or (map_of (identities st) ?sid) s) = ?sid"
    using wf by (simp add: store_wf_def unwrap_or_def split: option.split)
  ultimately show ?thesis
    using wf by (auto simp: store_wf_def register_or_update_def Let_def distinct_release_new)
qed

lemma store_wf_unregister [inv_intros]:
  "store_wf st \<Longrightarrow> store_wf (snd (unregister_service sid st))"
  by (auto simp: store_wf_def unregister_service_def)

lemma store_wf_pop [inv_intros]: "store_wf st \<Longrightarrow> store_wf (snd (pop_device_id fresh sid st))"
  by (auto simp: store_wf_def pop_device_id_def rdi_pop_def split: option.splits list.splits)
    (metis distinct.simps(2))

lemma store_wf_push [inv_intros]: "store_wf st \<Longrightarrow> store_wf (snd (push_device_id sid u st))"
  by (auto simp: store_wf_def push_device_id_def distinct_rdi_push split: option.splits)

section \<open>The contract of an identity store\<close>

text \<open>
  The trait \<^verbatim>\<open>IdentityStore\<close> as the provider relies on it: \<open>pool\<close> gives the released device ids of a
  registered service, most recently released first.
\<close>

locale identity_store =
  fixes invar :: "'st \<Rightarrow> bool"
    and pool :: "'st \<Rightarrow> string \<Rightarrow> uuid list option"
    and parse :: "string \<Rightarrow> uuid option"
    and register :: "ServiceIdentity \<Rightarrow> string list option \<Rightarrow> ('st, SDPServiceError, ServiceIdentity) act"
    and unregister :: "string \<Rightarrow> ('st, SDPServiceError, (ServiceIdentity \<times> RegisteredDeviceId) option) act"
    and pop :: "uuid \<Rightarrow> string \<Rightarrow> ('st, SDPServiceError, ServiceIdentity \<times> uuid) act"
    and push :: "string \<Rightarrow> uuid \<Rightarrow> ('st, SDPServiceError, uuid option) act"
  assumes invar_register: "invar st \<Longrightarrow> invar (snd (register s used st))"
    and invar_unregister: "invar st \<Longrightarrow> invar (snd (unregister sid st))"
    and invar_pop: "invar st \<Longrightarrow> invar (snd (pop f sid st))"
    and invar_push: "invar st \<Longrightarrow> invar (snd (push sid u st))"
    and pool_distinct: "invar st \<Longrightarrow> pool st sid = Some ds \<Longrightarrow> distinct ds"
    and pool_register: "invar st \<Longrightarrow> \<exists>new. pool (snd (register s used st)) sid =
          (if sid = si_service_id s then Some (new @ unwrap_or (pool st sid) []) else pool st sid)"
    and pool_unregister: "invar st \<Longrightarrow> pool (snd (unregister sid st)) sid' =
          (if sid' = sid then None else pool st sid')"
    and pop_pooled: "invar st \<Longrightarrow> pool st sid = Some (u # ds) \<Longrightarrow>
          \<exists>s st'. pop f sid st = (Ok (s, u), st') \<and> si_service_id s = sid \<and>
            (\<forall>k. pool st' k = (if k = sid then Some ds else pool st k))"
    and pop_fresh: "invar st \<Longrightarrow> pool st sid = Some [] \<Longrightarrow>
          \<exists>s st'. pop f sid st = (Ok (s, f), st') \<and> si_service_id s = sid \<and> pool st' = pool st"
    and pop_missing: "invar st \<Longrightarrow> pool st sid = None \<Longrightarrow> \<exists>e. pop f sid st = (Err e, st)"
    and push_pool: "invar st \<Longrightarrow> pool st sid = Some ds \<Longrightarrow>
          pool (snd (push sid u st)) sid = Some (if u \<in> set ds then ds else u # ds)"
begin

lemma pop_fails_iff: "invar st \<Longrightarrow> (\<exists>e. fst (pop f sid st) = Err e) \<longleftrightarrow> pool st sid = None"
  using pop_missing [of st sid f] pop_fresh [of st sid f] pop_pooled [of st sid _ _ f]
  by (cases "pool st sid"; cases "the (pool st sid)") fastforce+

text \<open>A popped device id leaves the pool, and pushing it back restores the pool.\<close>

lemma pop_removes:
  assumes "invar st" and "pool st sid = Some (u # ds)" and "pop f sid st = (Ok (s, v), st')"
  shows "v = u \<and> pool st' sid = Some ds \<and> u \<notin> set ds"
  using assms pop_pooled [OF assms(1,2), of f] pool_distinct [OF assms(1,2)] by auto

lemma push_after_pop:
  assumes "invar st" and "pool st sid = Some (u # ds)" and "pop f sid st = (Ok (s, v), st')"
  shows "pool (snd (push sid v st')) sid = pool st sid"
proof -
  have "invar st'" using invar_pop [OF assms(1), of f sid] assms(3) by simp
  then show ?thesis
    using push_pool [of st' sid ds v] pop_removes [OF assms] assms(2) by simp
qed

lemma pop_pop_differ:
  assumes "invar st" and "pool st sid = Some (u # ds)" and "g \<noteq> u"
    and "pop f sid st = (Ok (s, v), st')" and "pop g sid st' = (Ok (t, w), st'')"
  shows "v \<noteq> w"
proof -
  have "invar st'" using invar_pop [OF assms(1), of f sid] assms(4) by simp
  moreover have v: "v = u" "pool st' sid = Some ds" "u \<notin> set ds"
    using pop_removes [OF assms(1,2,4)] by auto
  ultimately show ?thesis
    using pop_fresh [of st' sid g] pop_pooled [of st' sid _ _ g] assms(3,5)
    by (cases ds) auto
qed

end

definition store_pool :: "InMemoryIdentityStore \<Rightarrow> string \<Rightarrow> uuid list option" where
  "store_pool st = map_of (registered_device_ids st)"

lemma release_new_suffix: "\<exists>new. release_new parse current ns ds = new @ ds"
proof (induction ns arbitrary: ds)
  case (Cons d ns)
  let ?ds = "if d \<notin> set current
      then (case parse d of Some u \<Rightarrow> snd (rdi_push u ds) | None \<Rightarrow> ds) else ds"
  have "\<exists>x. ?ds = x @ ds" by (cases "parse d") (auto simp: rdi_push_def)
  then obtain x where "?ds = x @ ds" by blast
  moreover obtain y where "release_new parse current ns ?ds = y @ ?ds" using Cons.IH by blast
  ultimately have "release_new parse current (d # ns) ds = (y @ x) @ ds" by simp
  then show ?case by blast
qed simp

interpretation mem: identity_store store_wf store_pool parse "register_or_update parse"
  unregister_service pop_device_id push_device_id for parse
proof (unfold_locales, goal_cases)
  case (6 st s used sid)
  obtain new where "release_new parse
      (unwrap_or (Option.bind (map_of (identities st) (si_service_id s)) si_device_ids) [])
      (unwrap_or (si_device_ids s) [])
      (unwrap_or (map_of (registered_device_ids st) (si_service_id s)) []) =
      new @ unwrap_or (map_of (registered_device_ids st) (si_service_id s)) []"
    using release_new_suffix by blast
  then show ?case
    by (intro exI [of _ new]) (simp add: store_pool_def register_or_update_def Let_def)
next
  case (8 st sid u ds f)
  from \<open>store_wf st\<close> \<open>store_pool st sid = Some (u # ds)\<close> obtain s
    where "map_of (identities st) sid = Some s"
    using store_wf_keys [of st sid] by (auto simp: store_pool_def)
  with 8 show ?case
    by (auto simp: store_pool_def pop_device_id_def rdi_pop_def store_wf_def)
next
  case (9 st sid f)
  from \<open>store_wf st\<close> \<open>store_pool st sid = Some []\<close> obtain s
    where "map_of (identities st) sid = Some s"
    using store_wf_keys [of st sid] by (auto simp: store_pool_def)
  with 9 show ?case
    by (auto simp: store_pool_def pop_device_id_def rdi_pop_def store_wf_def fun_eq_iff)
next
  case (10 st sid f)
  then show ?case
    by (auto simp: store_pool_def pop_device_id_def split: option.splits)
next
  case (11 st sid ds u)
  from \<open>store_wf st\<close> \<open>store_pool st sid = Some ds\<close> obtain s
    where "map_of (identities st) sid = Some s"
    using store_wf_keys [of st sid] by (auto simp: store_pool_def)
  with 11 show ?case
    by (auto simp: store_pool_def push_device_id_def rdi_push_def)
next
  case (5 st sid ds)
  then show ?case by (simp add: store_pool_def store_wf_def)
next
  case (7 st sid sid')
  then show ?case by (simp add: store_pool_def unregister_service_def)
qed (auto intro: inv_intros)

section \<open>Runs of the provider\<close>

text \<open>The UUIDs drawn for the requests of a service, and messages that release no id to it.\<close>

fun draws :: "string \<Rightarrow> provider_event list \<Rightarrow> uuid list" where
  "draws sid [] = []"
| "draws sid (ProviderMsg (RequestDeviceId k) f # es) = (if k = sid then f # draws sid es else draws sid es)"
| "draws sid (_ # es) = draws sid es"

fun releases_to :: "string \<Rightarrow> provider_event \<Rightarrow> bool" where
  "releases_to sid (WatcherMsg (FoundServiceIdentity s _) _) \<longleftrightarrow> si_service_id s = sid"
| "releases_to sid _ \<longleftrightarrow> False"

lemma provider_step_wf [inv_intros]:
  "store_wf st \<Longrightarrow> store_wf (snd (provider_step parse e st))"
proof (induction parse e st rule: provider_step.induct)
  case (4 parse sid fresh st)
  then have "store_wf (snd (pop_device_id fresh sid st))" by (rule store_wf_pop)
  then show ?case by (auto split: res.splits prod.splits)
qed (simp_all add: store_wf_register store_wf_unregister)

lemma provider_run_Cons:
  "provider_run parse (e # es) st =
     (let (r, st') = provider_step parse e st; (rs, st'') = provider_run parse es st'
      in (r # rs, st''))"
  by (simp add: Let_def)

lemma provider_run_wf [inv_intros]:
  "store_wf st \<Longrightarrow> store_wf (snd (provider_run parse es st))"
proof (induction es arbitrary: st)
  case (Cons e es)
  then have "store_wf (snd (provider_run parse es (snd (provider_step parse e st))))"
    by (intro Cons.IH provider_step_wf)
  then show ?case by (simp add: split_beta)
qed simp

lemma assigned_to_Cons: "assigned_to sid (r # rs) = assigned_to sid [r] @ assigned_to sid rs"
  by (cases "(sid, r # rs)" rule: assigned_to.cases) simp_all

lemma draws_Cons: "draws sid (e # es) = draws sid [e] @ draws sid es"
  by (cases "(sid, e # es)" rule: draws.cases) simp_all

text \<open>One step of a run that releases nothing to the service, as the service sees it.\<close>

lemma provider_step_pool:
  assumes wf: "store_wf st" and "\<not> releases_to sid e" and step: "provider_step parse e st = (r, st')"
  shows "(assigned_to sid [r] = [] \<and> store_pool st' sid \<in> {None, store_pool st sid}) \<or>
         (\<exists>u ds f. store_pool st sid = Some (u # ds) \<and> assigned_to sid [r] = [u] \<and>
            draws sid [e] = [f] \<and> store_pool st' sid = Some ds) \<or>
         (\<exists>f. store_pool st sid = Some [] \<and> assigned_to sid [r] = [f] \<and>
            draws sid [e] = [f] \<and> store_pool st' sid = Some [])"
proof (cases e)
  case (WatcherMsg m used)
  show ?thesis
  proof (cases m)
    case (FoundServiceIdentity s b)
    have "store_pool (snd (register_or_update parse s used st)) sid = store_pool st sid"
      using mem.pool_register [OF wf, of parse s used sid] assms(2) WatcherMsg FoundServiceIdentity
      by auto
    with step WatcherMsg FoundServiceIdentity show ?thesis by auto
  next
    case (DeletedServiceIdentity s)
    with step WatcherMsg mem.pool_unregister [OF wf, of "si_service_id s" sid]
    show ?thesis by auto
  qed (use WatcherMsg step in auto)
next
  case (ProviderMsg m f)
  show ?thesis
  proof (cases m)
    case (RequestDeviceId k)
    note e = ProviderMsg RequestDeviceId
    show ?thesis
    proof (cases "store_pool st k")
      case None
      with e step mem.pop_missing [OF wf None, of f] show ?thesis by auto
    next
      case (Some ds)
      show ?thesis
      proof (cases ds)
        case Nil
        with e step Some mem.pop_fresh [OF wf, of k f] show ?thesis by (cases "k = sid") auto
      next
        case (Cons u us)
        with e step Some mem.pop_pooled [OF wf, of k u us f] show ?thesis by (cases "k = sid") auto
      qed
    qed
  qed (use ProviderMsg step in auto)
qed

lemma provider_step_leases:
  assumes wf: "store_wf st" and "\<not> releases_to sid e" and step: "provider_step parse e st = (r, st')"
  shows "set (unwrap_or (store_pool st' sid) []) \<subseteq> set (unwrap_or (store_pool st sid) []) \<and>
     distinct (assigned_to sid [r]) \<and>
     set (assigned_to sid [r]) \<subseteq>
       (set (unwrap_or (store_pool st sid) []) - set (unwrap_or (store_pool st' sid) [])) \<union>
       set (draws sid [e])"
  using provider_step_pool [OF assms]
proof (elim disjE exE conjE)
  fix u ds f
  assume "store_pool st sid = Some (u # ds)" "assigned_to sid [r] = [u]" "store_pool st' sid = Some ds"
  with mem.pool_distinct [OF wf, of sid "u # ds"] show ?thesis by auto
qed auto

text \<open>
  Over a run that releases nothing to the service, what it is given comes from its pool or from
  the draws made for it, and is never given twice.
\<close>

lemma provider_run_leases:
  assumes "store_wf st" and "\<forall>e \<in> set es. \<not> releases_to sid e"
    and "distinct (draws sid es)"
    and "set (draws sid es) \<inter> set (unwrap_or (store_pool st sid) []) = {}"
  shows "distinct (assigned_to sid (fst (provider_run parse es st))) \<and>
     set (assigned_to sid (fst (provider_run parse es st))) \<subseteq>
       set (unwrap_or (store_pool st sid) []) \<union> set (draws sid es)"
  using assms
proof (induction es arbitrary: st)
  case (Cons e es)
  obtain r st' where step: "provider_step parse e st = (r, st')" by (cases "provider_step parse e st")
  let ?rest = "assigned_to sid (fst (provider_run parse es st'))"
  let ?pool = "set (unwrap_or (store_pool st sid) [])" and ?pool' = "set (unwrap_or (store_pool st' sid) [])"
  have wf': "store_wf st'" using provider_step_wf [OF Cons.prems(1), of parse e] step by simp
  have assigned: "assigned_to sid (fst (provider_run parse (e # es) st)) = assigned_to sid [r] @ ?rest"
    using step by (simp add: split_beta) (rule assigned_to_Cons)
  have draws: "draws sid (e # es) = draws sid [e] @ draws sid es" by (rule draws_Cons)
  have pool': "?pool' \<subseteq> ?pool"
    and one: "distinct (assigned_to sid [r])"
      "set (assigned_to sid [r]) \<subseteq> (?pool - ?pool') \<union> set (draws sid [e])"
    using provider_step_leases [OF Cons.prems(1) _ step, of sid] Cons.prems(2) by simp_all
  have "distinct ?rest \<and> set ?rest \<subseteq> ?pool' \<union> set (draws sid es)"
    using Cons.prems pool' draws by (intro Cons.IH wf') auto
  moreover have "set (assigned_to sid [r]) \<inter> (?pool' \<union> set (draws sid es)) = {}"
    using one(2) pool' Cons.prems(3,4) draws by auto
  ultimately show ?case using one pool' draws assigned by auto
qed simp

section \<open>Properties\<close>

text \<open>An identity for the witnesses: the service \<open>web\<close> of the namespace \<open>shop\<close>.\<close>

definition sample_identity :: "string list option \<Rightarrow> ServiceIdentity" where
  "sample_identity ds = ServiceIdentity_new ''shop-web''
     \<lparr>sis_service_user = \<lparr>su_id = ''i'', su_name = ''i'', su_password = ''p'', su_profile_url = ''u'',
        su_device_ids = ds\<rparr>,
      sis_service_name = ''web'', sis_service_namespace = ''shop'', sis_labels = [], sis_disabled = False\<rparr>"

definition sample_parse :: "string \<Rightarrow> uuid option" where
  "sample_parse d = (if d = ''a'' then Some 1 else if d = ''b'' then Some 2 else None)"

lemma sample_identity_sel [simp]:
  "si_service_id (sample_identity ds) = ''shop_web''" "si_device_ids (sample_identity ds) = ds"
  by (simp_all add: sample_identity_def si_service_id_def si_namespace_def si_name_def si_device_ids_def)

text \<open>
  C36: the store stays consistent. Whatever messages the provider handles, in whatever order, its
  two maps have the same keys, each identity is stored under its own id, and no pool holds a
  device id twice.
\<close>

theorem provider_store_consistent:
  "store_wf (snd (provider_run parse es InMemoryIdentityStore_new))"
  by (intro provider_run_wf store_wf_new)

text \<open>
  No device id is leased twice. In a run with requests, registrations and deletions of any
  services but no message that releases device ids to the service, the device ids assigned to it
  are pairwise distinct, given that the drawn UUIDs are distinct and not in its pool.
\<close>

theorem leases_distinct:
  assumes "store_wf st" and "\<forall>e \<in> set es. \<not> releases_to sid e"
    and "distinct (draws sid es)"
    and "set (draws sid es) \<inter> set (unwrap_or (store_pool st sid) []) = {}"
  shows "distinct (assigned_to sid (fst (provider_run parse es st)))"
  using provider_run_leases [OF assms] by blast

theorem leases_distinct_witness:
  "distinct (assigned_to ''shop_web'' (fst (provider_run sample_parse
     [ProviderMsg (RequestDeviceId ''shop_web'') 8, ProviderMsg (RequestDeviceId ''shop_web'') 9]
     (snd (provider_run sample_parse
        [WatcherMsg (FoundServiceIdentity (sample_identity (Some [''a''])) False) None]
        InMemoryIdentityStore_new)))))"
proof (rule leases_distinct)
  show "store_wf (snd (provider_run sample_parse
      [WatcherMsg (FoundServiceIdentity (sample_identity (Some [''a''])) False) None]
      InMemoryIdentityStore_new))"
    by (intro provider_run_wf store_wf_new)
qed (simp_all, code_simp)

text \<open>A device id reported last, and not before, is put on top of the pool.\<close>

lemma released_on_top:
  assumes "si_device_ids s = Some (ds @ [d])"
    and "d \<notin> set (unwrap_or (Option.bind (map_of (identities st) (si_service_id s)) si_device_ids) [])"
    and "parse d = Some u"
    and "u \<notin> set (unwrap_or (store_pool st (si_service_id s)) [])"
    and "\<forall>d' \<in> set ds - set (unwrap_or (Option.bind (map_of (identities st) (si_service_id s)) si_device_ids) []). parse d' \<noteq> Some u"
  shows "\<exists>us. store_pool (snd (register_or_update parse s used st)) (si_service_id s) = Some (u # us)"
proof -
  let ?cur = "unwrap_or (Option.bind (map_of (identities st) (si_service_id s)) si_device_ids) []"
  let ?pool = "unwrap_or (store_pool st (si_service_id s)) []"
  have append: "release_new parse ?cur (ds @ [d]) p =
      release_new parse ?cur [d] (release_new parse ?cur ds p)" for p
    by (induction ds arbitrary: p) auto
  have "u \<notin> set (release_new parse ?cur ds ?pool)"
    using assms(4,5) by (auto simp: set_release_new)
  then have "release_new parse ?cur (ds @ [d]) ?pool = u # release_new parse ?cur ds ?pool"
    using assms(2,3) by (simp add: append rdi_push_def)
  then show ?thesis using assms(1) by (simp add: store_pool_def register_or_update_def Let_def)
qed

text \<open>
  A released device id is reused. When a service reports a device id it had not reported
  before, as its last one, and that id is not in its pool, the next request for the service is
  given exactly that device id.
\<close>

theorem released_id_reused:
  assumes "store_wf st" and "si_device_ids s = Some (ds @ [d])"
    and "d \<notin> set (unwrap_or (Option.bind (map_of (identities st) (si_service_id s)) si_device_ids) [])"
    and "parse d = Some u"
    and "u \<notin> set (unwrap_or (store_pool st (si_service_id s)) [])"
    and "\<forall>d' \<in> set ds. parse d' \<noteq> Some u"
  shows "assigned_to (si_service_id s) (fst (provider_run parse
     [WatcherMsg (FoundServiceIdentity s b) used, ProviderMsg (RequestDeviceId (si_service_id s)) f] st)) = [u]"
proof -
  let ?sid = "si_service_id s" and ?st = "snd (register_or_update parse s used st)"
  obtain us where "store_pool ?st ?sid = Some (u # us)"
    using released_on_top [of s ds d st parse u used] assms(2-6) by auto
  then obtain t st' where "pop_device_id f ?sid ?st = (Ok (t, u), st')" and "si_service_id t = ?sid"
    using mem.pop_pooled [OF store_wf_register [OF assms(1)], of parse s used ?sid u _ f] by blast
  then show ?thesis by simp
qed

theorem released_id_reused_witness:
  "assigned_to ''shop_web'' (fst (provider_run sample_parse
     [WatcherMsg (FoundServiceIdentity (sample_identity (Some [''b'', ''a''])) False) None,
      ProviderMsg (RequestDeviceId ''shop_web'') 9] InMemoryIdentityStore_new)) = [1]"
  by (rule released_id_reused [where s = "sample_identity (Some [''b'', ''a''])" and ds = "[''b'']"
        and d = "''a''", unfolded sample_identity_sel])
    (simp_all add: store_wf_new [unfolded InMemoryIdentityStore_new_def] sample_parse_def
      InMemoryIdentityStore_new_def store_pool_def)

text \<open>
  A device id is given back only once. The device ids of an identity only grow, and one that
  was reported before is not released again: a service that reports the device id \<open>d\<close>, is given
  it, and reports it again when its pod is gone, is given a fresh device id the next time.
\<close>

theorem device_id_not_released_again:
  assumes "si_device_ids s = Some [d]" and "parse d = Some u"
  shows "assigned_to (si_service_id s) (fst (provider_run parse
     [WatcherMsg (FoundServiceIdentity s False) used, ProviderMsg (RequestDeviceId (si_service_id s)) f,
      WatcherMsg (FoundServiceIdentity s True) used', ProviderMsg (RequestDeviceId (si_service_id s)) g]
     InMemoryIdentityStore_new)) = [u, g]"
  using assms
  by (simp add: register_or_update_def pop_device_id_def InMemoryIdentityStore_new_def rdi_push_def
      rdi_pop_def Let_def)

theorem device_id_not_released_again_witness:
  "assigned_to ''shop_web'' (fst (provider_run sample_parse
     [WatcherMsg (FoundServiceIdentity (sample_identity (Some [''a''])) False) None,
      ProviderMsg (RequestDeviceId ''shop_web'') 8,
      WatcherMsg (FoundServiceIdentity (sample_identity (Some [''a''])) True) None,
      ProviderMsg (RequestDeviceId ''shop_web'') 9] InMemoryIdentityStore_new)) = [1, 9]"
  by (rule device_id_not_released_again [where s = "sample_identity (Some [''a''])" and d = "''a''",
        unfolded sample_identity_sel])
    (simp_all add: sample_parse_def)

text \<open>
  An update of a registered service changes its device ids only. The identity answered and
  stored is the one registered before with the reported device ids added, except those in use;
  without a list of device ids it is unchanged.
\<close>

theorem update_merges_device_ids:
  assumes "map_of (identities st) (si_service_id s) = Some old"
  shows "\<exists>ds. fst (register_or_update parse s used st) = Ok (si_set_device_ids ds old) \<and>
     map_of (identities (snd (register_or_update parse s used st))) (si_service_id s) =
       Some (si_set_device_ids ds old) \<and>
     (case si_device_ids old of
        None \<Rightarrow> ds = None
      | Some xs \<Rightarrow> \<exists>zs. ds = Some (xs @ zs) \<and>
          set (xs @ zs) = set xs \<union> (set (unwrap_or (si_device_ids s) []) - set (unwrap_or used [])))"
proof -
  let ?ds = "merge_device_ids (si_device_ids old) (unwrap_or (si_device_ids s) []) (unwrap_or used [])"
  have "case si_device_ids old of
        None \<Rightarrow> ?ds = None
      | Some xs \<Rightarrow> \<exists>zs. ?ds = Some (xs @ zs) \<and>
          set (xs @ zs) = set xs \<union> (set (unwrap_or (si_device_ids s) []) - set (unwrap_or used []))"
    using merge_device_ids_Some [of _ "unwrap_or (si_device_ids s) []" "unwrap_or used []"]
    by (cases "si_device_ids old") (simp_all add: merge_device_ids_None, blast)
  then show ?thesis
    using assms by (intro exI [of _ ?ds]) (simp add: register_or_update_def Let_def)
qed

theorem update_merges_device_ids_witness:
  "\<exists>ds. fst (register_or_update sample_parse (sample_identity (Some [''b''])) None
       \<lparr>identities = [(''shop_web'', sample_identity (Some [''a'']))],
        registered_device_ids = [(''shop_web'', [])]\<rparr>) =
     Ok (si_set_device_ids ds (sample_identity (Some [''a''])))"
  using update_merges_device_ids [of "\<lparr>identities = [(''shop_web'', sample_identity (Some [''a'']))],
      registered_device_ids = [(''shop_web'', [])]\<rparr>" "sample_identity (Some [''b''])"
      "sample_identity (Some [''a''])" sample_parse None]
  by (auto simp only: sample_identity_sel InMemoryIdentityStore.simps map_of.simps fun_upd_same fst_conv snd_conv)

end
