(* ===== verification/Service_Secrets.thy ===== *)
theory Service_Secrets
  imports Service_Model
begin

text \<open>
  The Kubernetes secrets and config maps of a service user (\<^verbatim>\<open>sdp-common/src/service.rs\<close>): their names
  and their fields.
\<close>

definition secrets_field_names :: "ServiceUser \<Rightarrow> bool \<Rightarrow> string \<times> string \<times> string" where
  "secrets_field_names su namespaced =
     (if namespaced then (''service-username'', ''service-password'', ''service-url'')
      else (su_id su @ ''-service-username'', su_id su @ ''-service-password'', su_id su @ ''-service-url''))"

definition secrets_name :: "string \<Rightarrow> string \<Rightarrow> string" where
  "secrets_name ns n = ns @ ''-'' @ n @ ''-service-user''"

definition config_name :: "string \<Rightarrow> string \<Rightarrow> string" where
  "config_name ns n = ns @ ''-'' @ n @ ''-service-config''"

definition is_secrets_namespaced :: "string \<Rightarrow> bool" where
  "is_secrets_namespaced n = (if n = IDENTITY_MANAGER_SECRET_NAME then False else True)"

end
