(* ===== verification/Injector.thy ===== *)
theory Injector
  imports Device_Id Service_Secrets "HOL-Library.Char_ord" "HOL-Library.List_Lexorder"
begin

text \<open>
  The admission controller (\<^verbatim>\<open>sdp-injector/src/injector.rs\<close>): the environment of the sidecars, the JSON
  patches of pods and deployments, validation, the attempts store and the HTTP handler.

  A JSON patch is a list of \<^verbatim>\<open>add\<close> operations whose values keep their types. Third-party code is
  an \<open>injector_env\<close>: the JSON pointer parser, serialisation and deserialisation, the Kubernetes API
  calls, the environment variable with the client's version, the answer of the device id
  provider and the UUID generator, whose \<open>k\<close>-th draw of a request is \<open>ie_uuid k\<close>.
\<close>

section \<open>Data\<close>

record PodDNSConfig =
  dc_nameservers :: "string list option"
  dc_searches :: "string list option"

datatype patch_value =
    VMap string_map
  | VString string
  | VContainer container
  | VContainers "container list"
  | VVolume volume
  | VVolumes "volume list"
  | VDNSConfig PodDNSConfig
  | VSecurityContext pod_security_context

record AddOperation =
  op_path :: string
  op_value :: patch_value

type_synonym Patch = "AddOperation list"

record AdmissionResponse =
  resp_uid :: string
  resp_allowed :: bool
  resp_code :: nat
  resp_message :: string
  resp_patch :: "Patch option"

datatype SDPPatchError = WithResponse AdmissionResponse SDPServiceError | WithoutResponse SDPServiceError

datatype SDPPatchResponse =
    RetryWithError AdmissionResponse SDPServiceError "8 word"
  | MaxRetryExceeded AdmissionResponse SDPServiceError
  | Allow AdmissionResponse

text \<open>What comes of asking the device id provider: the message cannot be sent, no answer in time, or an answer.\<close>

datatype device_answer =
    SendFailed string
  | TimedOut string
  | Answered "DeviceIdProviderResponseProtocol option"

record injector_env =
  ie_pointer_parse :: "string \<Rightarrow> string option"
  ie_to_value :: "patch_value \<Rightarrow> string option"
  ie_client_version :: "string option"
  ie_device :: "string \<Rightarrow> device_answer"
  ie_uuid_to_string :: "uuid \<Rightarrow> string"
  ie_uuid :: "nat \<Rightarrow> string"
  ie_services :: "string + kube_service list"
  ie_namespace :: "string \<Rightarrow> string + kube_namespace option"
  ie_utf8 :: "string \<Rightarrow> string + string"
  ie_parse_resource :: "string \<Rightarrow> string + string option"
  ie_parse_pod :: "string \<Rightarrow> string + pod AdmissionRequest"
  ie_parse_deployment :: "string \<Rightarrow> string + deployment AdmissionRequest"
  ie_parse_pod_review :: "string \<Rightarrow> string + pod AdmissionRequest option"
  ie_response :: "string \<Rightarrow> AdmissionResponse"
  ie_invalid :: "string \<Rightarrow> AdmissionResponse"
  ie_with_patch :: "AdmissionResponse \<Rightarrow> Patch \<Rightarrow> string + AdmissionResponse"
  ie_print_review :: "AdmissionResponse \<Rightarrow> string + string"
  ie_print_response :: "AdmissionResponse \<Rightarrow> string + string"
  ie_print_service :: "kube_service \<Rightarrow> string + string"

section \<open>Patch operations\<close>

definition json_ptr :: "injector_env \<Rightarrow> string \<Rightarrow> (SDPServiceError, string) res" where
  "json_ptr e path =
     (case ie_pointer_parse e path of
        None \<Rightarrow> Ok path
      | Some err \<Rightarrow> Err (from_string (''Invalid JSON pointer '' @ [CHR 0x27] @ path @ [CHR 0x27] @ '': '' @ err)))"

text \<open>\<^verbatim>\<open>Add(AddOperation { path: json_ptr(path)?, value: serde_json::to_value(v)? })\<close>.\<close>

definition add_op :: "injector_env \<Rightarrow> string \<times> patch_value \<Rightarrow> (SDPServiceError, AddOperation) res" where
  "add_op e pv =
     and_then (json_ptr e (fst pv))
       (\<lambda>p. case ie_to_value e (snd pv) of
           None \<Rightarrow> Ok \<lparr>op_path = p, op_value = snd pv\<rparr>
         | Some err \<Rightarrow> Err (from_string err))"

fun add_ops :: "injector_env \<Rightarrow> (string \<times> patch_value) list \<Rightarrow> (SDPServiceError, Patch) res" where
  "add_ops e [] = Ok []"
| "add_ops e (pv # pvs) = and_then (add_op e pv) (\<lambda>x. and_then (add_ops e pvs) (\<lambda>xs. Ok (x # xs)))"

definition annotation_path :: "string \<Rightarrow> string" where
  "annotation_path a = ''/metadata/annotations/'' @ patch_annotation a"

definition template_annotation_path :: "string \<Rightarrow> string" where
  "template_annotation_path a = ''/spec/template/metadata/annotations/'' @ patch_annotation a"

definition bool_to_string :: "bool \<Rightarrow> string" where
  "bool_to_string b = (if b then ''true'' else ''false'')"

section \<open>Environment variables\<close>

definition env_key :: "string \<Rightarrow> string" where
  "env_key n = replace_char (CHR ''_'') ''-'' (to_lowercase n)"

definition env_value :: "string \<Rightarrow> string \<Rightarrow> env_var_t" where
  "env_value n v = \<lparr>ev_name = n, ev_value = Some v, ev_value_from = None\<rparr>"

definition env_config_map :: "string \<Rightarrow> string \<Rightarrow> env_var_t" where
  "env_config_map n m = \<lparr>ev_name = n, ev_value = None, ev_value_from = Some (ConfigMapKeyRef m (env_key n) False)\<rparr>"

definition env_secret :: "string \<Rightarrow> string \<Rightarrow> string \<Rightarrow> env_var_t" where
  "env_secret n s k = \<lparr>ev_name = n, ev_value = None, ev_value_from = Some (SecretKeyRef s k False)\<rparr>"

definition env_field_ref :: "string \<Rightarrow> string \<Rightarrow> env_var_t" where
  "env_field_ref n p = \<lparr>ev_name = n, ev_value = None, ev_value_from = Some (FieldRef p)\<rparr>"

section \<open>The environment of a service\<close>

record ServiceEnvironment =
  se_pod_name :: string
  se_service_id :: string
  se_service_name :: string
  client_config :: string
  client_secret_name :: string
  client_secret_controller_url_key :: string
  client_secret_user_key :: string
  client_secret_pwd_key :: string
  client_device_id :: string
  n_containers :: string
  k8s_dns_service_ip :: "string option"

text \<open>\<^verbatim>\<open>InjectorDeviceIdRequester::request\<close>.\<close>

definition request_device_id ::
  "injector_env \<Rightarrow> string \<Rightarrow> (SDPServiceError, ServiceIdentity \<times> uuid) res" where
  "request_device_id e sid =
     (case ie_device e sid of
        SendFailed err \<Rightarrow> Err (from_string (''Error sending message to request device id: '' @ err))
      | Answered (Some (AssignedDeviceId si d)) \<Rightarrow> Ok (si, d)
      | Answered _ \<Rightarrow> Err (from_string (''Device id not found for service '' @ sid))
      | TimedOut err \<Rightarrow> Err (from_string (''Error getting device id for service '' @ sid @ '': '' @ err)))"

definition from_identity_store ::
  "injector_env \<Rightarrow> pod AdmissionRequest \<Rightarrow> (SDPServiceError, ServiceEnvironment) res" where
  "from_identity_store e r =
     and_then (podreq_service_id (ie_uuid e 5) r) (\<lambda>sid.
     and_then (podreq_service_name (ie_uuid e 6) r) (\<lambda>sname.
     and_then (request_device_id e sid) (\<lambda>(si, d).
       (let (user_field, password_field, profile_field) =
              secrets_field_names (sis_service_user (si_spec si)) True
        in Ok \<lparr>se_pod_name = podreq_name (ie_uuid e 7) r, se_service_id = sid, se_service_name = sname,
                client_config = config_name (sis_service_namespace (si_spec si)) (sis_service_name (si_spec si)),
                client_secret_name = secrets_name (sis_service_namespace (si_spec si)) (sis_service_name (si_spec si)),
                client_secret_controller_url_key = profile_field, client_secret_user_key = user_field,
                client_secret_pwd_key = password_field, client_device_id = ie_uuid_to_string e d,
                n_containers = ''0'', k8s_dns_service_ip = None\<rparr>))))"

definition from_pod ::
  "injector_env \<Rightarrow> pod AdmissionRequest \<Rightarrow> (SDPServiceError, ServiceEnvironment option) res" where
  "from_pod e r =
     and_then (ok_or (ar_object r) (from_string ''Pod was not found in the request'')) (\<lambda>p.
     and_then (podreq_service_id (ie_uuid e 1) r) (\<lambda>sid.
     and_then (podreq_service_name (ie_uuid e 2) r) (\<lambda>sname.
       (let config = annotation (pod_annotations p) SDP_ANNOTATION_CLIENT_CONFIG;
            secret = annotation (pod_annotations p) SDP_ANNOTATION_CLIENT_SECRETS;
            device_id = annotation (pod_annotations p) SDP_ANNOTATION_CLIENT_DEVICE_ID;
            user_field = sid @ ''-user'';
            pwd_field = sid @ ''-password''
        in Ok (map_option (\<lambda>s.
             \<lparr>se_pod_name = podreq_name (ie_uuid e 3) r, se_service_id = sid, se_service_name = sname,
              client_config = unwrap_or config (sname @ ''-service-config''), client_secret_name = s,
              client_secret_controller_url_key = pwd_field, client_secret_user_key = user_field,
              client_secret_pwd_key = pwd_field, client_device_id = unwrap_or device_id (ie_uuid e 4),
              n_containers = ''0'', k8s_dns_service_ip = None\<rparr>) secret)))))"

definition ServiceEnvironment_create ::
  "injector_env \<Rightarrow> pod AdmissionRequest \<Rightarrow> (SDPServiceError, ServiceEnvironment) res" where
  "ServiceEnvironment_create e r =
     and_then (from_pod e r) (\<lambda>x. case x of Some env \<Rightarrow> Ok env | None \<Rightarrow> from_identity_store e r)"

definition SDP_SERVICE_CONTAINER_NAME :: string where
  "SDP_SERVICE_CONTAINER_NAME = ''sdp-service''"

definition variables :: "ServiceEnvironment \<Rightarrow> string \<Rightarrow> env_var_t list" where
  "variables se cname =
     (let k8s_dns = unwrap_or (k8s_dns_service_ip se) [];
          envs = [env_value ''POD_N_CONTAINERS'' (n_containers se),
                  env_value ''SERVICE_NAME'' (se_service_name se),
                  env_value ''SERVICE_ID'' (se_service_id se)];
          envs = (if cname = SDP_SERVICE_CONTAINER_NAME
            then envs @
              [env_config_map ''APPGATE_LOGLEVEL'' (client_config se),
               env_value ''APPGATE_DEVICE_ID'' (client_device_id se),
               env_secret ''APPGATE_PROFILE_URL'' (client_secret_name se) (client_secret_controller_url_key se),
               env_secret ''APPGATE_USERNAME'' (client_secret_name se) (client_secret_user_key se),
               env_secret ''APPGATE_PASSWORD'' (client_secret_name se) (client_secret_pwd_key se),
               env_field_ref ''POD_NODE'' ''spec.nodeName'',
               env_field_ref ''POD_NAME'' ''metadata.name'',
               env_field_ref ''POD_NAMESPACE'' ''metadata.namespace'',
               env_field_ref ''POD_SERVICE_ACCOUNT'' ''spec.serviceAccountName'']
            else envs)
      in if k8s_dns_service_ip se \<noteq> None then env_value ''K8S_DNS_SERVICE'' k8s_dns # envs else envs)"

section \<open>Sidecars and DNS\<close>

record SDPSidecars =
  ss_init_containers :: "container \<times> container"
  ss_containers :: "container list"
  ss_volumes :: "volume list"
  ss_dns_searches :: string

definition DNSConfig_default :: string where
  "DNSConfig_default = ''svc.cluster.local cluster.local''"

definition container_names :: "SDPSidecars \<Rightarrow> string list" where
  "container_names ss = map c_name (ss_containers ss)"

definition searches_string_to_vec :: "string \<Rightarrow> string list" where
  "searches_string_to_vec s = map trim (split_char (CHR '' '') s)"

definition dns_config :: "SDPSidecars \<Rightarrow> string \<Rightarrow> string list option \<Rightarrow> PodDNSConfig" where
  "dns_config ss ns searches =
     (let searches = (case searches of Some xs \<Rightarrow> xs | None \<Rightarrow> searches_string_to_vec (ss_dns_searches ss));
          searches =
            (case searches of
               [] \<Rightarrow> []
             | first # others \<Rightarrow>
                 (case split_char (CHR ''.'') first of
                    [] \<Rightarrow> searches
                  | pre # parts \<Rightarrow>
                      (let rest = join ''.'' parts
                       in if rest \<notin> set searches then first # rest # others
                          else if \<not> eq_ignore_ascii_case pre ns then (ns @ ''.'' @ first) # searches
                          else searches)))
      in \<lparr>dc_nameservers = Some [''127.0.0.1''], dc_searches = Some searches\<rparr>)"

definition SDP_DNS_SERVICE_NAMES :: "string list" where
  "SDP_DNS_SERVICE_NAMES = [''kube-dns'', ''coredns'', ''rke2-coredns'']"

definition dns_service_discover :: "injector_env \<Rightarrow> kube_service option" where
  "dns_service_discover e =
     (case ie_services e of
        Inr xs \<Rightarrow>
          List.find (\<lambda>s. unwrap_or (map_option (\<lambda>l. l \<in> set SDP_DNS_SERVICE_NAMES)
            (Option.bind (ks_labels s) (\<lambda>m. map_of m ''k8s-app''))) False) xs
      | Inl err \<Rightarrow> None)"

definition maybe_ip :: "kube_service option \<Rightarrow> string option" where
  "maybe_ip s = Option.bind (Option.bind s ks_cluster_ip) (\<lambda>ip. ip)"

section \<open>Pods\<close>

record SDPPod =
  sp_sidecars :: SDPSidecars
  sp_dns_service :: "kube_service option"
  sp_server_version :: nat

definition sidecars :: "SDPPod \<Rightarrow> pod AdmissionRequest \<Rightarrow> container list option" where
  "sidecars sp r =
     Option.bind (ar_object r) (\<lambda>p. map_option (filter (\<lambda>c. c_name c \<in> set (container_names (sp_sidecars sp)))) (containers p))"

definition sidecar_names :: "SDPPod \<Rightarrow> pod AdmissionRequest \<Rightarrow> string list option" where
  "sidecar_names sp r = map_option (map c_name) (sidecars sp r)"

definition has_any_sidecars :: "SDPPod \<Rightarrow> pod AdmissionRequest \<Rightarrow> bool" where
  "has_any_sidecars sp r = unwrap_or (map_option (\<lambda>xs. length xs \<noteq> 0) (sidecars sp r)) False"

definition needs_patching :: "SDPPod \<Rightarrow> pod AdmissionRequest \<Rightarrow> bool" where
  "needs_patching sp r \<longleftrightarrow>
     unwrap_or (map_option (\<lambda>p. length (unwrap_or (containers p) []) > 0) (ar_object r)) False \<and>
     \<not> has_any_sidecars sp r"

definition K8S_VERSION_FOR_SAFE_SYSCTL :: nat where
  "K8S_VERSION_FOR_SAFE_SYSCTL = 22"

text \<open>The image of a sidecar with its tag replaced.\<close>

definition retag :: "string \<Rightarrow> string \<Rightarrow> string" where
  "retag img version =
     (let tag = last (split_char (CHR '':'') img)
      in trim_end_matches ('':'' @ tag) img @ '':'' @ version)"

definition sidecar_for :: "ServiceEnvironment \<Rightarrow> string \<Rightarrow> container \<Rightarrow> container" where
  "sidecar_for se version c =
     c\<lparr>c_image := map_option (\<lambda>img. retag img version) (c_image c), c_env := Some (variables se (c_name c))\<rparr>"

definition dns_env :: "string \<Rightarrow> PodDNSConfig \<Rightarrow> env_var_t list" where
  "dns_env ip dc = [env_value ''K8S_DNS_SERVICE'' ip,
     env_value ''K8S_DNS_SEARCHES'' (join '' '' (unwrap_or (dc_searches dc) []))]"

definition annotation_patches :: "ServiceEnvironment \<Rightarrow> pod \<Rightarrow> (string \<times> patch_value) list" where
  "annotation_patches se p =
     (let anns = pod_annotations p;
          strategy = injection_strategy anns;
          enabled = bool_to_string (unwrap_or
            (map_option (\<lambda>s. s = ''true'') (annotation anns SDP_INJECTOR_ANNOTATION_ENABLED))
            (strategy = EnabledByDefault))
      in (if anns = None \<or> anns = Some [] then [(''/metadata/annotations'', VMap [])] else []) @
         [(annotation_path SDP_INJECTOR_ANNOTATION_STRATEGY, VString (SDPInjectionStrategy_to_string strategy)),
          (annotation_path SDP_INJECTOR_ANNOTATION_ENABLED,
             VString (unwrap_or (annotation anns SDP_INJECTOR_ANNOTATION_ENABLED) enabled)),
          (annotation_path SDP_ANNOTATION_CLIENT_DEVICE_ID, VString (client_device_id se)),
          (annotation_path SDP_INJECTOR_ANNOTATION_SERVICE_NAME, VString (se_service_name se)),
          (annotation_path SDP_INJECTOR_ANNOTATION_SERVICE_ID, VString (se_service_id se)),
          (annotation_path SDP_INJECTOR_ANNOTATION_POD_NAME, VString (se_pod_name se))])"

definition init_container_patches :: "SDPSidecars \<Rightarrow> string \<Rightarrow> PodDNSConfig \<Rightarrow> pod \<Rightarrow> (string \<times> patch_value) list" where
  "init_container_patches ss ip dc p =
     (case init_containers p of
        Some xs \<Rightarrow>
          if unwrap_or (map_option (\<lambda>s. eq_ignore_ascii_case s ''true'')
               (annotation (pod_annotations p) SDP_INJECTOR_ANNOTATION_DISABLE_INIT_CONTAINERS)) False
          then []
          else [(''/spec/initContainers'', VContainers
                  ((fst (ss_init_containers ss))\<lparr>c_env := Some (dns_env ip dc)\<rparr> # xs @
                   [(snd (ss_init_containers ss))\<lparr>c_env := Some (dns_env ip dc)\<rparr>]))]
      | None \<Rightarrow> [])"

definition volume_patches :: "SDPSidecars \<Rightarrow> pod \<Rightarrow> (string \<times> patch_value) list" where
  "volume_patches ss p =
     (if volumes p \<noteq> None then map (\<lambda>v. (''/spec/volumes/-'', VVolume v)) (ss_volumes ss)
      else [(''/spec/volumes'', VVolumes (ss_volumes ss))])"

definition sysctl_patches :: "nat \<Rightarrow> pod \<Rightarrow> (string \<times> patch_value) list" where
  "sysctl_patches version p =
     (if K8S_VERSION_FOR_SAFE_SYSCTL \<le> version
      then (let sc = unwrap_or (security_context p) \<lparr>sc_sysctls = None, sc_rest = []\<rparr>
            in [(''/spec/securityContext'', VSecurityContext (sc\<lparr>sc_sysctls :=
                  Some (\<lparr>sysctl_name = ''net.ipv4.ip_unprivileged_port_start'', sysctl_value = ''0''\<rparr> #
                        unwrap_or (sc_sysctls sc) [])\<rparr>))])
      else [])"

definition pod_patch ::
  "injector_env \<Rightarrow> SDPPod \<Rightarrow> ServiceEnvironment \<Rightarrow> pod AdmissionRequest \<Rightarrow> (SDPServiceError, Patch) res" where
  "pod_patch e sp se r =
     and_then (ok_or (ar_object r) (from_string ''Unable to get Pod object in admission request'')) (\<lambda>p.
     and_then (ok_or (podreq_namespace r) (from_string ''Unable to get namespace from Pod admission request'')) (\<lambda>ns.
       (let se = se\<lparr>n_containers := show_nat (length (unwrap_or (containers p) [])),
                    k8s_dns_service_ip := maybe_ip (sp_dns_service sp)\<rparr>;
            ss = sp_sidecars sp
        in if needs_patching sp r
           then and_then (ok_or (maybe_ip (sp_dns_service sp)) (from_string ''Unable to get K8S DNS service IP address'')) (\<lambda>ip.
                  (let dc = dns_config ss ns
                         (map_option searches_string_to_vec (annotation (pod_annotations p) SDP_ANNOTATION_DNS_SEARCHES))
                   in and_then (add_ops e (annotation_patches se p)) (\<lambda>ops1.
                      (case ie_client_version e of
                         None \<Rightarrow> Panic ''Unable to get default client version environment variable''
                       | Some default_version \<Rightarrow>
                           (let version = unwrap_or (annotation (pod_annotations p) SDP_INJECTOR_ANNOTATION_CLIENT_VERSION) default_version
                            in and_then (add_ops e
                                 (map (\<lambda>c. (''/spec/containers/-'', VContainer (sidecar_for se version c))) (ss_containers ss) @
                                  init_container_patches ss ip dc p @
                                  volume_patches ss p @
                                  [(''/spec/dnsConfig'', VDNSConfig dc), (''/spec/dnsPolicy'', VString ''None'')] @
                                  sysctl_patches (sp_server_version sp) p))
                                 (\<lambda>ops2. Ok (ops1 @ ops2)))))))
           else Ok [])))"

text \<open>\<^verbatim>\<open>validate\<close> of \<^verbatim>\<open>SDPPod\<close>: the names the pod has to have and has, and what is missing, sorted.\<close>

definition missing_names :: "string list \<Rightarrow> string list \<Rightarrow> string list" where
  "missing_names expected have_names =
     (let found = filter (\<lambda>n. n \<in> set expected) have_names
      in sort (filter (\<lambda>n. n \<notin> set found) (remdups expected)))"

definition pod_validate :: "SDPPod \<Rightarrow> pod AdmissionRequest \<Rightarrow> string + unit" where
  "pod_validate sp r =
     (case ar_object r of
        None \<Rightarrow> Inl ''Unable to get Pod from admission request''
      | Some p \<Rightarrow>
          (let expected_volume_names = map v_name (ss_volumes (sp_sidecars sp));
               expected_container_names = map c_name (ss_containers (sp_sidecars sp));
               cnames = unwrap_or (sidecar_names sp r) [];
               vnames = unwrap_or (volume_names p) [];
               errors =
                 (if \<not> set expected_container_names \<subseteq> set cnames
                  then [''Pod is missing required containers: '' @ join '', '' (missing_names expected_container_names cnames)]
                  else []) @
                 (if \<not> set expected_volume_names \<subseteq> set vnames
                  then [''Pod is missing required volumes: '' @ join '', '' (missing_names expected_volume_names vnames)]
                  else [])
           in if errors = [] then Inr ()
              else Inl (''Unable to run SDP client on Pod: '' @ join [CHR 0x0A] errors)))"

section \<open>Admission\<close>

definition with_response :: "AdmissionResponse \<Rightarrow> (SDPServiceError, 'a) res \<Rightarrow> (SDPPatchError, 'a) res" where
  "with_response resp r = map_err (WithResponse resp) r"

definition without_response :: "(SDPServiceError, 'a) res \<Rightarrow> (SDPPatchError, 'a) res" where
  "without_response r = map_err WithoutResponse r"

definition namespace_annotations :: "kube_namespace \<Rightarrow> string_map option" where
  "namespace_annotations ns = Some (meta_annotations (ns_meta ns))"

text \<open>An annotation of the deployment, or else of its namespace.\<close>

definition annotation_or_ns :: "deployment \<Rightarrow> kube_namespace option \<Rightarrow> string \<Rightarrow> string option" where
  "annotation_or_ns d ns k =
     (case annotation (deployment_annotations d) k of
        Some v \<Rightarrow> Some v
      | None \<Rightarrow> Option.bind ns (\<lambda>n. annotation (namespace_annotations n) k))"

definition deployment_patches :: "deployment \<Rightarrow> kube_namespace option \<Rightarrow> (string \<times> patch_value) list" where
  "deployment_patches d ns =
     (let anns = deployment_annotations d;
          strategy = unwrap_or (map_option (\<lambda>n. injection_strategy (namespace_annotations n)) ns) EnabledByDefault;
          enabled = bool_to_string (unwrap_or
            (map_option (\<lambda>s. s = ''true'') (annotation_or_ns d ns SDP_INJECTOR_ANNOTATION_ENABLED))
            (strategy = EnabledByDefault));
          disable_init = bool_to_string (unwrap_or
            (map_option (\<lambda>s. eq_ignore_ascii_case s ''true'')
               (annotation_or_ns d ns SDP_INJECTOR_ANNOTATION_DISABLE_INIT_CONTAINERS)) False);
          template = Option.bind (Option.bind (dep_spec d) ds_template_metadata) tm_annotations
      in (if anns = None \<or> anns = Some [] then [(''/metadata/annotations'', VMap [])] else []) @
         [(annotation_path SDP_INJECTOR_ANNOTATION_STRATEGY, VString (SDPInjectionStrategy_to_string strategy)),
          (annotation_path SDP_INJECTOR_ANNOTATION_ENABLED, VString enabled)] @
         (if template = None then [(''/spec/template/metadata/annotations'', VMap [])] else []) @
         [(template_annotation_path SDP_INJECTOR_ANNOTATION_STRATEGY,
             VString (SDPInjectionStrategy_to_string strategy)),
          (template_annotation_path SDP_INJECTOR_ANNOTATION_ENABLED, VString enabled),
          (template_annotation_path SDP_INJECTOR_ANNOTATION_DISABLE_INIT_CONTAINERS, VString disable_init)] @
         (case annotation_or_ns d ns SDP_INJECTOR_ANNOTATION_CLIENT_VERSION of
            Some v \<Rightarrow> [(template_annotation_path SDP_INJECTOR_ANNOTATION_CLIENT_VERSION, VString v)]
          | None \<Rightarrow> []))"

text \<open>
  The operations of a deployment's patch, one after the other: an invalid pointer is an error without
  response, a value that cannot be serialised one with the response.
\<close>

fun deployment_ops ::
  "injector_env \<Rightarrow> AdmissionResponse \<Rightarrow> (string \<times> patch_value) list \<Rightarrow> (SDPPatchError, Patch) res" where
  "deployment_ops e resp [] = Ok []"
| "deployment_ops e resp ((path, v) # pvs) =
     and_then (without_response (json_ptr e path)) (\<lambda>p.
       (case ie_to_value e v of
          Some err \<Rightarrow> Err (WithResponse resp (from_string err))
        | None \<Rightarrow> and_then (deployment_ops e resp pvs) (\<lambda>ops. Ok (\<lparr>op_path = p, op_value = v\<rparr> # ops))))"

definition with_patch ::
  "injector_env \<Rightarrow> AdmissionResponse \<Rightarrow> string \<Rightarrow> Patch \<Rightarrow> (SDPPatchError, SDPPatchResponse) res" where
  "with_patch e resp err_prefix ops =
     (case ie_with_patch e resp ops of
        Inr resp' \<Rightarrow> Ok (Allow resp')
      | Inl err \<Rightarrow> Err (WithResponse resp (from_error err_prefix err)))"

definition patch_deployment ::
  "injector_env \<Rightarrow> deployment AdmissionRequest \<Rightarrow> kube_namespace option \<Rightarrow> (SDPPatchError, SDPPatchResponse) res" where
  "patch_deployment e r ns =
     (let resp = ie_response e (ar_uid r)
      in and_then (with_response resp
           (ok_or (ar_object r) (from_string ''Unable to get Deployment from admission request''))) (\<lambda>d.
         and_then (deployment_ops e resp (deployment_patches d ns))
           (with_patch e resp ''Unable to patch deployment'')))"

record SDPPatchContext =
  pc_sidecars :: SDPSidecars
  pc_dns_service :: "kube_service option"
  pc_server_version :: nat

definition patch_pod ::
  "injector_env \<Rightarrow> pod AdmissionRequest \<Rightarrow> SDPPatchContext \<Rightarrow> (SDPPatchError, SDPPatchResponse) res" where
  "patch_pod e r pc =
     (let sp = \<lparr>sp_sidecars = pc_sidecars pc, sp_dns_service = pc_dns_service pc,
                sp_server_version = pc_server_version pc\<rparr>;
          resp = ie_response e (ar_uid r)
      in and_then (with_response resp (podreq_service_id (ie_uuid e 8) r)) (\<lambda>_.
         and_then (with_response resp (ServiceEnvironment_create e r)) (\<lambda>env.
         and_then (with_response resp (pod_patch e sp env r))
           (with_patch e resp ''Error serializing JSONPatch''))))"

section \<open>Attempts\<close>

type_synonym attempts = "(string \<times> 8 word) list"

text \<open>
  \<^verbatim>\<open>attempt_patch!\<close>: \<open>sid\<close> and \<open>candidate\<close> are what the request answers, \<open>patched\<close> what the patcher
  returns when it is run, \<open>plain\<close> the response made from the request.
\<close>

definition attempt_patch ::
  "(SDPServiceError, string) res \<Rightarrow> bool \<Rightarrow> (SDPPatchError, SDPPatchResponse) res \<Rightarrow> AdmissionResponse \<Rightarrow>
   string \<Rightarrow> (attempts, SDPPatchError, SDPPatchResponse) act" where
  "attempt_patch sid candidate patched plain kind store =
     (case without_response sid of
        Err err \<Rightarrow> (Err err, store)
      | Panic q \<Rightarrow> (Panic q, store)
      | Ok sid \<Rightarrow>
          (let admission_id = kind @ ''_'' @ sid
           in if candidate
              then (case patched of
                      Ok (Allow resp) \<Rightarrow> (Ok (Allow resp), AList.delete admission_id store)
                    | Ok resp \<Rightarrow> (Ok resp, store)
                    | Err (WithResponse resp err) \<Rightarrow>
                        (let attempt = unwrap_or (map_of store admission_id) 0 + 1;
                             store' = AList.update admission_id attempt store
                         in if MAX_PATCH_ATTEMPTS < attempt
                            then (Ok (MaxRetryExceeded resp err), AList.delete admission_id store')
                            else (Ok (RetryWithError resp err attempt), store'))
                    | Err err \<Rightarrow> (Err err, store)
                    | Panic q \<Rightarrow> (Panic q, store))
              else (Ok (Allow plain), store)))"

record SDPInjectorContext =
  ic_sidecars :: SDPSidecars
  ic_server_version :: nat

definition mutate ::
  "injector_env \<Rightarrow> SDPInjectorContext \<Rightarrow> string \<Rightarrow> (attempts, SDPPatchError, SDPPatchResponse) act" where
  "mutate e ic body store =
     (let pc = \<lparr>pc_sidecars = ic_sidecars ic, pc_dns_service = dns_service_discover e,
                pc_server_version = ic_server_version ic\<rparr>
      in case ie_utf8 e body of
           Inl err \<Rightarrow> (Err (WithoutResponse (from_error ''Unable to parse request body'' err)), store)
         | Inr body \<Rightarrow>
             (case ie_parse_resource e body of
                Inl err \<Rightarrow> (Err (WithoutResponse (from_error ''Unable to parse AdmissionReview<DynamicObject>'' err)), store)
              | Inr None \<Rightarrow> (Err (WithoutResponse (from_string ''Unknown resource to patch'')), store)
              | Inr (Some resource) \<Rightarrow>
                  if resource = ''pods''
                  then (case ie_parse_pod e body of
                          Inl err \<Rightarrow> (Err (WithoutResponse (from_error ''Unable to parse AdmissionReview<Pod>'' err)), store)
                        | Inr r \<Rightarrow>
                            attempt_patch (podreq_service_id (ie_uuid e 0) r) (podreq_is_candidate r)
                              (patch_pod e r pc) (ie_response e (ar_uid r)) ''pods'' store)
                  else if resource = ''deployments''
                  then (case ie_parse_deployment e body of
                          Inl err \<Rightarrow> (Err (WithoutResponse (from_error ''Unable to parse AdmissionReview<Deployment>'' err)), store)
                        | Inr r \<Rightarrow>
                            (case depreq_namespace r of
                               None \<Rightarrow> (Err (WithoutResponse (from_string ''Unable to get namespace from Deployment admission request'')), store)
                             | Some ns \<Rightarrow>
                                 (case ie_namespace e ns of
                                    Inl err \<Rightarrow> (Err (WithoutResponse (from_error
                                      ''Unable to get Namespace object from Deployment admission request'' err)), store)
                                  | Inr nso \<Rightarrow>
                                      attempt_patch (depreq_service_id (ie_uuid e 0) r) (depreq_is_candidate r)
                                        (patch_deployment e r nso) (ie_response e (ar_uid r)) ''deployments'' store)))
                  else (Err (WithoutResponse (from_string (''Unknown resource to patch: '' @ resource))), store)))"

section \<open>The HTTP handler\<close>

definition validate :: "injector_env \<Rightarrow> string \<Rightarrow> SDPSidecars \<Rightarrow> string + string" where
  "validate e body ss =
     (case ie_utf8 e body of
        Inl err \<Rightarrow> Inl err
      | Inr body \<Rightarrow>
          (case ie_parse_pod_review e body of
             Inl err \<Rightarrow> Inl err
           | Inr None \<Rightarrow> Inl ''Not found request in admission review''
           | Inr (Some r) \<Rightarrow>
               (case ar_object r of
                  None \<Rightarrow> Inl ''Admission review does not contain a POD''
                | Some _ \<Rightarrow>
                    (let resp = ie_response e (ar_uid r)
                     in case pod_validate \<lparr>sp_sidecars = ss, sp_dns_service = None, sp_server_version = 0\<rparr> r of
                          Inr _ \<Rightarrow> ie_print_response e resp
                        | Inl err \<Rightarrow> ie_print_response e
                            (resp\<lparr>resp_allowed := False, resp_code := 40, resp_message := err\<rparr>)))))"

datatype Method = GET | POST | OtherMethod string

record HttpRequest =
  rq_method :: Method
  rq_path :: string
  rq_body :: "string + string"

record HttpResponse =
  rs_status :: nat
  rs_body :: string

definition admission_response :: "injector_env \<Rightarrow> nat \<Rightarrow> AdmissionResponse \<Rightarrow> HttpResponse" where
  "admission_response e status resp =
     (case ie_print_review e resp of
        Inl err \<Rightarrow> \<lparr>rs_status = 422, rs_body = err\<rparr>
      | Inr body \<Rightarrow> \<lparr>rs_status = status, rs_body = body\<rparr>)"

definition allow_admission_response :: "injector_env \<Rightarrow> AdmissionResponse \<Rightarrow> HttpResponse" where
  "allow_admission_response e resp =
     admission_response e 200 (resp\<lparr>resp_allowed := True, resp_code := 200, resp_message := []\<rparr>)"

definition fail_admission_response :: "injector_env \<Rightarrow> AdmissionResponse \<Rightarrow> HttpResponse" where
  "fail_admission_response e resp = admission_response e 422 resp"

definition get_dns_service :: "injector_env \<Rightarrow> string + string option" where
  "get_dns_service e =
     (case dns_service_discover e of
        Some s \<Rightarrow> (case ie_print_service e s of Inl err \<Rightarrow> Inl err | Inr body \<Rightarrow> Inr (Some body))
      | None \<Rightarrow> Inr None)"

definition injector_handler ::
  "injector_env \<Rightarrow> SDPInjectorContext \<Rightarrow> HttpRequest \<Rightarrow> (attempts, string, HttpResponse) act" where
  "injector_handler e ic rq store =
     (if rq_method rq = POST \<and> rq_path rq = ''/mutate''
      then (case rq_body rq of
              Inl err \<Rightarrow> (Err err, store)
            | Inr body \<Rightarrow>
                (case mutate e ic body store of
                   (Ok (Allow resp), st) \<Rightarrow> (Ok (allow_admission_response e resp), st)
                 | (Ok (MaxRetryExceeded resp _), st) \<Rightarrow> (Ok (allow_admission_response e resp), st)
                 | (Ok (RetryWithError resp _ _), st) \<Rightarrow> (Ok (fail_admission_response e resp), st)
                 | (Err (WithResponse resp _), st) \<Rightarrow> (Ok (fail_admission_response e resp), st)
                 | (Err (WithoutResponse err), st) \<Rightarrow>
                     (Ok (fail_admission_response e (ie_invalid e (SDPServiceError_fmt err))), st)
                 | (Panic q, st) \<Rightarrow> (Panic q, st)))
      else if rq_method rq = POST \<and> rq_path rq = ''/validate''
      then (case rq_body rq of
              Inl err \<Rightarrow> (Err err, store)
            | Inr body \<Rightarrow>
                (case validate e body (ic_sidecars ic) of
                   Inr b \<Rightarrow> (Ok \<lparr>rs_status = 200, rs_body = b\<rparr>, store)
                 | Inl err \<Rightarrow> (Ok \<lparr>rs_status = 422, rs_body = err\<rparr>, store)))
      else if rq_method rq = GET \<and> rq_path rq = ''/dns-service''
      then (case get_dns_service e of
              Inr (Some body) \<Rightarrow> (Ok \<lparr>rs_status = 200, rs_body = body\<rparr>, store)
            | Inr None \<Rightarrow> (Ok \<lparr>rs_status = 404, rs_body = []\<rparr>, store)
            | Inl err \<Rightarrow> (Ok \<lparr>rs_status = 422, rs_body = err\<rparr>, store))
      else (Ok \<lparr>rs_status = 404, rs_body = []\<rparr>, store))"

end
