(* ===== verification/Admission.thy ===== *)
theory Admission
  imports Injector
begin

text \<open>
  The injector and its device id provider together. A request to \<^verbatim>\<open>/mutate\<close> holds the lock of the attempts from
  before its resource is looked at until it is answered, so the pods are patched one after the other, and each
  asks the provider at most once, over a channel of its own for the answer. What the watcher of the identities
  sends is handled by the provider before such a request or after it, which is a place between two admissions,
  since nothing else of an admission reads the store.
\<close>

text \<open>
  What becomes of a request to the provider: it cannot be sent; it is sent, but not answered within 5 seconds, in
  which case the provider answers into a closed channel; or the answer arrives.
\<close>

datatype delivery = Unsent string | Late string | Delivered

text \<open>The pod that \<^verbatim>\<open>mutate\<close> finds in the body and patches: a candidate with a service.\<close>

definition pod_to_patch :: "injector_env \<Rightarrow> string \<Rightarrow> pod AdmissionRequest option" where
  "pod_to_patch e body =
     (case ie_utf8 e body of
        Inr b \<Rightarrow>
          (case (ie_parse_resource e b, ie_parse_pod e b) of
             (Inr (Some resource), Inr r) \<Rightarrow>
               (case podreq_service_id (ie_uuid e 0) r of
                  Ok _ \<Rightarrow> if resource = ''pods'' \<and> podreq_is_candidate r then Some r else None
                | _ \<Rightarrow> None)
           | _ \<Rightarrow> None)
      | Inl _ \<Rightarrow> None)"

text \<open>
  The service whose device id the patch of a pod asks for: none when the pod names a secret of its own, or when
  its service is not known.
\<close>

definition device_request :: "injector_env \<Rightarrow> pod AdmissionRequest \<Rightarrow> string option" where
  "device_request e r =
     (case (podreq_service_id (ie_uuid e 8) r, from_pod e r, podreq_service_id (ie_uuid e 5) r,
            podreq_service_name (ie_uuid e 6) r) of
        (Ok _, Ok None, Ok sid, Ok _) \<Rightarrow> Some sid
      | _ \<Rightarrow> None)"

definition asks :: "injector_env \<Rightarrow> string \<Rightarrow> string option" where
  "asks e body = Option.bind (pod_to_patch e body) (device_request e)"

definition provider_answer ::
  "(string \<Rightarrow> uuid option) \<Rightarrow> InMemoryIdentityStore \<Rightarrow> uuid \<Rightarrow> delivery \<Rightarrow> string \<Rightarrow> device_answer" where
  "provider_answer parse st fresh dl sid =
     (case dl of
        Unsent err \<Rightarrow> SendFailed err
      | Late err \<Rightarrow> TimedOut err
      | Delivered \<Rightarrow> Answered (fst (provider_step parse (ProviderMsg (RequestDeviceId sid) fresh) st)))"

text \<open>
  The state of the injector, and what happens to it: a body posted to \<^verbatim>\<open>/mutate\<close>, with the UUID the provider draws
  if it needs one, or a message of the watcher.
\<close>

record injector_state =
  inj_store :: InMemoryIdentityStore
  inj_attempts :: attempts

datatype injector_event =
    Admission injector_env string uuid delivery
  | Watched DeviceIdProviderRequestProtocol "string list option"

definition asked_env :: "(string \<Rightarrow> uuid option) \<Rightarrow> injector_env \<Rightarrow> uuid \<Rightarrow> delivery \<Rightarrow> injector_state \<Rightarrow> injector_env" where
  "asked_env parse e fresh dl s = e\<lparr>ie_device := provider_answer parse (inj_store s) fresh dl\<rparr>"

text \<open>What an event is for the provider.\<close>

fun provider_part :: "injector_event \<Rightarrow> provider_event list" where
  "provider_part (Watched m used) = [WatcherMsg m used]"
| "provider_part (Admission e body fresh dl) =
     (case (asks e body, dl) of
        (Some sid, Late _) \<Rightarrow> [ProviderMsg (RequestDeviceId sid) fresh]
      | (Some sid, Delivered) \<Rightarrow> [ProviderMsg (RequestDeviceId sid) fresh]
      | _ \<Rightarrow> [])"

fun injector_step ::
  "(string \<Rightarrow> uuid option) \<Rightarrow> SDPInjectorContext \<Rightarrow> injector_event \<Rightarrow>
   (injector_state, SDPPatchError, SDPPatchResponse option) act" where
  "injector_step parse ic (Watched m used) s =
     (Ok None, s\<lparr>inj_store := snd (provider_step parse (WatcherMsg m used) (inj_store s))\<rparr>)"
| "injector_step parse ic (Admission e body fresh dl) s =
     (case mutate (asked_env parse e fresh dl s) ic body (inj_attempts s) of
        (r, attempts) \<Rightarrow>
          (and_then r (\<lambda>x. Ok (Some x)),
           \<lparr>inj_store = snd (provider_run parse (provider_part (Admission e body fresh dl)) (inj_store s)),
            inj_attempts = attempts\<rparr>))"

fun injector_run ::
  "(string \<Rightarrow> uuid option) \<Rightarrow> SDPInjectorContext \<Rightarrow> injector_event list \<Rightarrow> injector_state \<Rightarrow> injector_state" where
  "injector_run parse ic [] s = s"
| "injector_run parse ic (ev # evs) s = injector_run parse ic evs (snd (injector_step parse ic ev s))"

definition injector_start :: injector_state where
  "injector_start = \<lparr>inj_store = InMemoryIdentityStore_new, inj_attempts = []\<rparr>"

end
