(* ===== verification/Injector_Laws.thy ===== *)
theory Injector_Laws
  imports Injector
begin

text \<open>
  What the injector guarantees: which operations a pod's patch has, that a patched pod passes the
  validation and is not patched again, the bound on failed attempts, image tags, DNS search
  lists, the annotations of deployments, and the answers of the HTTP handler.
\<close>

section \<open>Operations\<close>

definition op_of :: "string \<times> patch_value \<Rightarrow> AddOperation" where
  "op_of pv = \<lparr>op_path = fst pv, op_value = snd pv\<rparr>"

lemma add_op_Ok: "add_op e pv = Ok x \<Longrightarrow> x = op_of pv"
  by (cases pv) (auto simp: add_op_def and_then_Ok_iff json_ptr_def op_of_def split: option.splits)

lemma add_ops_Ok: "add_ops e pvs = Ok ops \<Longrightarrow> ops = map op_of pvs"
  by (induction pvs arbitrary: ops) (auto simp: and_then_Ok_iff dest: add_op_Ok)

lemma add_op_no_panic: "add_op e pv \<noteq> Panic q"
  by (cases "json_ptr e (fst pv)") (auto simp: add_op_def json_ptr_def split: option.splits)

lemma add_ops_no_panic: "add_ops e pvs \<noteq> Panic q"
proof (induction pvs)
  case (Cons pv pvs)
  then show ?case using add_op_no_panic [of e pv] by (cases "add_op e pv"; cases "add_ops e pvs") auto
qed simp

text \<open>The operations of the patch of a pod that needs one.\<close>

definition container_patches :: "ServiceEnvironment \<Rightarrow> string \<Rightarrow> SDPSidecars \<Rightarrow> (string \<times> patch_value) list" where
  "container_patches se version ss =
     map (\<lambda>c. (''/spec/containers/-'', VContainer (sidecar_for se version c))) (ss_containers ss)"

lemma pod_patch_Ok:
  assumes "pod_patch e sp se r = Ok ops" and "needs_patching sp r" and "ar_object r = Some p"
  obtains se' version ip dc where
    "se' = se\<lparr>n_containers := show_nat (length (unwrap_or (containers p) [])),
       k8s_dns_service_ip := maybe_ip (sp_dns_service sp)\<rparr>"
    "ops = map op_of (annotation_patches se' p @ container_patches se' version (sp_sidecars sp) @
       init_container_patches (sp_sidecars sp) ip dc p @ volume_patches (sp_sidecars sp) p @
       [(''/spec/dnsConfig'', VDNSConfig dc), (''/spec/dnsPolicy'', VString ''None'')] @
       sysctl_patches (sp_server_version sp) p)"
proof -
  obtain ns where ns: "podreq_namespace r = Some ns"
    using assms by (cases "podreq_namespace r") (auto simp: pod_patch_def)
  let ?se = "se\<lparr>n_containers := show_nat (length (unwrap_or (containers p) [])),
      k8s_dns_service_ip := maybe_ip (sp_dns_service sp)\<rparr>"
  obtain ip where ip: "maybe_ip (sp_dns_service sp) = Some ip"
    using assms ns by (cases "maybe_ip (sp_dns_service sp)") (auto simp: pod_patch_def Let_def)
  let ?dc = "dns_config (sp_sidecars sp) ns
      (map_option searches_string_to_vec (annotation (pod_annotations p) SDP_ANNOTATION_DNS_SEARCHES))"
  obtain dv where dv: "ie_client_version e = Some dv"
    using assms ns ip by (cases "ie_client_version e") (auto simp: pod_patch_def Let_def and_then_Ok_iff)
  let ?v = "unwrap_or (annotation (pod_annotations p) SDP_INJECTOR_ANNOTATION_CLIENT_VERSION) dv"
  have "ops = map op_of (annotation_patches ?se p @ container_patches ?se ?v (sp_sidecars sp) @
       init_container_patches (sp_sidecars sp) ip ?dc p @ volume_patches (sp_sidecars sp) p @
       [(''/spec/dnsConfig'', VDNSConfig ?dc), (''/spec/dnsPolicy'', VString ''None'')] @
       sysctl_patches (sp_server_version sp) p)"
    using assms ns ip dv
    by (auto simp: pod_patch_def Let_def and_then_Ok_iff container_patches_def dest!: add_ops_Ok)
  then show thesis by (intro that [of ?se]) simp_all
qed

section \<open>Applying a patch\<close>

text \<open>
  The API server applies the patch. What is relied on is what RFC 6902 says of \<^verbatim>\<open>add\<close>: a path that
  ends in \<^verbatim>\<open>/-\<close> appends to the array, a path to a member sets it, and other members stay as they are.
\<close>

text \<open>The members outside of the containers and the volumes that the patches set.\<close>

definition neutral :: "string \<times> patch_value \<Rightarrow> bool" where
  "neutral pv \<longleftrightarrow> prefix ''/metadata/'' (fst pv) \<or>
     fst pv \<in> {''/spec/initContainers'', ''/spec/dnsConfig'', ''/spec/dnsPolicy'', ''/spec/securityContext''}"

definition rfc6902_add :: "(AddOperation \<Rightarrow> pod \<Rightarrow> pod) \<Rightarrow> bool" where
  "rfc6902_add app \<longleftrightarrow>
     (\<forall>p cs c. containers p = Some cs \<longrightarrow>
        containers (app (op_of (''/spec/containers/-'', VContainer c)) p) = Some (cs @ [c]) \<and>
        volumes (app (op_of (''/spec/containers/-'', VContainer c)) p) = volumes p) \<and>
     (\<forall>p vs v. volumes p = Some vs \<longrightarrow>
        volumes (app (op_of (''/spec/volumes/-'', VVolume v)) p) = Some (vs @ [v]) \<and>
        containers (app (op_of (''/spec/volumes/-'', VVolume v)) p) = containers p) \<and>
     (\<forall>p vs. containers p \<noteq> None \<longrightarrow>
        volumes (app (op_of (''/spec/volumes'', VVolumes vs)) p) = Some vs \<and>
        containers (app (op_of (''/spec/volumes'', VVolumes vs)) p) = containers p) \<and>
     (\<forall>p pv. neutral pv \<longrightarrow>
        containers (app (op_of pv) p) = containers p \<and> volumes (app (op_of pv) p) = volumes p)"

lemma fold_neutral:
  assumes "rfc6902_add app" and "\<forall>pv \<in> set pvs. neutral pv"
  shows "containers (fold app (map op_of pvs) p) = containers p \<and> volumes (fold app (map op_of pvs) p) = volumes p"
  using assms(2)
proof (induction pvs arbitrary: p)
  case (Cons pv pvs)
  have "containers (app (op_of pv) p) = containers p \<and> volumes (app (op_of pv) p) = volumes p"
    using assms(1) Cons.prems by (cases pv) (simp add: rfc6902_add_def)
  with Cons show ?case by simp
qed simp

lemma fold_containers:
  assumes "rfc6902_add app" and "containers p = Some cs"
  shows "containers (fold app (map op_of (map (\<lambda>c. (''/spec/containers/-'', VContainer (f c))) xs)) p) =
      Some (cs @ map f xs) \<and>
    volumes (fold app (map op_of (map (\<lambda>c. (''/spec/containers/-'', VContainer (f c))) xs)) p) = volumes p"
  using assms(2)
proof (induction xs arbitrary: p cs)
  case (Cons x xs)
  let ?p = "app (op_of (''/spec/containers/-'', VContainer (f x))) p"
  have "containers ?p = Some (cs @ [f x])" and "volumes ?p = volumes p"
    using assms(1) Cons.prems by (auto simp: rfc6902_add_def)
  with Cons.IH [of ?p "cs @ [f x]"] show ?case by simp
qed simp

lemma fold_volumes:
  assumes "rfc6902_add app" and "volumes p = Some vs"
  shows "volumes (fold app (map op_of (map (\<lambda>v. (''/spec/volumes/-'', VVolume v)) xs)) p) = Some (vs @ xs) \<and>
    containers (fold app (map op_of (map (\<lambda>v. (''/spec/volumes/-'', VVolume v)) xs)) p) = containers p"
  using assms(2)
proof (induction xs arbitrary: p vs)
  case (Cons x xs)
  let ?p = "app (op_of (''/spec/volumes/-'', VVolume x)) p"
  have "volumes ?p = Some (vs @ [x])" and "containers ?p = containers p"
    using assms(1) Cons.prems by (auto simp: rfc6902_add_def)
  with Cons.IH [of ?p "vs @ [x]"] show ?case by simp
qed simp

lemma fold_volume_patches:
  assumes "rfc6902_add app" and "containers q \<noteq> None" and "volumes q = volumes p"
  shows "volumes (fold app (map op_of (volume_patches ss p)) q) = Some (unwrap_or (volumes p) [] @ ss_volumes ss) \<and>
    containers (fold app (map op_of (volume_patches ss p)) q) = containers q"
proof (cases "volumes p")
  case None
  then show ?thesis using assms by (auto simp: volume_patches_def rfc6902_add_def)
next
  case (Some vs)
  then show ?thesis
    using fold_volumes [OF assms(1), of q vs "ss_volumes ss"] assms(3) by (simp add: volume_patches_def)
qed

lemma neutral_annotation_patches: "pv \<in> set (annotation_patches se p) \<Longrightarrow> neutral pv"
  by (auto simp: annotation_patches_def annotation_path_def neutral_def Let_def split: if_splits)

lemma neutral_others:
  "pv \<in> set (init_container_patches ss ip dc p) \<Longrightarrow> neutral pv"
  "pv \<in> set (sysctl_patches n p) \<Longrightarrow> neutral pv"
  by (auto simp: init_container_patches_def sysctl_patches_def neutral_def Let_def split: option.splits if_splits)

text \<open>The patched pod has its own containers and volumes, followed by those of the sidecars.\<close>

lemma patched_pod:
  assumes "rfc6902_add app" and "pod_patch e sp se r = Ok ops" and "needs_patching sp r"
    and "ar_object r = Some p" and "containers p = Some cs"
  shows "\<exists>se' version. containers (fold app ops p) = Some (cs @ map (sidecar_for se' version) (ss_containers (sp_sidecars sp))) \<and>
    volumes (fold app ops p) = Some (unwrap_or (volumes p) [] @ ss_volumes (sp_sidecars sp))"
proof -
  obtain se' version ip dc where ops: "ops = map op_of (annotation_patches se' p @
      container_patches se' version (sp_sidecars sp) @
      init_container_patches (sp_sidecars sp) ip dc p @ volume_patches (sp_sidecars sp) p @
      [(''/spec/dnsConfig'', VDNSConfig dc), (''/spec/dnsPolicy'', VString ''None'')] @
      sysctl_patches (sp_server_version sp) p)"
    by (rule pod_patch_Ok [OF assms(2-4)]) (rule that, assumption)
  let ?p1 = "fold app (map op_of (annotation_patches se' p)) p"
  let ?p2 = "fold app (map op_of (container_patches se' version (sp_sidecars sp))) ?p1"
  let ?p3 = "fold app (map op_of (init_container_patches (sp_sidecars sp) ip dc p)) ?p2"
  let ?p4 = "fold app (map op_of (volume_patches (sp_sidecars sp) p)) ?p3"
  let ?fin = "[(''/spec/dnsConfig'', VDNSConfig dc), (''/spec/dnsPolicy'', VString ''None'')] @
      sysctl_patches (sp_server_version sp) p"
  have p1: "containers ?p1 = Some cs \<and> volumes ?p1 = volumes p"
    using fold_neutral [OF assms(1), of "annotation_patches se' p" p] neutral_annotation_patches
      assms(5) by metis
  then have p2: "containers ?p2 = Some (cs @ map (sidecar_for se' version) (ss_containers (sp_sidecars sp))) \<and>
      volumes ?p2 = volumes p"
    using fold_containers [OF assms(1), of ?p1 cs] by (simp add: container_patches_def)
  then have p3: "containers ?p3 = containers ?p2 \<and> volumes ?p3 = volumes p"
    using fold_neutral [OF assms(1)] neutral_others(1) by metis
  then have p4: "containers ?p4 = containers ?p2 \<and>
      volumes ?p4 = Some (unwrap_or (volumes p) [] @ ss_volumes (sp_sidecars sp))"
    using fold_volume_patches [OF assms(1), of ?p3 p "sp_sidecars sp"] p2 by simp
  have "\<forall>pv \<in> set ?fin. neutral pv" using neutral_others(2) by (auto simp: neutral_def)
  from fold_neutral [OF assms(1) this, of ?p4] p4 p2 show ?thesis
    by (auto simp: ops)
qed

section \<open>Validation\<close>

lemma sidecar_for_name [simp]: "c_name (sidecar_for se v c) = c_name c"
  by (simp add: sidecar_for_def)

lemma pod_validate_iff:
  assumes "ar_object r = Some p"
  shows "pod_validate sp r = Inr () \<longleftrightarrow>
     (\<forall>c \<in> set (ss_containers (sp_sidecars sp)). c_name c \<in> c_name ` set (unwrap_or (containers p) [])) \<and>
     (\<forall>v \<in> set (ss_volumes (sp_sidecars sp)). v_name v \<in> v_name ` set (unwrap_or (volumes p) []))"
proof -
  have "set (unwrap_or (sidecar_names sp r) []) =
      {n \<in> c_name ` set (unwrap_or (containers p) []). n \<in> set (container_names (sp_sidecars sp))}"
    using assms by (cases "containers p") (auto simp: sidecar_names_def sidecars_def)
  then have "set (map c_name (ss_containers (sp_sidecars sp))) \<subseteq> set (unwrap_or (sidecar_names sp r) []) \<longleftrightarrow>
      (\<forall>c \<in> set (ss_containers (sp_sidecars sp)). c_name c \<in> c_name ` set (unwrap_or (containers p) []))"
    by (auto simp: container_names_def)
  moreover have "set (map v_name (ss_volumes (sp_sidecars sp))) \<subseteq> set (unwrap_or (volume_names p) []) \<longleftrightarrow>
      (\<forall>v \<in> set (ss_volumes (sp_sidecars sp)). v_name v \<in> v_name ` set (unwrap_or (volumes p) []))"
    by (cases "volumes p") (auto simp: volume_names_def)
  ultimately show ?thesis
    using assms by (auto simp: pod_validate_def Let_def simp del: set_map)
qed

lemma needs_patching_iff:
  assumes "ar_object r = Some p"
  shows "needs_patching sp r \<longleftrightarrow> unwrap_or (containers p) [] \<noteq> [] \<and>
     (\<forall>c \<in> set (unwrap_or (containers p) []). c_name c \<notin> set (container_names (sp_sidecars sp)))"
  using assms
  by (cases "containers p")
    (auto simp: needs_patching_def has_any_sidecars_def sidecars_def filter_empty_conv)

text \<open>What is missing is listed in order and without repetition.\<close>

lemma missing_names_sorted:
  "sorted (missing_names ex xs) \<and> distinct (missing_names ex xs) \<and> set (missing_names ex xs) = set ex - set xs"
  by (auto simp: missing_names_def Let_def)

section \<open>Attempts\<close>

definition attempts_bounded :: "attempts \<Rightarrow> bool" where
  "attempts_bounded store \<longleftrightarrow> (\<forall>k n. map_of store k = Some n \<longrightarrow> 0 < n \<and> n \<le> MAX_PATCH_ATTEMPTS)"

lemma word_succ_bound: "n \<le> (15 :: 8 word) \<Longrightarrow> \<not> 15 < n + 1 \<Longrightarrow> 0 < n + 1 \<and> n + 1 \<le> 15"
proof -
  assume n: "n \<le> (15 :: 8 word)" "\<not> 15 < n + 1"
  then have "unat n \<le> 15" by (simp add: word_le_nat_alt)
  then have "unat (n + 1) = unat n + 1" by (simp add: unat_word_ariths)
  then have "0 < n + 1" by (simp add: word_less_nat_alt)
  with n show ?thesis by simp
qed

lemma attempt_patch_bounded [inv_intros]:
  assumes "attempts_bounded store"
  shows "attempts_bounded (snd (attempt_patch sid cand patched plain kind store))"
proof -
  have "unwrap_or (map_of store k) 0 \<le> MAX_PATCH_ATTEMPTS" for k
    using assms by (cases "map_of store k") (auto simp: attempts_bounded_def)
  then show ?thesis
    using assms word_succ_bound
    by (auto simp: attempt_patch_def attempts_bounded_def Let_def MAX_PATCH_ATTEMPTS_def without_response_def
        split: res.splits SDPPatchResponse.splits SDPPatchError.splits)
qed

lemma mutate_bounded [inv_intros]:
  "attempts_bounded store \<Longrightarrow> attempts_bounded (snd (mutate e ic body store))"
  by (auto simp: mutate_def Let_def attempt_patch_bounded split: sum.splits option.splits)

lemma handler_store:
  "snd (injector_handler e ic rq store) = store \<or> (\<exists>body. snd (injector_handler e ic rq store) = snd (mutate e ic body store))"
  by (auto simp: injector_handler_def split: sum.splits prod.splits res.splits SDPPatchResponse.splits
      SDPPatchError.splits option.splits) (metis snd_conv)+

text \<open>Requests handled one after the other, each with the answers of the outside world to it.\<close>

fun serve :: "SDPInjectorContext \<Rightarrow> (injector_env \<times> HttpRequest) list \<Rightarrow> attempts \<Rightarrow> attempts" where
  "serve ic [] store = store"
| "serve ic ((e, rq) # rqs) store = serve ic rqs (snd (injector_handler e ic rq store))"

lemma serve_bounded: "attempts_bounded store \<Longrightarrow> attempts_bounded (serve ic rqs store)"
proof (induction rqs arbitrary: store)
  case (Cons x rqs)
  obtain e rq where x: "x = (e, rq)" by (cases x)
  have "attempts_bounded (snd (injector_handler e ic rq store))"
    using handler_store [of e ic rq store] mutate_bounded Cons.prems by metis
  with Cons.IH x show ?case by simp
qed simp

section \<open>The handler\<close>

lemma podreq_service_id_no_panic: "podreq_service_id u r \<noteq> Panic q"
  by (rule podreq_ms.ms_id_never_panics)

lemma podreq_service_name_no_panic: "podreq_service_name u r \<noteq> Panic q"
  by (auto simp: podreq_service_name_def maybe_service_name_def ok_or_def split: option.splits)

lemma ok_or_no_panic: "ok_or x err \<noteq> Panic q"
  by (cases x) auto

lemma create_no_panic: "ServiceEnvironment_create e r \<noteq> Panic q"
proof -
  have "request_device_id e sid \<noteq> Panic q" for sid q
    by (auto simp: request_device_id_def split: device_answer.splits option.splits
        DeviceIdProviderResponseProtocol.splits)
  then have store: "from_identity_store e r \<noteq> Panic q" for q
    unfolding from_identity_store_def
    by (intro and_then_no_panic podreq_service_id_no_panic podreq_service_name_no_panic)
      (auto simp: Let_def split: prod.splits)
  have "from_pod e r \<noteq> Panic q" for q
    unfolding from_pod_def
    by (intro and_then_no_panic podreq_service_id_no_panic podreq_service_name_no_panic ok_or_no_panic)
      (simp add: Let_def)
  then show ?thesis
    unfolding ServiceEnvironment_create_def using store
    by (intro and_then_no_panic) (auto split: option.splits)
qed

lemma pod_patch_no_panic: "ie_client_version e \<noteq> None \<Longrightarrow> pod_patch e sp se r \<noteq> Panic q"
  by (auto simp: pod_patch_def Let_def and_then_Panic_iff ok_or_no_panic add_ops_no_panic split: if_splits)

lemma with_response_no_panic: "(\<And>q. r \<noteq> Panic q) \<Longrightarrow> with_response resp r \<noteq> Panic q"
  by (cases r) (auto simp: with_response_def)

lemma with_patch_cases: "with_patch e resp pre ops \<noteq> Panic q"
  by (auto simp: with_patch_def split: sum.splits)

lemma patch_pod_no_panic: "ie_client_version e \<noteq> None \<Longrightarrow> patch_pod e r pc \<noteq> Panic q"
  unfolding patch_pod_def Let_def
  by (intro and_then_no_panic with_response_no_panic podreq_service_id_no_panic create_no_panic
      pod_patch_no_panic with_patch_cases)

lemma deployment_ops_no_panic: "deployment_ops e resp pvs \<noteq> Panic q"
proof (induction pvs)
  case (Cons pv pvs)
  then show ?case
    by (cases pv)
      (auto simp: and_then_Panic_iff without_response_def json_ptr_def split: option.splits)
qed simp

lemma patch_deployment_no_panic: "patch_deployment e r ns \<noteq> Panic q"
  unfolding patch_deployment_def Let_def
  by (intro and_then_no_panic with_response_no_panic ok_or_no_panic deployment_ops_no_panic with_patch_cases)

lemma attempt_patch_no_panic:
  "(\<And>q. sid \<noteq> Panic q) \<Longrightarrow> (\<And>q. patched \<noteq> Panic q) \<Longrightarrow>
     fst (attempt_patch sid cand patched plain kind store) \<noteq> Panic q"
  by (cases sid; cases patched)
    (auto simp: attempt_patch_def without_response_def Let_def split: SDPPatchResponse.splits SDPPatchError.splits)

lemma depreq_service_id_no_panic: "depreq_service_id u r \<noteq> Panic q"
  by (auto simp: depreq_service_id_def maybe_service_id_def ok_or_def split: option.splits)

lemma mutate_no_panic: "ie_client_version e \<noteq> None \<Longrightarrow> \<forall>q. fst (mutate e ic body store) \<noteq> Panic q"
  using attempt_patch_no_panic [OF podreq_service_id_no_panic patch_pod_no_panic]
    attempt_patch_no_panic [OF depreq_service_id_no_panic patch_deployment_no_panic]
  by (auto simp: mutate_def Let_def split: sum.splits option.splits)

text \<open>What \<^verbatim>\<open>mutate\<close> allows for a pod that is a candidate.\<close>

lemma allowed_patch:
  assumes "ie_utf8 e body = Inr b" and "ie_parse_resource e b = Inr (Some ''pods'')"
    and "ie_parse_pod e b = Inr r" and "podreq_is_candidate r"
    and "fst (mutate e ic body store) = Ok (Allow resp)"
  shows "\<exists>se ops. ServiceEnvironment_create e r = Ok se \<and>
     pod_patch e \<lparr>sp_sidecars = ic_sidecars ic, sp_dns_service = dns_service_discover e,
       sp_server_version = ic_server_version ic\<rparr> se r = Ok ops \<and>
     ie_with_patch e (ie_response e (ar_uid r)) ops = Inr resp"
proof -
  let ?pc = "\<lparr>pc_sidecars = ic_sidecars ic, pc_dns_service = dns_service_discover e,
      pc_server_version = ic_server_version ic\<rparr>"
  have "fst (attempt_patch (podreq_service_id (ie_uuid e 0) r) True (patch_pod e r ?pc)
      (ie_response e (ar_uid r)) ''pods'' store) = Ok (Allow resp)"
    using assms by (simp add: mutate_def Let_def)
  then have "patch_pod e r ?pc = Ok (Allow resp)"
    by (auto simp: attempt_patch_def Let_def split: res.splits SDPPatchResponse.splits SDPPatchError.splits if_splits)
  then show ?thesis
    by (auto simp: patch_pod_def Let_def and_then_Ok_iff with_response_def map_err_def with_patch_def
        split: res.splits sum.splits)
qed

section \<open>Retries\<close>

text \<open>A failed attempt, and the store after \<open>n\<close> of them.\<close>

definition failed_attempt ::
  "string \<Rightarrow> string \<Rightarrow> AdmissionResponse \<Rightarrow> SDPServiceError \<Rightarrow> AdmissionResponse \<Rightarrow>
   (attempts, SDPPatchError, SDPPatchResponse) act" where
  "failed_attempt kind sid resp err plain =
     attempt_patch (Ok sid) True (Err (WithResponse resp err)) plain kind"

fun after_failures ::
  "nat \<Rightarrow> string \<Rightarrow> string \<Rightarrow> AdmissionResponse \<Rightarrow> SDPServiceError \<Rightarrow> AdmissionResponse \<Rightarrow> attempts \<Rightarrow> attempts" where
  "after_failures 0 kind sid resp err plain store = store"
| "after_failures (Suc n) kind sid resp err plain store =
     snd (failed_attempt kind sid resp err plain (after_failures n kind sid resp err plain store))"

lemma max_attempts_less:
  assumes "n \<le> 15"
  shows "MAX_PATCH_ATTEMPTS < (of_nat n + 1 :: 8 word) \<longleftrightarrow> n = 15"
proof -
  have "unat (of_nat (Suc n) :: 8 word) = Suc n"
    unfolding unsigned_of_nat using assms by (simp add: take_bit_nat_eq_self)
  moreover have "of_nat n + 1 = (of_nat (Suc n) :: 8 word)" by simp
  moreover have "unat (15 :: 8 word) = 15" by code_simp
  ultimately show ?thesis
    unfolding MAX_PATCH_ATTEMPTS_def word_less_nat_alt using assms by presburger
qed

lemma failures_counted:
  assumes "map_of store (kind @ ''_'' @ sid) = None" and "n \<le> 15"
  shows "map_of (after_failures n kind sid resp err plain store) (kind @ ''_'' @ sid) =
     (if n = 0 then None else Some (of_nat n))"
  using assms(2)
proof (induction n)
  case 0
  then show ?case using assms(1) by simp
next
  case (Suc n)
  then show ?case
    using max_attempts_less [of n]
    by (auto simp: failed_attempt_def attempt_patch_def without_response_def Let_def add.commute)
qed

lemma failed_attempt_result:
  assumes "map_of store (kind @ ''_'' @ sid) = (if n = 0 then None else Some (of_nat n))" and "n \<le> 15"
  shows "fst (failed_attempt kind sid resp err plain store) =
      (if n = 15 then Ok (MaxRetryExceeded resp err) else Ok (RetryWithError resp err (of_nat (n + 1))))"
    and "n = 15 \<Longrightarrow> map_of (snd (failed_attempt kind sid resp err plain store)) (kind @ ''_'' @ sid) = None"
  using assms max_attempts_less [of n]
  by (auto simp: failed_attempt_def attempt_patch_def without_response_def Let_def add.commute)

section \<open>Examples\<close>

definition sample_meta :: object_meta where
  "sample_meta = \<lparr>meta_name = Some ''web-1'', generate_name = Some ''web-abc-'', name_any = ''web-1'',
     meta_namespace = Some ''shop'', meta_annotations = [], meta_labels = []\<rparr>"

definition sample_container :: "string \<Rightarrow> string \<Rightarrow> container" where
  "sample_container n img = \<lparr>c_name = n, c_image = Some img, c_env = None, c_rest = []\<rparr>"

definition sample_pod :: pod where
  "sample_pod = \<lparr>pod_meta = sample_meta, pod_spec_of = Some \<lparr>ps_containers = [sample_container ''web'' ''nginx:1''],
     ps_init_containers = None, ps_volumes = None, ps_security_context = None\<rparr>, pod_status_of = None\<rparr>"

definition sample_request :: "pod AdmissionRequest" where
  "sample_request = \<lparr>ar_uid = ''1'', ar_namespace = Some ''shop'', ar_object = Some sample_pod\<rparr>"

definition sample_sidecars :: SDPSidecars where
  "sample_sidecars = \<lparr>ss_init_containers = (sample_container ''i0'' ''i:1'', sample_container ''i1'' ''i:1''),
     ss_containers = [sample_container ''sdp-service'' ''sdp:1''], ss_volumes = [\<lparr>v_name = ''run'', v_rest = []\<rparr>],
     ss_dns_searches = DNSConfig_default\<rparr>"

definition sample_service :: kube_service where
  "sample_service = \<lparr>ks_labels = Some [(''k8s-app'', ''kube-dns'')], ks_cluster_ip = Some (Some ''10.0.0.10'')\<rparr>"

definition sample_env :: injector_env where
  "sample_env = \<lparr>ie_pointer_parse = \<lambda>_. None, ie_to_value = \<lambda>_. None, ie_client_version = Some ''6.0.1'',
     ie_device = \<lambda>_. Answered (Some (AssignedDeviceId (sample_identity None) 1)), ie_uuid_to_string = \<lambda>_. ''dev'',
     ie_uuid = \<lambda>_. ''u'', ie_services = Inr [sample_service], ie_namespace = \<lambda>_. Inr None, ie_utf8 = Inr,
     ie_parse_resource = \<lambda>_. Inr (Some ''pods''), ie_parse_pod = \<lambda>_. Inr sample_request,
     ie_parse_deployment = \<lambda>_. Inl ''no'', ie_parse_pod_review = \<lambda>_. Inr (Some sample_request),
     ie_response = \<lambda>uid. \<lparr>resp_uid = uid, resp_allowed = True, resp_code = 0, resp_message = [], resp_patch = None\<rparr>,
     ie_invalid = \<lambda>m. \<lparr>resp_uid = [], resp_allowed = False, resp_code = 400, resp_message = m, resp_patch = None\<rparr>,
     ie_with_patch = \<lambda>resp ops. Inr (resp\<lparr>resp_patch := Some ops\<rparr>), ie_print_review = \<lambda>_. Inr ''review'',
     ie_print_response = \<lambda>_. Inr ''response'', ie_print_service = \<lambda>_. Inr ''service''\<rparr>"

definition sample_sdp_pod :: SDPPod where
  "sample_sdp_pod = \<lparr>sp_sidecars = sample_sidecars, sp_dns_service = Some sample_service, sp_server_version = 25\<rparr>"

definition sample_environment :: ServiceEnvironment where
  "sample_environment = \<lparr>se_pod_name = ''web'', se_service_id = ''shop_web'', se_service_name = ''shop-web'',
     client_config = ''c'', client_secret_name = ''s'', client_secret_controller_url_key = ''service-url'',
     client_secret_user_key = ''service-username'', client_secret_pwd_key = ''service-password'',
     client_device_id = ''dev'', n_containers = ''0'', k8s_dns_service_ip = None\<rparr>"

text \<open>An application of \<^verbatim>\<open>add\<close> that the laws admit, for the containers and volumes.\<close>

definition pod_add :: "AddOperation \<Rightarrow> pod \<Rightarrow> pod" where
  "pod_add op p =
     (case (pod_spec_of p, op_value op) of
        (Some ps, VContainer c) \<Rightarrow>
          if op_path op = ''/spec/containers/-''
          then p\<lparr>pod_spec_of := Some (ps\<lparr>ps_containers := ps_containers ps @ [c]\<rparr>)\<rparr> else p
      | (Some ps, VVolume v) \<Rightarrow>
          if op_path op = ''/spec/volumes/-''
          then p\<lparr>pod_spec_of := Some (ps\<lparr>ps_volumes := map_option (\<lambda>vs. vs @ [v]) (ps_volumes ps)\<rparr>)\<rparr> else p
      | (Some ps, VVolumes vs) \<Rightarrow>
          if op_path op = ''/spec/volumes'' then p\<lparr>pod_spec_of := Some (ps\<lparr>ps_volumes := Some vs\<rparr>)\<rparr> else p
      | _ \<Rightarrow> p)"

lemma pod_add_rfc6902: "rfc6902_add pod_add"
proof -
  have "neutral pv \<Longrightarrow> pod_add (op_of pv) p = p" for pv p
    by (auto simp: neutral_def pod_add_def op_of_def split: option.splits patch_value.splits)
  then show ?thesis
    by (auto simp: rfc6902_add_def pod_add_def op_of_def containers_def volumes_def bind_eq_Some_conv
        split: option.splits)
qed

lemma sample_needs_patching: "needs_patching sample_sdp_pod sample_request"
  by (simp add: needs_patching_iff [of _ sample_pod] sample_request_def sample_pod_def containers_def
      sample_sdp_pod_def sample_sidecars_def container_names_def sample_container_def)

lemma add_ops_sample: "add_ops sample_env pvs = Ok (map op_of pvs)"
  by (induction pvs) (simp_all add: add_op_def json_ptr_def sample_env_def op_of_def)

lemma sample_patch_ok: "\<exists>ops. pod_patch sample_env sample_sdp_pod se sample_request = Ok ops"
proof -
  have "ar_object sample_request = Some sample_pod" "podreq_namespace sample_request = Some ''shop''"
    "maybe_ip (sp_dns_service sample_sdp_pod) = Some ''10.0.0.10''" "ie_client_version sample_env = Some ''6.0.1''"
    by (simp_all add: sample_request_def podreq_namespace_def admission_request_namespace_def sample_sdp_pod_def
        sample_service_def maybe_ip_def sample_env_def)
  then show ?thesis
    by (simp add: pod_patch_def sample_needs_patching add_ops_sample Let_def)
qed

definition sample_context :: SDPInjectorContext where
  "sample_context = \<lparr>ic_sidecars = sample_sidecars, ic_server_version = 25\<rparr>"

lemma sample_environment_ok: "\<exists>se. ServiceEnvironment_create sample_env sample_request = Ok se"
  by (simp add: ServiceEnvironment_create_def from_pod_def from_identity_store_def sample_request_def
      podreq_service_id_def podreq_service_name_def podreq_namespace_def admission_request_namespace_def
      maybe_service_id_def maybe_service_name_def annotation_def pod_annotations_def sample_pod_def sample_meta_def
      request_device_id_def sample_env_def Let_def secrets_field_names_def)

lemma sample_env_sel:
  "ie_utf8 sample_env body = Inr body" "ie_parse_resource sample_env b = Inr (Some ''pods'')"
  "ie_parse_pod sample_env b = Inr sample_request"
  by (simp_all add: sample_env_def)

lemma sample_discover: "dns_service_discover sample_env = Some sample_service"
  by (simp add: dns_service_discover_def sample_env_def sample_service_def SDP_DNS_SERVICE_NAMES_def)

lemma sample_mutate: "\<exists>resp. fst (mutate sample_env sample_context ''{}'' []) = Ok (Allow resp)"
proof -
  obtain se where se: "ServiceEnvironment_create sample_env sample_request = Ok se"
    using sample_environment_ok by blast
  have r: "ar_object sample_request = Some sample_pod" "podreq_namespace sample_request = Some ''shop''"
    "maybe_ip (Some sample_service) = Some ''10.0.0.10''" "ie_client_version sample_env = Some ''6.0.1''"
    by (simp_all add: sample_request_def podreq_namespace_def admission_request_namespace_def
        sample_service_def maybe_ip_def sample_env_def)
  obtain ops where ops: "pod_patch sample_env sample_sdp_pod se sample_request = Ok ops" using sample_patch_ok by blast
  have sid: "podreq_service_id u sample_request = Ok (''shop_'' @ podreq_name u sample_request)" for u
    by (simp add: podreq_service_id_def maybe_service_id_def r)
  have "\<exists>resp. patch_pod sample_env sample_request \<lparr>pc_sidecars = sample_sidecars, pc_dns_service = Some sample_service,
      pc_server_version = 25\<rparr> = Ok (Allow resp)"
    using ops by (simp add: patch_pod_def sid se with_response_def with_patch_def sample_sdp_pod_def Let_def)
      (simp add: sample_env_def)
  moreover have "podreq_is_candidate sample_request"
    by (simp add: podreq_is_candidate_def r pod_is_candidate_def needs_injection_def injection_strategy_def
        is_injection_disabled_def annotation_def pod_annotations_def sample_pod_def sample_meta_def)
  ultimately show ?thesis
    by (auto simp: mutate_def sample_context_def sample_discover attempt_patch_def sid without_response_def Let_def
        sample_env_sel)
qed

section \<open>Properties\<close>

text \<open>
  C20: a patched pod is complete and is not patched again. For any application of JSON patches that
  follows RFC 6902, a pod that needed patching passes the validation once its patch is applied, no longer
  needs patching, and a second patch for it is empty.
\<close>

theorem patched_pod_valid:
  assumes "rfc6902_add app" and "pod_patch e sp se r = Ok ops" and "needs_patching sp r"
    and "ar_object r = Some p" and "ar_namespace r = Some ns" and "ss_containers (sp_sidecars sp) \<noteq> []"
    and "r' = r\<lparr>ar_object := Some (fold app ops p)\<rparr>"
  shows "pod_validate sp r' = Inr () \<and> \<not> needs_patching sp r' \<and> pod_patch e' sp se' r' = Ok []"
proof -
  have obj: "ar_object r' = Some (fold app ops p)" using assms(7) by simp
  have "unwrap_or (containers p) [] \<noteq> []" using assms(3,4) needs_patching_iff by blast
  then obtain cs where cs: "containers p = Some cs" by (cases "containers p") auto
  obtain se'' v where p': "containers (fold app ops p) = Some (cs @ map (sidecar_for se'' v) (ss_containers (sp_sidecars sp)))"
    "volumes (fold app ops p) = Some (unwrap_or (volumes p) [] @ ss_volumes (sp_sidecars sp))"
    using patched_pod [OF assms(1-4) cs] by blast
  have "pod_validate sp r' = Inr ()"
    by (subst pod_validate_iff [OF obj]) (auto simp: p' image_Un image_image)
  moreover have np: "\<not> needs_patching sp r'"
    using assms(6) by (cases "ss_containers (sp_sidecars sp)") (auto simp: needs_patching_iff [OF obj] p' container_names_def)
  moreover have "podreq_namespace r' = Some ns"
    using assms(5,7) by (simp add: podreq_namespace_def admission_request_namespace_def)
  ultimately show ?thesis using obj by (simp add: pod_patch_def Let_def)
qed

theorem patched_pod_valid_witness:
  "\<exists>ops. pod_validate sample_sdp_pod (sample_request\<lparr>ar_object := Some (fold pod_add ops sample_pod)\<rparr>) = Inr ()"
proof -
  obtain ops where ops: "pod_patch sample_env sample_sdp_pod sample_environment sample_request = Ok ops"
    using sample_patch_ok by blast
  have "pod_validate sample_sdp_pod (sample_request\<lparr>ar_object := Some (fold pod_add ops sample_pod)\<rparr>) = Inr ()"
    by (rule conjunct1, rule patched_pod_valid [OF pod_add_rfc6902 ops sample_needs_patching _ _ _ refl])
      (simp_all add: sample_request_def sample_sdp_pod_def sample_sidecars_def)
  then show ?thesis by blast
qed

text \<open>
  C21: a candidate is not let through unpatched. When \<^verbatim>\<open>mutate\<close> allows a pod that is a candidate, the
  response carries the patch computed for the pod from its service environment.
\<close>

theorem candidate_not_allowed_unpatched:
  assumes "ie_utf8 e body = Inr b" and "ie_parse_resource e b = Inr (Some ''pods'')"
    and "ie_parse_pod e b = Inr r" and "podreq_is_candidate r"
    and "fst (mutate e ic body store) = Ok (Allow resp)"
  shows "\<exists>se ops. ServiceEnvironment_create e r = Ok se \<and>
     pod_patch e \<lparr>sp_sidecars = ic_sidecars ic, sp_dns_service = dns_service_discover e,
       sp_server_version = ic_server_version ic\<rparr> se r = Ok ops \<and>
     ie_with_patch e (ie_response e (ar_uid r)) ops = Inr resp"
  using assms by (rule allowed_patch)

theorem candidate_not_allowed_unpatched_witness:
  "\<exists>resp se ops. fst (mutate sample_env sample_context ''{}'' []) = Ok (Allow resp) \<and>
     pod_patch sample_env \<lparr>sp_sidecars = ic_sidecars sample_context, sp_dns_service = dns_service_discover sample_env,
       sp_server_version = ic_server_version sample_context\<rparr> se sample_request = Ok ops \<and>
     ie_with_patch sample_env (ie_response sample_env (ar_uid sample_request)) ops = Inr resp"
proof -
  obtain resp where resp: "fst (mutate sample_env sample_context ''{}'' []) = Ok (Allow resp)"
    using sample_mutate by blast
  have "podreq_is_candidate sample_request"
    by (simp add: podreq_is_candidate_def pod_is_candidate_def needs_injection_def injection_strategy_def
        is_injection_disabled_def annotation_def pod_annotations_def sample_pod_def sample_meta_def sample_request_def)
  then show ?thesis
    using candidate_not_allowed_unpatched [of sample_env "''{}''" "''{}''" sample_request sample_context "[]" resp] resp
    by (auto simp: sample_env_sel)
qed

text \<open>
  C33: the count of failed attempts never overflows. Whatever requests are served and whatever the
  outside world answers, every count in the store lies between 1 and 15.
\<close>

theorem attempts_never_overflow: "attempts_bounded (serve ic rqs [])"
  by (rule serve_bounded) (simp add: attempts_bounded_def)

text \<open>
  C25: after 15 failures the resource is accepted. Of consecutive failing attempts to patch the same
  resource, the first 15 are refused, with the number of the attempt, the 16th is accepted without a
  patch, and the count starts again.
\<close>

theorem sixteenth_failure_accepted:
  assumes "map_of store (kind @ ''_'' @ sid) = None" and "n \<le> 15"
  shows "fst (failed_attempt kind sid resp err plain (after_failures n kind sid resp err plain store)) =
      (if n = 15 then Ok (MaxRetryExceeded resp err) else Ok (RetryWithError resp err (of_nat (n + 1)))) \<and>
    map_of (after_failures 16 kind sid resp err plain store) (kind @ ''_'' @ sid) = None"
proof -
  have "after_failures 16 kind sid resp err plain store =
      snd (failed_attempt kind sid resp err plain (after_failures 15 kind sid resp err plain store))"
    by (simp add: eval_nat_numeral)
  then show ?thesis
    using failed_attempt_result(1) [OF failures_counted [OF assms] assms(2)]
      failed_attempt_result(2) [OF failures_counted [OF assms(1) order_refl]] by simp
qed

theorem sixteenth_failure_accepted_witness:
  "fst (failed_attempt ''pods'' ''shop_web'' (ie_response sample_env ''1'') (from_string ''e'') (ie_response sample_env ''1'')
     (after_failures 15 ''pods'' ''shop_web'' (ie_response sample_env ''1'') (from_string ''e'') (ie_response sample_env ''1'') [])) =
   Ok (MaxRetryExceeded (ie_response sample_env ''1'') (from_string ''e''))"
  using sixteenth_failure_accepted [of "[]" "''pods''" "''shop_web''" 15] by simp

text \<open>
  C34: every request is answered. When the client version is configured and the body of the request
  can be read, the handler answers with status 200, 404 or 422.
\<close>

theorem handler_answers:
  assumes "ie_client_version e \<noteq> None" and "rq_body rq = Inr body"
  shows "\<exists>resp. fst (injector_handler e ic rq store) = Ok resp \<and> rs_status resp \<in> {200, 404, 422}"
proof -
  have "\<forall>q. fst (mutate e ic body store) \<noteq> Panic q" using assms(1) by (rule mutate_no_panic)
  then show ?thesis
    using assms(2)
    by (cases "mutate e ic body store")
      (auto simp: injector_handler_def admission_response_def allow_admission_response_def
        fail_admission_response_def split: res.splits sum.splits option.splits SDPPatchResponse.splits
        SDPPatchError.splits)
qed

theorem handler_answers_witness:
  "\<exists>resp. fst (injector_handler sample_env \<lparr>ic_sidecars = sample_sidecars, ic_server_version = 25\<rparr>
     \<lparr>rq_method = POST, rq_path = ''/mutate'', rq_body = Inr ''{}''\<rparr> []) = Ok resp \<and> rs_status resp \<in> {200, 404, 422}"
  by (rule handler_answers [where body = "''{}''"]) (simp_all add: sample_env_def)

text \<open>
  What is taken for the tag of an image. The part of a sidecar's image behind its last colon is
  replaced by the client version. For \<open>repository:tag\<close> that is the tag; an image without a tag, but with a
  port in its registry, loses its path.
\<close>

theorem retag_replaces_last_part:
  assumes "CHR '':'' \<notin> set tag" and "\<not> suffix ('':'' @ tag) base"
  shows "retag (base @ '':'' @ tag) version = base @ '':'' @ version"
proof -
  have "trim_end_matches ('':'' @ tag) (base @ '':'' @ tag) = base"
    using assms(2) by (intro trim_end_matches_once) simp_all
  then show ?thesis
    using last_split_char [OF assms(1), of base] by (simp add: retag_def Let_def)
qed

theorem retag_replaces_last_part_witness:
  "retag (''registry.local'' @ '':'' @ ''5000/sdp/client'') ''6.0.1'' = ''registry.local'' @ '':'' @ ''6.0.1''"
  by (rule retag_replaces_last_part) (simp_all add: suffix_def)

lemma dns_config_subseq:
  "\<exists>r. dc_searches (dns_config ss ns (Some xs)) = Some r \<and> subseq xs r \<and> length r \<le> length xs + 1"
proof (cases xs)
  case (Cons first others)
  then show ?thesis
    by (cases "split_char (CHR ''.'') first") (auto simp: dns_config_def Let_def intro: list_emb_Cons)
qed (simp add: dns_config_def)

lemma default_searches: "searches_string_to_vec DNSConfig_default = [''svc.cluster.local'', ''cluster.local'']"
  by code_simp

lemma dns_config_None:
  "dns_config ss ns None = dns_config ss ns (Some (searches_string_to_vec (ss_dns_searches ss)))"
  by (simp add: dns_config_def)

lemma dns_config_default:
  assumes "ss_dns_searches ss = DNSConfig_default"
  shows "dc_searches (dns_config ss ns None) =
    (if eq_ignore_ascii_case ''svc'' ns then Some [''svc.cluster.local'', ''cluster.local'']
     else Some [ns @ ''.svc.cluster.local'', ''svc.cluster.local'', ''cluster.local''])"
  using assms by (simp add: dns_config_None default_searches) (simp add: dns_config_def Let_def)

text \<open>
  The DNS search list. The patched pod asks the local DNS server, and keeps its search list, in
  order, with at most one entry more. With the default list the entry of the pod's namespace comes first.
\<close>

theorem dns_search_list:
  "dc_nameservers (dns_config ss ns searches) = Some [''127.0.0.1''] \<and>
   (\<exists>r. dc_searches (dns_config ss ns (Some xs)) = Some r \<and> subseq xs r \<and> length r \<le> length xs + 1) \<and>
   dc_searches (dns_config (ss\<lparr>ss_dns_searches := DNSConfig_default\<rparr>) ns None) =
     (if eq_ignore_ascii_case ''svc'' ns then Some [''svc.cluster.local'', ''cluster.local'']
      else Some [ns @ ''.svc.cluster.local'', ''svc.cluster.local'', ''cluster.local''])"
proof -
  have "dc_nameservers (dns_config ss ns searches) = Some [''127.0.0.1'']"
    by (simp add: dns_config_def Let_def)
  then show ?thesis
    using dns_config_subseq dns_config_default [of "ss\<lparr>ss_dns_searches := DNSConfig_default\<rparr>" ns] by simp
qed

text \<open>
  A deployment that enables the injection with \<^verbatim>\<open>1\<close> is disabled. The value \<^verbatim>\<open>1\<close> of the enabled
  annotation is one the injection accepts, and the patch of the deployment sets the annotation of its
  pods to \<^verbatim>\<open>false\<close>, with which no pod is injected.
\<close>

theorem deployment_enabled_one_disables:
  assumes "annotation (deployment_annotations d) SDP_INJECTOR_ANNOTATION_ENABLED = Some ''1''"
  shows "is_injection_enabled (deployment_annotations d) \<and> deployment_is_candidate d \<and>
     (template_annotation_path SDP_INJECTOR_ANNOTATION_ENABLED, VString ''false'') \<in> set (deployment_patches d ns) \<and>
     (\<forall>anns. annotation anns SDP_INJECTOR_ANNOTATION_ENABLED = Some ''false'' \<longrightarrow> \<not> needs_injection anns)"
proof -
  have low: "to_lowercase ''1'' = ''1''" "to_lowercase ''false'' = ''false''"
    by (simp_all add: to_lowercase_def ascii_lower_def)
  have "(template_annotation_path SDP_INJECTOR_ANNOTATION_ENABLED, VString ''false'') \<in> set (deployment_patches d ns)"
    using assms by (simp add: deployment_patches_def annotation_or_ns_def bool_to_string_def Let_def)
  moreover have "is_injection_enabled (deployment_annotations d)" "deployment_is_candidate d"
    using assms low
    by (auto simp: is_injection_enabled_def deployment_is_candidate_def needs_injection_def
        is_injection_disabled_def split: SDPInjectionStrategy.split)
  moreover have "\<not> needs_injection anns" if "annotation anns SDP_INJECTOR_ANNOTATION_ENABLED = Some ''false''" for anns
    using that low
    by (auto simp: needs_injection_def is_injection_disabled_def is_injection_enabled_def
        split: SDPInjectionStrategy.split)
  ultimately show ?thesis by blast
qed

definition sample_deployment :: deployment where
  "sample_deployment = \<lparr>dep_meta = sample_meta\<lparr>meta_annotations := [(SDP_INJECTOR_ANNOTATION_ENABLED, ''1'')]\<rparr>,
     dep_spec = None\<rparr>"

theorem deployment_enabled_one_disables_witness:
  "(template_annotation_path SDP_INJECTOR_ANNOTATION_ENABLED, VString ''false'') \<in> set (deployment_patches sample_deployment None)"
  using deployment_enabled_one_disables [of sample_deployment None]
  by (simp add: annotation_def deployment_annotations_def sample_deployment_def)

text \<open>
  A pod that names its own secret gets its profile URL from the password. The environment built
  from a pod's annotations has the key of the password as the key of the profile URL, so both
  variables of the client container refer to the same field.
\<close>

theorem own_secret_profile_url:
  assumes "from_pod e r = Ok (Some se)"
  shows "env_secret ''APPGATE_PROFILE_URL'' (client_secret_name se) (client_secret_pwd_key se)
       \<in> set (variables se SDP_SERVICE_CONTAINER_NAME) \<and>
     env_secret ''APPGATE_PASSWORD'' (client_secret_name se) (client_secret_pwd_key se)
       \<in> set (variables se SDP_SERVICE_CONTAINER_NAME)"
proof -
  have "client_secret_controller_url_key se = client_secret_pwd_key se"
    using assms by (auto simp: from_pod_def and_then_Ok_iff Let_def)
  then show ?thesis by (simp add: variables_def Let_def)
qed

definition secret_request :: "pod AdmissionRequest" where
  "secret_request = sample_request\<lparr>ar_object := Some (sample_pod\<lparr>pod_meta :=
     sample_meta\<lparr>meta_annotations := [(SDP_ANNOTATION_CLIENT_SECRETS, ''mine'')]\<rparr>\<rparr>)\<rparr>"

theorem own_secret_profile_url_witness:
  "\<exists>se. from_pod sample_env secret_request = Ok (Some se) \<and>
     env_secret ''APPGATE_PROFILE_URL'' (client_secret_name se) (client_secret_pwd_key se)
       \<in> set (variables se SDP_SERVICE_CONTAINER_NAME)"
proof -
  obtain se where "from_pod sample_env secret_request = Ok (Some se)"
    by (simp add: from_pod_def secret_request_def sample_request_def podreq_service_id_def podreq_service_name_def
        podreq_namespace_def admission_request_namespace_def maybe_service_id_def maybe_service_name_def
        annotation_def pod_annotations_def Let_def)
  then show ?thesis using own_secret_profile_url by blast
qed

end
