(* ===== verification/Pod_Annotations.thy ===== *)
theory Pod_Annotations
  imports Injector_Laws
begin

text \<open>
  The annotations of a patched pod: what applying a patch does to them, and which of them come from the service
  environment, in particular the device id.
\<close>

text \<open>
  What RFC 6902 says of \<^verbatim>\<open>add\<close> for the annotations of a pod, with the escapes of RFC 6901: a path to an
  annotation sets it, the path to all of them replaces them, and other paths leave them alone.
\<close>

definition rfc6902_annotations :: "(AddOperation \<Rightarrow> pod \<Rightarrow> pod) \<Rightarrow> bool" where
  "rfc6902_annotations app \<longleftrightarrow>
     (\<forall>p k. annotation (pod_annotations (app (op_of (''/metadata/annotations'', VMap [])) p)) k = None) \<and>
     (\<forall>p k v k'. CHR ''~'' \<notin> set k \<longrightarrow>
        annotation (pod_annotations (app (op_of (annotation_path k, VString v)) p)) k' =
          (if k' = k then Some v else annotation (pod_annotations p) k')) \<and>
     (\<forall>p pv. prefix ''/spec/'' (fst pv) \<longrightarrow> pod_annotations (app (op_of pv) p) = pod_annotations p)"

lemma fold_spec_annotations:
  assumes "rfc6902_annotations app" and "\<forall>pv \<in> set pvs. prefix ''/spec/'' (fst pv)"
  shows "pod_annotations (fold app (map op_of pvs) p) = pod_annotations p"
  using assms(2)
proof (induction pvs arbitrary: p)
  case (Cons pv pvs)
  have "pod_annotations (app (op_of pv) p) = pod_annotations p"
    using assms(1) Cons.prems by (cases pv) (simp add: rfc6902_annotations_def)
  with Cons show ?case by simp
qed simp

lemma annotation_keys_plain: "CHR ''~'' \<notin> set (appgate_annotate a) \<longleftrightarrow> CHR ''~'' \<notin> set a"
  by (simp add: appgate_annotate_def DOMAIN_ANNOTATION_def COMPONENT_ANNOTATION_def)

text \<open>The annotations of a pod once the annotation patches are applied.\<close>

lemma annotated_pod:
  assumes "rfc6902_annotations app" and "q = fold app (map op_of (annotation_patches se p)) p"
  shows "annotation (pod_annotations q) SDP_ANNOTATION_CLIENT_DEVICE_ID = Some (client_device_id se) \<and>
    annotation (pod_annotations q) SDP_INJECTOR_ANNOTATION_POD_NAME = Some (se_pod_name se) \<and>
    annotation (pod_annotations q) SDP_INJECTOR_ANNOTATION_STRATEGY =
      Some (SDPInjectionStrategy_to_string (injection_strategy (pod_annotations p))) \<and>
    annotation (pod_annotations q) SDP_INJECTOR_ANNOTATION_ENABLED =
      Some (unwrap_or (annotation (pod_annotations p) SDP_INJECTOR_ANNOTATION_ENABLED)
        (bool_to_string (injection_strategy (pod_annotations p) = EnabledByDefault)))"
proof -
  note law = assms(1) [unfolded rfc6902_annotations_def, THEN conjunct2, THEN conjunct1, rule_format]
  have "CHR ''~'' \<notin> set (appgate_annotate ''device-id'')" "CHR ''~'' \<notin> set (appgate_annotate ''pod-name'')"
    "CHR ''~'' \<notin> set (appgate_annotate ''strategy'')" "CHR ''~'' \<notin> set (appgate_annotate ''enabled'')"
    "CHR ''~'' \<notin> set (appgate_annotate ''service-name'')" "CHR ''~'' \<notin> set (appgate_annotate ''service-id'')"
    by (simp_all add: annotation_keys_plain)
  then show ?thesis
    unfolding assms(2) annotation_patches_def Let_def annotation_defs
    by (cases "annotation (pod_annotations p) (appgate_annotate ''enabled'')") (simp_all add: law)
qed

lemma strategy_roundtrip:
  "annotation anns SDP_INJECTOR_ANNOTATION_STRATEGY = Some (SDPInjectionStrategy_to_string s) \<Longrightarrow>
   injection_strategy anns = s"
proof -
  have "to_lowercase ''enabledByDefault'' = ''enabledbydefault''" "to_lowercase ''disabledByDefault'' = ''disabledbydefault''"
    by code_simp+
  then show "annotation anns SDP_INJECTOR_ANNOTATION_STRATEGY = Some (SDPInjectionStrategy_to_string s) \<Longrightarrow> ?thesis"
    by (cases s) (simp_all add: injection_strategy_def)
qed

text \<open>A candidate is still a candidate with the annotations it gets.\<close>

lemma annotated_candidate:
  assumes "rfc6902_annotations app" and "q = fold app (map op_of (annotation_patches se p)) p" and "pod_is_candidate p"
  shows "pod_is_candidate q"
proof -
  note anns = annotated_pod [OF assms(1,2)]
  have "injection_strategy (pod_annotations q) = injection_strategy (pod_annotations p)"
    using anns strategy_roundtrip by blast
  moreover have "annotation (pod_annotations p) SDP_INJECTOR_ANNOTATION_ENABLED \<noteq> None \<or>
      injection_strategy (pod_annotations p) = EnabledByDefault"
    using assms(3)
    by (cases "injection_strategy (pod_annotations p)"; cases "annotation (pod_annotations p) SDP_INJECTOR_ANNOTATION_ENABLED")
      (auto simp: pod_is_candidate_def needs_injection_def is_injection_enabled_def)
  ultimately show ?thesis
    using anns assms(3)
    by (cases "annotation (pod_annotations p) SDP_INJECTOR_ANNOTATION_ENABLED"; cases "injection_strategy (pod_annotations p)")
      (auto simp: pod_is_candidate_def needs_injection_def is_injection_disabled_def is_injection_enabled_def
        bool_to_string_def to_lowercase_def ascii_lower_def)
qed

lemma patched_annotations:
  assumes "rfc6902_annotations app" and "pod_patch e sp se r = Ok ops" and "needs_patching sp r" and "ar_object r = Some p"
  obtains se' where "client_device_id se' = client_device_id se" and "se_pod_name se' = se_pod_name se"
    and "pod_annotations (fold app ops p) = pod_annotations (fold app (map op_of (annotation_patches se' p)) p)"
proof (rule pod_patch_Ok [OF assms(2-4)])
  fix se' version ip dc
  assume se': "se' = se\<lparr>n_containers := show_nat (length (unwrap_or (containers p) [])),
      k8s_dns_service_ip := maybe_ip (sp_dns_service sp)\<rparr>"
  let ?rest = "container_patches se' version (sp_sidecars sp) @ init_container_patches (sp_sidecars sp) ip dc p @
      volume_patches (sp_sidecars sp) p @ [(''/spec/dnsConfig'', VDNSConfig dc), (''/spec/dnsPolicy'', VString ''None'')] @
      sysctl_patches (sp_server_version sp) p"
  assume ops: "ops = map op_of (annotation_patches se' p @ ?rest)"
  have "\<forall>pv \<in> set ?rest. prefix ''/spec/'' (fst pv)"
    by (auto simp: container_patches_def init_container_patches_def volume_patches_def sysctl_patches_def Let_def
        split: option.splits if_splits)
  from fold_spec_annotations [OF assms(1) this]
  have "pod_annotations (fold app ops p) = pod_annotations (fold app (map op_of (annotation_patches se' p)) p)"
    unfolding ops by simp
  then show thesis by (intro that [of se']) (simp_all add: se')
qed

lemma environment_of_assigned:
  assumes "ServiceEnvironment_create e r = Ok se" and "ar_object r = Some p"
    and "annotation (pod_annotations p) SDP_ANNOTATION_CLIENT_SECRETS = None"
    and "podreq_service_id (ie_uuid e 5) r = Ok sid" and "ie_device e sid = Answered (Some (AssignedDeviceId si d))"
  shows "client_device_id se = ie_uuid_to_string e d" and "se_pod_name se = podreq_name (ie_uuid e 7) r"
  using assms
  by (auto simp: ServiceEnvironment_create_def and_then_Ok_iff from_pod_def from_identity_store_def request_device_id_def
      secrets_field_names_def Let_def)

text \<open>An application of \<^verbatim>\<open>add\<close> to the annotations that the laws admit.\<close>

fun unescape :: "string \<Rightarrow> string" where
  "unescape (x # y # s) =
     (if x = CHR ''~'' \<and> y = CHR ''1'' then CHR ''/'' # unescape s
      else if x = CHR ''~'' \<and> y = CHR ''0'' then CHR ''~'' # unescape s else x # unescape (y # s))"
| "unescape s = s"

definition pod_annotate :: "AddOperation \<Rightarrow> pod \<Rightarrow> pod" where
  "pod_annotate op p =
     (case op_value op of
        VMap m \<Rightarrow>
          if op_path op = ''/metadata/annotations'' then p\<lparr>pod_meta := (pod_meta p)\<lparr>meta_annotations := m\<rparr>\<rparr> else p
      | VString v \<Rightarrow>
          if prefix ''/metadata/annotations/'' (op_path op)
          then p\<lparr>pod_meta := (pod_meta p)\<lparr>meta_annotations := AList.update (unescape (drop 22 (op_path op))) v (meta_annotations (pod_meta p))\<rparr>\<rparr>
          else p
      | _ \<Rightarrow> p)"

lemma unescape_plain: "c \<noteq> CHR ''~'' \<Longrightarrow> unescape (c # s) = c # unescape s"
  by (cases s) simp_all

lemma unescape_patch_annotation: "CHR ''~'' \<notin> set k \<Longrightarrow> unescape (patch_annotation k) = k"
  by (induction k) (auto simp: patch_annotation_def replace_char_def unescape_plain)

lemma pod_annotate_rfc6902: "rfc6902_annotations pod_annotate"
proof -
  have "pod_annotations (pod_annotate (op_of pv) p) = pod_annotations p" if pre: "prefix ''/spec/'' (fst pv)" for pv p
  proof -
    obtain s where "fst pv = ''/spec/'' @ s" using pre by (rule prefixE)
    then show ?thesis by (auto simp: pod_annotate_def op_of_def split: patch_value.splits)
  qed
  moreover have "annotation (pod_annotations (pod_annotate (op_of (annotation_path k, VString v)) p)) k' =
      (if k' = k then Some v else annotation (pod_annotations p) k')" if "CHR ''~'' \<notin> set k" for k v p k'
    using unescape_patch_annotation [OF that]
    by (simp add: pod_annotate_def op_of_def annotation_path_def annotation_def pod_annotations_def)
  moreover have "annotation (pod_annotations (pod_annotate (op_of (''/metadata/annotations'', VMap [])) p)) k = None" for p k
    by (simp add: pod_annotate_def op_of_def annotation_def pod_annotations_def)
  ultimately show ?thesis unfolding rfc6902_annotations_def by blast
qed

lemma sample_request_facts:
  "ar_object sample_request = Some sample_pod" "podreq_namespace sample_request = Some ''shop''"
  "podreq_service_id u sample_request = Ok ''shop_web''" "podreq_name u sample_request = ''web''"
  "pod_is_candidate sample_pod" "annotation (pod_annotations sample_pod) SDP_ANNOTATION_CLIENT_SECRETS = None"
  by code_simp+

end
