(* ===== verification/Admission_Laws.thy ===== *)
theory Admission_Laws
  imports Admission Pod_Annotations
begin

text \<open>
  What the injector and the device id provider guarantee together: an admission reads one answer of the provider,
  the store goes through a run of the provider, what becomes of the pod of a known and of an unknown service, and
  that two pods never get the same device id.
\<close>

section \<open>What an admission asks\<close>

lemma json_ptr_device [simp]: "json_ptr (e\<lparr>ie_device := g\<rparr>) = json_ptr e"
  by (simp add: json_ptr_def fun_eq_iff)

lemma add_ops_device [simp]: "add_ops (e\<lparr>ie_device := g\<rparr>) pvs = add_ops e pvs"
  by (induction pvs) (simp_all add: add_op_def)

lemma deployment_ops_device [simp]: "deployment_ops (e\<lparr>ie_device := g\<rparr>) resp pvs = deployment_ops e resp pvs"
proof (induction pvs)
  case (Cons pv pvs)
  then show ?case by (cases pv) (simp cong: option.case_cong)
qed simp

lemma with_patch_device [simp]: "with_patch (e\<lparr>ie_device := g\<rparr>) = with_patch e"
  by (simp add: with_patch_def fun_eq_iff)

lemma from_pod_device [simp]: "from_pod (e\<lparr>ie_device := g\<rparr>) r = from_pod e r"
  by (simp add: from_pod_def)

lemma discover_device [simp]: "dns_service_discover (e\<lparr>ie_device := g\<rparr>) = dns_service_discover e"
  by (simp add: dns_service_discover_def)

lemma pod_patch_device [simp]: "pod_patch (e\<lparr>ie_device := g\<rparr>) sp se r = pod_patch e sp se r"
  by (simp add: pod_patch_def Let_def cong: option.case_cong if_cong)

lemma patch_deployment_device [simp]: "patch_deployment (e\<lparr>ie_device := g\<rparr>) r ns = patch_deployment e r ns"
  by (simp add: patch_deployment_def Let_def)

lemma create_asks:
  assumes "podreq_service_id (ie_uuid e 8) r = Ok k" and "\<And>sid. device_request e r = Some sid \<Longrightarrow> g sid = h sid"
  shows "ServiceEnvironment_create (e\<lparr>ie_device := g\<rparr>) r = ServiceEnvironment_create (e\<lparr>ie_device := h\<rparr>) r"
proof (cases "from_pod e r")
  case (Ok env)
  then show ?thesis
    using assms
    by (cases env; cases "podreq_service_id (ie_uuid e 5) r"; cases "podreq_service_name (ie_uuid e 6) r")
      (auto simp: ServiceEnvironment_create_def from_identity_store_def request_device_id_def device_request_def)
qed (simp_all add: ServiceEnvironment_create_def)

lemma patch_pod_asks:
  assumes "\<And>sid. device_request e r = Some sid \<Longrightarrow> g sid = h sid"
  shows "patch_pod (e\<lparr>ie_device := g\<rparr>) r pc = patch_pod (e\<lparr>ie_device := h\<rparr>) r pc"
proof (cases "podreq_service_id (ie_uuid e 8) r")
  case (Ok k)
  then show ?thesis using create_asks [OF Ok assms] by (simp add: patch_pod_def Let_def)
qed (simp_all add: patch_pod_def with_response_def Let_def)

lemma attempt_patch_lazy:
  "attempt_patch sid False patched plain kind st = attempt_patch sid False patched' plain kind st"
  by (simp add: attempt_patch_def Let_def split: res.split)

lemma mutate_asks:
  assumes "\<And>sid. asks e body = Some sid \<Longrightarrow> g sid = h sid"
  shows "mutate (e\<lparr>ie_device := g\<rparr>) ic body st = mutate (e\<lparr>ie_device := h\<rparr>) ic body st"
proof -
  have "attempt_patch (podreq_service_id (ie_uuid e 0) r) (podreq_is_candidate r) (patch_pod (e\<lparr>ie_device := g\<rparr>) r pc) plain k st =
      attempt_patch (podreq_service_id (ie_uuid e 0) r) (podreq_is_candidate r) (patch_pod (e\<lparr>ie_device := h\<rparr>) r pc) plain k st"
    if "ie_utf8 e body = Inr b" "ie_parse_resource e b = Inr (Some ''pods'')" "ie_parse_pod e b = Inr r" for b r pc plain k
  proof (cases "podreq_is_candidate r")
    case True
    then show ?thesis
      using that assms patch_pod_asks [of e r g h pc]
      by (cases "podreq_service_id (ie_uuid e 0) r") (auto simp: attempt_patch_def without_response_def asks_def pod_to_patch_def)
  qed (auto intro: attempt_patch_lazy)
  then show ?thesis by (auto simp: mutate_def Let_def split: sum.splits option.splits)
qed

section \<open>The store\<close>

lemma provider_run_append:
  "provider_run parse (es @ fs) st =
     (fst (provider_run parse es st) @ fst (provider_run parse fs (snd (provider_run parse es st))),
      snd (provider_run parse fs (snd (provider_run parse es st))))"
  by (induction es arbitrary: st) (simp_all add: split_beta)

lemma assigned_to_append: "assigned_to sid (rs @ rs') = assigned_to sid rs @ assigned_to sid rs'"
  by (induction sid rs rule: assigned_to.induct) simp_all

lemma injector_step_store:
  "inj_store (snd (injector_step parse ic ev s)) = snd (provider_run parse (provider_part ev) (inj_store s))"
  by (cases ev) (simp_all add: split_beta)

definition provider_parts :: "injector_event list \<Rightarrow> provider_event list" where
  "provider_parts evs = concat (map provider_part evs)"

lemma provider_parts_simps [simp]:
  "provider_parts [] = []" "provider_parts (ev # evs) = provider_part ev @ provider_parts evs"
  "provider_parts (evs @ evs') = provider_parts evs @ provider_parts evs'"
  by (simp_all add: provider_parts_def)

lemma injector_run_store:
  "inj_store (injector_run parse ic evs s) = snd (provider_run parse (provider_parts evs) (inj_store s))"
  by (induction evs arbitrary: s) (simp_all add: provider_run_append injector_step_store del: injector_step.simps)

section \<open>The pod an admission makes\<close>

text \<open>
  The pod the API server creates when an admission patched it: the patch of the answer applied to the pod of the
  request.
\<close>

fun injected_pod ::
  "(string \<Rightarrow> uuid option) \<Rightarrow> SDPInjectorContext \<Rightarrow> (AddOperation \<Rightarrow> pod \<Rightarrow> pod) \<Rightarrow> injector_event \<Rightarrow> injector_state \<Rightarrow> pod option" where
  "injected_pod parse ic app (Watched m used) s = None"
| "injected_pod parse ic app (Admission e body fresh dl) s =
     (case (pod_to_patch e body, fst (injector_step parse ic (Admission e body fresh dl) s)) of
        (Some r, Ok (Some (Allow resp))) \<Rightarrow>
          (case (ar_object r, resp_patch resp) of
             (Some p, Some (op # ops)) \<Rightarrow> Some (fold app (op # ops) p)
           | _ \<Rightarrow> None)
      | _ \<Rightarrow> None)"

text \<open>\<^verbatim>\<open>AdmissionResponse::with_patch\<close> puts the patch it serialises into the response.\<close>

definition patches_carried :: "injector_env \<Rightarrow> bool" where
  "patches_carried e \<longleftrightarrow> (\<forall>resp ops resp'. ie_with_patch e resp ops = Inr resp' \<longrightarrow> resp_patch resp' = Some ops)"

lemma provider_assigns:
  assumes "store_wf st" and "fst (provider_step parse (ProviderMsg (RequestDeviceId sid) fresh) st) = Some (AssignedDeviceId si d)"
  shows "si_service_id si = sid"
  using assms by (auto simp: pop_device_id_def store_wf_def split: option.splits prod.splits)

lemma pod_to_patchD:
  assumes "pod_to_patch e body = Some r"
  obtains b where "ie_utf8 e body = Inr b" and "ie_parse_resource e b = Inr (Some ''pods'')"
    and "ie_parse_pod e b = Inr r" and "podreq_is_candidate r"
  using assms by (auto simp: pod_to_patch_def split: sum.splits option.splits res.splits if_splits)

lemma device_requestD:
  assumes "device_request e r = Some sid"
  shows "from_pod e r = Ok None" and "podreq_service_id (ie_uuid e 5) r = Ok sid"
  using assms by (auto simp: device_request_def split: res.splits option.splits)

lemma from_pod_no_secret:
  assumes "from_pod e r = Ok None" and "ar_object r = Some p"
  shows "annotation (pod_annotations p) SDP_ANNOTATION_CLIENT_SECRETS = None"
  using assms by (auto simp: from_pod_def and_then_Ok_iff Let_def)

lemma asked_env_sel [simp]:
  "ie_utf8 (asked_env parse e fresh dl s) = ie_utf8 e" "ie_parse_resource (asked_env parse e fresh dl s) = ie_parse_resource e"
  "ie_parse_pod (asked_env parse e fresh dl s) = ie_parse_pod e" "ie_uuid (asked_env parse e fresh dl s) = ie_uuid e"
  "ie_uuid_to_string (asked_env parse e fresh dl s) = ie_uuid_to_string e"
  "ie_with_patch (asked_env parse e fresh dl s) = ie_with_patch e" "ie_response (asked_env parse e fresh dl s) = ie_response e"
  "ie_device (asked_env parse e fresh dl s) = provider_answer parse (inj_store s) fresh dl"
  "from_pod (asked_env parse e fresh dl s) r = from_pod e r"
  by (simp_all add: asked_env_def)

lemma asked_environment:
  assumes "ServiceEnvironment_create (asked_env parse e fresh dl s) r = Ok se" and "device_request e r = Some sid"
  obtains si d where "dl = Delivered"
    and "fst (provider_step parse (ProviderMsg (RequestDeviceId sid) fresh) (inj_store s)) = Some (AssignedDeviceId si d)"
    and "client_device_id se = ie_uuid_to_string e d"
proof -
  have "from_identity_store (asked_env parse e fresh dl s) r = Ok se"
    using assms(1) device_requestD(1) [OF assms(2)] by (simp add: ServiceEnvironment_create_def)
  then obtain si d where "request_device_id (asked_env parse e fresh dl s) sid = Ok (si, d)"
    and d: "client_device_id se = ie_uuid_to_string e d"
    using device_requestD(2) [OF assms(2)]
    by (auto simp: from_identity_store_def and_then_Ok_iff Let_def secrets_field_names_def)
  then have "dl = Delivered"
    "fst (provider_step parse (ProviderMsg (RequestDeviceId sid) fresh) (inj_store s)) = Some (AssignedDeviceId si d)"
    by (auto simp: request_device_id_def provider_answer_def simp del: provider_step.simps
        split: delivery.splits option.splits DeviceIdProviderResponseProtocol.splits)
  with d that show thesis by blast
qed

lemma injected_device:
  assumes "rfc6902_annotations app" and "store_wf (inj_store s)" and "patches_carried e" and "asks e body = Some sid"
    and "injected_pod parse ic app (Admission e body fresh dl) s = Some q"
  obtains si d where "dl = Delivered" and "si_service_id si = sid"
    and "fst (provider_step parse (ProviderMsg (RequestDeviceId sid) fresh) (inj_store s)) = Some (AssignedDeviceId si d)"
    and "annotation (pod_annotations q) SDP_ANNOTATION_CLIENT_DEVICE_ID = Some (ie_uuid_to_string e d)"
proof -
  let ?e = "asked_env parse e fresh dl s"
  obtain r where r: "pod_to_patch e body = Some r" "device_request e r = Some sid"
    using assms(4) by (auto simp: asks_def bind_eq_Some_conv)
  obtain resp p op ops where resp: "fst (mutate ?e ic body (inj_attempts s)) = Ok (Allow resp)"
    and p: "ar_object r = Some p" and ops: "resp_patch resp = Some (op # ops)" and q: "q = fold app (op # ops) p"
    using assms(5) r(1)
    by (cases "mutate ?e ic body (inj_attempts s)") (auto simp: and_then_Ok_iff split: res.splits option.splits
        SDPPatchResponse.splits list.splits)
  obtain b where b: "ie_utf8 e body = Inr b" "ie_parse_resource e b = Inr (Some ''pods'')"
    "ie_parse_pod e b = Inr r" "podreq_is_candidate r"
    using pod_to_patchD [OF r(1)] .
  let ?sp = "\<lparr>sp_sidecars = ic_sidecars ic, sp_dns_service = dns_service_discover ?e, sp_server_version = ic_server_version ic\<rparr>"
  obtain se ops' where se: "ServiceEnvironment_create ?e r = Ok se" and patch: "pod_patch ?e ?sp se r = Ok ops'"
    and resp': "ie_with_patch e (ie_response e (ar_uid r)) ops' = Inr resp"
    using allowed_patch [of ?e body b r ic "inj_attempts s" resp] b resp by auto
  have ops': "ops' = op # ops" using assms(3) resp' ops by (auto simp: patches_carried_def)
  have np: "needs_patching ?sp r"
    using patch ops' p by (auto simp: pod_patch_def Let_def and_then_Ok_iff ok_or_def split: option.splits if_splits)
  obtain si d where sd: "dl = Delivered"
    "fst (provider_step parse (ProviderMsg (RequestDeviceId sid) fresh) (inj_store s)) = Some (AssignedDeviceId si d)"
    "client_device_id se = ie_uuid_to_string e d"
    using asked_environment [OF se r(2)] .
  obtain se' where se': "client_device_id se' = client_device_id se"
    "pod_annotations (fold app ops' p) = pod_annotations (fold app (map op_of (annotation_patches se' p)) p)"
    using patched_annotations [OF assms(1) patch np p] by metis
  have "annotation (pod_annotations q) SDP_ANNOTATION_CLIENT_DEVICE_ID = Some (ie_uuid_to_string e d)"
    using annotated_pod [OF assms(1) refl, of se' p] se' sd(3) q ops' by simp
  then show thesis using that sd(1,2) provider_assigns [OF assms(2) sd(2)] by blast
qed

section \<open>Pods of known and of unknown services\<close>

text \<open>
  An outside world in which nothing fails: paths are valid pointers, values can be serialised, the client's
  version is configured, the DNS service is found.
\<close>

definition serves_patches :: "injector_env \<Rightarrow> bool" where
  "serves_patches e \<longleftrightarrow> (\<forall>p. ie_pointer_parse e p = None) \<and> (\<forall>v. ie_to_value e v = None) \<and> ie_client_version e \<noteq> None \<and>
     (\<forall>resp ops. ie_with_patch e resp ops = Inr (resp\<lparr>resp_patch := Some ops\<rparr>)) \<and> maybe_ip (dns_service_discover e) \<noteq> None"

lemma serves_carried: "serves_patches e \<Longrightarrow> patches_carried e"
  by (auto simp: serves_patches_def patches_carried_def)

lemma add_ops_total: "serves_patches e \<Longrightarrow> add_ops e pvs = Ok (map op_of pvs)"
  by (induction pvs) (simp_all add: add_op_def json_ptr_def serves_patches_def op_of_def)

lemma pod_patch_total:
  assumes "serves_patches e" and "needs_patching sp r" and "ar_object r = Some p" and "podreq_namespace r = Some ns"
    and "maybe_ip (sp_dns_service sp) \<noteq> None"
  obtains op ops where "pod_patch e sp se r = Ok (op # ops)"
proof -
  obtain ip v where "maybe_ip (sp_dns_service sp) = Some ip" "ie_client_version e = Some v"
    using assms(1,5) by (auto simp: serves_patches_def)
  then obtain ops where ops: "pod_patch e sp se r = Ok ops"
    using assms(2-4) by (simp add: pod_patch_def add_ops_total [OF assms(1)] Let_def)
  from pod_patch_Ok [OF ops assms(2,3)] have "ops \<noteq> []"
    by (metis Nil_is_map_conv append_is_Nil_conv list.distinct(1))
  with ops that show thesis by (cases ops) auto
qed

text \<open>The provider's answer for a service, and what it does to the pools.\<close>

lemma provider_known:
  assumes "store_wf st" and "store_pool st sid = Some ds"
  obtains si where "fst (provider_step parse (ProviderMsg (RequestDeviceId sid) fresh) st) =
      Some (AssignedDeviceId si (case ds of [] \<Rightarrow> fresh | d # _ \<Rightarrow> d))"
    and "store_pool (snd (provider_step parse (ProviderMsg (RequestDeviceId sid) fresh) st)) = (store_pool st)(sid \<mapsto> tl ds)"
proof (cases ds)
  case Nil
  with mem.pop_fresh [OF assms(1), of sid fresh] assms(2) that show thesis by (fastforce simp: fun_upd_idem)
next
  case (Cons u us)
  with mem.pop_pooled [OF assms(1), of sid u us fresh] assms(2) obtain s st' where
    "pop_device_id fresh sid st = (Ok (s, u), st')" "\<forall>k. store_pool st' k = (if k = sid then Some us else store_pool st k)"
    by auto
  then show thesis using Cons by (intro that [of s]) (auto simp: fun_eq_iff)
qed

lemma provider_unknown:
  assumes "store_wf st" and "store_pool st sid = None"
  shows "provider_step parse (ProviderMsg (RequestDeviceId sid) fresh) st = (Some NotFound, st)"
  using mem.pop_missing [OF assms, of fresh] by auto

lemma device_request_namespace:
  assumes "device_request e r = Some sid"
  obtains ns where "podreq_namespace r = Some ns"
  using device_requestD(2) [OF assms]
  by (cases "podreq_namespace r") (auto simp: podreq_service_id_def maybe_service_id_def)

abbreviation sdp_pod_of :: "injector_env \<Rightarrow> SDPInjectorContext \<Rightarrow> SDPPod" where
  "sdp_pod_of e ic \<equiv> \<lparr>sp_sidecars = ic_sidecars ic, sp_dns_service = dns_service_discover e, sp_server_version = ic_server_version ic\<rparr>"

lemma pod_step:
  assumes "pod_to_patch e body = Some r"
  obtains k where "podreq_service_id (ie_uuid e 0) r = Ok k"
    and "injector_step parse ic (Admission e body fresh dl) s =
      (case attempt_patch (Ok k) True (patch_pod (asked_env parse e fresh dl s) r \<lparr>pc_sidecars = ic_sidecars ic,
          pc_dns_service = dns_service_discover e, pc_server_version = ic_server_version ic\<rparr>) (ie_response e (ar_uid r)) ''pods'' (inj_attempts s) of
        (x, attempts) \<Rightarrow> (and_then x (\<lambda>y. Ok (Some y)),
          \<lparr>inj_store = snd (provider_run parse (provider_part (Admission e body fresh dl)) (inj_store s)), inj_attempts = attempts\<rparr>))"
proof -
  obtain k where k: "podreq_service_id (ie_uuid e 0) r = Ok k"
    using assms by (auto simp: pod_to_patch_def split: sum.splits option.splits res.splits if_splits)
  obtain b where "ie_utf8 e body = Inr b" "ie_parse_resource e b = Inr (Some ''pods'')" "ie_parse_pod e b = Inr r" "podreq_is_candidate r"
    using pod_to_patchD [OF assms] .
  moreover have "dns_service_discover (asked_env parse e fresh dl s) = dns_service_discover e" by (simp add: asked_env_def)
  ultimately show thesis using k by (intro that [OF k]) (simp add: mutate_def Let_def)
qed

lemma asks_service:
  assumes "pod_to_patch e body = Some r" and "device_request e r = Some sid"
  shows "asks e body = Some sid" and "provider_part (Admission e body fresh Delivered) = [ProviderMsg (RequestDeviceId sid) fresh]"
  using assms by (simp_all add: asks_def)

lemma admission_known:
  assumes "store_wf (inj_store s)" and "serves_patches e" and "pod_to_patch e body = Some r" and "ar_object r = Some p"
    and "needs_patching (sdp_pod_of e ic) r" and "device_request e r = Some sid" and "store_pool (inj_store s) sid = Some ds"
  obtains op ops where "fst (injector_step parse ic (Admission e body fresh Delivered) s) =
      Ok (Some (Allow ((ie_response e (ar_uid r))\<lparr>resp_patch := Some (op # ops)\<rparr>)))"
    and "store_pool (inj_store (snd (injector_step parse ic (Admission e body fresh Delivered) s))) =
      (store_pool (inj_store s))(sid \<mapsto> tl ds)"
proof -
  let ?e = "asked_env parse e fresh Delivered s"
  obtain si where si: "fst (provider_step parse (ProviderMsg (RequestDeviceId sid) fresh) (inj_store s)) =
      Some (AssignedDeviceId si (case ds of [] \<Rightarrow> fresh | d # _ \<Rightarrow> d))"
    and pool: "store_pool (snd (provider_step parse (ProviderMsg (RequestDeviceId sid) fresh) (inj_store s))) =
      (store_pool (inj_store s))(sid \<mapsto> tl ds)"
    using provider_known [OF assms(1,7)] .
  have "request_device_id ?e sid = Ok (si, case ds of [] \<Rightarrow> fresh | d # _ \<Rightarrow> d)"
    by (simp add: request_device_id_def provider_answer_def si del: provider_step.simps)
  moreover obtain sname k8 where "podreq_service_name (ie_uuid e 6) r = Ok sname" and k8: "podreq_service_id (ie_uuid e 8) r = Ok k8"
    using assms(6) by (auto simp: device_request_def split: res.splits option.splits)
  ultimately obtain se where se: "ServiceEnvironment_create ?e r = Ok se"
    using device_requestD [OF assms(6)]
    by (auto simp: ServiceEnvironment_create_def from_identity_store_def secrets_field_names_def Let_def)
  obtain ns where "podreq_namespace r = Some ns" using device_request_namespace [OF assms(6)] .
  then obtain op ops where ops: "pod_patch e (sdp_pod_of e ic) se r = Ok (op # ops)"
    by (rule pod_patch_total [OF assms(2,5,4)]) (use assms(2) in \<open>simp_all add: serves_patches_def\<close>)
  moreover have with_patch_ok: "with_patch e resp pre xs = Ok (Allow (resp\<lparr>resp_patch := Some xs\<rparr>))" for resp pre xs
    using assms(2) by (simp add: with_patch_def serves_patches_def)
  ultimately have patch: "patch_pod ?e r \<lparr>pc_sidecars = ic_sidecars ic, pc_dns_service = dns_service_discover e, pc_server_version = ic_server_version ic\<rparr> =
      Ok (Allow ((ie_response e (ar_uid r))\<lparr>resp_patch := Some (op # ops)\<rparr>))"
    using k8 se assms(2) with_patch_ok by (simp add: patch_pod_def with_response_def Let_def asked_env_def)
  show thesis
    by (rule pod_step [OF assms(3), of parse ic fresh Delivered s], rule that [of op ops])
      (simp_all add: attempt_patch_def without_response_def patch Let_def asks_service [OF assms(3,6)] pool split_beta
        del: injector_step.simps provider_step.simps provider_part.simps)
qed

section \<open>Examples\<close>

definition printing_env :: injector_env where
  "printing_env = sample_env\<lparr>ie_uuid_to_string := \<lambda>u. replicate (unat u) (CHR ''x'')\<rparr>"

definition known_state :: injector_state where
  "known_state = \<lparr>inj_store = \<lparr>identities = [(''shop_web'', sample_identity None)], registered_device_ids = [(''shop_web'', [])]\<rparr>,
     inj_attempts = []\<rparr>"

lemma printing_inj: "inj (\<lambda>u :: uuid. replicate (unat u) (CHR ''x''))"
  by (rule injI) (metis length_replicate word_unat_eq_iff)

lemma printing_facts:
  "pod_to_patch printing_env ''{}'' = Some sample_request" "device_request printing_env sample_request = Some ''shop_web''"
  "podreq_service_id (ie_uuid printing_env 0) sample_request = Ok ''shop_web''"
  by code_simp+

lemma printing_serves: "serves_patches printing_env"
proof -
  have "maybe_ip (dns_service_discover printing_env) \<noteq> None" by code_simp
  then show ?thesis by (simp add: serves_patches_def printing_env_def sample_env_def)
qed

lemma printing_needs: "needs_patching (sdp_pod_of printing_env sample_context) sample_request"
  using sample_needs_patching
  by (simp add: needs_patching_def has_any_sidecars_def sidecars_def sample_context_def sample_sdp_pod_def)

lemma known_facts: "store_wf (inj_store known_state)" "store_pool (inj_store known_state) ''shop_web'' = Some []"
  by (simp_all add: store_wf_def known_state_def store_pool_def)

lemma sample_injected:
  assumes "store_wf (inj_store s)" and "store_pool (inj_store s) ''shop_web'' = Some ds"
  shows "\<exists>q. injected_pod parse sample_context app (Admission printing_env ''{}'' fresh Delivered) s = Some q"
    and "store_pool (inj_store (snd (injector_step parse sample_context (Admission printing_env ''{}'' fresh Delivered) s))) ''shop_web'' = Some (tl ds)"
proof -
  note known = admission_known [OF assms(1) printing_serves printing_facts(1) sample_request_facts(1) printing_needs
      printing_facts(2) assms(2), of parse fresh]
  show "\<exists>q. injected_pod parse sample_context app (Admission printing_env ''{}'' fresh Delivered) s = Some q"
    by (rule known) (simp add: printing_facts sample_request_facts del: injector_step.simps)
  show "store_pool (inj_store (snd (injector_step parse sample_context (Admission printing_env ''{}'' fresh Delivered) s))) ''shop_web'' = Some (tl ds)"
    by (rule known) (simp del: injector_step.simps)
qed

section \<open>Properties\<close>

text \<open>
  C19: An admission asks the provider once. What \<^verbatim>\<open>mutate\<close> answers depends on the provider only through its answer for
  the one service that the pod in the body asks for, and the store of the injector, after any admissions and any
  messages of the watcher, is that of a run of the provider on the messages of the watcher and on one request for
  each admission that asks and can send it.\<close>
theorem admission_asks_once:
  "(case asks e body of
      None \<Rightarrow> mutate (e\<lparr>ie_device := g\<rparr>) ic body st = mutate e ic body st
    | Some sid \<Rightarrow> mutate (e\<lparr>ie_device := \<lambda>_. ie_device e sid\<rparr>) ic body st = mutate e ic body st) \<and>
   length (provider_part (Admission e body fresh dl)) \<le> 1 \<and>
   inj_store (injector_run parse ic evs s) = snd (provider_run parse (provider_parts evs) (inj_store s))"
proof -
  have "mutate (e\<lparr>ie_device := g\<rparr>) ic body st = mutate e ic body st" if "\<And>sid. asks e body = Some sid \<Longrightarrow> g sid = ie_device e sid" for g
    using mutate_asks [of e body g "ie_device e" ic st] that by simp
  then have "case asks e body of
      None \<Rightarrow> mutate (e\<lparr>ie_device := g\<rparr>) ic body st = mutate e ic body st
    | Some sid \<Rightarrow> mutate (e\<lparr>ie_device := \<lambda>_. ie_device e sid\<rparr>) ic body st = mutate e ic body st"
    by (cases "asks e body") simp_all
  then show ?thesis by (simp add: injector_run_store split: option.split delivery.split)
qed

text \<open>
  C5: No two pods get the same device id. In any run of the injector that releases no device id to a service, two
  pods of the service that were injected with identities of the provider carry different device ids in their
  annotations, given that the UUIDs drawn are distinct and new, and are printed differently.\<close>
theorem pods_get_distinct_devices:
  assumes "rfc6902_annotations app" and "store_wf (inj_store s)"
    and "evs = xs @ Admission e1 b1 f1 d1 # ys @ [Admission e2 b2 f2 d2]"
    and "\<forall>ev \<in> set (provider_parts evs). \<not> releases_to sid ev"
    and "distinct (draws sid (provider_parts evs))"
    and "set (draws sid (provider_parts evs)) \<inter> set (unwrap_or (store_pool (inj_store s) sid) []) = {}"
    and "asks e1 b1 = Some sid" and "asks e2 b2 = Some sid" and "patches_carried e1" and "patches_carried e2"
    and "ie_uuid_to_string e1 = us" and "ie_uuid_to_string e2 = us" and "inj us"
    and "injected_pod parse ic app (Admission e1 b1 f1 d1) (injector_run parse ic xs s) = Some p1"
    and "injected_pod parse ic app (Admission e2 b2 f2 d2) (injector_run parse ic (xs @ Admission e1 b1 f1 d1 # ys) s) = Some p2"
  shows "\<exists>id1 id2. annotation (pod_annotations p1) SDP_ANNOTATION_CLIENT_DEVICE_ID = Some id1 \<and>
     annotation (pod_annotations p2) SDP_ANNOTATION_CLIENT_DEVICE_ID = Some id2 \<and> id1 \<noteq> id2"
proof -
  let ?st1 = "snd (provider_run parse (provider_parts xs) (inj_store s))"
  let ?mid = "provider_parts xs @ ProviderMsg (RequestDeviceId sid) f1 # provider_parts ys"
  let ?st2 = "snd (provider_run parse ?mid (inj_store s))"
  have wf: "store_wf ?st1" "store_wf ?st2" using assms(2) by (intro provider_run_wf; assumption)+
  have s1: "inj_store (injector_run parse ic xs s) = ?st1" by (rule injector_run_store)
  from injected_device [OF assms(1) _ assms(9,7,14)] wf(1) obtain si1 u1 where one: "d1 = Delivered" "si_service_id si1 = sid"
    "fst (provider_step parse (ProviderMsg (RequestDeviceId sid) f1) ?st1) = Some (AssignedDeviceId si1 u1)"
    "annotation (pod_annotations p1) SDP_ANNOTATION_CLIENT_DEVICE_ID = Some (us u1)"
    by (auto simp: s1 assms(11) simp del: provider_step.simps)
  have part1: "provider_part (Admission e1 b1 f1 d1) = [ProviderMsg (RequestDeviceId sid) f1]" using assms(7) one(1) by simp
  then have s2: "inj_store (injector_run parse ic (xs @ Admission e1 b1 f1 d1 # ys) s) = ?st2"
    by (simp add: injector_run_store del: provider_part.simps)
  from injected_device [OF assms(1) _ assms(10,8,15)] wf(2) obtain si2 u2 where two: "d2 = Delivered" "si_service_id si2 = sid"
    "fst (provider_step parse (ProviderMsg (RequestDeviceId sid) f2) ?st2) = Some (AssignedDeviceId si2 u2)"
    "annotation (pod_annotations p2) SDP_ANNOTATION_CLIENT_DEVICE_ID = Some (us u2)"
    by (auto simp: s2 assms(12) simp del: provider_step.simps)
  have part2: "provider_part (Admission e2 b2 f2 d2) = [ProviderMsg (RequestDeviceId sid) f2]" using assms(8) two(1) by simp
  have parts: "provider_parts evs = ?mid @ [ProviderMsg (RequestDeviceId sid) f2]"
    unfolding assms(3) by (simp add: part1 part2 del: provider_part.simps)
  have "distinct (assigned_to sid (fst (provider_run parse (?mid @ [ProviderMsg (RequestDeviceId sid) f2]) (inj_store s))))"
    using provider_run_leases [OF assms(2) assms(4,5,6) [unfolded parts], of parse] by blast
  then have "u1 \<noteq> u2"
    using one(2,3) two(2,3)
    by (simp add: provider_run_append provider_run_Cons assigned_to_append split_beta Let_def del: provider_step.simps provider_run.simps(2))
  then show ?thesis using one(4) two(4) injD [OF assms(13)] by metis
qed

text \<open>
  C18: What becomes of a candidate pod. When nothing else fails, the pod of a service the provider knows is allowed
  with a patch, its device id is the first of the service's pool or else the one drawn, and exactly this id leaves
  the pool; the pod of a service the provider does not know is refused with the number of the attempt, or accepted
  without a patch at the 16th, and no pool changes.\<close>
theorem admission_outcome:
  assumes "rfc6902_annotations app" and "store_wf (inj_store s)" and "serves_patches e" and "pod_to_patch e body = Some r"
    and "ar_object r = Some p" and "needs_patching (sdp_pod_of e ic) r" and "device_request e r = Some sid"
    and "step = injector_step parse ic (Admission e body fresh Delivered) s"
    and "\<And>k. podreq_service_id (ie_uuid e 0) r = Ok k \<Longrightarrow> n = unwrap_or (map_of (inj_attempts s) (''pods_'' @ k)) 0 + 1"
    and "resp = ie_response e (ar_uid r)" and "err = from_string (''Device id not found for service '' @ sid)"
  shows "(\<forall>ds. store_pool (inj_store s) sid = Some ds \<longrightarrow>
       (\<exists>ops. fst step = Ok (Some (Allow (resp\<lparr>resp_patch := Some ops\<rparr>))) \<and>
         annotation (pod_annotations (fold app ops p)) SDP_ANNOTATION_CLIENT_DEVICE_ID =
           Some (ie_uuid_to_string e (case ds of [] \<Rightarrow> fresh | d # _ \<Rightarrow> d))) \<and>
       store_pool (inj_store (snd step)) = (store_pool (inj_store s))(sid \<mapsto> tl ds)) \<and>
    (store_pool (inj_store s) sid = None \<longrightarrow>
       fst step = Ok (Some (if MAX_PATCH_ATTEMPTS < n then MaxRetryExceeded resp err else RetryWithError resp err n)) \<and>
       inj_store (snd step) = inj_store s)"
proof (intro conjI allI impI)
  fix ds assume ds: "store_pool (inj_store s) sid = Some ds"
  obtain op ops where ops: "fst step = Ok (Some (Allow (resp\<lparr>resp_patch := Some (op # ops)\<rparr>)))"
    and pool: "store_pool (inj_store (snd step)) = (store_pool (inj_store s))(sid \<mapsto> tl ds)"
    unfolding assms(8,10) by (rule admission_known [OF assms(2-7) ds])
  show "store_pool (inj_store (snd step)) = (store_pool (inj_store s))(sid \<mapsto> tl ds)" by (rule pool)
  have "injected_pod parse ic app (Admission e body fresh Delivered) s = Some (fold app (op # ops) p)"
    using ops assms(4,5) by (simp add: assms(8) del: injector_step.simps)
  then obtain si d where
    "fst (provider_step parse (ProviderMsg (RequestDeviceId sid) fresh) (inj_store s)) = Some (AssignedDeviceId si d)"
    and "annotation (pod_annotations (fold app (op # ops) p)) SDP_ANNOTATION_CLIENT_DEVICE_ID = Some (ie_uuid_to_string e d)"
    by (rule injected_device [OF assms(1,2) serves_carried [OF assms(3)] asks_service(1) [OF assms(4,7)]])
  moreover obtain si' where
    "fst (provider_step parse (ProviderMsg (RequestDeviceId sid) fresh) (inj_store s)) =
      Some (AssignedDeviceId si' (case ds of [] \<Rightarrow> fresh | d # _ \<Rightarrow> d))"
    using provider_known [OF assms(2) ds] .
  ultimately have "annotation (pod_annotations (fold app (op # ops) p)) SDP_ANNOTATION_CLIENT_DEVICE_ID =
      Some (ie_uuid_to_string e (case ds of [] \<Rightarrow> fresh | d # _ \<Rightarrow> d))" by simp
  with ops show "\<exists>ops. fst step = Ok (Some (Allow (resp\<lparr>resp_patch := Some ops\<rparr>))) \<and>
      annotation (pod_annotations (fold app ops p)) SDP_ANNOTATION_CLIENT_DEVICE_ID =
        Some (ie_uuid_to_string e (case ds of [] \<Rightarrow> fresh | d # _ \<Rightarrow> d))" by blast
next
  assume "store_pool (inj_store s) sid = None"
  note step = provider_unknown [OF assms(2) this, of parse fresh]
  have k: "\<exists>k. podreq_service_id (ie_uuid e 8) r = Ok k" "\<exists>k. podreq_service_name (ie_uuid e 6) r = Ok k"
    using assms(7) by (auto simp: device_request_def split: res.splits option.splits)
  have "request_device_id (asked_env parse e fresh Delivered s) sid = Err err"
    by (simp add: request_device_id_def provider_answer_def step assms(11) del: provider_step.simps)
  then have patch: "patch_pod (asked_env parse e fresh Delivered s) r pc = Err (WithResponse resp err)" for pc
    using k device_requestD [OF assms(7)]
    by (auto simp: patch_pod_def ServiceEnvironment_create_def from_identity_store_def with_response_def assms(10) Let_def)
  show "fst step = Ok (Some (if MAX_PATCH_ATTEMPTS < n then MaxRetryExceeded resp err else RetryWithError resp err n))"
    by (rule pod_step [OF assms(4), of parse ic fresh Delivered s])
      (use assms(9) in \<open>simp add: assms(8) attempt_patch_def without_response_def patch Let_def split_beta del: injector_step.simps\<close>)
  show "inj_store (snd step) = inj_store s"
    unfolding assms(8) injector_step_store asks_service(2) [OF assms(4,7)] by (simp add: provider_run_Cons step del: provider_step.simps)
qed

theorem pods_get_distinct_devices_witness:
  "\<exists>p1 p2 id1 id2. injected_pod sample_parse sample_context pod_annotate (Admission printing_env ''{}'' 8 Delivered) known_state = Some p1 \<and>
     injected_pod sample_parse sample_context pod_annotate (Admission printing_env ''{}'' 9 Delivered)
       (injector_run sample_parse sample_context [Admission printing_env ''{}'' 8 Delivered] known_state) = Some p2 \<and>
     annotation (pod_annotations p1) SDP_ANNOTATION_CLIENT_DEVICE_ID = Some id1 \<and>
     annotation (pod_annotations p2) SDP_ANNOTATION_CLIENT_DEVICE_ID = Some id2 \<and> id1 \<noteq> id2"
proof -
  let ?s1 = "snd (injector_step sample_parse sample_context (Admission printing_env ''{}'' 8 Delivered) known_state)"
  note asks = asks_service [OF printing_facts(1,2)]
  obtain p1 where p1: "injected_pod sample_parse sample_context pod_annotate (Admission printing_env ''{}'' 8 Delivered) known_state = Some p1"
    using sample_injected(1) [OF known_facts] by blast
  have "store_wf (inj_store ?s1)"
    unfolding injector_step_store by (intro provider_run_wf known_facts)
  then obtain p2 where p2: "injected_pod sample_parse sample_context pod_annotate (Admission printing_env ''{}'' 9 Delivered)
      (injector_run sample_parse sample_context [Admission printing_env ''{}'' 8 Delivered] known_state) = Some p2"
    using sample_injected [OF known_facts] sample_injected(1) by (metis injector_run.simps)
  have carried: "patches_carried printing_env" by (rule serves_carried [OF printing_serves])
  have print: "ie_uuid_to_string printing_env = (\<lambda>u. replicate (unat u) (CHR ''x''))" by (simp add: printing_env_def)
  have "\<exists>id1 id2. annotation (pod_annotations p1) SDP_ANNOTATION_CLIENT_DEVICE_ID = Some id1 \<and>
      annotation (pod_annotations p2) SDP_ANNOTATION_CLIENT_DEVICE_ID = Some id2 \<and> id1 \<noteq> id2"
    by (rule pods_get_distinct_devices [OF pod_annotate_rfc6902 known_facts(1) refl _ _ _ asks(1) asks(1) carried carried print print
          printing_inj, where xs = "[]" and ys = "[]" and ?p1.0 = p1 and ?p2.0 = p2])
      (use p1 p2 in \<open>simp_all add: asks(1) known_facts del: injected_pod.simps injector_step.simps\<close>)
  with p1 p2 show ?thesis by blast
qed

theorem admission_outcome_witness:
  "fst (injector_step sample_parse sample_context (Admission printing_env ''{}'' 8 Delivered) injector_start) =
     Ok (Some (RetryWithError (ie_response printing_env ''1'') (from_string ''Device id not found for service shop_web'') 1)) \<and>
   (\<exists>ops. fst (injector_step sample_parse sample_context (Admission printing_env ''{}'' 8 Delivered) known_state) =
     Ok (Some (Allow ((ie_response printing_env ''1'')\<lparr>resp_patch := Some ops\<rparr>))))"
proof -
  have start: "store_wf (inj_store injector_start)" "store_pool (inj_store injector_start) ''shop_web'' = None"
    by (simp_all add: injector_start_def store_wf_new) (simp add: store_pool_def InMemoryIdentityStore_new_def)
  have uid: "ar_uid sample_request = ''1''" by (simp add: sample_request_def)
  note outcome = admission_outcome [OF pod_annotate_rfc6902 _ printing_serves printing_facts(1) sample_request_facts(1) printing_needs
      printing_facts(2) refl _ refl refl, unfolded uid, of _ 1 sample_parse 8]
  have n: "\<not> MAX_PATCH_ATTEMPTS < (1 :: 8 word)" by (simp add: MAX_PATCH_ATTEMPTS_def)
  have one: "1 = unwrap_or (map_of (inj_attempts injector_start) (''pods_'' @ k)) 0 + 1"
    "1 = unwrap_or (map_of (inj_attempts known_state) (''pods_'' @ k)) 0 + 1" for k
    by (simp_all add: injector_start_def known_state_def)
  show ?thesis
    using outcome [OF start(1) one(1), THEN conjunct2, THEN mp, OF start(2)] n
      outcome [OF known_facts(1) one(2), THEN conjunct1, THEN spec, THEN mp, OF known_facts(2)]
    by (auto simp del: injector_step.simps)
qed

end
