(* ===== verification/Protocols.thy ===== *)
theory Protocols
  imports Service_Model
begin

text \<open>
  The messages the identity service's tasks exchange: the protocols of \<^verbatim>\<open>identity_creator.rs\<close>,
  \<^verbatim>\<open>identity_manager.rs\<close> and \<^verbatim>\<open>service_candidate_watcher.rs\<close>, and the error type of the identity
  service (\<^verbatim>\<open>errors.rs\<close>). A constructor name two protocols share gets the receiver's name in front.
  A hash set or hash map in a message is a list. A UUID is a 128-bit word.
\<close>

section \<open>Errors of the identity service\<close>

text \<open>
  \<^verbatim>\<open>IdentityServiceError\<close> wraps a service error. The conversions from texts, channel errors, client
  errors and Kubernetes errors all go through the text of the error.
\<close>

type_synonym IdentityServiceError = SDPServiceError

definition IDENTITY_SERVICE_MANAGER :: string where
  "IDENTITY_SERVICE_MANAGER = ''IdentityServiceManager''"

definition ise_of_string :: "string \<Rightarrow> IdentityServiceError" where
  "ise_of_string e = with_service (from_string e) IDENTITY_SERVICE_MANAGER"

definition ise_of_service_error :: "SDPServiceError \<Rightarrow> IdentityServiceError" where
  "ise_of_service_error e = with_service e IDENTITY_SERVICE_MANAGER"

section \<open>Messages\<close>

datatype IdentityCreatorProtocol =
    StartService
  | CreateIdentity
  | ActivateServiceUser ServiceUser string string string string_map
  | DeleteServiceUser ServiceUser string string
  | DeleteSDPUser string
  | ReconcileSDPUsers "string list"
  | CreatorReleaseDeviceId ServiceUser "128 word"

datatype IdentityManagerProtocol =
    RequestServiceIdentity ServiceCandidate
  | DeleteServiceIdentity ServiceIdentity
  | FoundServiceCandidate ServiceCandidate
  | DeletedServiceCandidate ServiceCandidate
  | FoundServiceUser ServiceUser bool
  | IdentityCreatorReady
  | DeploymentWatcherReady
  | IdentityManagerInitialized
  | IdentityManagerStarted
  | IdentityManagerReady
  | IdentityManagerDebug string
  | ActivatedServiceUser ServiceUser string string
  | ReleaseDeviceId ServiceLookup "128 word"

datatype ServiceCandidateWatcherProtocol = WatcherIdentityManagerReady

end
