(* ===== verification/Identity_Manager.thy ===== *)
theory Identity_Manager
  imports Protocols
begin

text \<open>
  The identity manager (\<^verbatim>\<open>sdp-identity-service/src/identity_manager.rs\<close>): the credentials provider with
  its pool of service users and its map of registered identities, the client of the
  \<^verbatim>\<open>ServiceIdentity\<close> API, the handlers of the manager's messages and its message loop.

  The Kubernetes client, the channels and the UUID generator are third-party code. What they
  answer is given by an \<open>im_env\<close>: for each call, a function of everything the manager did
  before the call and of the call's arguments. As no two calls of a run have the same past, every
  behaviour of that code is given by some \<open>im_env\<close>, and theorems hold for every \<open>im_env\<close>. What the
  manager does through them is recorded, in order, in the field \<open>trace\<close> of its state, which takes
  the place of the fields holding the API client and the channel ends. Errors of these calls are
  given by their texts.
\<close>

section \<open>The credentials provider\<close>

record Provider =
  pool :: "ServiceUser list"
  services :: "(string \<times> ServiceIdentity) list"

definition provider_default :: Provider where
  "provider_default = \<lparr>pool = [], services = []\<rparr>"

definition pool_pop :: "Provider \<Rightarrow> ServiceUser option \<times> Provider" where
  "pool_pop p = (case pool p of [] \<Rightarrow> (None, p) | u # us \<Rightarrow> (Some u, p\<lparr>pool := us\<rparr>))"

definition pool_push :: "ServiceUser \<Rightarrow> Provider \<Rightarrow> Provider" where
  "pool_push u p = p\<lparr>pool := pool p @ [u]\<rparr>"

definition needs_new_credentials :: "Provider \<Rightarrow> bool" where
  "needs_new_credentials p \<longleftrightarrow> length (pool p) < 10"

definition register_or_update_identity :: "ServiceIdentity \<Rightarrow> Provider \<Rightarrow> Provider" where
  "register_or_update_identity to p = p\<lparr>services := AList.update (si_service_id to) to (services p)\<rparr>"

definition unregister_identity :: "ServiceIdentity \<Rightarrow> Provider \<Rightarrow> ServiceIdentity option \<times> Provider" where
  "unregister_identity to p =
     (map_of (services p) (si_service_id to),
      p\<lparr>services := AList.delete (si_service_id to) (services p)\<rparr>)"

text \<open>The identity built for a lookup from a service user of the pool.\<close>

definition identity_for :: "ServiceLookup \<Rightarrow> string \<Rightarrow> ServiceUser \<Rightarrow> ServiceIdentity" where
  "identity_for from sname u =
     ServiceIdentity_new sname
       \<lparr>sis_service_user = u, sis_service_name = sl_name from,
        sis_service_namespace = sl_namespace from,
        sis_labels = unwrap_or (sl_labels from) [], sis_disabled = False\<rparr>"

definition next_identity :: "ServiceLookup \<Rightarrow> Provider \<Rightarrow> (ServiceIdentity \<times> bool) option \<times> Provider" where
  "next_identity from p =
     (case (lookup_service_id from, lookup_service_name from) of
        (Ok sid, Ok sname) \<Rightarrow>
          (case map_of (services p) sid of
             Some si \<Rightarrow> (Some (si, False), p)
           | None \<Rightarrow>
               (case pool_pop p of
                  (Some u, p') \<Rightarrow>
                    (let si = identity_for from sname u
                     in (Some (si, True), register_or_update_identity si p'))
                | (None, p') \<Rightarrow> (None, p')))
      | _ \<Rightarrow> (None, p))"

text \<open>\<^verbatim>\<open>identity\<close> as its callers use it: the occupied entry's identity, \<open>None\<close> for a vacant entry.\<close>

definition identity :: "ServiceLookup \<Rightarrow> Provider \<Rightarrow> ServiceIdentity option" where
  "identity from p = (case lookup_service_id from of Ok sid \<Rightarrow> map_of (services p) sid | _ \<Rightarrow> None)"

definition provider_identities :: "Provider \<Rightarrow> ServiceIdentity list" where
  "provider_identities p = map snd (services p)"

definition extra_service_identities :: "string list \<Rightarrow> Provider \<Rightarrow> ServiceIdentity list" where
  "extra_service_identities candidates p =
     filter (\<lambda>si. si_service_id si \<notin> set candidates) (provider_identities p)"

definition orphan_service_users :: "string list \<Rightarrow> Provider \<Rightarrow> string list" where
  "orphan_service_users activated p =
     (let current = map (\<lambda>si. su_id (si_credentials si)) (provider_identities p)
      in filter (\<lambda>u. u \<notin> set current) activated)"

definition orphan_service_identities :: "string list \<Rightarrow> Provider \<Rightarrow> ServiceIdentity list" where
  "orphan_service_identities deactivated p =
     filter (\<lambda>si. su_id (si_credentials si) \<in> set deactivated) (provider_identities p)"

section \<open>The manager's state and its environment\<close>

datatype im_action =
    ApiGetOpt string
  | ApiCreate ServiceIdentity
  | ApiReplace string ServiceIdentity
  | ApiDelete string
  | ApiList
  | SendCreator IdentityCreatorProtocol
  | SendSelf IdentityManagerProtocol
  | SendExternal IdentityManagerProtocol
  | Broadcast ServiceCandidateWatcherProtocol

record im_env =
  e_get_opt :: "im_action list \<Rightarrow> string \<Rightarrow> string + ServiceIdentity option"
  e_create :: "im_action list \<Rightarrow> ServiceIdentity \<Rightarrow> string + ServiceIdentity"
  e_replace :: "im_action list \<Rightarrow> string \<Rightarrow> ServiceIdentity \<Rightarrow> string + ServiceIdentity"
  e_delete :: "im_action list \<Rightarrow> string \<Rightarrow> string + unit"
  e_list :: "im_action list \<Rightarrow> string + ServiceIdentity list"
  e_send_creator :: "im_action list \<Rightarrow> IdentityCreatorProtocol \<Rightarrow> string + unit"
  e_send_self :: "im_action list \<Rightarrow> IdentityManagerProtocol \<Rightarrow> string + unit"
  e_broadcast :: "im_action list \<Rightarrow> ServiceCandidateWatcherProtocol \<Rightarrow> string + unit"
  e_uuid :: "im_action list \<Rightarrow> nat \<Rightarrow> string"
  e_uuid_to_string :: "128 word \<Rightarrow> string"

definition N_WATCHERS :: "8 word" where
  "N_WATCHERS = 2"

record IdentityManager =
  cluster_id :: string
  provider :: Provider
  has_external_queue :: bool
  existing_service_candidates :: "string list"
  missing_service_candidates :: "(string \<times> ServiceCandidate) list"
  existing_activated_credentials :: "string list"
  existing_deactivated_credentials :: "string list"
  creator_is_ready :: bool
  deployment_watchers_ready :: "8 word"
  trace :: "im_action list"

type_synonym 'a im_act = "(IdentityManager, IdentityServiceError, 'a) act"

definition IdentityManager_new :: "string option \<Rightarrow> bool \<Rightarrow> (IdentityServiceError, IdentityManager) res" where
  "IdentityManager_new cluster external =
     (case cluster of
        None \<Rightarrow> Panic ''Unable to get cluster ID from SDP_CLUSTER_ID environment variable''
      | Some c \<Rightarrow>
          Ok \<lparr>cluster_id = c, provider = provider_default, has_external_queue = external,
              existing_service_candidates = [], missing_service_candidates = [],
              existing_activated_credentials = [], existing_deactivated_credentials = [],
              creator_is_ready = False, deployment_watchers_ready = 0, trace = []\<rparr>)"

definition perform :: "im_action \<Rightarrow> IdentityManager \<Rightarrow> IdentityManager" where
  "perform a m = m\<lparr>trace := trace m @ [a]\<rparr>"

text \<open>\<^verbatim>\<open>queue_info!\<close>, and the logging macros with a queue: the message goes to the external queue.\<close>

definition queue_info :: "IdentityManagerProtocol \<Rightarrow> IdentityManager \<Rightarrow> IdentityManager" where
  "queue_info msg m = (if has_external_queue m then perform (SendExternal msg) m else m)"

definition debug_info :: "string \<Rightarrow> IdentityManager \<Rightarrow> IdentityManager" where
  "debug_info s = queue_info (IdentityManagerDebug s)"

text \<open>The calls of third-party code: the answer, and the state with the call recorded.\<close>

definition api_get_opt :: "im_env \<Rightarrow> string \<Rightarrow> ServiceIdentity option im_act" where
  "api_get_opt e n m =
     ((case e_get_opt e (trace m) n of Inl err \<Rightarrow> Err (ise_of_string err) | Inr r \<Rightarrow> Ok r),
      perform (ApiGetOpt n) m)"

definition kube_create :: "im_env \<Rightarrow> ServiceIdentity \<Rightarrow> ServiceIdentity im_act" where
  "kube_create e si m =
     ((case e_create e (trace m) si of Inl err \<Rightarrow> Err (ise_of_string err) | Inr r \<Rightarrow> Ok r),
      perform (ApiCreate si) m)"

definition kube_replace :: "im_env \<Rightarrow> string \<Rightarrow> ServiceIdentity \<Rightarrow> ServiceIdentity im_act" where
  "kube_replace e n si m =
     ((case e_replace e (trace m) n si of Inl err \<Rightarrow> Err (ise_of_string err) | Inr r \<Rightarrow> Ok r),
      perform (ApiReplace n si) m)"

definition kube_delete :: "im_env \<Rightarrow> string \<Rightarrow> unit im_act" where
  "kube_delete e n m =
     ((case e_delete e (trace m) n of Inl err \<Rightarrow> Err (ise_of_string err) | Inr r \<Rightarrow> Ok r),
      perform (ApiDelete n) m)"

definition send_creator :: "im_env \<Rightarrow> IdentityCreatorProtocol \<Rightarrow> IdentityManager \<Rightarrow> (string + unit) \<times> IdentityManager" where
  "send_creator e msg m = (e_send_creator e (trace m) msg, perform (SendCreator msg) m)"

definition send_self :: "im_env \<Rightarrow> IdentityManagerProtocol \<Rightarrow> IdentityManager \<Rightarrow> (string + unit) \<times> IdentityManager" where
  "send_self e msg m = (e_send_self e (trace m) msg, perform (SendSelf msg) m)"

definition send_watchers :: "im_env \<Rightarrow> ServiceCandidateWatcherProtocol \<Rightarrow> IdentityManager \<Rightarrow> (string + unit) \<times> IdentityManager" where
  "send_watchers e msg m = (e_broadcast e (trace m) msg, perform (Broadcast msg) m)"

section \<open>The ServiceIdentity API\<close>

definition api_create :: "im_env \<Rightarrow> ServiceIdentity \<Rightarrow> ServiceIdentity im_act" where
  "api_create e si =
     bindR (api_get_opt e (si_service_id si))
       (\<lambda>found. case found of
           None \<Rightarrow> kube_create e si
         | Some si' \<Rightarrow> (\<lambda>m. (Ok si', m)))"

definition api_update :: "im_env \<Rightarrow> ServiceIdentity \<Rightarrow> ServiceIdentity im_act" where
  "api_update e si =
     bindR (api_get_opt e (si_service_name si))
       (\<lambda>found. case found of
           Some obj \<Rightarrow> kube_replace e (si_service_name si) (obj\<lparr>si_spec := si_spec si\<rparr>)
         | None \<Rightarrow> api_create e si)"

definition api_delete :: "im_env \<Rightarrow> ServiceIdentity \<Rightarrow> unit im_act" where
  "api_delete e si =
     bindR (kube_delete e (si_service_name si))
       (\<lambda>_ m. (Ok (), snd (send_creator e
          (DeleteServiceUser (si_credentials si) (si_namespace si) (si_name si)) m)))"

definition api_list :: "im_env \<Rightarrow> ServiceIdentity list im_act" where
  "api_list e m =
     ((case e_list e (trace m) of Inl err \<Rightarrow> Err (ise_of_string err) | Inr r \<Rightarrow> Ok r),
      perform ApiList m)"

section \<open>Handlers\<close>

text \<open>\<open>"[{}] ..."\<close>, the tag of the log lines that also go to the external queue.\<close>

definition tagged :: "string \<Rightarrow> string \<Rightarrow> string" where
  "tagged t s = ''['' @ t @ ''] '' @ s"

definition initialize :: "im_env \<Rightarrow> unit im_act" where
  "initialize e m =
     (case api_list e m of
        (Ok xs, m1) \<Rightarrow>
          (let m2 = m1\<lparr>provider := fold register_or_update_identity xs (provider m1)\<rparr>;
               m3 = queue_info IdentityManagerInitialized m2
           in case send_creator e StartService m3 of
                (Inl err, m4) \<Rightarrow> (Panic ''explicit panic'', m4)
              | (Inr _, m4) \<Rightarrow> (Ok (), m4))
      | (Err err, m1) \<Rightarrow>
          (Panic (''Error fetching list of current ServiceIdentity: '' @ SDPServiceError_fmt err), m1)
      | (Panic p, m1) \<Rightarrow> (Panic p, m1))"

definition delete_service_identity :: "im_env \<Rightarrow> ServiceIdentity \<Rightarrow> unit im_act" where
  "delete_service_identity e si m =
     (let sid = si_service_id si
      in case api_delete e si m of
           (Err err, m1) \<Rightarrow>
             (Ok (), debug_info (tagged sid (''Error deleting ServiceIdentity for service '' @ sid @
                '': '' @ SDPServiceError_fmt err)) m1)
         | (Ok _, m1) \<Rightarrow>
             (case unregister_identity si (provider m1) of
                (Some s, p) \<Rightarrow>
                  (Ok (), debug_info (tagged (si_service_id s) (''ServiceIdentity with id '' @
                     si_service_id s @ '' unregistered'')) (m1\<lparr>provider := p\<rparr>))
              | (None, p) \<Rightarrow>
                  (Ok (), debug_info (tagged sid (''ServiceIdentity with id '' @ sid @
                     '' was not registered'')) (m1\<lparr>provider := p\<rparr>)))
         | (Panic p, m1) \<Rightarrow> (Panic p, m1))"

text \<open>
  The branch of \<^verbatim>\<open>request_service_identity\<close> for an identity that was just created: the pool is
  refilled when it is low, and the identity's user is activated.
\<close>

definition refill_pool :: "im_env \<Rightarrow> string \<Rightarrow> IdentityManager \<Rightarrow> IdentityManager" where
  "refill_pool e sid m =
     (if needs_new_credentials (provider m)
      then (case send_creator e CreateIdentity m of
              (Inl err, m1) \<Rightarrow>
                debug_info (tagged sid (''Error when sending IdentityCreatorMessage::CreateIdentity: '' @ err)) m1
            | (Inr _, m1) \<Rightarrow> m1)
      else m)"

definition request_service_identity :: "im_env \<Rightarrow> ServiceCandidate \<Rightarrow> unit im_act" where
  "request_service_identity e c m =
     (let u = e_uuid e (trace m)
      in case candidate_service_id (u 0) c of
           Ok sid \<Rightarrow>
             (let m1 = debug_info (tagged sid (''New ServiceIdentity requested for ServiceCandidate '' @ sid)) m
              in case lookup_of_candidate (u 1) (u 2) c of
                   Ok a \<Rightarrow>
                     (case next_identity a (provider m1) of
                        (Some (si, True), p) \<Rightarrow>
                          (case api_create e si (m1\<lparr>provider := p\<rparr>) of
                             (Ok si', m2) \<Rightarrow>
                               (let m3 = refill_pool e sid
                                      (debug_info (tagged sid (''ServiceIdentity created for service '' @ sid)) m2)
                                in case candidate_labels (u 3) c of
                                     Ok ls \<Rightarrow>
                                       (Ok (), snd (send_creator e (ActivateServiceUser (si_credentials si')
                                          (cluster_id m3) (si_namespace si') (si_name si') ls) m3))
                                   | _ \<Rightarrow> (Panic ''called `Result::unwrap()` on an `Err` value'', m3))
                           | (Err err, m2) \<Rightarrow>
                               (Ok (), debug_info (tagged sid (''Error creating ServiceIdentity for service with id '' @
                                  sid @ '': '' @ SDPServiceError_fmt err)) m2)
                           | (Panic q, m2) \<Rightarrow> (Panic q, m2))
                      | (Some (_, False), p) \<Rightarrow>
                          (Ok (), debug_info (tagged sid (''ServiceIdentity already exists for service '' @ sid))
                             (m1\<lparr>provider := p\<rparr>))
                      | (None, p) \<Rightarrow>
                          (Ok (), debug_info (tagged sid (''Unable to assign service identity for service '' @ sid @
                             ''. Identities pool seems to be empty!'')) (m1\<lparr>provider := p\<rparr>)))
                 | _ \<Rightarrow> (Panic ''Unable to convert service'', m1))
         | _ \<Rightarrow> (Ok (), m))"

definition found_service_candidate :: "im_env \<Rightarrow> ServiceCandidate \<Rightarrow> unit im_act" where
  "found_service_candidate e c m =
     (let u = e_uuid e (trace m)
      in case candidate_service_id (u 0) c of
           Ok cid \<Rightarrow>
             (case lookup_of_candidate (u 1) (u 2) c of
                Ok l \<Rightarrow>
                  (case identity l (provider m) of
                     Some si \<Rightarrow>
                       (Ok (), (debug_info (tagged (si_service_id si) (''Found registered ServiceCandidate '' @
                           si_service_id si)) m)
                         \<lparr>existing_service_candidates := List.insert cid (existing_service_candidates m)\<rparr>)
                   | None \<Rightarrow>
                       (Ok (), (debug_info (tagged cid (''Found unregistered ServiceCandidate '' @ cid)) m)
                         \<lparr>missing_service_candidates := AList.update cid c (missing_service_candidates m)\<rparr>))
              | _ \<Rightarrow> (Panic ''called `Result::unwrap()` on an `Err` value'', m))
         | _ \<Rightarrow> (Ok (), m))"

definition found_service_user :: "ServiceUser \<Rightarrow> bool \<Rightarrow> unit im_act" where
  "found_service_user su activated m =
     (let t = su_name su @ '' | '' @ su_id su
      in if \<not> activated
         then (let m1 = debug_info (tagged t ''Found deactivated ServiceUser'') m
               in (Ok (), m1\<lparr>existing_deactivated_credentials :=
                        List.insert (su_id su) (existing_deactivated_credentials m1),
                      provider := pool_push su (provider m1)\<rparr>))
         else (let m1 = m\<lparr>existing_activated_credentials :=
                        List.insert (su_id su) (existing_activated_credentials m)\<rparr>
               in (Ok (), debug_info (tagged t ''Found activated ServiceUser'') m1)))"

definition si_set_user :: "ServiceUser \<Rightarrow> ServiceIdentity \<Rightarrow> ServiceIdentity" where
  "si_set_user su si = si\<lparr>si_spec := (si_spec si)\<lparr>sis_service_user := su\<rparr>\<rparr>"

definition activated_service_user :: "im_env \<Rightarrow> ServiceUser \<Rightarrow> string \<Rightarrow> string \<Rightarrow> unit im_act" where
  "activated_service_user e su ns n m =
     (case identity (ServiceLookup_new ns n None) (provider m) of
        Some si \<Rightarrow>
          (let new = si_set_user su si
           in case api_update e new m of
                (Panic p, m1) \<Rightarrow> (Panic p, m1)
              | (_, m1) \<Rightarrow> (Ok (), m1\<lparr>provider := register_or_update_identity new (provider m1)\<rparr>))
      | None \<Rightarrow> (Ok (), m))"

definition notify_ready :: "im_env \<Rightarrow> unit im_act" where
  "notify_ready e m =
     (case send_self e IdentityManagerReady m of
        (Inl err, m1) \<Rightarrow> (Panic (''Unable to create deployment watcher: '' @ err @ ''. Exiting.''), m1)
      | (Inr _, m1) \<Rightarrow> (Ok (), m1))"

definition identity_creator_ready :: "im_env \<Rightarrow> unit im_act" where
  "identity_creator_ready e m =
     (let m1 = m\<lparr>creator_is_ready := True\<rparr>
      in if deployment_watchers_ready m1 = N_WATCHERS then notify_ready e m1 else (Ok (), m1))"

definition deployment_watcher_ready :: "im_env \<Rightarrow> unit im_act" where
  "deployment_watcher_ready e m =
     (let m1 = m\<lparr>deployment_watchers_ready := deployment_watchers_ready m + 1\<rparr>
      in if deployment_watchers_ready m1 = N_WATCHERS \<and> creator_is_ready m1
         then notify_ready e m1 else (Ok (), m1))"

text \<open>
  The two loops of \<^verbatim>\<open>identity_manager_ready\<close> that delete identities; \<open>removed\<close> is the set
  \<^verbatim>\<open>removed_service_identities\<close>. The second loop (\<open>skip_removed\<close>) leaves out the ids in that set.
\<close>

fun delete_identities ::
  "im_env \<Rightarrow> bool \<Rightarrow> ServiceIdentity list \<Rightarrow> string list \<Rightarrow> string list im_act" where
  "delete_identities e skip_removed [] removed m = (Ok removed, m)"
| "delete_identities e skip_removed (si # sis) removed m =
     (let sid = si_service_id si
      in if skip_removed \<and> sid \<in> set removed then delete_identities e skip_removed sis removed m
         else (case delete_service_identity e si m of
                 (Ok _, m1) \<Rightarrow> delete_identities e skip_removed sis (List.insert sid removed) m1
               | (Err _, m1) \<Rightarrow> delete_identities e skip_removed sis removed m1
               | (Panic p, m1) \<Rightarrow> (Panic p, m1)))"

text \<open>\<^verbatim>\<open>send(...).await.expect(text)\<close> on the creator's queue.\<close>

definition send_creator_expect :: "im_env \<Rightarrow> string \<Rightarrow> IdentityCreatorProtocol \<Rightarrow> unit im_act" where
  "send_creator_expect e text msg m =
     (case send_creator e msg m of
        (Inl err, m1) \<Rightarrow> (Panic (text @ '': '' @ err), m1)
      | (Inr _, m1) \<Rightarrow> (Ok (), m1))"

text \<open>
  \<^verbatim>\<open>identity_manager_ready\<close> in the order of its steps: identities without a candidate, active users
  without an identity, identities with a deactivated user, the users the creator has to
  reconcile, the candidates without an identity, and the notification of the watchers.
\<close>

definition delete_orphan_users :: "im_env \<Rightarrow> unit im_act" where
  "delete_orphan_users e m =
     try_each (\<lambda>u. send_creator_expect e ''Error deleting orphaned SDPUser'' (DeleteSDPUser u))
       (orphan_service_users (existing_activated_credentials m) (provider m)) m"

definition reconcile_users :: "im_env \<Rightarrow> unit im_act" where
  "reconcile_users e m =
     send_creator_expect e ''Error reconciliating SDP users''
       (ReconcileSDPUsers (remdups (map (\<lambda>si. su_name (si_credentials si)) (provider_identities (provider m))))) m"

definition request_missing :: "im_env \<Rightarrow> unit im_act" where
  "request_missing e m =
     for_each (request_service_identity e) (map snd (missing_service_candidates m)) m"

definition notify_watchers :: "im_env \<Rightarrow> unit im_act" where
  "notify_watchers e m =
     (case send_watchers e WatcherIdentityManagerReady m of
        (Inl err, m1) \<Rightarrow> (Panic (''Unable to notify DeploymentWatcher!: '' @ err), m1)
      | (Inr _, m1) \<Rightarrow> (Ok (), m1))"

definition identity_manager_ready :: "im_env \<Rightarrow> unit im_act" where
  "identity_manager_ready e m =
     (let m0 = debug_info ''Syncing ServiceIdentity instances'' m
      in bindR (\<lambda>m. delete_identities e False
                      (extra_service_identities (existing_service_candidates m) (provider m)) [] m)
           (\<lambda>removed. bindR (delete_orphan_users e)
              (\<lambda>_. bindR (\<lambda>m. delete_identities e True
                      (orphan_service_identities (existing_deactivated_credentials m) (provider m)) removed m)
                 (\<lambda>_. bindR (reconcile_users e)
                    (\<lambda>_. bindR (request_missing e) (\<lambda>_. notify_watchers e))))) m0)"

definition deleted_service_candidate :: "im_env \<Rightarrow> ServiceCandidate \<Rightarrow> unit im_act" where
  "deleted_service_candidate e c m =
     (let u = e_uuid e (trace m)
      in case candidate_service_id (u 0) c of
           Ok cid \<Rightarrow>
             (case lookup_of_candidate (u 1) (u 2) c of
                Ok l \<Rightarrow>
                  (case identity l (provider m) of
                     Some si \<Rightarrow> (Ok (), snd (send_self e (DeleteServiceIdentity si) m))
                   | None \<Rightarrow> (Ok (), m))
              | _ \<Rightarrow> (Panic ''called `Result::unwrap()` on an `Err` value'', m))
         | _ \<Rightarrow> (Ok (), m))"

text \<open>The device ids of the identity's user, with a released one added when it is not there.\<close>

definition add_device_id :: "string \<Rightarrow> ServiceIdentity \<Rightarrow> ServiceIdentity" where
  "add_device_id d si =
     (let su = sis_service_user (si_spec si)
      in case su_device_ids su of
           Some ds \<Rightarrow> if d \<notin> set ds then si_set_user (su\<lparr>su_device_ids := Some (ds @ [d])\<rparr>) si else si
         | None \<Rightarrow> si)"

definition release_device_id :: "im_env \<Rightarrow> ServiceLookup \<Rightarrow> 128 word \<Rightarrow> unit im_act" where
  "release_device_id e l uuid m =
     (case (lookup_service_id l, identity l (provider m)) of
        (Ok sid, Some si) \<Rightarrow>
          (let si' = add_device_id (e_uuid_to_string e uuid) si;
               m1 = m\<lparr>provider := (provider m)\<lparr>services := AList.update sid si' (services (provider m))\<rparr>\<rparr>
           in case api_update e si' m1 of
                (Ok _, m2) \<Rightarrow>
                  (case send_creator e (CreatorReleaseDeviceId (sis_service_user (si_spec si')) uuid) m2 of
                     (Inl err, m3) \<Rightarrow>
                       (Err (ise_of_service_error
                          (from_error ''Error asking IdentityCreator to release device id'' err)), m3)
                   | (Inr _, m3) \<Rightarrow> (Ok (), m3))
              | (Err err, m2) \<Rightarrow> (Err err, m2)
              | (Panic p, m2) \<Rightarrow> (Panic p, m2))
      | _ \<Rightarrow> (Ok (), m))"

section \<open>The message loop\<close>

fun handle :: "im_env \<Rightarrow> IdentityManagerProtocol \<Rightarrow> unit im_act" where
  "handle e (DeleteServiceIdentity si) = delete_service_identity e si"
| "handle e (RequestServiceIdentity c) = request_service_identity e c"
| "handle e (FoundServiceCandidate c) = found_service_candidate e c"
| "handle e (FoundServiceUser su activated) = found_service_user su activated"
| "handle e (ActivatedServiceUser su ns n) = activated_service_user e su ns n"
| "handle e IdentityCreatorReady = identity_creator_ready e"
| "handle e DeploymentWatcherReady = deployment_watcher_ready e"
| "handle e IdentityManagerReady = identity_manager_ready e"
| "handle e (DeletedServiceCandidate c) = deleted_service_candidate e c"
| "handle e (ReleaseDeviceId l uuid) = release_device_id e l uuid"
| "handle e IdentityManagerInitialized = (\<lambda>m. (Ok (), m))"
| "handle e IdentityManagerStarted = (\<lambda>m. (Ok (), m))"
| "handle e (IdentityManagerDebug s) = (\<lambda>m. (Ok (), m))"

text \<open>
  \<^verbatim>\<open>run\<close> on the messages received until the channel closes, in the order in which they arrive. A
  handler's error is logged and the loop goes on; a panic ends it.
\<close>

definition run :: "im_env \<Rightarrow> IdentityManagerProtocol list \<Rightarrow> unit im_act" where
  "run e msgs m =
     (case initialize e m of
        (Panic p, m1) \<Rightarrow> (Panic p, m1)
      | (_, m1) \<Rightarrow> for_each (handle e) msgs m1)"

section \<open>The provider's contract\<close>

definition provider_wf :: "Provider \<Rightarrow> bool" where
  "provider_wf p \<longleftrightarrow>
     distinct (map fst (services p)) \<and> (\<forall>k si. map_of (services p) k = Some si \<longrightarrow> si_service_id si = k)"

definition provider_lookup :: "Provider \<Rightarrow> string \<Rightarrow> ServiceIdentity option" where
  "provider_lookup p = map_of (services p)"

definition lookup_id :: "ServiceLookup \<Rightarrow> string" where
  "lookup_id l = sl_namespace l @ ''_'' @ sl_name l"

lemma lookup_service_id_lookup_id: "lookup_service_id l = Ok (lookup_id l)"
  by (simp add: name_simps lookup_id_def)

lemma identity_lookup: "identity l p = provider_lookup p (lookup_id l)"
  by (simp add: identity_def lookup_service_id_lookup_id provider_lookup_def)

lemma identity_for_sel [simp]:
  "si_service_id (identity_for l n u) = lookup_id l" "si_credentials (identity_for l n u) = u"
  "si_namespace (identity_for l n u) = sl_namespace l" "si_name (identity_for l n u) = sl_name l"
  by (simp_all add: identity_for_def si_service_id_def si_namespace_def si_name_def lookup_id_def)

lemma si_set_user_sel [simp]:
  "si_service_id (si_set_user su si) = si_service_id si" "si_credentials (si_set_user su si) = su"
  "si_namespace (si_set_user su si) = si_namespace si" "si_name (si_set_user su si) = si_name si"
  by (simp_all add: si_set_user_def si_service_id_def si_namespace_def si_name_def si_credentials_def)

text \<open>
  The traits \<^verbatim>\<open>ServiceUserPool\<close> and \<^verbatim>\<open>ServiceCredentialProvider\<close>: a queue of free users and a map of
  identities by service id. \<open>assign\<close> serves a sequence of lookups.
\<close>

locale credential_provider =
  fixes invar :: "'p \<Rightarrow> bool"
    and free :: "'p \<Rightarrow> ServiceUser list"
    and lookup :: "'p \<Rightarrow> string \<Rightarrow> ServiceIdentity option"
    and push :: "ServiceUser \<Rightarrow> 'p \<Rightarrow> 'p"
    and register :: "ServiceIdentity \<Rightarrow> 'p \<Rightarrow> 'p"
    and unregister :: "ServiceIdentity \<Rightarrow> 'p \<Rightarrow> ServiceIdentity option \<times> 'p"
    and next_id :: "ServiceLookup \<Rightarrow> 'p \<Rightarrow> (ServiceIdentity \<times> bool) option \<times> 'p"
  assumes invar_push: "invar p \<Longrightarrow> invar (push u p)"
    and invar_register: "invar p \<Longrightarrow> invar (register si p)"
    and invar_unregister: "invar p \<Longrightarrow> invar (snd (unregister si p))"
    and free_push: "free (push u p) = free p @ [u]"
    and free_register: "free (register si p) = free p"
    and free_unregister: "free (snd (unregister si p)) = free p"
    and lookup_push: "lookup (push u p) = lookup p"
    and lookup_register: "lookup (register si p) = (lookup p)(si_service_id si \<mapsto> si)"
    and lookup_unregister: "lookup (snd (unregister si p)) = (lookup p)(si_service_id si := None)"
    and lookup_own_id: "invar p \<Longrightarrow> lookup p k = Some si \<Longrightarrow> si_service_id si = k"
    and next_known: "lookup p (lookup_id l) = Some si \<Longrightarrow> next_id l p = (Some (si, False), p)"
    and next_new: "lookup p (lookup_id l) = None \<Longrightarrow> free p = u # us \<Longrightarrow>
          \<exists>si p'. next_id l p = (Some (si, True), p') \<and> si_credentials si = u \<and>
            si_service_id si = lookup_id l \<and> free p' = us \<and> lookup p' = (lookup p)(lookup_id l \<mapsto> si) \<and>
            (invar p \<longrightarrow> invar p')"
    and next_empty: "lookup p (lookup_id l) = None \<Longrightarrow> free p = [] \<Longrightarrow> next_id l p = (None, p)"
begin

fun assign :: "ServiceLookup list \<Rightarrow> 'p \<Rightarrow> (ServiceIdentity \<times> bool) option list \<times> 'p" where
  "assign [] p = ([], p)"
| "assign (l # ls) p =
     (case next_id l p of (r, p') \<Rightarrow> (case assign ls p' of (rs, p'') \<Rightarrow> (r # rs, p'')))"

lemma next_cases:
  obtains (known) si where "lookup p (lookup_id l) = Some si" and "next_id l p = (Some (si, False), p)"
  | (fresh) u us si p' where "lookup p (lookup_id l) = None" and "free p = u # us"
      and "next_id l p = (Some (si, True), p')" and "si_credentials si = u" and "si_service_id si = lookup_id l"
      and "free p' = us" and "lookup p' = (lookup p)(lookup_id l \<mapsto> si)" and "invar p \<longrightarrow> invar p'"
  | (empty) "lookup p (lookup_id l) = None" and "free p = []" and "next_id l p = (None, p)"
proof (cases "lookup p (lookup_id l)")
  case (Some si)
  then show thesis using next_known [of p l] known by blast
next
  case None
  show thesis
  proof (cases "free p")
    case Nil
    with None show thesis using next_empty empty by blast
  next
    case (Cons u us)
    with None show thesis using next_new [of p l u us] fresh by blast
  qed
qed

lemma invar_next: "invar p \<Longrightarrow> invar (snd (next_id l p))"
  by (cases rule: next_cases [of p l]) auto

text \<open>Once a service has an identity, asking again gives the same identity and changes nothing.\<close>

lemma next_stable: "next_id l p = (Some (si, b), p') \<Longrightarrow> next_id l p' = (Some (si, False), p')"
  by (cases rule: next_cases [of p l]) (auto intro: next_known)

lemma next_keeps_others:
  "k \<noteq> lookup_id l \<Longrightarrow> lookup (snd (next_id l p)) k = lookup p k"
  by (cases rule: next_cases [of p l]) auto

text \<open>Services that have no identity are served from the queue of free users, in order.\<close>

lemma assign_fifo:
  assumes "distinct (map lookup_id ls)" and "\<forall>l \<in> set ls. lookup p (lookup_id l) = None"
    and "length ls \<le> length (free p)"
  shows "map (map_option (\<lambda>(si, b). (si_service_id si, si_credentials si, b))) (fst (assign ls p)) =
       map (\<lambda>(l, u). Some (lookup_id l, u, True)) (zip ls (free p)) \<and>
     free (snd (assign ls p)) = drop (length ls) (free p)"
  using assms
proof (induction ls arbitrary: p)
  case (Cons l ls)
  then obtain u us where us: "free p = u # us" by (cases "free p") auto
  with Cons.prems obtain si p' where n: "next_id l p = (Some (si, True), p')" "si_credentials si = u"
    "si_service_id si = lookup_id l" "free p' = us" "lookup p' = (lookup p)(lookup_id l \<mapsto> si)"
    using next_new [of p l u us] by auto
  have "map (map_option (\<lambda>(si, b). (si_service_id si, si_credentials si, b))) (fst (assign ls p')) =
        map (\<lambda>(l, u). Some (lookup_id l, u, True)) (zip ls (free p')) \<and>
      free (snd (assign ls p')) = drop (length ls) (free p')"
    by (rule Cons.IH) (use Cons.prems n us in \<open>auto, metis image_eqI\<close>)
  with n us show ?case by (cases "assign ls p'") simp
qed simp

end

lemma provider_sels [simp]:
  "pool (register_or_update_identity si p) = pool p"
  "services (register_or_update_identity si p) = AList.update (si_service_id si) si (services p)"
  "pool (snd (unregister_identity si p)) = pool p"
  "services (snd (unregister_identity si p)) = AList.delete (si_service_id si) (services p)"
  "fst (unregister_identity si p) = map_of (services p) (si_service_id si)"
  "pool (pool_push u p) = pool p @ [u]" "services (pool_push u p) = services p"
  by (simp_all add: register_or_update_identity_def unregister_identity_def pool_push_def)

lemma next_identity_eq:
  "next_identity l p =
     (case map_of (services p) (lookup_id l) of
        Some si \<Rightarrow> (Some (si, False), p)
      | None \<Rightarrow>
          (case pool p of
             [] \<Rightarrow> (None, p)
           | u # us \<Rightarrow>
               (let si = identity_for l (sl_namespace l @ ''-'' @ sl_name l) u
                in (Some (si, True), register_or_update_identity si (p\<lparr>pool := us\<rparr>)))))"
  by (simp add: next_identity_def lookup_service_id_lookup_id lookup_service_name_eq pool_pop_def Let_def
      split: option.splits list.splits)

interpretation cred: credential_provider provider_wf pool provider_lookup pool_push
  register_or_update_identity unregister_identity next_identity
  by unfold_locales
    (auto simp: provider_wf_def provider_lookup_def next_identity_eq Let_def split: option.splits)

end
