(* ===== verification/Manager_Laws.thy ===== *)
theory Manager_Laws
  imports Identity_Manager
begin

text \<open>
  What the identity manager guarantees: what its handlers leave unchanged, the invariants of the
  provider along every run, when it panics, when it declares itself ready, what a request does
  and what the reconciliation at start does.
\<close>

section \<open>Frames\<close>

text \<open>
  What most handlers do outside: anything but sending the manager a message or starting the creator.
  \<open>quiet m m'\<close>: from \<open>m\<close> to \<open>m'\<close> the manager did only such things.
\<close>

fun handler_call :: "im_action \<Rightarrow> bool" where
  "handler_call (SendSelf msg) = False"
| "handler_call (SendCreator msg) = (msg \<noteq> StartService)"
| "handler_call _ = True"

definition quiet :: "IdentityManager \<Rightarrow> IdentityManager \<Rightarrow> bool" where
  "quiet m m' \<longleftrightarrow>
     (\<exists>acts. m' = m\<lparr>trace := trace m @ acts\<rparr> \<and> (\<forall>a \<in> set acts. handler_call a))"

lemma quiet_refl [simp]: "quiet m m"
  by (auto simp: quiet_def intro!: exI [of _ "[]"])

lemma quiet_trans: "quiet m m' \<Longrightarrow> quiet m' m'' \<Longrightarrow> quiet m m''"
  unfolding quiet_def
proof (elim exE conjE)
  fix a b
  assume "m' = m\<lparr>trace := trace m @ a\<rparr>" "m'' = m'\<lparr>trace := trace m' @ b\<rparr>"
    "\<forall>x \<in> set a. handler_call x" "\<forall>x \<in> set b. handler_call x"
  then show "\<exists>acts. m'' = m\<lparr>trace := trace m @ acts\<rparr> \<and> (\<forall>x \<in> set acts. handler_call x)"
    by (intro exI [of _ "a @ b"]) auto
qed

lemma quiet_perform [simp]: "quiet m m' \<Longrightarrow> handler_call a \<Longrightarrow> quiet m (perform a m')"
proof (erule quiet_trans)
  assume a: "handler_call a"
  show "quiet m' (perform a m')"
    unfolding quiet_def perform_def by (intro exI [of _ "[a]"]) (simp add: a)
qed

lemma quiet_queue_info [simp]:
  "quiet m m' \<Longrightarrow> quiet m (queue_info msg m')" "quiet m m' \<Longrightarrow> quiet m (debug_info s m')"
  by (simp_all add: queue_info_def debug_info_def)

lemma quiet_fields:
  assumes "quiet m m'"
  shows "provider m' = provider m" "cluster_id m' = cluster_id m"
    "has_external_queue m' = has_external_queue m"
    "existing_service_candidates m' = existing_service_candidates m"
    "missing_service_candidates m' = missing_service_candidates m"
    "existing_activated_credentials m' = existing_activated_credentials m"
    "existing_deactivated_credentials m' = existing_deactivated_credentials m"
    "creator_is_ready m' = creator_is_ready m"
    "deployment_watchers_ready m' = deployment_watchers_ready m"
  using assms by (auto simp: quiet_def)

lemma quiet_api_create [simp]: "quiet m m' \<Longrightarrow> quiet m (snd (api_create e si m'))"
  by (auto simp: api_create_def bindR_def api_get_opt_def kube_create_def split: sum.splits option.splits)

lemma quiet_api_update [simp]: "quiet m m' \<Longrightarrow> quiet m (snd (api_update e si m'))"
  by (auto simp: api_update_def bindR_def api_get_opt_def kube_replace_def split: sum.splits option.splits)

lemma quiet_send_creator [simp]: "quiet m m' \<Longrightarrow> msg \<noteq> StartService \<Longrightarrow> quiet m (snd (send_creator e msg m'))"
  by (simp add: send_creator_def)

lemma quiet_api_delete [simp]: "quiet m m' \<Longrightarrow> quiet m (snd (api_delete e si m'))"
  by (auto simp: api_delete_def bindR_def kube_delete_def split: sum.splits)

lemma quiet_api_list [simp]: "quiet m m' \<Longrightarrow> quiet m (snd (api_list e m'))"
  by (simp add: api_list_def)

lemma quiet_refill_pool [simp]: "quiet m m' \<Longrightarrow> quiet m (refill_pool e sid m')"
  by (auto simp: refill_pool_def send_creator_def split: sum.splits)

lemma api_never_panics [simp]:
  "api_create e si m \<noteq> (Panic p, m')" "api_update e si m \<noteq> (Panic p, m')"
  "api_delete e si m \<noteq> (Panic p, m')" "api_list e m \<noteq> (Panic p, m')"
  by (auto simp: api_create_def api_update_def api_delete_def api_list_def bindR_def api_get_opt_def
      kube_create_def kube_replace_def kube_delete_def split: sum.splits option.splits)

section \<open>What the handlers do to the provider\<close>

text \<open>\<open>serves m m'\<close>: the step changed nothing but the provider, and sent the manager nothing.\<close>

definition serves :: "IdentityManager \<Rightarrow> IdentityManager \<Rightarrow> bool" where
  "serves m m' \<longleftrightarrow>
     (\<exists>p acts. m' = m\<lparr>provider := p, trace := trace m @ acts\<rparr> \<and> (\<forall>a \<in> set acts. handler_call a))"

lemma serves_update: "serves m m' \<Longrightarrow> serves m (m'\<lparr>provider := p\<rparr>)"
  unfolding serves_def
proof (elim exE conjE)
  fix q acts
  assume "m' = m\<lparr>provider := q, trace := trace m @ acts\<rparr>" and "\<forall>a \<in> set acts. handler_call a"
  then show "\<exists>p' acts. m'\<lparr>provider := p\<rparr> = m\<lparr>provider := p', trace := trace m @ acts\<rparr> \<and>
      (\<forall>a \<in> set acts. handler_call a)"
    by (intro exI [of _ p] exI [of _ acts]) simp
qed

lemma quiet_serves: "quiet m m' \<Longrightarrow> serves m m'"
  unfolding quiet_def serves_def
proof (elim exE conjE)
  fix acts
  assume "m' = m\<lparr>trace := trace m @ acts\<rparr>" and "\<forall>a \<in> set acts. handler_call a"
  then show "\<exists>p acts. m' = m\<lparr>provider := p, trace := trace m @ acts\<rparr> \<and>
      (\<forall>a \<in> set acts. handler_call a)"
    by (intro exI [of _ "provider m"] exI [of _ acts]) simp
qed

lemma serves_refl [simp]: "serves m m"
  by (simp add: quiet_serves)

lemma serves_trans: "serves m m' \<Longrightarrow> serves m' m'' \<Longrightarrow> serves m m''"
  unfolding serves_def
proof (elim exE conjE)
  fix p a q b
  assume "m' = m\<lparr>provider := p, trace := trace m @ a\<rparr>" "m'' = m'\<lparr>provider := q, trace := trace m' @ b\<rparr>"
    "\<forall>x \<in> set a. handler_call x" "\<forall>x \<in> set b. handler_call x"
  then show "\<exists>p acts. m'' = m\<lparr>provider := p, trace := trace m @ acts\<rparr> \<and>
      (\<forall>x \<in> set acts. handler_call x)"
    by (intro exI [of _ q] exI [of _ "a @ b"]) auto
qed

lemma serves_quiet: "serves m m' \<Longrightarrow> quiet m' m'' \<Longrightarrow> serves m m''"
  by (rule serves_trans) (auto intro: quiet_serves)

lemma serves_fields:
  assumes "serves m m'"
  shows "cluster_id m' = cluster_id m" "has_external_queue m' = has_external_queue m"
    "existing_service_candidates m' = existing_service_candidates m"
    "missing_service_candidates m' = missing_service_candidates m"
    "existing_activated_credentials m' = existing_activated_credentials m"
    "existing_deactivated_credentials m' = existing_deactivated_credentials m"
    "creator_is_ready m' = creator_is_ready m"
    "deployment_watchers_ready m' = deployment_watchers_ready m"
  using assms by (auto simp: serves_def)

text \<open>What requests and deletions do to the provider: identities are taken from the pool or dropped.\<close>

inductive provider_change :: "Provider \<Rightarrow> Provider \<Rightarrow> bool" where
  take: "provider_change p (snd (next_identity l p))"
| drop: "provider_change p (snd (unregister_identity si p))"

inductive_cases provider_changeE: "provider_change p p'"

lemma provider_changes:
  "provider_change\<^sup>*\<^sup>* p (snd (next_identity l p))" "provider_change\<^sup>*\<^sup>* p (snd (unregister_identity si p))"
  by (rule r_into_rtranclp, rule provider_change.intros)+

lemma quiet_provider:
  "f m = (r, m') \<Longrightarrow> quiet m (snd (f m)) \<Longrightarrow> provider m' = provider m"
  by (metis quiet_fields(1) snd_conv)

lemma delete_service_identity_eq:
  "delete_service_identity e si m =
     (case api_delete e si m of
        (Ok _, m1) \<Rightarrow>
          (Ok (), debug_info (tagged (si_service_id si) (''ServiceIdentity with id '' @ si_service_id si @
             (if provider_lookup (provider m) (si_service_id si) = None then '' was not registered''
              else '' unregistered'')))
             (m1\<lparr>provider := snd (unregister_identity si (provider m))\<rparr>))
      | (Err err, m1) \<Rightarrow>
          (Ok (), debug_info (tagged (si_service_id si) (''Error deleting ServiceIdentity for service '' @
             si_service_id si @ '': '' @ SDPServiceError_fmt err)) m1)
      | (Panic p, m1) \<Rightarrow> (Panic p, m1))"
  if "provider_wf (provider m)"
proof -
  have "provider (snd (api_delete e si m)) = provider m"
    by (rule quiet_fields) simp
  with that show ?thesis
    by (auto simp: delete_service_identity_def unregister_identity_def provider_lookup_def Let_def
        provider_wf_def split: prod.splits res.splits option.splits)
qed

lemma delete_service_identity_ok [simp]: "fst (delete_service_identity e si m) = Ok ()"
  by (auto simp: delete_service_identity_def unregister_identity_def Let_def
      split: prod.splits res.splits option.splits)

lemma serves_delete: "serves m (snd (delete_service_identity e si m))"
proof -
  obtain r m1 where r: "api_delete e si m = (r, m1)" by (cases "api_delete e si m")
  then have "quiet m m1" using quiet_api_delete [of m m e si] by simp
  then have s: "serves m m1" by (rule quiet_serves)
  have d: "serves m (debug_info t x)" if "serves m x" for t x
    using that by (rule serves_quiet) simp
  show ?thesis
    using r s by (auto simp: delete_service_identity_def unregister_identity_def Let_def
        split: res.splits option.splits intro!: d serves_update)
qed

lemma provider_debug [simp]: "provider (debug_info t m) = provider m"
  by (rule quiet_fields) simp

lemma provider_delete:
  "provider (snd (delete_service_identity e si m)) \<in> {provider m, snd (unregister_identity si (provider m))}"
proof -
  have "provider (snd (api_delete e si m)) = provider m"
    by (rule quiet_fields) simp
  then show ?thesis
    by (auto simp: delete_service_identity_def unregister_identity_def Let_def
        split: prod.splits res.splits option.splits)
qed

lemma provider_change_delete: "provider_change\<^sup>*\<^sup>* (provider m) (provider (snd (delete_service_identity e si m)))"
  using provider_delete [of e si m] by (auto intro: provider_changes)

lemma serves_request: "serves m (snd (request_service_identity e c m))"
proof -
  have d: "serves m (debug_info t x)" if "serves m x" for t x
    using that by (rule serves_quiet) simp
  have r: "serves m (refill_pool e sid x)" if "serves m x" for sid x
    using that by (rule serves_quiet) simp
  have sc: "serves m (snd (send_creator e msg x))" if "serves m x" "msg \<noteq> StartService" for msg x
    using that by (intro serves_quiet [OF that(1)]) simp
  have ac: "serves m x'" if "serves m x" "api_create e si x = (r, x')" for si x r x'
    by (rule serves_quiet [OF that(1)]) (use that(2) quiet_api_create [of x x e si] in simp)
  show ?thesis
    unfolding request_service_identity_def Let_def
    by (auto split: res.splits option.splits prod.splits bool.splits
        intro!: d r sc serves_update dest!: ac [rotated] intro: serves_update)
qed

lemma provider_refill [simp]: "provider (refill_pool e sid m) = provider m"
  by (rule quiet_fields) simp

lemma provider_send_creator [simp]: "provider (snd (send_creator e msg m)) = provider m"
  by (simp add: send_creator_def perform_def)

lemma provider_api_create: "api_create e si m = (r, m') \<Longrightarrow> provider m' = provider m"
  using quiet_fields(1) [OF quiet_api_create [OF quiet_refl], of e si m] by simp

lemma provider_request:
  "\<exists>l. provider (snd (request_service_identity e c m)) \<in> {provider m, snd (next_identity l (provider m))}"
proof (cases "lookup_of_candidate (e_uuid e (trace m) 1) (e_uuid e (trace m) 2) c")
  case (Ok l)
  then have "provider (snd (request_service_identity e c m)) \<in> {provider m, snd (next_identity l (provider m))}"
    by (auto simp: request_service_identity_def Let_def split: res.splits option.splits prod.splits bool.splits
        dest!: provider_api_create)
  then show ?thesis by blast
qed (auto simp: request_service_identity_def Let_def split: res.splits)

lemma provider_change_request:
  "provider_change\<^sup>*\<^sup>* (provider m) (provider (snd (request_service_identity e c m)))"
  using provider_request [of e c m] by (auto intro: provider_changes)

text \<open>A step that serves, as a relation: what it does to the provider is a sequence of changes.\<close>

definition serving :: "IdentityManager \<Rightarrow> IdentityManager \<Rightarrow> bool" where
  "serving m m' \<longleftrightarrow> serves m m' \<and> provider_change\<^sup>*\<^sup>* (provider m) (provider m')"

lemma serving_trans: "serving m m' \<Longrightarrow> serving m' m'' \<Longrightarrow> serving m m''"
  by (auto simp: serving_def intro: serves_trans)

lemma quiet_serving: "quiet m m' \<Longrightarrow> serving m m'"
  by (auto simp: serving_def quiet_fields intro: quiet_serves)

lemma serving_refl [simp]: "serving m m"
  by (simp add: quiet_serving)

lemma serving_delete: "serving m (snd (delete_service_identity e si m))"
  by (simp add: serving_def serves_delete provider_change_delete)

lemma serving_request: "serving m (snd (request_service_identity e c m))"
  by (simp add: serving_def serves_request provider_change_request)

lemma serving_delete_identities: "serving m (snd (delete_identities e b sis removed m))"
proof (induction sis arbitrary: removed m)
  case (Cons si sis)
  obtain m1 where m1: "delete_service_identity e si m = (Ok (), m1)"
    by (metis delete_service_identity_ok prod.collapse)
  then have "serving m m1" using serving_delete [of m e si] by simp
  then show ?case using Cons [of m removed] serving_trans [OF _ Cons [of m1 "List.insert (si_service_id si) removed"]] m1
    by (cases b) (simp_all add: Let_def del: not_in_set_insert)
qed simp

lemma serving_bind:
  assumes "serving m (snd (f m))" and "\<And>a m1. f m = (Ok a, m1) \<Longrightarrow> serving m1 (snd (g a m1))"
  shows "serving m (snd (bindR f g m))"
proof -
  obtain r m1 where r: "f m = (r, m1)" by (cases "f m")
  with assms show ?thesis by (cases r) (auto intro: serving_trans)
qed

lemma quiet_send_expect [simp]: "quiet m m' \<Longrightarrow> msg \<noteq> StartService \<Longrightarrow> quiet m (snd (send_creator_expect e t msg m'))"
  by (auto simp: send_creator_expect_def send_creator_def split: sum.splits)

lemma quiet_delete_orphan_users [simp]: "quiet m (snd (delete_orphan_users e m))"
  unfolding delete_orphan_users_def
  by (rule try_each_invariant [where P = "quiet m"]) (auto simp: quiet_trans)

lemma quiet_reconcile_users [simp]: "quiet m (snd (reconcile_users e m))"
  by (simp add: reconcile_users_def)

lemma quiet_notify_watchers [simp]: "quiet m (snd (notify_watchers e m))"
  by (auto simp: notify_watchers_def send_watchers_def split: sum.splits)

lemma serving_request_missing: "serving m (snd (request_missing e m))"
  unfolding request_missing_def
  by (rule for_each_invariant [where P = "serving m"]) (auto intro: serving_trans [OF _ serving_request])

lemma serving_ready: "serving m (snd (identity_manager_ready e m))"
proof -
  have "serving m (debug_info ''Syncing ServiceIdentity instances'' m)"
    by (rule quiet_serving) simp
  then show ?thesis
    unfolding identity_manager_ready_def Let_def
    by (rule serving_trans)
      (intro serving_bind serving_delete_identities serving_request_missing quiet_serving
        quiet_delete_orphan_users quiet_reconcile_users quiet_notify_watchers)
qed

section \<open>Invariants of the provider\<close>

text \<open>The ids of the users a provider holds: the free ones, then those of the identities.\<close>

definition user_ids :: "Provider \<Rightarrow> string list" where
  "user_ids p = map su_id (pool p) @ map (\<lambda>x. su_id (si_credentials (snd x))) (services p)"

definition unshared :: "Provider \<Rightarrow> bool" where
  "unshared p \<longleftrightarrow> provider_wf p \<and> distinct (user_ids p)"

lemma provider_wf_default [simp]: "provider_wf provider_default" "unshared provider_default"
  by (simp_all add: provider_wf_def unshared_def user_ids_def provider_default_def)

lemma provider_wf_change: "provider_change\<^sup>*\<^sup>* p p' \<Longrightarrow> provider_wf p \<Longrightarrow> provider_wf p'"
  by (induction rule: rtranclp_induct)
    (auto elim!: provider_changeE simp: cred.invar_next cred.invar_unregister)

lemma unshared_next:
  assumes "unshared p"
  shows "unshared (snd (next_identity l p))"
proof (cases "map_of (services p) (lookup_id l)")
  case None
  then show ?thesis
    using assms cred.invar_next [of p l]
    by (auto simp: unshared_def user_ids_def next_identity_eq Let_def AList_update_absent split: list.splits)
next
  case (Some si)
  with assms show ?thesis by (simp add: next_identity_eq)
qed

lemma unshared_unregister:
  assumes "unshared p"
  shows "unshared (snd (unregister_identity si p))"
proof -
  have d: "distinct (map f xs) \<Longrightarrow> distinct (map f (filter P xs))" for f :: "string \<times> ServiceIdentity \<Rightarrow> string" and P xs
    by (induction xs) auto
  have "set (map f (filter P xs)) \<subseteq> set (map f xs)" for f :: "string \<times> ServiceIdentity \<Rightarrow> string" and P xs
    by auto
  then show ?thesis
    using assms cred.invar_unregister [of p si] d
    by (auto simp: unshared_def user_ids_def AList.delete_eq)
qed

lemma unshared_change: "provider_change\<^sup>*\<^sup>* p p' \<Longrightarrow> unshared p \<Longrightarrow> unshared p'"
  by (induction rule: rtranclp_induct) (auto elim!: provider_changeE intro: unshared_next unshared_unregister)

lemma map_AList_update_present:
  "map_of al k = Some v \<Longrightarrow> f v = f v' \<Longrightarrow>
     map (\<lambda>x. f (snd x)) (AList.update k v' al) = map (\<lambda>x. f (snd x)) al"
  by (induction al) (auto split: if_splits)

text \<open>Updating a registered identity keeps the ids of the users when it keeps that of its own user.\<close>

lemma unshared_register:
  assumes "unshared p" and "provider_lookup p (si_service_id si) = Some old"
    and "su_id (si_credentials si) = su_id (si_credentials old)"
  shows "unshared (register_or_update_identity si p)"
  using assms cred.invar_register [of p si]
    map_AList_update_present [of "services p" "si_service_id si" old "\<lambda>s. su_id (si_credentials s)" si]
  by (simp add: unshared_def user_ids_def provider_lookup_def)

lemma provider_api_update: "api_update e si m = (r, m') \<Longrightarrow> provider m' = provider m"
  using quiet_fields(1) [OF quiet_api_update [OF quiet_refl], of e si m] by simp

lemma provider_found_candidate [simp]: "provider (snd (found_service_candidate e c m)) = provider m"
  by (auto simp: found_service_candidate_def Let_def split: res.splits option.splits)

lemma provider_found_user:
  "provider (snd (found_service_user su activated m)) =
     (if activated then provider m else pool_push su (provider m))"
  by (simp add: found_service_user_def Let_def)

lemma provider_activated:
  "provider (snd (activated_service_user e su ns n m)) =
     (case provider_lookup (provider m) (ns @ ''_'' @ n) of
        Some si \<Rightarrow> register_or_update_identity (si_set_user su si) (provider m)
      | None \<Rightarrow> provider m)"
  by (auto simp: activated_service_user_def identity_lookup lookup_id_def Let_def
      split: option.splits prod.splits res.splits dest: provider_api_update)

lemma add_device_id_sel [simp]:
  "si_service_id (add_device_id d si) = si_service_id si" "si_namespace (add_device_id d si) = si_namespace si"
  "si_name (add_device_id d si) = si_name si"
  "su_id (si_credentials (add_device_id d si)) = su_id (si_credentials si)"
  by (auto simp: add_device_id_def Let_def split: option.splits) (simp add: si_credentials_def)

lemma provider_release:
  assumes "provider_wf (provider m)"
  shows "provider (snd (release_device_id e l u m)) =
     (case provider_lookup (provider m) (lookup_id l) of
        Some si \<Rightarrow> register_or_update_identity (add_device_id (e_uuid_to_string e u) si) (provider m)
      | None \<Rightarrow> provider m)"
proof (cases "provider_lookup (provider m) (lookup_id l)")
  case (Some si)
  then have "si_service_id si = lookup_id l" using assms cred.lookup_own_id by blast
  with Some show ?thesis
    by (auto simp: release_device_id_def identity_lookup lookup_service_id_lookup_id Let_def
        send_creator_def register_or_update_identity_def perform_def
        split: prod.splits res.splits sum.splits dest!: provider_api_update)
qed (simp add: release_device_id_def identity_lookup lookup_service_id_lookup_id)

lemma provider_deleted_candidate [simp]: "provider (snd (deleted_service_candidate e c m)) = provider m"
  by (auto simp: deleted_service_candidate_def send_self_def perform_def Let_def split: res.splits option.splits)

lemma provider_notify_ready [simp]: "provider (snd (notify_ready e m)) = provider m"
  by (auto simp: notify_ready_def send_self_def perform_def split: sum.splits)

lemma provider_ready_signals [simp]:
  "provider (snd (identity_creator_ready e m)) = provider m"
  "provider (snd (deployment_watcher_ready e m)) = provider m"
  by (simp_all add: identity_creator_ready_def deployment_watcher_ready_def Let_def)

lemma provider_wf_handle:
  assumes wf: "provider_wf (provider m)"
  shows "provider_wf (provider (snd (handle e msg m)))"
proof -
  note serving_wf = provider_wf_change [OF conjunct2 [OF iffD1 [OF serving_def]] wf]
  show ?thesis
    using wf serving_wf [OF serving_delete [of m e]] serving_wf [OF serving_request [of m e]]
      serving_wf [OF serving_ready [of m e]] cred.invar_register cred.invar_push
    by (cases msg) (simp_all add: provider_found_user provider_activated provider_release split: option.split)
qed

text \<open>
  What the other tasks owe the manager for users not to be shared: a free user is announced when
  the manager does not hold it yet, and the activation of a service's user is reported for the
  user the service has.
\<close>

fun admissible_msg :: "IdentityManagerProtocol \<Rightarrow> Provider \<Rightarrow> bool" where
  "admissible_msg (FoundServiceUser su activated) p \<longleftrightarrow> activated \<or> su_id su \<notin> set (user_ids p)"
| "admissible_msg (ActivatedServiceUser su ns n) p \<longleftrightarrow>
     (case provider_lookup p (ns @ ''_'' @ n) of
        Some si \<Rightarrow> su_id su = su_id (si_credentials si) | None \<Rightarrow> True)"
| "admissible_msg _ p \<longleftrightarrow> True"

fun admissible :: "im_env \<Rightarrow> IdentityManagerProtocol list \<Rightarrow> IdentityManager \<Rightarrow> bool" where
  "admissible e [] m \<longleftrightarrow> True"
| "admissible e (msg # msgs) m \<longleftrightarrow>
     admissible_msg msg (provider m) \<and> admissible e msgs (snd (handle e msg m))"

lemma unshared_push: "unshared p \<Longrightarrow> su_id su \<notin> set (user_ids p) \<Longrightarrow> unshared (pool_push su p)"
  using cred.invar_push [of p su] by (auto simp: unshared_def user_ids_def)

lemma unshared_activated:
  assumes "unshared p" and "provider_lookup p k = Some si" and "su_id su = su_id (si_credentials si)"
  shows "unshared (register_or_update_identity (si_set_user su si) p)"
proof -
  have "si_service_id si = k" using assms(1,2) cred.lookup_own_id by (auto simp: unshared_def)
  with assms show ?thesis by (intro unshared_register [where old = si]) simp_all
qed

lemma unshared_release:
  assumes "unshared p" and "provider_lookup p k = Some si"
  shows "unshared (register_or_update_identity (add_device_id d si) p)"
proof -
  have "si_service_id si = k" using assms cred.lookup_own_id by (auto simp: unshared_def)
  with assms show ?thesis by (intro unshared_register [where old = si]) simp_all
qed

lemma unshared_handle:
  assumes u: "unshared (provider m)" and "admissible_msg msg (provider m)"
  shows "unshared (provider (snd (handle e msg m)))"
proof -
  note serving_unshared = unshared_change [OF conjunct2 [OF iffD1 [OF serving_def]] u]
  have wf: "provider_wf (provider m)" using u by (simp add: unshared_def)
  show ?thesis
    using assms wf serving_unshared [OF serving_delete [of m e]] serving_unshared [OF serving_request [of m e]]
      serving_unshared [OF serving_ready [of m e]] unshared_push unshared_activated unshared_release
    by (cases msg)
      (simp_all add: provider_found_user provider_activated provider_release split: option.splits, auto)
qed

lemma unshared_run:
  assumes "unshared (provider m)" and "admissible e msgs m"
  shows "unshared (provider (snd (for_each (handle e) msgs m)))"
  using assms
proof (induction msgs arbitrary: m)
  case (Cons msg msgs)
  obtain r m1 where "handle e msg m = (r, m1)" by (cases "handle e msg m")
  with Cons unshared_handle [of m msg e] show ?case by (cases r) simp_all
qed simp

section \<open>Panics\<close>

text \<open>The channels the manager sends on are open, as long as the tasks that hold their other ends run.\<close>

definition channels_open :: "im_env \<Rightarrow> bool" where
  "channels_open e \<longleftrightarrow>
     (\<forall>tr msg. e_send_creator e tr msg = Inr ()) \<and> (\<forall>tr msg. e_send_self e tr msg = Inr ()) \<and>
     (\<forall>tr msg. e_broadcast e tr msg = Inr ())"

lemma candidate_id_Ok:
  assumes "candidate_service_id u c = Ok sid"
  shows "\<exists>l. lookup_of_candidate u1 u2 c = Ok l" and "\<exists>ls. candidate_labels u3 c = Ok ls"
  using assms candidate_ms.ms_id_Ok_iff [of u c sid] lookup_of_candidate_Ok candidate_labels_Ok by blast+

lemma request_no_panic: "fst (request_service_identity e c m) = Ok ()"
proof (cases "candidate_service_id (e_uuid e (trace m) 0) c")
  case (Ok sid)
  obtain l' where l': "lookup_of_candidate (e_uuid e (trace m) 1) (e_uuid e (trace m) 2) c = Ok l'"
    using candidate_id_Ok(1) [OF Ok] by blast
  obtain ls' where ls': "candidate_labels (e_uuid e (trace m) 3) c = Ok ls'"
    using candidate_id_Ok(2) [OF Ok] by blast
  show ?thesis
    using Ok l' ls' by (auto simp: request_service_identity_def Let_def split: option.splits prod.splits bool.splits res.splits)
qed (simp_all add: request_service_identity_def)

lemma candidate_handlers_no_panic:
  "fst (found_service_candidate e c m) = Ok ()" "fst (deleted_service_candidate e c m) = Ok ()"
proof -
  have "fst (found_service_candidate e c m) = Ok () \<and> fst (deleted_service_candidate e c m) = Ok ()"
  proof (cases "candidate_service_id (e_uuid e (trace m) 0) c")
    case (Ok sid)
    obtain l where "lookup_of_candidate (e_uuid e (trace m) 1) (e_uuid e (trace m) 2) c = Ok l"
      using candidate_id_Ok(1) [OF Ok] by blast
    with Ok show ?thesis
      by (auto simp: found_service_candidate_def deleted_service_candidate_def Let_def split: option.splits)
  qed (simp_all add: found_service_candidate_def deleted_service_candidate_def)
  then show "fst (found_service_candidate e c m) = Ok ()" "fst (deleted_service_candidate e c m) = Ok ()"
    by simp_all
qed

lemma delete_identities_ok: "\<exists>r. fst (delete_identities e b sis removed m) = Ok r"
proof (induction sis arbitrary: removed m)
  case (Cons si sis)
  obtain m1 where m1: "delete_service_identity e si m = (Ok (), m1)"
    by (metis delete_service_identity_ok prod.collapse)
  with Cons show ?case by (cases b) (simp_all add: Let_def)
qed simp

lemma send_expect_ok: "channels_open e \<Longrightarrow> fst (send_creator_expect e t msg m) = Ok ()"
  by (simp add: channels_open_def send_creator_expect_def send_creator_def)

lemma try_each_ok: "(\<And>x t. fst (f x t) = Ok ()) \<Longrightarrow> fst (try_each f xs s) = Ok ()"
proof (induction xs arbitrary: s)
  case (Cons x xs)
  obtain r t where t: "f x s = (r, t)" by (cases "f x s")
  then have "r = Ok ()" using Cons.prems [of x s] by simp
  with Cons t show ?case by simp
qed simp

lemma for_each_ok: "(\<And>x t. \<forall>p. fst (f x t) \<noteq> Panic p) \<Longrightarrow> fst (for_each f xs s) = Ok ()"
proof (induction xs arbitrary: s)
  case (Cons x xs)
  obtain r t where t: "f x s = (r, t)" by (cases "f x s")
  have "fst (for_each f xs t) = Ok ()" by (rule Cons.IH) (rule Cons.prems)
  then show ?case using t Cons.prems [of x s] by (cases r) simp_all
qed simp

lemma bindR_ok: "\<exists>a. fst (f m) = Ok a \<Longrightarrow> (\<And>a m. fst (g a m) = Ok b) \<Longrightarrow> fst (bindR f g m) = Ok b"
  by (auto simp: bindR_def split: prod.splits)

lemma ready_no_panic:
  assumes "channels_open e"
  shows "fst (identity_manager_ready e m) = Ok ()"
proof -
  have "fst (delete_orphan_users e m) = Ok ()" for m
    unfolding delete_orphan_users_def by (rule try_each_ok) (rule send_expect_ok [OF assms])
  moreover have "fst (reconcile_users e m) = Ok ()" for m
    by (simp add: reconcile_users_def send_expect_ok [OF assms])
  moreover have "fst (request_missing e m) = Ok ()" for m
    unfolding request_missing_def by (rule for_each_ok) (simp add: request_no_panic)
  moreover have "fst (notify_watchers e m) = Ok ()" for m
    using assms by (simp add: notify_watchers_def send_watchers_def channels_open_def)
  ultimately show ?thesis
    unfolding identity_manager_ready_def Let_def
    by (intro bindR_ok delete_identities_ok) auto
qed

lemma activated_no_panic: "fst (activated_service_user e su ns n m) = Ok ()"
  by (auto simp: activated_service_user_def Let_def split: option.splits prod.splits res.splits)

lemma found_user_no_panic: "fst (found_service_user su a m) = Ok ()"
  by (simp add: found_service_user_def Let_def)

lemma ready_signals_no_panic:
  "channels_open e \<Longrightarrow> fst (identity_creator_ready e m) = Ok ()"
  "channels_open e \<Longrightarrow> fst (deployment_watcher_ready e m) = Ok ()"
  by (simp_all add: identity_creator_ready_def deployment_watcher_ready_def notify_ready_def send_self_def
      channels_open_def Let_def)

lemma release_no_panic: "fst (release_device_id e l u m) \<noteq> Panic p"
  by (auto simp: release_device_id_def Let_def split: option.splits prod.splits res.splits sum.splits)

lemma handle_no_panic: "channels_open e \<Longrightarrow> \<forall>p. fst (handle e msg m) \<noteq> Panic p"
  by (cases msg) (simp_all add: request_no_panic candidate_handlers_no_panic ready_no_panic activated_no_panic
      found_user_no_panic ready_signals_no_panic release_no_panic)

section \<open>The ready signal\<close>

definition readies :: "im_action list \<Rightarrow> nat" where
  "readies tr = count_list tr (SendSelf IdentityManagerReady)"

lemma readies_append: "readies (a @ b) = readies a + readies b"
  by (simp add: readies_def)

lemma count_list_none: "\<forall>x \<in> set xs. x \<noteq> y \<Longrightarrow> count_list xs y = 0"
  by (induction xs) auto

lemma handler_calls_readies: "\<forall>a \<in> set acts. handler_call a \<Longrightarrow> readies acts = 0"
  unfolding readies_def by (rule count_list_none) (metis handler_call.simps(1))

lemma serves_readies: "serves m m' \<Longrightarrow> readies (trace m') = readies (trace m)"
  by (auto simp: serves_def readies_append handler_calls_readies)

definition ready_state :: "IdentityManager \<Rightarrow> bool \<times> 8 word \<times> nat" where
  "ready_state m = (creator_is_ready m, deployment_watchers_ready m, readies (trace m))"

lemma serving_ready_state: "serving m m' \<Longrightarrow> ready_state m' = ready_state m"
  by (simp add: ready_state_def serves_readies serves_fields serving_def)

lemma quiet_ready_state: "quiet m m' \<Longrightarrow> ready_state m' = ready_state m"
  by (rule serving_ready_state) (rule quiet_serving)

lemma ready_state_debug [simp]: "ready_state (debug_info s m) = ready_state m"
  by (rule quiet_ready_state) simp

lemma ready_state_updates [simp]:
  "ready_state (m\<lparr>provider := p\<rparr>) = ready_state m"
  "ready_state (m\<lparr>existing_service_candidates := x\<rparr>) = ready_state m"
  "ready_state (m\<lparr>missing_service_candidates := y\<rparr>) = ready_state m"
  "ready_state (m\<lparr>existing_activated_credentials := x\<rparr>) = ready_state m"
  "ready_state (m\<lparr>existing_deactivated_credentials := x\<rparr>) = ready_state m"
  by (simp_all add: ready_state_def)

lemma ready_state_api_update: "api_update e si m = (r, m') \<Longrightarrow> ready_state m' = ready_state m"
  using quiet_ready_state [OF quiet_api_update [OF quiet_refl], of e si m] by simp

lemma ready_state_send_creator [simp]: "ready_state (perform (SendCreator msg) m) = ready_state m"
  by (simp add: ready_state_def perform_def readies_def)

lemma ready_state_handlers:
  "ready_state (snd (found_service_candidate e c m)) = ready_state m"
  "ready_state (snd (found_service_user su a m)) = ready_state m"
  "ready_state (snd (activated_service_user e su ns n m)) = ready_state m"
  "ready_state (snd (deleted_service_candidate e c m)) = ready_state m"
  "ready_state (snd (release_device_id e l u m)) = ready_state m"
  by (auto simp: found_service_candidate_def found_service_user_def activated_service_user_def
      deleted_service_candidate_def release_device_id_def Let_def send_creator_def
      split: res.splits option.splits prod.splits sum.splits dest!: ready_state_api_update)
    (auto simp: ready_state_def send_self_def perform_def readies_def)

lemma ready_state_handle:
  "msg \<noteq> IdentityCreatorReady \<Longrightarrow> msg \<noteq> DeploymentWatcherReady \<Longrightarrow>
     ready_state (snd (handle e msg m)) = ready_state m"
  by (cases msg) (simp_all add: ready_state_handlers serving_ready_state [OF serving_delete]
      serving_ready_state [OF serving_request] serving_ready_state [OF serving_ready])

text \<open>The state of the signal after \<open>c\<close> messages from the creator and \<open>w\<close> from the watchers.\<close>

definition signalled :: "nat \<Rightarrow> nat \<Rightarrow> bool \<times> 8 word \<times> nat" where
  "signalled c w = (c = 1, of_nat w, if c = 1 \<and> w = 2 then 1 else 0)"

lemma ready_state_creator:
  assumes "ready_state m = signalled 0 w" and "w \<le> 2"
  shows "ready_state (snd (identity_creator_ready e m)) = signalled 1 w"
proof -
  have "w = 0 \<or> w = 1 \<or> w = 2" using assms(2) by auto
  with assms(1) show ?thesis
    by (auto simp: ready_state_def signalled_def identity_creator_ready_def notify_ready_def send_self_def
        N_WATCHERS_def perform_def readies_append readies_def Let_def split: sum.splits)
qed

lemma ready_state_watcher:
  assumes "ready_state m = signalled c w" and "c \<le> 1" and "w < 2"
  shows "ready_state (snd (deployment_watcher_ready e m)) = signalled c (w + 1)"
proof -
  have "w = 0 \<or> w = 1" and "c = 0 \<or> c = 1" using assms(2,3) by auto
  with assms(1) show ?thesis
    by (auto simp: ready_state_def signalled_def deployment_watcher_ready_def notify_ready_def send_self_def
        N_WATCHERS_def perform_def readies_append readies_def Let_def split: sum.splits)
qed

lemma ready_state_run:
  assumes "channels_open e" and "ready_state m = signalled c w"
    and "c + count_list msgs IdentityCreatorReady \<le> 1" and "w + count_list msgs DeploymentWatcherReady \<le> 2"
  shows "ready_state (snd (for_each (handle e) msgs m)) =
     signalled (c + count_list msgs IdentityCreatorReady) (w + count_list msgs DeploymentWatcherReady)"
  using assms(2-)
proof (induction msgs arbitrary: m c w)
  case (Cons msg msgs)
  obtain r m1 where h: "handle e msg m = (r, m1)" by (cases "handle e msg m")
  have step: "for_each (handle e) (msg # msgs) m = for_each (handle e) msgs m1"
    using handle_no_panic [OF assms(1), of msg m] h by (cases r) simp_all
  consider "msg = IdentityCreatorReady" | "msg = DeploymentWatcherReady"
    | "msg \<noteq> IdentityCreatorReady" "msg \<noteq> DeploymentWatcherReady" by blast
  then show ?case
  proof cases
    case 1
    then have "ready_state m1 = signalled 1 w"
      using ready_state_creator [of m w e] Cons.prems h by simp
    then show ?thesis using Cons.IH [of m1 1 w] Cons.prems 1 step by simp
  next
    case 2
    then have "ready_state m1 = signalled c (w + 1)"
      using ready_state_watcher [of m c w e] Cons.prems h by simp
    then show ?thesis using Cons.IH [of m1 c "w + 1"] Cons.prems 2 step by simp
  next
    case 3
    then have "ready_state m1 = signalled c w"
      using ready_state_handle [of msg e m] Cons.prems h by simp
    then show ?thesis using Cons.IH [of m1 c w] Cons.prems 3 step by simp
  qed
qed simp

section \<open>Start and runs\<close>

lemma provider_wf_fold: "provider_wf p \<Longrightarrow> provider_wf (fold register_or_update_identity xs p)"
  by (induction xs arbitrary: p) (simp_all add: cred.invar_register)

lemma initialize_eq:
  assumes "channels_open e" and "e_list e (trace m) = Inr xs"
  shows "initialize e m = (Ok (), perform (SendCreator StartService) (queue_info IdentityManagerInitialized
     ((perform ApiList m)\<lparr>provider := fold register_or_update_identity xs (provider m)\<rparr>)))"
  using assms by (simp add: initialize_def api_list_def send_creator_def channels_open_def perform_def Let_def)

lemma provider_wf_initialize:
  "provider_wf (provider m) \<Longrightarrow> provider_wf (provider (snd (initialize e m)))"
  by (auto simp: initialize_def api_list_def Let_def send_creator_def perform_def queue_info_def provider_wf_fold
      split: sum.splits)

lemma provider_wf_run:
  assumes "provider_wf (provider m)"
  shows "provider_wf (provider (snd (run e msgs m)))"
proof -
  obtain r m1 where m1: "initialize e m = (r, m1)" by (cases "initialize e m")
  then have "provider_wf (provider m1)" using provider_wf_initialize [OF assms, of e] by simp
  moreover from this have "provider_wf (provider (snd (for_each (handle e) msgs m1)))"
    by (rule for_each_invariant [where P = "\<lambda>m. provider_wf (provider m)"]) (rule provider_wf_handle)
  ultimately show ?thesis using m1 by (cases r) (simp_all add: run_def)
qed

section \<open>Reconciliation\<close>

definition deletes_succeed :: "im_env \<Rightarrow> bool" where
  "deletes_succeed e \<longleftrightarrow> (\<forall>tr n. e_delete e tr n = Inr ())"

text \<open>What deleting an identity does outside, and what is left of a provider without some ids.\<close>

definition deletion :: "ServiceIdentity \<Rightarrow> im_action list" where
  "deletion si = [ApiDelete (si_service_name si),
     SendCreator (DeleteServiceUser (si_credentials si) (si_namespace si) (si_name si))]"

definition without :: "string set \<Rightarrow> Provider \<Rightarrow> Provider" where
  "without ids p = p\<lparr>services := filter (\<lambda>x. fst x \<notin> ids) (services p)\<rparr>"

lemma without_empty [simp]: "without {} p = p"
  by (simp add: without_def)

lemma without_sels [simp]:
  "pool (without ids p) = pool p" "services (without ids p) = filter (\<lambda>x. fst x \<notin> ids) (services p)"
  by (simp_all add: without_def)

lemma unregister_without: "snd (unregister_identity si p) = without {si_service_id si} p"
  by (auto simp: unregister_identity_def without_def AList.delete_eq
      intro!: arg_cong [where f = "\<lambda>s. p\<lparr>services := s\<rparr>"] filter_cong)

lemma without_without [simp]: "without a (without b p) = without (a \<union> b) p"
  by (auto simp: without_def intro!: arg_cong [where f = "\<lambda>s. p\<lparr>services := s\<rparr>"] filter_cong)

lemma delete_service_identity_success:
  assumes "deletes_succeed e" and "\<not> has_external_queue m"
  shows "delete_service_identity e si m =
     (Ok (), m\<lparr>provider := without {si_service_id si} (provider m), trace := trace m @ deletion si\<rparr>)"
  using assms
  by (auto simp: delete_service_identity_def api_delete_def bindR_def kube_delete_def send_creator_def
      deletes_succeed_def perform_def debug_info_def queue_info_def Let_def unregister_without [symmetric]
      deletion_def split: prod.splits option.splits)

lemma delete_identities_success:
  assumes "deletes_succeed e" and "\<not> has_external_queue m" and "distinct (map si_service_id sis)"
    and "\<not> skip \<or> set (map si_service_id sis) \<inter> set removed = {}"
  shows "\<exists>removed'. set removed' = set removed \<union> si_service_id ` set sis \<and>
     delete_identities e skip sis removed m =
       (Ok removed', m\<lparr>provider := without (si_service_id ` set sis) (provider m),
                       trace := trace m @ concat (map deletion sis)\<rparr>)"
  using assms(2-)
proof (induction sis arbitrary: removed m)
  case (Cons si sis)
  let ?m = "m\<lparr>provider := without {si_service_id si} (provider m), trace := trace m @ deletion si\<rparr>"
  let ?r = "List.insert (si_service_id si) removed"
  have "\<exists>removed'. set removed' = set ?r \<union> si_service_id ` set sis \<and>
     delete_identities e skip sis ?r ?m =
       (Ok removed', ?m\<lparr>provider := without (si_service_id ` set sis) (provider ?m),
                       trace := trace ?m @ concat (map deletion sis)\<rparr>)"
    by (rule Cons.IH) (use Cons.prems in auto)
  then obtain removed' where "set removed' = insert (si_service_id si) (set removed) \<union> si_service_id ` set sis"
    "delete_identities e skip sis ?r ?m =
       (Ok removed', ?m\<lparr>provider := without (si_service_id ` set sis) (provider ?m),
                       trace := trace ?m @ concat (map deletion sis)\<rparr>)" by auto
  moreover have "\<not> (skip \<and> si_service_id si \<in> set removed)" using Cons.prems(3) by auto
  ultimately show ?case
    using delete_service_identity_success [OF assms(1), of m si] Cons.prems(1)
    by (intro exI [of _ removed']) (auto simp: Let_def Un_commute)
qed simp

lemma send_expect_trace:
  "channels_open e \<Longrightarrow> send_creator_expect e t msg m = (Ok (), perform (SendCreator msg) m)"
  by (simp add: send_creator_expect_def send_creator_def channels_open_def)

lemma try_send_expect:
  assumes "channels_open e"
  shows "try_each (\<lambda>u. send_creator_expect e t (f u)) us m =
     (Ok (), m\<lparr>trace := trace m @ map (\<lambda>u. SendCreator (f u)) us\<rparr>)"
  by (induction us arbitrary: m) (simp_all add: send_expect_trace [OF assms] perform_def)

lemma provider_ids:
  assumes "provider_wf p" and "x \<in> set (services p)"
  shows "si_service_id (snd x) = fst x"
proof -
  have "map_of (services p) (fst x) = Some (snd x)"
    using assms by (simp add: provider_wf_def map_of_eq_Some_iff)
  then show ?thesis using assms(1) by (auto simp: provider_wf_def)
qed

lemma map_ids_filter:
  assumes "provider_wf p"
  shows "map (\<lambda>x. si_service_id (snd x)) (filter P (services p)) = map fst (filter P (services p))"
  by (rule map_cong) (auto simp: provider_ids [OF assms])

lemma distinct_ids_filter:
  assumes "provider_wf p"
  shows "distinct (map si_service_id (filter P (provider_identities p)))"
proof -
  have "map si_service_id (filter P (provider_identities p)) =
      map fst (filter (\<lambda>x. P (snd x)) (services p))"
    using map_ids_filter [OF assms] by (simp add: provider_identities_def filter_map comp_def)
  then show ?thesis using assms by (simp add: provider_wf_def distinct_map_filter)
qed

lemma provider_wf_without: "provider_wf p \<Longrightarrow> provider_wf (without ids p)"
proof -
  assume wf: "provider_wf p"
  have "map_of (filter (\<lambda>x. fst x \<notin> ids) al) k = (if k \<in> ids then None else map_of al k)" for al :: "(string \<times> ServiceIdentity) list" and k
    by (induction al) auto
  with wf show ?thesis by (auto simp: provider_wf_def distinct_map_filter split: if_splits)
qed

text \<open>The identities without a candidate, and those left that have a deactivated user.\<close>

definition extra_ids :: "IdentityManager \<Rightarrow> string set" where
  "extra_ids m = si_service_id ` set (extra_service_identities (existing_service_candidates m) (provider m))"

definition inactive_ids :: "IdentityManager \<Rightarrow> string set" where
  "inactive_ids m = si_service_id ` set (orphan_service_identities (existing_deactivated_credentials m)
     (without (extra_ids m) (provider m)))"

definition reconciled :: "IdentityManager \<Rightarrow> IdentityManager" where
  "reconciled m =
     (let p = provider m; p1 = without (extra_ids m) p; p2 = without (extra_ids m \<union> inactive_ids m) p
      in m\<lparr>provider := p2,
           trace := trace m @
             concat (map deletion (extra_service_identities (existing_service_candidates m) p)) @
             map (\<lambda>u. SendCreator (DeleteSDPUser u)) (orphan_service_users (existing_activated_credentials m) p1) @
             concat (map deletion (orphan_service_identities (existing_deactivated_credentials m) p1)) @
             [SendCreator (ReconcileSDPUsers
                (remdups (map (\<lambda>si. su_name (si_credentials si)) (provider_identities p2))))]\<rparr>)"

lemma ready_reconciles:
  assumes "channels_open e" and "deletes_succeed e" and "\<not> has_external_queue m"
    and wf: "provider_wf (provider m)"
  shows "identity_manager_ready e m =
     bindR (request_missing e) (\<lambda>_. notify_watchers e) (reconciled m)"
proof -
  let ?p = "provider m"
  let ?p1 = "without (extra_ids m) ?p"
  let ?extra = "extra_service_identities (existing_service_candidates m) ?p"
  let ?orphans = "orphan_service_identities (existing_deactivated_credentials m) ?p1"
  let ?m1 = "m\<lparr>provider := ?p1, trace := trace m @ concat (map deletion ?extra)\<rparr>"
  let ?m2 = "?m1\<lparr>trace := trace ?m1 @ map (\<lambda>u. SendCreator (DeleteSDPUser u))
      (orphan_service_users (existing_activated_credentials m) ?p1)\<rparr>"
  let ?m3 = "?m2\<lparr>provider := without (inactive_ids m) ?p1, trace := trace ?m2 @ concat (map deletion ?orphans)\<rparr>"
  have "distinct (map si_service_id ?extra)"
    unfolding extra_service_identities_def by (rule distinct_ids_filter [OF wf])
  then obtain removed where removed: "set removed = extra_ids m"
    "delete_identities e False ?extra [] m = (Ok removed, ?m1)"
    using delete_identities_success [OF assms(2,3), of ?extra False "[]"] by (auto simp: extra_ids_def)
  have "distinct (map si_service_id ?orphans)"
    unfolding orphan_service_identities_def by (rule distinct_ids_filter [OF provider_wf_without [OF wf]])
  moreover have "set (map si_service_id ?orphans) \<inter> set removed = {}"
    using provider_ids [OF provider_wf_without [OF wf, of "extra_ids m"]] removed(1)
    by (auto simp: orphan_service_identities_def provider_identities_def)
  ultimately obtain removed' where
    "delete_identities e True ?orphans removed ?m2 = (Ok removed', ?m3)"
    using delete_identities_success [OF assms(2), of ?m2 ?orphans True removed] assms(3)
    by (auto simp: inactive_ids_def)
  moreover have "delete_orphan_users e ?m1 = (Ok (), ?m2)"
    by (simp add: delete_orphan_users_def try_send_expect [OF assms(1)])
  moreover have "reconcile_users e ?m3 = (Ok (), reconciled m)"
    by (simp add: reconcile_users_def send_expect_trace [OF assms(1)] reconciled_def perform_def Let_def Un_commute)
  ultimately show ?thesis
    using removed(2) assms(3)
    by (simp add: identity_manager_ready_def debug_info_def queue_info_def)
qed

lemma ids_of_filter:
  assumes "provider_wf p"
  shows "si_service_id ` set (filter P (provider_identities p)) = fst ` {x \<in> set (services p). P (snd x)}"
proof -
  have "set (filter P (provider_identities p)) = snd ` {x \<in> set (services p). P (snd x)}"
    by (auto simp: provider_identities_def)
  moreover have "(\<lambda>x. si_service_id (snd x)) ` {x \<in> set (services p). P (snd x)} =
      fst ` {x \<in> set (services p). P (snd x)}"
    by (rule image_cong) (auto simp: provider_ids [OF assms])
  ultimately show ?thesis by (simp add: image_image)
qed

lemma services_reconciled:
  assumes wf: "provider_wf (provider m)"
  shows "services (provider (reconciled m)) =
     filter (\<lambda>(k, si). k \<in> set (existing_service_candidates m) \<and>
         su_id (si_credentials si) \<notin> set (existing_deactivated_credentials m)) (services (provider m))"
proof -
  let ?S = "services (provider m)"
  have d: "x = y" if "x \<in> set ?S" "y \<in> set ?S" "fst x = fst y" for x y
    using that wf by (auto simp: provider_wf_def distinct_map inj_on_def)
  have extra: "extra_ids m = fst ` {x \<in> set ?S. fst x \<notin> set (existing_service_candidates m)}"
    unfolding extra_ids_def extra_service_identities_def ids_of_filter [OF wf]
    by (simp add: provider_ids [OF wf] cong: conj_cong)
  have "inactive_ids m = fst ` {x \<in> set ?S. fst x \<notin> extra_ids m \<and>
      su_id (si_credentials (snd x)) \<in> set (existing_deactivated_credentials m)}"
    unfolding inactive_ids_def orphan_service_identities_def ids_of_filter [OF provider_wf_without [OF wf]]
    by (simp add: conj_assoc)
  with extra have "fst x \<in> extra_ids m \<union> inactive_ids m \<longleftrightarrow> \<not> (fst x \<in> set (existing_service_candidates m) \<and>
      su_id (si_credentials (snd x)) \<notin> set (existing_deactivated_credentials m))" if "x \<in> set ?S" for x
    using that by (auto dest: d)
  then have "filter (\<lambda>x. fst x \<notin> extra_ids m \<union> inactive_ids m) ?S =
      filter (\<lambda>x. fst x \<in> set (existing_service_candidates m) \<and>
        su_id (si_credentials (snd x)) \<notin> set (existing_deactivated_credentials m)) ?S"
    by (intro filter_cong) auto
  then show ?thesis by (simp add: reconciled_def Let_def case_prod_beta')
qed

section \<open>Requests\<close>

lemma candidate_lookup_named:
  assumes "named_candidate c" and "candidate_namespace c = Some ns" and "candidate_labels [] c = Ok ls"
  shows "candidate_service_id u c = Ok (ns @ ''_'' @ candidate_name [] c)"
    "lookup_of_candidate u1 u2 c = Ok (ServiceLookup_new ns (candidate_name [] c) (Some ls))"
    "candidate_labels u c = Ok ls"
proof -
  have l: "candidate_labels v c = Ok ls" for v
    using assms by (cases c) (auto simp: deployment_labels_def deployment_name_def Let_def)
  have n: "candidate_name v c = candidate_name [] c" for v
    using assms(1) by (rule candidate_name_named)
  show "candidate_service_id u c = Ok (ns @ ''_'' @ candidate_name [] c)"
    using assms(2) by (simp add: candidate_service_id_def maybe_service_id_def n [of u])
  show "lookup_of_candidate u1 u2 c = Ok (ServiceLookup_new ns (candidate_name [] c) (Some ls))"
    using assms(2) by (simp add: lookup_of_candidate_def try_from_service_def l n [of u2])
  show "candidate_labels u c = Ok ls" by (rule l)
qed

lemma debug_silent [simp]: "\<not> has_external_queue m \<Longrightarrow> debug_info s m = m"
  by (simp add: debug_info_def queue_info_def)

lemma refill_pool_silent:
  "\<not> has_external_queue m \<Longrightarrow> refill_pool e sid m =
     (if length (pool (provider m)) < 10 then perform (SendCreator CreateIdentity) m else m)"
  by (auto simp: refill_pool_def needs_new_credentials_def send_creator_def perform_def split: sum.splits)

section \<open>Examples\<close>

text \<open>A cluster in which every call succeeds, nothing is stored and no UUID is ever needed.\<close>

definition calm :: im_env where
  "calm = \<lparr>e_get_opt = \<lambda>_ _. Inr None, e_create = \<lambda>_ si. Inr si, e_replace = \<lambda>_ _ si. Inr si,
     e_delete = \<lambda>_ _. Inr (), e_list = \<lambda>_. Inr [], e_send_creator = \<lambda>_ _. Inr (), e_send_self = \<lambda>_ _. Inr (),
     e_broadcast = \<lambda>_ _. Inr (), e_uuid = \<lambda>_ _. ''u'', e_uuid_to_string = \<lambda>_. ''d''\<rparr>"

definition sample_manager :: IdentityManager where
  "sample_manager = \<lparr>cluster_id = ''c'', provider = provider_default, has_external_queue = False,
     existing_service_candidates = [], missing_service_candidates = [],
     existing_activated_credentials = [], existing_deactivated_credentials = [],
     creator_is_ready = False, deployment_watchers_ready = 0, trace = []\<rparr>"

definition sample_user :: "string \<Rightarrow> ServiceUser" where
  "sample_user n = \<lparr>su_id = n, su_name = n, su_password = ''p'', su_profile_url = ''u'', su_device_ids = Some []\<rparr>"

definition sample_candidate :: ServiceCandidate where
  "sample_candidate = SCSDPService \<lparr>sdps_meta = \<lparr>meta_name = Some ''web'', generate_name = None,
     name_any = ''web'', meta_namespace = Some ''shop'', meta_annotations = [], meta_labels = []\<rparr>,
     sdps_spec = \<lparr>sdps_kind = ''Deployment'', sdps_name = ''web''\<rparr>\<rparr>"

definition sample_labels :: string_map where
  "sample_labels = [(''namespace'', ''shop''), (''name'', ''web'')]"

lemma sample_candidate_facts:
  "named_candidate sample_candidate" "candidate_namespace sample_candidate = Some ''shop''"
  "candidate_labels [] sample_candidate = Ok sample_labels" "candidate_name [] sample_candidate = ''web''"
  by (simp_all add: sample_candidate_def sdpservice_namespace_def sdpservice_labels_def extend_labels_def
      sdpservice_name_def sample_labels_def)

definition stocked :: "ServiceUser list \<Rightarrow> IdentityManager" where
  "stocked us = sample_manager\<lparr>provider := \<lparr>pool = us, services = []\<rparr>\<rparr>"

lemma stocked_sel [simp]:
  "\<not> has_external_queue (stocked us)" "pool (provider (stocked us)) = us"
  "provider_lookup (provider (stocked us)) k = None" "trace (stocked us) = []"
  "cluster_id (stocked us) = ''c''"
  by (simp_all add: stocked_def sample_manager_def provider_lookup_def)

definition web_identity :: "ServiceUser \<Rightarrow> ServiceIdentity" where
  "web_identity u = identity_for (ServiceLookup_new ''shop'' ''web'' (Some sample_labels)) ''shop-web'' u"

definition serving_web :: "ServiceUser \<Rightarrow> IdentityManager" where
  "serving_web u = sample_manager\<lparr>provider := \<lparr>pool = [], services = [(''shop_web'', web_identity u)]\<rparr>,
     existing_service_candidates := [''shop_web'']\<rparr>"

lemma web_identity_sel [simp]: "si_credentials (web_identity u) = u" "si_service_id (web_identity u) = ''shop_web''"
  by (simp_all add: web_identity_def lookup_id_def)

lemma serving_web_sel [simp]:
  "\<not> has_external_queue (serving_web u)" "provider_wf (provider (serving_web u))"
  "missing_service_candidates (serving_web u) = []"
  "provider_lookup (provider (serving_web u)) ''shop_web'' = Some (web_identity u)"
  "''shop_web'' \<in> set (existing_service_candidates (serving_web u))"
  by (simp_all add: serving_web_def sample_manager_def provider_wf_def provider_lookup_def)

lemma calm_open [simp]: "channels_open calm" "deletes_succeed calm" "e_list calm tr = Inr []"
  by (simp_all add: calm_def channels_open_def deletes_succeed_def)

lemma sample_manager_new: "IdentityManager_new (Some ''c'') False = Ok sample_manager"
  by (simp add: IdentityManager_new_def sample_manager_def)

lemma new_manager:
  assumes "IdentityManager_new cl ext = Ok m"
  shows "provider m = provider_default" "ready_state m = signalled 0 0" "trace m = []"
  using assms by (auto simp: IdentityManager_new_def ready_state_def signalled_def readies_def split: option.splits)

section \<open>Properties\<close>

text \<open>
  C26: the registered identities stay consistent. Whatever the Kubernetes API and the channels
  answer, and in whatever order messages arrive, every identity the manager has registered is
  registered once, under its own service id.
\<close>

theorem manager_provider_consistent:
  assumes "IdentityManager_new cl ext = Ok m"
  shows "provider_wf (provider (snd (run e msgs m)))"
  by (rule provider_wf_run) (simp add: new_manager(1) [OF assms])

theorem manager_provider_consistent_witness:
  "provider_wf (provider (snd (run calm [FoundServiceUser (sample_user ''a'') False,
     RequestServiceIdentity sample_candidate] sample_manager)))"
  by (rule manager_provider_consistent [OF sample_manager_new])

text \<open>
  C27: the manager survives every message sequence. While the channels it sends on are open and the
  first list of identities can be read, no sequence of messages makes it panic, and its loop
  handles all of them.
\<close>

theorem manager_survives:
  assumes "channels_open e" and "e_list e (trace m) = Inr xs"
  shows "fst (run e msgs m) = Ok ()"
proof -
  have "fst (for_each (handle e) msgs m') = Ok ()" for m'
    by (rule for_each_ok) (rule handle_no_panic [OF assms(1)])
  then show ?thesis by (simp add: run_def initialize_eq [OF assms])
qed

theorem manager_survives_witness:
  "fst (run calm [IdentityManagerReady, DeletedServiceCandidate sample_candidate] sample_manager) = Ok ()"
  by (rule manager_survives) simp_all

lemma run_readies:
  assumes "IdentityManager_new cl ext = Ok m" and "channels_open e" and "e_list e (trace m) = Inr xs"
    and "count_list msgs IdentityCreatorReady \<le> 1" and "count_list msgs DeploymentWatcherReady \<le> 2"
  shows "readies (trace (snd (run e msgs m))) =
     (if count_list msgs IdentityCreatorReady = 1 \<and> count_list msgs DeploymentWatcherReady = 2 then 1 else 0)"
proof -
  obtain m1 where m1: "initialize e m = (Ok (), m1)" by (simp add: initialize_eq [OF assms(2,3)])
  have "m1 = snd (initialize e m)" using m1 by simp
  then have "ready_state m1 = signalled 0 0"
    using new_manager(2) [OF assms(1)]
    by (auto simp: initialize_eq [OF assms(2,3)] ready_state_def perform_def queue_info_def readies_def)
  from ready_state_run [OF assms(2) this, of msgs] assms(4,5)
  show ?thesis using m1 by (simp add: run_def ready_state_def signalled_def)
qed

text \<open>
  C1: the manager declares itself ready exactly when its helpers are. With at most one ready message
  of the creator and at most two of the watchers among the messages received, in any order and
  between any other messages, the manager has sent itself \<^verbatim>\<open>IdentityManagerReady\<close> once if it has
  received all three, and not at all otherwise.
\<close>

theorem ready_signalled_once:
  assumes "IdentityManager_new cl ext = Ok m" and "channels_open e" and "e_list e (trace m) = Inr xs"
    and "count_list msgs IdentityCreatorReady \<le> 1" and "count_list msgs DeploymentWatcherReady \<le> 2"
  shows "readies (trace (snd (run e msgs m))) =
     (if count_list msgs IdentityCreatorReady = 1 \<and> count_list msgs DeploymentWatcherReady = 2 then 1 else 0)"
  by (rule run_readies [OF assms])

theorem ready_signalled_once_witness:
  "readies (trace (snd (run calm [DeploymentWatcherReady, IdentityCreatorReady, DeploymentWatcherReady] sample_manager))) = 1"
  using ready_signalled_once [OF sample_manager_new calm_open(1) calm_open(3),
      of "[DeploymentWatcherReady, IdentityCreatorReady, DeploymentWatcherReady]"] by simp

text \<open>
  C2: no two services share a user. From a state in which no user is held twice, and with messages
  that announce a free user only when it is not held yet and report an activation for the user
  the service has, no user is ever held twice: not by two services, and not by a service and the
  pool.
\<close>

theorem users_not_shared:
  assumes "unshared (provider m)" and "admissible e msgs m"
  shows "distinct (user_ids (provider (snd (for_each (handle e) msgs m))))"
  using unshared_run [OF assms] by (simp add: unshared_def)

theorem users_not_shared_witness:
  "distinct (user_ids (provider (snd (for_each (handle calm)
     [FoundServiceUser (sample_user ''a'') False, FoundServiceUser (sample_user ''b'') False] sample_manager))))"
  by (rule users_not_shared)
    (simp_all add: sample_manager_def provider_found_user user_ids_def sample_user_def provider_default_def
      unshared_def provider_wf_def)

lemma serve_request:
  assumes "named_candidate c" and "candidate_namespace c = Some ns" and "candidate_labels [] c = Ok ls"
    and "\<not> has_external_queue m"
    and "provider_lookup (provider m) (ns @ ''_'' @ n) = None" and "n = candidate_name [] c"
    and "pool (provider m) = u # us"
    and "si = identity_for (ServiceLookup_new ns n (Some ls)) (ns @ ''-'' @ n) u"
    and "e_get_opt e (trace m) (ns @ ''_'' @ n) = Inr None"
    and "e_create e (trace m @ [ApiGetOpt (ns @ ''_'' @ n)]) si = Inr si"
  shows "request_service_identity e c m =
     (Ok (), m\<lparr>provider := \<lparr>pool = us, services = services (provider m) @ [(ns @ ''_'' @ n, si)]\<rparr>,
        trace := trace m @ [ApiGetOpt (ns @ ''_'' @ n), ApiCreate si] @
          (if length us < 10 then [SendCreator CreateIdentity] else []) @
          [SendCreator (ActivateServiceUser u (cluster_id m) ns n ls)]\<rparr>)"
proof -
  let ?sid = "ns @ ''_'' @ n"
  have id: "lookup_id (ServiceLookup_new ns n (Some ls)) = ?sid" by (simp add: lookup_id_def)
  have si: "si_service_id si = ?sid" "si_credentials si = u" "si_namespace si = ns" "si_name si = n"
    by (simp_all add: assms(8) id)
  have p: "provider m = \<lparr>pool = u # us, services = services (provider m)\<rparr>" using assms(7) by simp
  have "next_identity (ServiceLookup_new ns n (Some ls)) (provider m) =
      (Some (si, True), \<lparr>pool = us, services = services (provider m) @ [(?sid, si)]\<rparr>)"
    using assms(5,7,8) si p
    by (simp add: next_identity_eq id provider_lookup_def Let_def register_or_update_identity_def
        AList_update_absent)
  moreover have "api_create e si (m\<lparr>provider := q\<rparr>) =
      (Ok si, m\<lparr>provider := q, trace := trace m @ [ApiGetOpt ?sid, ApiCreate si]\<rparr>)" for q
    using assms(9,10) si(1) by (simp add: api_create_def bindR_def api_get_opt_def kube_create_def perform_def)
  ultimately show ?thesis
    using candidate_lookup_named [OF assms(1-3)] assms(4,6) si
    by (simp add: request_service_identity_def Let_def refill_pool_silent send_creator_def perform_def)
qed

text \<open>
  C17: a request is served with the oldest free user. When a candidate without an identity is
  requested, a user is free and the API stores the new identity, then the first user of the pool becomes the candidate's
  user, the identity is stored, a new user is ordered when fewer than 10 are left, and the
  user's activation is ordered for the candidate's namespace, name and labels; nothing else is
  done.
\<close>

theorem request_served:
  assumes "named_candidate c" and "candidate_namespace c = Some ns" and "candidate_labels [] c = Ok ls"
    and "\<not> has_external_queue m"
    and "provider_lookup (provider m) (ns @ ''_'' @ n) = None" and "n = candidate_name [] c"
    and "pool (provider m) = u # us"
    and "si = identity_for (ServiceLookup_new ns n (Some ls)) (ns @ ''-'' @ n) u"
    and "e_get_opt e (trace m) (ns @ ''_'' @ n) = Inr None"
    and "e_create e (trace m @ [ApiGetOpt (ns @ ''_'' @ n)]) si = Inr si"
  shows "request_service_identity e c m =
     (Ok (), m\<lparr>provider := \<lparr>pool = us, services = services (provider m) @ [(ns @ ''_'' @ n, si)]\<rparr>,
        trace := trace m @ [ApiGetOpt (ns @ ''_'' @ n), ApiCreate si] @
          (if length us < 10 then [SendCreator CreateIdentity] else []) @
          [SendCreator (ActivateServiceUser u (cluster_id m) ns n ls)]\<rparr>)"
  using serve_request [OF assms] .

theorem request_served_witness:
  "request_service_identity calm sample_candidate (stocked [sample_user ''a'']) =
     (Ok (), (stocked [sample_user ''a''])\<lparr>provider := \<lparr>pool = [],
        services = services (provider (stocked [sample_user ''a''])) @ [(''shop'' @ ''_'' @ ''web'',
          identity_for (ServiceLookup_new ''shop'' ''web'' (Some sample_labels)) (''shop'' @ ''-'' @ ''web'')
            (sample_user ''a''))]\<rparr>,
        trace := trace (stocked [sample_user ''a'']) @ [ApiGetOpt (''shop'' @ ''_'' @ ''web''),
          ApiCreate (identity_for (ServiceLookup_new ''shop'' ''web'' (Some sample_labels))
            (''shop'' @ ''-'' @ ''web'') (sample_user ''a''))] @
          (if length ([] :: ServiceUser list) < 10 then [SendCreator CreateIdentity] else []) @
          [SendCreator (ActivateServiceUser (sample_user ''a'') (cluster_id (stocked [sample_user ''a'']))
             ''shop'' ''web'' sample_labels)]\<rparr>)"
  by (rule request_served [OF sample_candidate_facts(1-3) stocked_sel(1)])
    (simp_all add: sample_candidate_facts calm_def)

text \<open>
  C38: a request whose identity cannot be stored is lost. When the API refuses the new identity, the
  service stays registered with a user nobody was asked to activate, and every later request for
  it finds the identity registered and does nothing.
\<close>

theorem failed_create_sticks:
  assumes "named_candidate c" and "candidate_namespace c = Some ns" and "candidate_labels [] c = Ok ls"
    and "\<not> has_external_queue m"
    and "provider_lookup (provider m) (ns @ ''_'' @ n) = None" and "n = candidate_name [] c"
    and "pool (provider m) = u # us"
    and "e_get_opt e (trace m) (ns @ ''_'' @ n) = Inr None"
    and "\<And>si. e_create e (trace m @ [ApiGetOpt (ns @ ''_'' @ n)]) si = Inl err"
  shows "\<exists>si m'. request_service_identity e c m = (Ok (), m') \<and> si_credentials si = u \<and>
     provider_lookup (provider m') (ns @ ''_'' @ n) = Some si \<and>
     trace m' = trace m @ [ApiGetOpt (ns @ ''_'' @ n), ApiCreate si] \<and>
     request_service_identity e c m' = (Ok (), m')"
proof -
  let ?sid = "ns @ ''_'' @ n"
  let ?l = "ServiceLookup_new ns n (Some ls)"
  have id: "lookup_id ?l = ?sid" by (simp add: lookup_id_def)
  obtain si p' where nx: "next_identity ?l (provider m) = (Some (si, True), p')"
    and si: "si_credentials si = u" "si_service_id si = ?sid"
    and lk: "provider_lookup p' = (provider_lookup (provider m))(?sid \<mapsto> si)"
    using cred.next_new [of "provider m" ?l u us] assms(5,7) id by auto
  let ?m = "m\<lparr>provider := p', trace := trace m @ [ApiGetOpt ?sid, ApiCreate si]\<rparr>"
  have "api_create e si (m\<lparr>provider := p'\<rparr>) = (Err (ise_of_string err), ?m)"
    using assms(8,9) si(2) by (simp add: api_create_def bindR_def api_get_opt_def kube_create_def perform_def)
  then have "request_service_identity e c m = (Ok (), ?m)"
    using candidate_lookup_named [OF assms(1-3)] assms(4,6) nx
    by (simp add: request_service_identity_def Let_def)
  moreover have "next_identity ?l p' = (Some (si, False), p')"
    using cred.next_stable [OF nx] .
  then have "request_service_identity e c ?m = (Ok (), ?m)"
    using candidate_lookup_named [OF assms(1-3)] assms(4,6)
    by (simp add: request_service_identity_def Let_def)
  ultimately show ?thesis using si lk by (intro exI [of _ si] exI [of _ ?m]) simp
qed

theorem failed_create_sticks_witness:
  "\<exists>si m'. request_service_identity (calm\<lparr>e_create := \<lambda>_ _. Inl ''timeout''\<rparr>) sample_candidate
       (stocked [sample_user ''a'']) = (Ok (), m') \<and> si_credentials si = sample_user ''a'' \<and>
     provider_lookup (provider m') (''shop'' @ ''_'' @ ''web'') = Some si \<and>
     trace m' = trace (stocked [sample_user ''a'']) @ [ApiGetOpt (''shop'' @ ''_'' @ ''web''), ApiCreate si] \<and>
     request_service_identity (calm\<lparr>e_create := \<lambda>_ _. Inl ''timeout''\<rparr>) sample_candidate m' = (Ok (), m')"
  by (rule failed_create_sticks [OF sample_candidate_facts(1-3) stocked_sel(1)])
    (simp_all add: sample_candidate_facts calm_def)



text \<open>
  A user in use that is found deactivated is deleted and stays free. When the user of a
  registered service, whose candidate exists, is announced as deactivated, the reconciliation
  orders its deletion, and keeps it in the pool, from where it is given to the next service.
\<close>

theorem deleted_user_stays_in_pool:
  assumes "channels_open e" and "deletes_succeed e" and "\<not> has_external_queue m"
    and "provider_wf (provider m)" and "missing_service_candidates m = []"
    and "provider_lookup (provider m) sid = Some si" and "sid \<in> set (existing_service_candidates m)"
    and "su_id (si_credentials si) = su_id u"
  shows "\<exists>m'. for_each (handle e) [FoundServiceUser u False, IdentityManagerReady] m = (Ok (), m') \<and>
     SendCreator (DeleteServiceUser (si_credentials si) (si_namespace si) (si_name si)) \<in> set (trace m') \<and>
     u \<in> set (pool (provider m')) \<and> provider_lookup (provider m') sid = None"
proof -
  let ?m1 = "m\<lparr>existing_deactivated_credentials := List.insert (su_id u) (existing_deactivated_credentials m),
      provider := pool_push u (provider m)\<rparr>"
  have step: "found_service_user u False m = (Ok (), ?m1)"
    using assms(3) by (simp add: found_service_user_def)
  have wf: "provider_wf (provider ?m1)" using assms(4) by (simp add: cred.invar_push)
  have ready: "identity_manager_ready e ?m1 = (Ok (), perform (Broadcast WatcherIdentityManagerReady) (reconciled ?m1))"
    using ready_reconciles [OF assms(1,2) _ wf] assms(1,3,5)
    by (simp add: request_missing_def notify_watchers_def send_watchers_def channels_open_def reconciled_def Let_def)
  have mem: "(sid, si) \<in> set (services (provider m))"
    using assms(6) by (simp add: provider_lookup_def map_of_SomeD)
  have "si_service_id si = sid" using assms(4,6) cred.lookup_own_id by blast
  have "sid \<notin> extra_ids ?m1"
    using assms(7) by (auto simp: extra_ids_def extra_service_identities_def)
  then have "si \<in> set (orphan_service_identities (existing_deactivated_credentials ?m1)
      (without (extra_ids ?m1) (provider ?m1)))"
    using mem assms(8) by (force simp: orphan_service_identities_def provider_identities_def)
  then have "SendCreator (DeleteServiceUser (si_credentials si) (si_namespace si) (si_name si)) \<in> set (trace (reconciled ?m1))"
    by (force simp: reconciled_def Let_def deletion_def)
  moreover have "provider_lookup (provider (reconciled ?m1)) sid = None"
  proof -
    have "(sid, s) \<in> set (services (provider m)) \<Longrightarrow> s = si" for s
      using mem assms(4) by (auto simp: provider_wf_def dest: eq_key_imp_eq_value)
    then have "\<forall>s. (sid, s) \<notin> set (services (provider (reconciled ?m1)))"
      using services_reconciled [OF wf] assms(8) by auto
    then show ?thesis by (force simp: provider_lookup_def map_of_eq_None_iff)
  qed
  ultimately show ?thesis
    using step ready by (simp add: perform_def) (simp add: reconciled_def Let_def)
qed

theorem deleted_user_stays_in_pool_witness:
  "\<exists>m'. for_each (handle calm) [FoundServiceUser (sample_user ''a'') False, IdentityManagerReady]
       (serving_web (sample_user ''a'')) = (Ok (), m') \<and>
     SendCreator (DeleteServiceUser (si_credentials (web_identity (sample_user ''a'')))
       (si_namespace (web_identity (sample_user ''a''))) (si_name (web_identity (sample_user ''a'')))) \<in> set (trace m') \<and>
     sample_user ''a'' \<in> set (pool (provider m')) \<and> provider_lookup (provider m') ''shop_web'' = None"
  by (rule deleted_user_stays_in_pool [OF calm_open(1,2) serving_web_sel(1-5)]) simp

text \<open>
  A released device id is recorded. When a pod of a registered service releases a device id and
  the API takes the update, the identity's user has the id afterwards and keeps those it had, no id
  twice, and the creator is told to release it, unless the user has no list of ids, which stays so.
\<close>

theorem device_id_recorded:
  assumes "provider_wf (provider m)" and "provider_lookup (provider m) (lookup_id l) = Some si"
    and "fst (api_update e (add_device_id d si) (m\<lparr>provider := register_or_update_identity (add_device_id d si) (provider m)\<rparr>)) = Ok si'"
    and "channels_open e" and "d = e_uuid_to_string e u"
  shows "fst (release_device_id e l u m) = Ok () \<and>
     provider_lookup (provider (snd (release_device_id e l u m))) =
       (provider_lookup (provider m))(lookup_id l \<mapsto> add_device_id d si) \<and>
     last (trace (snd (release_device_id e l u m))) =
       SendCreator (CreatorReleaseDeviceId (si_credentials (add_device_id d si)) u) \<and>
     (case su_device_ids (si_credentials si) of
        None \<Rightarrow> su_device_ids (si_credentials (add_device_id d si)) = None
      | Some ds \<Rightarrow> (\<exists>ds'. su_device_ids (si_credentials (add_device_id d si)) = Some ds' \<and>
          set ds' = insert d (set ds) \<and> distinct ds' = distinct ds))"
proof -
  have sid: "si_service_id si = lookup_id l" using assms(1,2) cred.lookup_own_id by blast
  let ?si = "add_device_id d si"
  let ?m = "m\<lparr>provider := register_or_update_identity ?si (provider m)\<rparr>"
  have m: "?m = m\<lparr>provider := (provider m)\<lparr>services := AList.update (lookup_id l) ?si (services (provider m))\<rparr>\<rparr>"
    by (simp add: register_or_update_identity_def sid)
  obtain m2 where m2: "api_update e ?si ?m = (Ok si', m2)" using assms(3) by (metis prod.collapse)
  have r: "release_device_id e l u m =
      (Ok (), perform (SendCreator (CreatorReleaseDeviceId (si_credentials ?si) u)) m2)"
    using assms(2,4) m2 [unfolded m]
    by (simp add: release_device_id_def identity_lookup lookup_service_id_lookup_id Let_def send_creator_def
        channels_open_def si_credentials_def assms(5) [symmetric])
  have "provider m2 = provider ?m" by (rule provider_api_update [OF m2])
  then have "provider_lookup (provider (snd (release_device_id e l u m))) =
      (provider_lookup (provider m))(lookup_id l \<mapsto> ?si)"
    by (simp add: r perform_def provider_lookup_def sid)
  moreover have "last (trace (snd (release_device_id e l u m))) =
      SendCreator (CreatorReleaseDeviceId (si_credentials ?si) u)"
    by (simp add: r perform_def)
  moreover have "case su_device_ids (si_credentials si) of
      None \<Rightarrow> su_device_ids (si_credentials ?si) = None
    | Some ds \<Rightarrow> (\<exists>ds'. su_device_ids (si_credentials ?si) = Some ds' \<and>
        set ds' = insert d (set ds) \<and> distinct ds' = distinct ds)"
    by (auto simp: add_device_id_def si_set_user_def si_credentials_def Let_def split: option.splits)
  ultimately show ?thesis by (simp add: r)
qed

theorem device_id_recorded_witness:
  "fst (release_device_id calm (ServiceLookup_new ''shop'' ''web'' None) 7 (serving_web (sample_user ''a''))) = Ok ()"
proof (rule conjunct1 [OF device_id_recorded [where l = "ServiceLookup_new ''shop'' ''web'' None" and d = "''d''"]])
  show "provider_lookup (provider (serving_web (sample_user ''a'')))
      (lookup_id (ServiceLookup_new ''shop'' ''web'' None)) = Some (web_identity (sample_user ''a''))"
    by (simp add: lookup_id_def)
  show "fst (api_update calm (add_device_id ''d'' (web_identity (sample_user ''a'')))
      ((serving_web (sample_user ''a''))\<lparr>provider := register_or_update_identity
        (add_device_id ''d'' (web_identity (sample_user ''a''))) (provider (serving_web (sample_user ''a'')))\<rparr>)) =
      Ok (add_device_id ''d'' (web_identity (sample_user ''a'')))"
    by (simp add: api_update_def api_create_def bindR_def api_get_opt_def kube_create_def calm_def)
qed (simp_all add: calm_def channels_open_def)

end
