(* ===== verification/Manager_Startup.thy ===== *)
theory Manager_Startup
  imports Manager_Laws
begin

text \<open>
  The start of the identity manager from its first list to the end of the reconciliation: which identities there
  are then, for the candidates and the users that were announced in the meantime, in whatever order.
\<close>

section \<open>What was announced\<close>

definition good_candidate :: "ServiceCandidate \<Rightarrow> bool" where
  "good_candidate c \<longleftrightarrow> named_candidate c \<and> candidate_namespace c \<noteq> None \<and>
     (case candidate_labels [] c of Ok ls \<Rightarrow> True | _ \<Rightarrow> False)"

definition candidate_ns :: "ServiceCandidate \<Rightarrow> string" where
  "candidate_ns c = unwrap_or (candidate_namespace c) []"

definition candidate_id :: "ServiceCandidate \<Rightarrow> string" where
  "candidate_id c = candidate_ns c @ ''_'' @ candidate_name [] c"

definition labels_of :: "ServiceCandidate \<Rightarrow> string_map" where
  "labels_of c = (case candidate_labels [] c of Ok ls \<Rightarrow> ls | _ \<Rightarrow> [])"

text \<open>The identity a candidate gets with a user, and the order to activate that user for it.\<close>

definition identity_with :: "ServiceCandidate \<Rightarrow> ServiceUser \<Rightarrow> ServiceIdentity" where
  "identity_with c u = identity_for (ServiceLookup_new (candidate_ns c) (candidate_name [] c) (Some (labels_of c)))
     (candidate_ns c @ ''-'' @ candidate_name [] c) u"

definition activation :: "string \<Rightarrow> ServiceCandidate \<Rightarrow> ServiceUser \<Rightarrow> im_action" where
  "activation cl c u = SendCreator (ActivateServiceUser u cl (candidate_ns c) (candidate_name [] c) (labels_of c))"

fun startup_msg :: "IdentityManagerProtocol \<Rightarrow> bool" where
  "startup_msg (FoundServiceUser u activated) \<longleftrightarrow> True"
| "startup_msg (FoundServiceCandidate c) \<longleftrightarrow> good_candidate c"
| "startup_msg IdentityCreatorReady \<longleftrightarrow> True"
| "startup_msg DeploymentWatcherReady \<longleftrightarrow> True"
| "startup_msg _ \<longleftrightarrow> False"

fun free_users :: "IdentityManagerProtocol list \<Rightarrow> ServiceUser list" where
  "free_users [] = []"
| "free_users (FoundServiceUser u activated # msgs) = (if activated then free_users msgs else u # free_users msgs)"
| "free_users (_ # msgs) = free_users msgs"

fun candidates :: "IdentityManagerProtocol list \<Rightarrow> ServiceCandidate list" where
  "candidates [] = []"
| "candidates (FoundServiceCandidate c # msgs) = c # candidates msgs"
| "candidates (_ # msgs) = candidates msgs"

lemma good_candidateD:
  assumes "good_candidate c"
  shows "named_candidate c" "candidate_namespace c = Some (candidate_ns c)" "candidate_labels [] c = Ok (labels_of c)"
  using assms by (auto simp: good_candidate_def candidate_ns_def labels_of_def split: res.splits)

lemma good_candidate_lookup:
  assumes "good_candidate c"
  shows "candidate_service_id u c = Ok (candidate_id c)"
    "lookup_of_candidate u1 u2 c = Ok (ServiceLookup_new (candidate_ns c) (candidate_name [] c) (Some (labels_of c)))"
    "lookup_id (ServiceLookup_new (candidate_ns c) (candidate_name [] c) (Some (labels_of c))) = candidate_id c"
  using candidate_lookup_named [OF good_candidateD [OF assms]] by (simp_all add: candidate_id_def lookup_id_def)

section \<open>The messages before the reconciliation\<close>

text \<open>The part of the manager's state that the reconciliation reads.\<close>

definition core :: "IdentityManager \<Rightarrow> Provider \<times> string list \<times> (string \<times> ServiceCandidate) list \<times> string list \<times> bool \<times> string" where
  "core m = (provider m, existing_service_candidates m, missing_service_candidates m, existing_deactivated_credentials m,
     has_external_queue m, cluster_id m)"

fun core_step :: "IdentityManagerProtocol \<Rightarrow>
  Provider \<times> string list \<times> (string \<times> ServiceCandidate) list \<times> string list \<times> bool \<times> string \<Rightarrow>
  Provider \<times> string list \<times> (string \<times> ServiceCandidate) list \<times> string list \<times> bool \<times> string" where
  "core_step (FoundServiceUser u activated) (p, ex, mi, de, q, cl) =
     (if activated then (p, ex, mi, de, q, cl) else (pool_push u p, ex, mi, List.insert (su_id u) de, q, cl))"
| "core_step (FoundServiceCandidate c) (p, ex, mi, de, q, cl) =
     (if provider_lookup p (candidate_id c) \<noteq> None then (p, List.insert (candidate_id c) ex, mi, de, q, cl)
      else (p, ex, AList.update (candidate_id c) c mi, de, q, cl))"
| "core_step _ x = x"

lemma core_handle:
  assumes "startup_msg msg" and "\<not> has_external_queue m" and "channels_open e"
  shows "core (snd (handle e msg m)) = core_step msg (core m)" and "fst (handle e msg m) = Ok ()"
proof -
  have notify: "core (snd (notify_ready e m')) = core m'" "fst (notify_ready e m') = Ok ()" for m'
    using assms(3) by (simp_all add: notify_ready_def send_self_def perform_def core_def channels_open_def)
  have "core (snd (handle e msg m)) = core_step msg (core m) \<and> fst (handle e msg m) = Ok ()"
    using assms(1,2) notify
    by (cases msg) (auto simp: core_def found_service_user_def found_service_candidate_def good_candidate_lookup identity_lookup
        identity_creator_ready_def deployment_watcher_ready_def Let_def provider_lookup_def split: option.split)
  then show "core (snd (handle e msg m)) = core_step msg (core m)" "fst (handle e msg m) = Ok ()" by simp_all
qed

lemma startup_core:
  assumes "\<forall>msg \<in> set msgs. startup_msg msg" and "\<not> has_external_queue m" and "channels_open e"
  shows "core (snd (for_each (handle e) msgs m)) = fold core_step msgs (core m) \<and> fst (for_each (handle e) msgs m) = Ok ()"
  using assms(1,2)
proof (induction msgs arbitrary: m)
  case (Cons msg msgs)
  note step = core_handle [of msg m e]
  obtain m1 where m1: "handle e msg m = (Ok (), m1)"
    using step(2) Cons.prems assms(3) by (metis list.set_intros(1) prod.collapse)
  then have c: "core m1 = core_step msg (core m)" using step(1) Cons.prems assms(3) by simp
  then have "\<not> has_external_queue m1"
    using Cons.prems(2) by (cases msg) (auto simp: core_def split: if_splits)
  then show ?case using Cons.IH [of m1] Cons.prems(1) m1 c by simp
qed simp

text \<open>What the announcements leave, from the provider \<open>p\<close>.\<close>

definition announced_to ::
  "IdentityManagerProtocol list \<Rightarrow> Provider \<times> string list \<times> (string \<times> ServiceCandidate) list \<times> string list \<times> bool \<times> string \<Rightarrow>
   Provider \<times> string list \<times> (string \<times> ServiceCandidate) list \<times> string list \<times> bool \<times> string \<Rightarrow> bool" where
  "announced_to msgs x y \<longleftrightarrow>
     (case (x, y) of ((p, ex, mi, de, q, cl), (p', ex', mi', de', q', cl')) \<Rightarrow>
        services p' = services p \<and> pool p' = pool p @ free_users msgs \<and> q' = q \<and> cl' = cl \<and>
        set ex' = set ex \<union> {k \<in> candidate_id ` set (candidates msgs). provider_lookup p k \<noteq> None} \<and>
        fst ` set mi' = fst ` set mi \<union> {k \<in> candidate_id ` set (candidates msgs). provider_lookup p k = None} \<and>
        (distinct (map fst mi) \<longrightarrow> distinct (map fst mi')) \<and>
        set mi' \<subseteq> set mi \<union> (\<lambda>c. (candidate_id c, c)) ` set (candidates msgs) \<and>
        set de' = set de \<union> su_id ` set (free_users msgs))"

lemma update_subset: "set (AList.update k v al) \<subseteq> insert (k, v) (set al)"
  by (induction al) auto

lemma update_keys: "fst ` set (AList.update k v al) = insert k (fst ` set al)"
  using dom_update [of k v al] by simp

lemma announced_step:
  assumes "announced_to msgs (core_step msg x) y"
  shows "announced_to (msg # msgs) x y"
proof -
  obtain p ex mi de q cl where x: "x = (p, ex, mi, de, q, cl)" by (cases x)
  obtain p' ex' mi' de' q' cl' where y: "y = (p', ex', mi', de', q', cl')" by (cases y)
  show ?thesis
  proof (cases msg)
    case (FoundServiceCandidate c)
    then show ?thesis
      using assms update_subset [of "candidate_id c" c mi] distinct_update [of mi "candidate_id c" c]
      by (auto simp: announced_to_def x y update_keys split: if_splits)
  qed (use assms in \<open>auto simp: announced_to_def x y provider_lookup_def split: if_splits\<close>)
qed

lemma announced_fold: "announced_to msgs x (fold core_step msgs x)"
proof (induction msgs arbitrary: x)
  case Nil
  show ?case by (cases x) (simp add: announced_to_def)
next
  case (Cons msg msgs)
  then show ?case using announced_step by simp
qed

section \<open>The requests of the missing candidates\<close>

definition api_creates :: "im_env \<Rightarrow> bool" where
  "api_creates e \<longleftrightarrow> (\<forall>tr n. e_get_opt e tr n = Inr None) \<and> (\<forall>tr si. e_create e tr si = Inr si)"

lemma request_missing_one:
  assumes "api_creates e" and "\<not> has_external_queue m" and "good_candidate c"
    and "provider_lookup (provider m) (candidate_id c) = None" and "pool (provider m) = u # us"
  obtains acts where "request_service_identity e c m =
      (Ok (), m\<lparr>provider := \<lparr>pool = us, services = services (provider m) @ [(candidate_id c, identity_with c u)]\<rparr>,
        trace := trace m @ acts\<rparr>)" and "activation (cluster_id m) c u \<in> set acts"
  using serve_request [OF good_candidateD [OF assms(3)] assms(2) _ refl assms(5) refl, of e] assms(1,4)
  by (auto simp: candidate_id_def identity_with_def activation_def api_creates_def)

lemma requests_served:
  assumes "api_creates e" and "\<not> has_external_queue m" and "\<forall>(k, c) \<in> set ms. good_candidate c \<and> k = candidate_id c"
    and "distinct (map fst ms)" and "\<forall>k \<in> fst ` set ms. provider_lookup (provider m) k = None"
    and "length ms \<le> length (pool (provider m))"
  shows "\<exists>acts. for_each (request_service_identity e) (map snd ms) m =
      (Ok (), m\<lparr>provider := \<lparr>pool = drop (length ms) (pool (provider m)),
         services = services (provider m) @ map (\<lambda>((k, c), u). (k, identity_with c u)) (zip ms (pool (provider m)))\<rparr>,
        trace := trace m @ acts\<rparr>) \<and>
    (\<forall>((k, c), u) \<in> set (zip ms (pool (provider m))). activation (cluster_id m) c u \<in> set acts)"
  using assms(2-6)
proof (induction ms arbitrary: m)
  case Nil
  show ?case by (rule exI [of _ "[]"]) simp
next
  case (Cons kc ms)
  obtain k c where kc: "kc = (k, c)" by (cases kc)
  obtain u us where us: "pool (provider m) = u # us" using Cons.prems(5) by (cases "pool (provider m)") auto
  have c: "good_candidate c" "k = candidate_id c" using Cons.prems(2) kc by auto
  obtain acts where acts: "request_service_identity e c m =
      (Ok (), m\<lparr>provider := \<lparr>pool = us, services = services (provider m) @ [(k, identity_with c u)]\<rparr>, trace := trace m @ acts\<rparr>)"
    "activation (cluster_id m) c u \<in> set acts"
    using request_missing_one [OF assms(1) Cons.prems(1) c(1) _ us] Cons.prems(4) kc c(2) by auto
  let ?m = "m\<lparr>provider := \<lparr>pool = us, services = services (provider m) @ [(k, identity_with c u)]\<rparr>, trace := trace m @ acts\<rparr>"
  have "\<forall>k' \<in> fst ` set ms. provider_lookup (provider ?m) k' = None"
    using Cons.prems(3,4) kc by (auto simp: provider_lookup_def map_add_def split: option.split)
  then obtain acts' where
    "for_each (request_service_identity e) (map snd ms) ?m =
      (Ok (), ?m\<lparr>provider := \<lparr>pool = drop (length ms) us,
         services = services (provider ?m) @ map (\<lambda>((k, c), u). (k, identity_with c u)) (zip ms us)\<rparr>,
        trace := trace ?m @ acts'\<rparr>)"
    "\<forall>((k, c), u) \<in> set (zip ms us). activation (cluster_id m) c u \<in> set acts'"
    using Cons.IH [of ?m] Cons.prems us by auto
  then show ?case
    using acts by (intro exI [of _ "acts @ acts'"]) (auto simp: kc us)
qed

section \<open>The whole start\<close>

text \<open>The state after the messages before the reconciliation.\<close>

lemma started:
  assumes "channels_open e" and "IdentityManager_new (Some cl) False = Ok m0" and "e_list e [] = Inr xs"
    and "\<forall>msg \<in> set msgs. startup_msg msg" and "old = fold register_or_update_identity xs provider_default"
  obtains m ex mi de where "run e (msgs @ [IdentityManagerReady]) m0 =
      (case identity_manager_ready e m of (Panic q, m') \<Rightarrow> (Panic q, m') | (_, m') \<Rightarrow> (Ok (), m'))"
    and "provider_wf (provider m)" and "\<not> has_external_queue m" and "cluster_id m = cl"
    and "services (provider m) = services old" and "pool (provider m) = free_users msgs"
    and "set (existing_service_candidates m) = {k \<in> candidate_id ` set (candidates msgs). provider_lookup old k \<noteq> None}"
    and "fst ` set (missing_service_candidates m) = {k \<in> candidate_id ` set (candidates msgs). provider_lookup old k = None}"
    and "distinct (map fst (missing_service_candidates m))"
    and "set (missing_service_candidates m) \<subseteq> (\<lambda>c. (candidate_id c, c)) ` set (candidates msgs)"
    and "set (existing_deactivated_credentials m) = su_id ` set (free_users msgs)"
proof -
  have m0: "provider m0 = provider_default" "\<not> has_external_queue m0" "existing_service_candidates m0 = []"
    "missing_service_candidates m0 = []" "existing_deactivated_credentials m0 = []" "cluster_id m0 = cl" "trace m0 = []"
    using assms(2) by (auto simp: IdentityManager_new_def)
  let ?m1 = "perform (SendCreator StartService) ((perform ApiList m0)\<lparr>provider := old\<rparr>)"
  have init: "initialize e m0 = (Ok (), ?m1)"
    using initialize_eq [OF assms(1), of m0 xs] m0 assms(3,5) by (simp add: queue_info_def perform_def)
  have core1: "core ?m1 = (old, [], [], [], False, cl)" using m0 by (simp add: core_def perform_def)
  have "\<not> has_external_queue ?m1" using m0 by (simp add: perform_def)
  from startup_core [OF assms(4) this assms(1)] obtain m where
    m: "for_each (handle e) msgs ?m1 = (Ok (), m)" "core m = fold core_step msgs (old, [], [], [], False, cl)"
    by (metis core1 prod.collapse)
  from announced_fold [of msgs "(old, [], [], [], False, cl)"]
  have a: "announced_to msgs (old, [], [], [], False, cl) (core m)" by (simp add: m(2))
  have wf: "provider_wf (provider m)"
    using provider_wf_run [of m0 e msgs] m0 init m(1) by (simp add: run_def)
  have pool: "pool old = []"
  proof -
    have "pool (fold register_or_update_identity xs p) = pool p" for p by (induction xs arbitrary: p) simp_all
    then show ?thesis by (simp add: assms(5) provider_default_def)
  qed
  have "run e (msgs @ [IdentityManagerReady]) m0 =
      (case identity_manager_ready e m of (Panic q, m') \<Rightarrow> (Panic q, m') | (_, m') \<Rightarrow> (Ok (), m'))"
    using init m(1) by (simp add: run_def for_each_append split: prod.split res.split)
  with wf a pool show thesis by (intro that [of m]) (auto simp: announced_to_def core_def)
qed

lemma candidates_good:
  "\<forall>msg \<in> set msgs. startup_msg msg \<Longrightarrow> c \<in> set (candidates msgs) \<Longrightarrow> good_candidate c"
  by (induction msgs rule: candidates.induct) auto

lemma startup_result:
  assumes "channels_open e" and "deletes_succeed e" and "api_creates e"
    and "IdentityManager_new (Some cl) False = Ok m0" and "e_list e [] = Inr xs"
    and "\<forall>msg \<in> set msgs. startup_msg msg" and "card (candidate_id ` set (candidates msgs)) \<le> length (free_users msgs)"
    and "old = fold register_or_update_identity xs provider_default"
  obtains ms m where "run e (msgs @ [IdentityManagerReady]) m0 = (Ok (), m)"
    and "fst ` set ms = {k \<in> candidate_id ` set (candidates msgs). provider_lookup old k = None}"
    and "distinct (map fst ms)" and "length ms \<le> length (free_users msgs)"
    and "set ms \<subseteq> (\<lambda>c. (candidate_id c, c)) ` set (candidates msgs)"
    and "services (provider m) = filter (\<lambda>(k, si). k \<in> candidate_id ` set (candidates msgs) \<and>
        su_id (si_credentials si) \<notin> su_id ` set (free_users msgs)) (services old) @
      map (\<lambda>((k, c), u). (k, identity_with c u)) (zip ms (free_users msgs))"
    and "\<forall>((k, c), u) \<in> set (zip ms (free_users msgs)). activation cl c u \<in> set (trace m)"
proof (rule started [OF assms(1,4,5,6,8)])
  fix m
  assume run: "run e (msgs @ [IdentityManagerReady]) m0 =
      (case identity_manager_ready e m of (Panic q, m') \<Rightarrow> (Panic q, m') | (_, m') \<Rightarrow> (Ok (), m'))"
    and wf: "provider_wf (provider m)" and q: "\<not> has_external_queue m" and cl: "cluster_id m = cl"
    and sv: "services (provider m) = services old" and pool: "pool (provider m) = free_users msgs"
    and ex: "set (existing_service_candidates m) = {k \<in> candidate_id ` set (candidates msgs). provider_lookup old k \<noteq> None}"
    and mi: "fst ` set (missing_service_candidates m) = {k \<in> candidate_id ` set (candidates msgs). provider_lookup old k = None}"
      "distinct (map fst (missing_service_candidates m))"
      "set (missing_service_candidates m) \<subseteq> (\<lambda>c. (candidate_id c, c)) ` set (candidates msgs)"
    and de: "set (existing_deactivated_credentials m) = su_id ` set (free_users msgs)"
  let ?ms = "missing_service_candidates m" and ?r = "reconciled m"
  have "length ?ms = card (fst ` set ?ms)" using mi(2) by (metis distinct_card length_map list.set_map)
  also have "\<dots> \<le> card (candidate_id ` set (candidates msgs))" unfolding mi(1) by (intro card_mono) auto
  finally have len: "length ?ms \<le> length (free_users msgs)" using assms(7) by simp
  have r: "\<not> has_external_queue ?r" "pool (provider ?r) = free_users msgs" "missing_service_candidates ?r = ?ms" "cluster_id ?r = cl"
    using q pool cl by (simp_all add: reconciled_def Let_def)
  have keep: "services (provider ?r) = filter (\<lambda>(k, si). k \<in> candidate_id ` set (candidates msgs) \<and>
      su_id (si_credentials si) \<notin> su_id ` set (free_users msgs)) (services old)"
    unfolding services_reconciled [OF wf] sv ex de
    by (rule filter_cong) (force simp: provider_lookup_def map_of_eq_None_iff)+
  have absent: "\<forall>k \<in> fst ` set ?ms. provider_lookup (provider ?r) k = None"
    using mi(1) by (force simp: provider_lookup_def keep map_of_eq_None_iff)
  have good: "\<forall>(k, c) \<in> set ?ms. good_candidate c \<and> k = candidate_id c"
    using mi(3) candidates_good [OF assms(6)] by auto
  from requests_served [OF assms(3) r(1) good mi(2) absent] len r obtain acts where
    acts: "request_missing e ?r = (Ok (), ?r\<lparr>provider := \<lparr>pool = drop (length ?ms) (free_users msgs),
         services = services (provider ?r) @ map (\<lambda>((k, c), u). (k, identity_with c u)) (zip ?ms (free_users msgs))\<rparr>,
        trace := trace ?r @ acts\<rparr>)"
    "\<forall>((k, c), u) \<in> set (zip ?ms (free_users msgs)). activation cl c u \<in> set acts"
    by (auto simp: request_missing_def)
  let ?m = "perform (Broadcast WatcherIdentityManagerReady) (snd (request_missing e ?r))"
  have "identity_manager_ready e m = (Ok (), ?m)"
    using ready_reconciles [OF assms(1,2) q wf] acts(1) assms(1)
    by (simp add: bindR_def notify_watchers_def send_watchers_def perform_def channels_open_def)
  then show thesis
    using run mi len keep acts by (intro that [of ?m ?ms]) (auto simp: perform_def)
qed



end
