(* ===== verification/World.thy ===== *)
theory World
  imports Protocols
begin

text \<open>
  What the identity creator and the SDP client see of the outside world: the data of the SDP
  controller's API (\<^verbatim>\<open>sdp/auth.rs\<close>, \<^verbatim>\<open>sdp/system.rs\<close>), the requests sent to it, and the calls of the
  Kubernetes API for secrets and config maps.

  As for the identity manager, what third-party code answers is given by functions of everything
  done before, here a \<open>world_env\<close>; what is done is recorded as a list of actions. Times are in
  nanoseconds since 1970.
\<close>

section \<open>Data of the controller\<close>

record Credentials =
  cr_username :: string
  cr_password :: string
  cr_provider_name :: string
  cr_device_id :: string

record Login =
  login_token :: string
  login_expires :: int

record SDPUser =
  u_id :: string
  u_name :: string
  u_labels :: string_map
  u_tags :: "string list"
  u_password :: "string option"
  u_disabled :: bool
  u_failed_login_attempts :: "nat option"
  u_lock_start :: "string option"

record OnBoardedUser =
  ob_distinguished_name :: string
  ob_device_id :: string
  ob_username :: string
  ob_last_seen_at :: int

record ClientProfile =
  cp_id :: string
  cp_name :: string
  cp_spa_key_name :: string
  cp_identity_provider_name :: string
  cp_tags :: "string list"

type_synonym ClientProfileUrl = string

section \<open>Requests\<close>

datatype http_method = HGet | HPost | HPut | HDelete

text \<open>A path is set as a whole, or segments are pushed, which are percent-encoded one by one.\<close>

datatype url_path = Path string | Segments "string list"

record url =
  url_host :: string
  url_path :: url_path
  url_query :: "(string \<times> string) list"

datatype http_body = NoBody | CredentialsBody Credentials | UserBody SDPUser | ProfileBody ClientProfile

record http_request =
  hr_method :: http_method
  hr_url :: url
  hr_token :: "string option"
  hr_body :: http_body

record http_response =
  hp_status :: nat
  hp_body :: "string + string"

section \<open>Actions\<close>

type_synonym secret_data = "(string \<times> string) list"

datatype action =
    Http http_request
  | SecretGet string string
  | SecretGetOpt string string
  | SecretDelete string string
  | SecretPatchRemove string string "string list"
  | SecretPatchMerge string string secret_data
  | SecretCreate string string secret_data
  | ConfigGetOpt string string
  | ConfigDelete string string
  | ConfigCreate string string string_map
  | SendManager IdentityManagerProtocol

type_synonym world = "action list"

text \<open>
  \<open>we_do\<close> is the error, if any, of an action that answers nothing else; the \<open>we_parse\<close> functions
  decode a response body.
\<close>

record world_env =
  we_http :: "world \<Rightarrow> http_request \<Rightarrow> string + http_response"
  we_secret_get :: "world \<Rightarrow> string \<Rightarrow> string \<Rightarrow> string + secret_data option"
  we_exists :: "world \<Rightarrow> action \<Rightarrow> string + bool"
  we_do :: "world \<Rightarrow> action \<Rightarrow> string option"
  we_now :: "world \<Rightarrow> int"
  we_datetime_min :: int
  we_uuid :: "world \<Rightarrow> nat \<Rightarrow> string"
  we_sample :: "world \<Rightarrow> nat \<Rightarrow> char"
  we_cannot_be_a_base :: "string \<Rightarrow> bool"
  we_pointer_parse :: "string \<Rightarrow> string option"
  we_parse_uuid :: "string \<Rightarrow> 128 word option"
  we_uuid_to_string :: "128 word \<Rightarrow> string"
  we_parse_login :: "string \<Rightarrow> string + Login"
  we_parse_users :: "string \<Rightarrow> string + SDPUser list"
  we_parse_user :: "string \<Rightarrow> string + SDPUser"
  we_parse_devices :: "string \<Rightarrow> string + OnBoardedUser list"
  we_parse_profiles :: "string \<Rightarrow> string + ClientProfile list"
  we_parse_profile :: "string \<Rightarrow> string + ClientProfile"
  we_parse_profile_url :: "string \<Rightarrow> string + ClientProfileUrl"
  we_parse_unit :: "string \<Rightarrow> string + unit option"

text \<open>An action that answers nothing but an error.\<close>

definition do_action :: "world_env \<Rightarrow> action \<Rightarrow> (world, string, unit) act" where
  "do_action e a w = ((case we_do e w a of Some err \<Rightarrow> Err err | None \<Rightarrow> Ok ()), w @ [a])"

definition exists_action :: "world_env \<Rightarrow> action \<Rightarrow> (world, string, bool) act" where
  "exists_action e a w = ((case we_exists e w a of Inl err \<Rightarrow> Err err | Inr b \<Rightarrow> Ok b), w @ [a])"

section \<open>Users\<close>

text \<open>\<^verbatim>\<open>SDPUser::new\<close>; \<open>pwd\<close> is the drawn password.\<close>

definition SDPUser_new :: "string \<Rightarrow> string \<Rightarrow> string option \<Rightarrow> bool option \<Rightarrow> SDPUser" where
  "SDPUser_new pwd i name disabled =
     \<lparr>u_id = i, u_name = unwrap_or name i, u_labels = [], u_tags = [], u_password = Some pwd,
      u_disabled = unwrap_or disabled True, u_failed_login_attempts = None, u_lock_start = None\<rparr>"

definition prefix_name :: "SDPUser \<Rightarrow> string" where
  "prefix_name u = user_prefix_name (u_name u)"

definition SDPUser_from :: "ServiceUser \<Rightarrow> SDPUser" where
  "SDPUser_from su =
     \<lparr>u_id = su_name su, u_name = su_name su, u_labels = [], u_tags = [], u_password = None,
      u_disabled = True, u_failed_login_attempts = None, u_lock_start = None\<rparr>"

definition from_sdp_user ::
  "SDPUser \<Rightarrow> ClientProfileUrl \<Rightarrow> string option \<Rightarrow> string list option \<Rightarrow> ServiceUser option" where
  "from_sdp_user u profile_url pwd device_ids =
     map_option (\<lambda>pwd. \<lparr>su_id = u_id u, su_name = u_name u, su_password = pwd, su_profile_url = profile_url,
                       su_device_ids = device_ids\<rparr>)
       (case pwd of Some p \<Rightarrow> Some p | None \<Rightarrow> u_password u)"

definition FIFTEEN_MINUTES :: int where
  "FIFTEEN_MINUTES = 15 * 60 * 1000000000"

text \<open>\<^verbatim>\<open>Login::is_expired\<close> at the time \<open>now\<close>; the subtraction of 15 minutes fails below the least time.\<close>

definition is_expired :: "int \<Rightarrow> int \<Rightarrow> Login \<Rightarrow> bool" where
  "is_expired least now l =
     unwrap_or (map_option (\<lambda>dt. dt \<le> now)
       (if least \<le> login_expires l - FIFTEEN_MINUTES then Some (login_expires l - FIFTEEN_MINUTES) else None)) False"

end
