(* ===== verification/Sdp_System.thy ===== *)
theory Sdp_System
  imports World
begin

text \<open>
  The client of the SDP controller (\<^verbatim>\<open>sdp-common/src/sdp/system.rs\<close>, \<^verbatim>\<open>auth.rs\<close>, \<^verbatim>\<open>errors.rs\<close>): login and its
  renewal, the generic requests, and the operations on users, devices and client profiles.

  The state of an operation is the client and what was done so far.
\<close>

section \<open>Errors\<close>

record SDPClientError =
  request_error :: "string option"
  status_code :: "nat option"
  error_body :: "string option"

definition client_error_of_request :: "string \<Rightarrow> SDPClientError" where
  "client_error_of_request err = \<lparr>request_error = Some err, status_code = None, error_body = None\<rparr>"

text \<open>The debug output of an optional string, with its quotes, backslashes and line ends
  escaped; the rest of the text is taken to be printable.\<close>

definition debug_char :: "char \<Rightarrow> string" where
  "debug_char c =
     (if c = CHR 0x22 then [CHR 0x5C, CHR 0x22] else if c = CHR 0x5C then [CHR 0x5C, CHR 0x5C]
      else if c = CHR 0x0A then [CHR 0x5C, CHR ''n''] else if c = CHR 0x0D then [CHR 0x5C, CHR ''r'']
      else if c = CHR 0x09 then [CHR 0x5C, CHR ''t''] else [c])"

fun debug_option :: "('a \<Rightarrow> string) \<Rightarrow> 'a option \<Rightarrow> string" where
  "debug_option f None = ''None''"
| "debug_option f (Some x) = ''Some('' @ f x @ '')''"

definition SDPClientError_fmt :: "SDPClientError \<Rightarrow> string" where
  "SDPClientError_fmt err =
     (case request_error err of
        Some e \<Rightarrow> ''SDPClient error: '' @ e
      | None \<Rightarrow> ''SDPClient error ['' @ debug_option show_nat (status_code err) @ '']: '' @
          debug_option (\<lambda>s. [CHR 0x22] @ concat (map debug_char s) @ [CHR 0x22]) (error_body err))"

datatype 'd ResponseData = NoContent | Entity 'd

text \<open>\<^verbatim>\<open>error_for_status\<close>: \<open>dec\<close> decodes the body of the expected type.\<close>

definition error_for_status ::
  "(string \<Rightarrow> string + 'd) \<Rightarrow> http_response \<Rightarrow> (SDPClientError, 'd ResponseData) res" where
  "error_for_status dec r =
     (if 400 \<le> hp_status r \<and> hp_status r < 600
      then (case hp_body r of
              Inl err \<Rightarrow> Err (client_error_of_request err)
            | Inr body \<Rightarrow> Err \<lparr>request_error = None, status_code = Some (hp_status r), error_body = Some body\<rparr>)
      else if hp_status r = 204 then Ok NoContent
      else (case hp_body r of
              Inl err \<Rightarrow> Err (client_error_of_request err)
            | Inr body \<Rightarrow>
                (case dec body of
                   Inl err \<Rightarrow> Err (client_error_of_request err)
                 | Inr d \<Rightarrow> Ok (Entity d))))"

definition expect_entity :: "string \<Rightarrow> 'd ResponseData \<Rightarrow> (SDPClientError, 'd) res" where
  "expect_entity what d =
     (case d of
        NoContent \<Rightarrow> Err \<lparr>request_error = None, status_code = Some 204,
                        error_body = Some (''Expected '' @ what @ '', found nothing!'')\<rparr>
      | Entity x \<Rightarrow> Ok x)"

section \<open>The client\<close>

record System =
  sys_hosts :: "string list"
  sys_credentials :: Credentials
  sys_login :: "Login option"

type_synonym 'a sys_act = "(System \<times> world, SDPClientError, 'a) act"

definition System_build :: "string list \<Rightarrow> Credentials \<Rightarrow> System" where
  "System_build hosts cr = \<lparr>sys_hosts = hosts, sys_credentials = cr, sys_login = None\<rparr>"

text \<open>\<^verbatim>\<open>Url::from(self.hosts[0].clone())\<close> with \<^verbatim>\<open>set_path\<close>; the index panics without hosts.\<close>

definition at_path :: "url_path \<Rightarrow> (string \<times> string) list \<Rightarrow> url sys_act" where
  "at_path p q s =
     (case sys_hosts (fst s) of
        [] \<Rightarrow> (Panic ''index out of bounds: the len is 0 but the index is 0'', s)
      | h # _ \<Rightarrow> (Ok \<lparr>url_host = h, url_path = p, url_query = q\<rparr>, s))"

definition send_request :: "world_env \<Rightarrow> http_request \<Rightarrow> http_response sys_act" where
  "send_request e rq s =
     ((case we_http e (snd s) rq of
         Inl err \<Rightarrow> Err (client_error_of_request err)
       | Inr resp \<Rightarrow> Ok resp),
      (fst s, snd s @ [Http rq]))"

definition pure_res :: "('e, 'a) res \<Rightarrow> ('s, 'e, 'a) act" where
  "pure_res r s = (r, s)"

definition sys_login_request :: "world_env \<Rightarrow> Login sys_act" where
  "sys_login_request e =
     bindR (at_path (Path ''/admin/login'') [])
       (\<lambda>u. bindR (\<lambda>s. send_request e \<lparr>hr_method = HPost, hr_url = u, hr_token = None,
                         hr_body = CredentialsBody (sys_credentials (fst s))\<rparr> s)
         (\<lambda>resp. pure_res (and_then (error_for_status (we_parse_login e) resp) (expect_entity ''Login instance''))))"

definition needs_login :: "world_env \<Rightarrow> System \<times> world \<Rightarrow> bool" where
  "needs_login e s \<longleftrightarrow>
     (case sys_login (fst s) of
        None \<Rightarrow> True
      | Some l \<Rightarrow> is_expired (we_datetime_min e) (we_now e (snd s)) l)"

definition maybe_refresh_login :: "world_env \<Rightarrow> Login sys_act" where
  "maybe_refresh_login e s =
     (if needs_login e s
      then bindR (sys_login_request e) (\<lambda>l s. (Ok l, (fst s)\<lparr>sys_login := Some l\<rparr>, snd s)) s
      else (case sys_login (fst s) of
              Some l \<Rightarrow> (Ok l, s)
            | None \<Rightarrow> (Panic ''called `Option::unwrap()` on a `None` value'', s)))"

text \<open>A request with the token of the login, which is renewed first when it has to be.\<close>

definition authorized :: "world_env \<Rightarrow> http_method \<Rightarrow> http_body \<Rightarrow> url \<Rightarrow> http_response sys_act" where
  "authorized e m b u =
     bindR (maybe_refresh_login e)
       (\<lambda>l. send_request e \<lparr>hr_method = m, hr_url = u, hr_token = Some (login_token l), hr_body = b\<rparr>)"

definition expect_instance :: "(string \<Rightarrow> string + 'd) \<Rightarrow> http_response \<Rightarrow> 'd sys_act" where
  "expect_instance dec resp =
     pure_res (and_then (error_for_status dec resp) (expect_entity ''instance''))"

definition sys_get :: "world_env \<Rightarrow> (string \<Rightarrow> string + 'd) \<Rightarrow> url \<Rightarrow> 'd sys_act" where
  "sys_get e dec u = bindR (authorized e HGet NoBody u) (expect_instance dec)"

definition sys_post :: "world_env \<Rightarrow> (string \<Rightarrow> string + 'd) \<Rightarrow> url \<Rightarrow> http_body \<Rightarrow> 'd sys_act" where
  "sys_post e dec u b = bindR (authorized e HPost b u) (expect_instance dec)"

definition sys_put :: "world_env \<Rightarrow> (string \<Rightarrow> string + 'd) \<Rightarrow> url \<Rightarrow> http_body \<Rightarrow> 'd sys_act" where
  "sys_put e dec u b = bindR (authorized e HPut b u) (expect_instance dec)"

definition sys_delete :: "world_env \<Rightarrow> url \<Rightarrow> unit sys_act" where
  "sys_delete e u =
     bindR (authorized e HDelete NoBody u)
       (\<lambda>resp. pure_res (and_then (error_for_status (we_parse_unit e) resp) (\<lambda>_. Ok ())))"

section \<open>Operations\<close>

definition get_users :: "world_env \<Rightarrow> SDPUser list sys_act" where
  "get_users e = bindR (at_path (Path ''/admin/service-users'') []) (sys_get e (we_parse_users e))"

definition get_user :: "world_env \<Rightarrow> string \<Rightarrow> SDPUser sys_act" where
  "get_user e i = bindR (at_path (Path (''/admin/service-users-id/'' @ i)) []) (sys_get e (we_parse_user e))"

definition create_sdp_user :: "world_env \<Rightarrow> SDPUser \<Rightarrow> SDPUser sys_act" where
  "create_sdp_user e u =
     bindR (at_path (Path ''/admin/service-users'') [])
       (\<lambda>l. bindR (sys_post e (we_parse_user e) l (UserBody u))
         (\<lambda>c s. (Ok (c\<lparr>u_password := u_password u\<rparr>), s)))"

definition get_registered_device_ids :: "world_env \<Rightarrow> string \<Rightarrow> OnBoardedUser list sys_act" where
  "get_registered_device_ids e username =
     bindR (at_path (Path ''/admin/on-boarded-devices'') [(''username'', username), (''providerName'', ''service'')])
       (sys_get e (we_parse_devices e))"

definition get_registered_device_ids_for_user :: "world_env \<Rightarrow> SDPUser \<Rightarrow> OnBoardedUser list sys_act" where
  "get_registered_device_ids_for_user e u = get_registered_device_ids e (u_name u)"

definition unregister_device_id :: "world_env \<Rightarrow> string \<Rightarrow> bool \<Rightarrow> unit sys_act" where
  "unregister_device_id e dn dry_run s =
     (if \<not> dry_run
      then bindR (at_path (Segments [''admin'', ''on-boarded-devices'', dn]) [])
             (\<lambda>u. if we_cannot_be_a_base e (url_host u)
                  then pure_res (Err \<lparr>request_error = None, status_code = None,
                                   error_body = Some (''Url not valid: '' @ url_host u)\<rparr>)
                  else sys_delete e u) s
      else (Ok (), s))"

definition unregister_device_id_for_user :: "world_env \<Rightarrow> SDPUser \<Rightarrow> 128 word \<Rightarrow> bool \<Rightarrow> unit sys_act" where
  "unregister_device_id_for_user e u d dry_run =
     unregister_device_id e
       (''CN='' @ replace_char (CHR ''-'') [] (we_uuid_to_string e d) @ '',CN='' @ u_name u @ '',OU=service'') dry_run"

text \<open>
  \<^verbatim>\<open>filter_on_boarder_user\<close>: \<^verbatim>\<open>timestamp()\<close> is the time in seconds, rounded down, and \<open>since\<close> a number of
  seconds that is cast from \<^verbatim>\<open>u64\<close> to \<^verbatim>\<open>i64\<close>.
\<close>

definition timestamp :: "int \<Rightarrow> int" where
  "timestamp ns = ns div 1000000000"

definition filter_on_boarder_user ::
  "string list option \<Rightarrow> string list option \<Rightarrow> 64 word option \<Rightarrow> OnBoardedUser \<Rightarrow> bool" where
  "filter_on_boarder_user filter_out filter_in since u \<longleftrightarrow>
     (case since of None \<Rightarrow> True | Some d \<Rightarrow> timestamp (ob_last_seen_at u) \<le> sint d) \<and>
     (case filter_in of None \<Rightarrow> True | Some ns \<Rightarrow> ob_username u \<in> set ns) \<and>
     (case filter_out of None \<Rightarrow> True | Some ns \<Rightarrow> ob_username u \<notin> set ns)"

definition unregister_device_ids_for_username ::
  "world_env \<Rightarrow> string \<Rightarrow> string list option \<Rightarrow> string list option \<Rightarrow> 64 word option \<Rightarrow> bool \<Rightarrow> unit sys_act" where
  "unregister_device_ids_for_username e username filter_out filter_in since dry_run =
     bindR (get_registered_device_ids e username)
       (\<lambda>devices. try_each (\<lambda>d. unregister_device_id e (ob_distinguished_name d) dry_run)
          (filter (filter_on_boarder_user filter_out filter_in since) devices))"

definition modify_user :: "world_env \<Rightarrow> SDPUser \<Rightarrow> SDPUser sys_act" where
  "modify_user e u =
     bindR (at_path (Path ''/admin/service-users'') []) (\<lambda>l. sys_put e (we_parse_user e) l (UserBody u))"

definition delete_user :: "world_env \<Rightarrow> string \<Rightarrow> unit sys_act" where
  "delete_user e i = bindR (at_path (Path (''/admin/service-users/'' @ i)) []) (sys_delete e)"

definition get_client_profiles :: "world_env \<Rightarrow> string option \<Rightarrow> ClientProfile list sys_act" where
  "get_client_profiles e tag =
     bindR (at_path (Path ''/admin/client-profiles'') [])
       (\<lambda>u. bindR (sys_get e (we_parse_profiles e) u)
         (\<lambda>xs s. (Ok (case tag of Some t \<Rightarrow> filter (\<lambda>p. t \<in> set (cp_tags p)) xs | None \<Rightarrow> xs), s)))"

definition create_client_profile :: "world_env \<Rightarrow> ClientProfile \<Rightarrow> ClientProfile sys_act" where
  "create_client_profile e p =
     bindR (at_path (Path ''/admin/client-profiles'') [])
       (\<lambda>u. sys_post e (we_parse_profile e) u (ProfileBody p))"

definition get_profile_client_url :: "world_env \<Rightarrow> string \<Rightarrow> ClientProfileUrl sys_act" where
  "get_profile_client_url e i =
     bindR (at_path (Path (''/admin/client-profiles/'' @ i @ ''/url'')) []) (sys_get e (we_parse_profile_url e))"

end
