(* ===== verification/Secret_Store.thy ===== *)
theory Secret_Store
  imports World Service_Secrets
begin

text \<open>
  The operations of \<^verbatim>\<open>ServiceUser\<close> on Kubernetes secrets and config maps (\<^verbatim>\<open>sdp-common/src/service.rs\<close>). An
  \<^verbatim>\<open>Api<Secret>\<close> is given by its namespace. Errors are boxed errors, given by their texts.
\<close>

type_synonym 'a k8s_act = "(world, string, 'a) act"

section \<open>UTF-8\<close>

text \<open>\<^verbatim>\<open>String::from_utf8\<close> accepts the well-formed byte sequences.\<close>

definition cont_byte :: "nat \<Rightarrow> bool" where
  "cont_byte n \<longleftrightarrow> 128 \<le> n \<and> n \<le> 191"

fun utf8_bytes :: "nat list \<Rightarrow> bool" where
  "utf8_bytes [] \<longleftrightarrow> True"
| "utf8_bytes (x # xs) \<longleftrightarrow>
     (if x < 128 then utf8_bytes xs
      else if 194 \<le> x \<and> x \<le> 223
      then (case xs of y # r \<Rightarrow> cont_byte y \<and> utf8_bytes r | _ \<Rightarrow> False)
      else if 224 \<le> x \<and> x \<le> 239
      then (case xs of
              y # z # r \<Rightarrow>
                cont_byte y \<and> cont_byte z \<and> (x = 224 \<longrightarrow> 160 \<le> y) \<and> (x = 237 \<longrightarrow> y \<le> 159) \<and> utf8_bytes r
            | _ \<Rightarrow> False)
      else if 240 \<le> x \<and> x \<le> 244
      then (case xs of
              y # z # v # r \<Rightarrow>
                cont_byte y \<and> cont_byte z \<and> cont_byte v \<and> (x = 240 \<longrightarrow> 144 \<le> y) \<and> (x = 244 \<longrightarrow> y \<le> 143) \<and>
                utf8_bytes r
            | _ \<Rightarrow> False)
      else False)"

definition bytes_to_string :: "string \<Rightarrow> string option" where
  "bytes_to_string bs = (if utf8_bytes (map of_char bs) then Some bs else None)"

section \<open>Fields\<close>

definition secret_get :: "world_env \<Rightarrow> string \<Rightarrow> string \<Rightarrow> secret_data option k8s_act" where
  "secret_get e ns n w =
     ((case we_secret_get e w ns n of Inl err \<Rightarrow> Err err | Inr d \<Rightarrow> Ok d), w @ [SecretGet ns n])"

definition get_secrets_fields ::
  "world_env \<Rightarrow> ServiceUser \<Rightarrow> string \<Rightarrow> string \<Rightarrow> world \<Rightarrow> (string option \<times> string option \<times> string option) \<times> world" where
  "get_secrets_fields e su ns n w =
     (let (user_field, pw_field, url_field) = secrets_field_names su (is_secrets_namespaced n)
      in case secret_get e ns n w of
           (Ok (Some data), w') \<Rightarrow>
             ((Option.bind (map_of data user_field) bytes_to_string,
               Option.bind (map_of data pw_field) bytes_to_string,
               Option.bind (map_of data url_field) bytes_to_string), w')
         | (_, w') \<Rightarrow> ((None, None, None), w'))"

definition has_secrets_fields ::
  "world_env \<Rightarrow> ServiceUser \<Rightarrow> string \<Rightarrow> string \<Rightarrow> world \<Rightarrow> (bool \<times> bool \<times> bool) \<times> world" where
  "has_secrets_fields e su ns n w =
     (case get_secrets_fields e su ns n w of
        ((user, pwd, url), w') \<Rightarrow>
          ((if is_secrets_namespaced n then (user \<noteq> None, pwd \<noteq> None, url \<noteq> None)
            else (True, pwd \<noteq> None, True)), w'))"

definition restore :: "world_env \<Rightarrow> ServiceUser \<Rightarrow> string \<Rightarrow> string \<Rightarrow> world \<Rightarrow> ServiceUser option \<times> world" where
  "restore e su ns n w =
     (case get_secrets_fields e su ns n w of
        ((_, pwd, _), w') \<Rightarrow> (map_option (\<lambda>p. su\<lparr>su_password := p\<rparr>) pwd, w'))"

section \<open>Secrets and config maps of a service\<close>

definition delete_secrets :: "world_env \<Rightarrow> string \<Rightarrow> string \<Rightarrow> unit k8s_act" where
  "delete_secrets e ns n =
     bindR (exists_action e (SecretGetOpt ns (secrets_name ns n)))
       (\<lambda>found. if found then do_action e (SecretDelete ns (secrets_name ns n)) else (\<lambda>w. (Ok (), w)))"

definition configmap_name :: "string \<Rightarrow> string \<Rightarrow> string" where
  "configmap_name ns n = ns @ ''-'' @ n @ ''-service-config''"

definition delete_config :: "world_env \<Rightarrow> string \<Rightarrow> string \<Rightarrow> unit k8s_act" where
  "delete_config e ns n =
     bindR (exists_action e (ConfigGetOpt ns (configmap_name ns n)))
       (\<lambda>found. if found then do_action e (ConfigDelete ns (configmap_name ns n)) else (\<lambda>w. (Ok (), w)))"

text \<open>The JSON pointers of the fields to remove; the first that cannot be parsed is the error.\<close>

fun remove_paths :: "world_env \<Rightarrow> string list \<Rightarrow> (string, string list) res" where
  "remove_paths e [] = Ok []"
| "remove_paths e (f # fs) =
     (case we_pointer_parse e (''/data/'' @ f) of
        Some err \<Rightarrow> Err err
      | None \<Rightarrow> and_then (remove_paths e fs) (\<lambda>ps. Ok ((''/data/'' @ f) # ps)))"

definition delete_secrets_fields :: "world_env \<Rightarrow> ServiceUser \<Rightarrow> string \<Rightarrow> string \<Rightarrow> unit k8s_act" where
  "delete_secrets_fields e su ns n =
     (let (user_field, pw_field, url_field) = secrets_field_names su (is_secrets_namespaced n)
      in bindR (secret_get e ns n)
           (\<lambda>data. case data of
               None \<Rightarrow> (\<lambda>w. (Ok (), w))
             | Some d \<Rightarrow>
                 (\<lambda>w. case remove_paths e (filter (\<lambda>f. map_of d f \<noteq> None) [user_field, pw_field, url_field]) of
                        Ok ps \<Rightarrow> do_action e (SecretPatchRemove ns n ps) w
                      | Err err \<Rightarrow> (Err err, w)
                      | Panic q \<Rightarrow> (Panic q, w))))"

text \<open>A \<^verbatim>\<open>BTreeMap\<close> built by insertions: an association list, sorted by its readers.\<close>

definition update_secrets_fields :: "world_env \<Rightarrow> ServiceUser \<Rightarrow> string \<Rightarrow> string \<Rightarrow> bool \<Rightarrow> unit k8s_act" where
  "update_secrets_fields e su ns n always w =
     (let (user_field, pw_field, url_field) = secrets_field_names su (is_secrets_namespaced n)
      in case has_secrets_fields e su ns n w of
           ((user_exists, pwd_exists, url_exists), w') \<Rightarrow>
             (let data = (if \<not> user_exists \<or> always then [(user_field, su_name su)] else []) @
                         (if \<not> pwd_exists \<or> always then [(pw_field, su_password su)] else []) @
                         (if \<not> url_exists \<or> always then [(url_field, su_profile_url su)] else [])
              in if length data > 0 then do_action e (SecretPatchMerge ns n data) w' else (Ok (), w')))"

definition create_or_update_secrets :: "world_env \<Rightarrow> ServiceUser \<Rightarrow> string \<Rightarrow> string \<Rightarrow> unit k8s_act" where
  "create_or_update_secrets e su ns n =
     (let (user_field, pw_field, url_field) = secrets_field_names su True
      in bindR (exists_action e (SecretGetOpt ns (secrets_name ns n)))
           (\<lambda>found. if found then update_secrets_fields e su ns (secrets_name ns n) True
                    else do_action e (SecretCreate ns (secrets_name ns n)
                      [(user_field, su_name su), (pw_field, su_password su), (url_field, su_profile_url su)])))"

definition create_config :: "world_env \<Rightarrow> string \<Rightarrow> string \<Rightarrow> unit k8s_act" where
  "create_config e ns n =
     bindR (exists_action e (ConfigGetOpt ns (configmap_name ns n)))
       (\<lambda>found. bindR (if found then do_action e (ConfigDelete ns (configmap_name ns n)) else (\<lambda>w. (Ok (), w)))
         (\<lambda>_. do_action e (ConfigCreate ns (configmap_name ns n) [(''appgate-loglevel'', ''INFO'')])))"

end
