(* ===== verification/Identity_Creator.thy ===== *)
theory Identity_Creator
  imports Sdp_System Secret_Store
begin

text \<open>
  The identity creator (\<^verbatim>\<open>sdp-identity-service/src/identity_creator.rs\<close>): client profiles, creation and
  deletion of users in the SDP system, recovery of users at start, and the message loop.

  The creator owns one SDP client and is given a second one, each with its own login; \<open>trace\<close> is
  what was done so far. \<open>we_uuid e w k\<close> is the \<open>k\<close>-th UUID drawn after \<open>w\<close>.
\<close>

section \<open>State\<close>

record IdentityCreator =
  own_system :: System
  ext_system :: System
  service_users_pool_size :: nat
  creator_cluster_id :: string
  done_actions :: world

type_synonym 'a ic_act = "(IdentityCreator, IdentityServiceError, 'a) act"

definition IdentityCreator_new ::
  "System \<Rightarrow> System \<Rightarrow> nat \<Rightarrow> string option \<Rightarrow> (IdentityServiceError, IdentityCreator) res" where
  "IdentityCreator_new own ext n cluster =
     (case cluster of
        None \<Rightarrow> Panic ''Unable to get cluster id, make sure SDP_CLUSTER_ID environment variable is set.''
      | Some c \<Rightarrow> Ok \<lparr>own_system = own, ext_system = ext, service_users_pool_size = n,
                   creator_cluster_id = c, done_actions = []\<rparr>)"

text \<open>Running an operation of one of the clients, or of the Kubernetes API, with \<open>f\<close> on its error.\<close>

definition on_own :: "(SDPClientError \<Rightarrow> IdentityServiceError) \<Rightarrow> 'a sys_act \<Rightarrow> 'a ic_act" where
  "on_own f m c =
     (case m (own_system c, done_actions c) of
        (r, s, w) \<Rightarrow> (map_err f r, c\<lparr>own_system := s, done_actions := w\<rparr>))"

definition on_ext :: "(SDPClientError \<Rightarrow> IdentityServiceError) \<Rightarrow> 'a sys_act \<Rightarrow> 'a ic_act" where
  "on_ext f m c =
     (case m (ext_system c, done_actions c) of
        (r, s, w) \<Rightarrow> (map_err f r, c\<lparr>ext_system := s, done_actions := w\<rparr>))"

definition on_k8s :: "'a k8s_act \<Rightarrow> 'a ic_act" where
  "on_k8s m c =
     (case m (done_actions c) of (r, w) \<Rightarrow> (map_err ise_of_string r, c\<lparr>done_actions := w\<rparr>))"

definition ise_of_client_error :: "SDPClientError \<Rightarrow> IdentityServiceError" where
  "ise_of_client_error err = ise_of_string (SDPClientError_fmt err)"

definition ise_prefixed :: "string \<Rightarrow> SDPClientError \<Rightarrow> IdentityServiceError" where
  "ise_prefixed pre err = ise_of_string (pre @ SDPClientError_fmt err)"

definition send_manager :: "world_env \<Rightarrow> IdentityManagerProtocol \<Rightarrow> unit ic_act" where
  "send_manager e msg = on_k8s (do_action e (SendManager msg))"

section \<open>Client profiles\<close>

datatype ClientProfileType = FreshClientProfile ClientProfile | ExistingClientProfile ClientProfile

text \<open>
  \<open>smp\<close> gives the random suffix of a new profile's name and \<open>uuid\<close> its id. A cluster id whose cut
  falls inside a character panics: the result is then \<open>None\<close>.
\<close>

definition get_or_create_client_profile_url ::
  "(nat \<Rightarrow> char) \<Rightarrow> string \<Rightarrow> string \<Rightarrow> ClientProfile list \<Rightarrow>
   (ClientProfileType \<times> ClientProfile list option) option" where
  "get_or_create_client_profile_url smp uuid cluster ps =
     map_option (\<lambda>(profile_name, pre).
       (case filter (\<lambda>p. prefix pre (cp_name p)) ps of
          [] \<Rightarrow> (FreshClientProfile \<lparr>cp_id = uuid, cp_name = profile_name,
                   cp_spa_key_name = to_lowercase (replace_char (CHR '' '') [] profile_name),
                   cp_identity_provider_name = SDP_IDP_NAME, cp_tags = []\<rparr>, None)
        | [p] \<Rightarrow> (ExistingClientProfile p, None)
        | p # others \<Rightarrow> (ExistingClientProfile p, Some others)))
       (get_profile_client_url_name smp cluster)"

text \<open>\<^verbatim>\<open>get_client_profile_url\<close> on one of the two clients, given by \<open>on\<close>.\<close>

definition get_client_profile_url ::
  "world_env \<Rightarrow> ((SDPClientError \<Rightarrow> IdentityServiceError) \<Rightarrow> ClientProfile list sys_act \<Rightarrow> ClientProfile list ic_act) \<Rightarrow>
   ((SDPClientError \<Rightarrow> IdentityServiceError) \<Rightarrow> ClientProfile sys_act \<Rightarrow> ClientProfile ic_act) \<Rightarrow>
   ((SDPClientError \<Rightarrow> IdentityServiceError) \<Rightarrow> ClientProfileUrl sys_act \<Rightarrow> ClientProfileUrl ic_act) \<Rightarrow>
   ClientProfileUrl ic_act" where
  "get_client_profile_url e on_profiles on_profile on_url =
     bindR (on_profiles (ise_prefixed ''Unable to get client profiles: '') (get_client_profiles e None))
       (\<lambda>ps. bindR
          (\<lambda>c. case get_or_create_client_profile_url (we_sample e (done_actions c)) (we_uuid e (done_actions c) 0)
                      (creator_cluster_id c) ps of
                 None \<Rightarrow> (Panic ''assertion failed: self.is_char_boundary(new_len)'', c)
               | Some (FreshClientProfile p, _) \<Rightarrow>
                   on_profile (ise_prefixed ''Unable to create a new client profile: '') (create_client_profile e p) c
               | Some (ExistingClientProfile p, _) \<Rightarrow> (Ok p, c))
          (\<lambda>p. on_url (ise_prefixed (''Unable to get the client profile url for client profile '' @ cp_name p @ '': ''))
             (get_profile_client_url e (cp_id p))))"

definition own_client_profile_url :: "world_env \<Rightarrow> ClientProfileUrl ic_act" where
  "own_client_profile_url e = get_client_profile_url e on_own on_own on_own"

definition ext_client_profile_url :: "world_env \<Rightarrow> ClientProfileUrl ic_act" where
  "ext_client_profile_url e = get_client_profile_url e on_ext on_ext on_ext"

section \<open>Users\<close>

definition create_user :: "world_env \<Rightarrow> ServiceUser ic_act" where
  "create_user e c =
     (let w = done_actions c; user = SDPUser_new (we_uuid e w 2) (we_uuid e w 1) None None
      in bindR (own_client_profile_url e)
           (\<lambda>profile_url. bindR (on_own ise_of_client_error (create_sdp_user e user))
             (\<lambda>u. case from_sdp_user u profile_url None (Some []) of
                 Some su \<Rightarrow>
                   bindR (on_k8s (update_secrets_fields e su SDP_K8S_NAMESPACE IDENTITY_MANAGER_SECRET_NAME False))
                     (\<lambda>_ c. (Ok su, c))
               | None \<Rightarrow> (\<lambda>c. (Err (ise_of_string
                   ''Unable to create ServiceUser from SDPUser (missing password?)''), c)))) c)"

text \<open>Going on after an error, which is only logged; a panic ends the task.\<close>

definition log_error :: "'a ic_act \<Rightarrow> unit ic_act" where
  "log_error m c = (case m c of (Panic q, c') \<Rightarrow> (Panic q, c') | (_, c') \<Rightarrow> (Ok (), c'))"

definition delete_sdp_user :: "world_env \<Rightarrow> SDPUser \<Rightarrow> unit ic_act" where
  "delete_sdp_user e u c =
     bindR
       (case from_sdp_user u (we_uuid e (done_actions c) 3) None (Some []) of
          Some su \<Rightarrow> on_k8s (delete_secrets_fields e su SDP_K8S_NAMESPACE IDENTITY_MANAGER_SECRET_NAME)
        | None \<Rightarrow> (\<lambda>c. (Ok (), c)))
       (\<lambda>_. bindR (log_error (on_own ise_of_client_error
                (unregister_device_ids_for_username e (prefix_name u) None None None False)))
          (\<lambda>_. on_own ise_of_client_error (delete_user e (u_id u)))) c"

definition recover_sdp_user ::
  "world_env \<Rightarrow> SDPUser \<Rightarrow> ClientProfileUrl \<Rightarrow> 128 word list \<Rightarrow> ServiceUser option ic_act" where
  "recover_sdp_user e u profile_url device_ids c =
     (case from_sdp_user u profile_url (Some (we_uuid e (done_actions c) 4))
             (Some (map (we_uuid_to_string e) device_ids)) of
        Some su \<Rightarrow>
          (case restore e su SDP_K8S_NAMESPACE IDENTITY_MANAGER_SECRET_NAME (done_actions c) of
             (r, w) \<Rightarrow> (Ok r, c\<lparr>done_actions := w\<rparr>))
      | None \<Rightarrow> (Panic ''called `Option::unwrap()` on a `None` value'', c))"

text \<open>The removals of the fields that belong to no known user; an invalid pointer is an error.\<close>

fun removals :: "world_env \<Rightarrow> string list \<Rightarrow> (string, string list) res" where
  "removals e [] = Ok []"
| "removals e (f # fs) =
     (case we_pointer_parse e (''/data/'' @ f) of
        Some err \<Rightarrow> Err (''Invalid JSON pointer: '' @ err)
      | None \<Rightarrow> and_then (removals e fs) (\<lambda>ps. Ok ((''/data/'' @ f) # ps)))"

definition cleanup_secret_entries :: "world_env \<Rightarrow> string list \<Rightarrow> unit ic_act" where
  "cleanup_secret_entries e known =
     on_k8s (bindR (secret_get e SDP_K8S_NAMESPACE IDENTITY_MANAGER_SECRET_NAME)
       (\<lambda>data. case data of
           None \<Rightarrow> (\<lambda>w. (Ok (), w))
         | Some d \<Rightarrow>
             bindR (pure_res (removals e (filter (\<lambda>f. f \<notin> set known) (map fst d))))
               (\<lambda>ps. if ps \<noteq> [] then do_action e (SecretPatchRemove SDP_K8S_NAMESPACE IDENTITY_MANAGER_SECRET_NAME ps)
                     else (\<lambda>w. (Ok (), w)))))"

section \<open>Start\<close>

text \<open>The device ids registered for a user, none when they cannot be read.\<close>

definition registered_devices :: "world_env \<Rightarrow> SDPUser \<Rightarrow> 128 word list ic_act" where
  "registered_devices e u c =
     (case on_ext ise_of_client_error (get_registered_device_ids_for_user e u) c of
        (Ok ds, c') \<Rightarrow> (Ok (List.map_filter (\<lambda>d. we_parse_uuid e (ob_device_id d)) ds), c')
      | (Err _, c') \<Rightarrow> (Ok [], c')
      | (Panic q, c') \<Rightarrow> (Panic q, c'))"

text \<open>
  The loop over the users of the system: \<open>missing\<close> is how many users the pool still lacks, \<open>known\<close> the
  password fields of the users recovered.
\<close>

fun recover_users ::
  "world_env \<Rightarrow> ClientProfileUrl \<Rightarrow> SDPUser list \<Rightarrow> nat \<Rightarrow> string list \<Rightarrow> (nat \<times> string list) ic_act" where
  "recover_users e profile_url [] missing known c = (Ok (missing, known), c)"
| "recover_users e profile_url (u # us) missing known c =
     bindR (registered_devices e u)
       (\<lambda>ds. bindR (recover_sdp_user e u profile_url ds)
         (\<lambda>r. case r of
             Some su \<Rightarrow>
               (let activated = \<not> u_disabled u;
                    missing' = (if \<not> activated \<and> missing > 0 then missing - 1 else missing);
                    (_, pw_field, _) = secrets_field_names su False
                in bindR (send_manager e (FoundServiceUser su activated))
                     (\<lambda>_. recover_users e profile_url us missing' (List.insert pw_field known)))
           | None \<Rightarrow>
               bindR (log_error (delete_sdp_user e u))
                 (\<lambda>_. recover_users e profile_url us missing known))) c"

fun create_users :: "world_env \<Rightarrow> nat \<Rightarrow> unit ic_act" where
  "create_users e 0 c = (Ok (), c)"
| "create_users e (Suc n) c =
     bindR (create_user e)
       (\<lambda>su. bindR (send_manager e (FoundServiceUser su False)) (\<lambda>_. create_users e n)) c"

definition creator_initialize :: "world_env \<Rightarrow> ClientProfileUrl ic_act" where
  "creator_initialize e =
     bindR (on_ext ise_of_client_error (get_users e))
       (\<lambda>users. bindR (ext_client_profile_url e)
         (\<lambda>profile_url. bindR (\<lambda>c. recover_users e profile_url users (service_users_pool_size c) [] c)
           (\<lambda>(missing, known). bindR (cleanup_secret_entries e known)
             (\<lambda>_. bindR (create_users e missing) (\<lambda>_ c. (Ok profile_url, c))))))"

section \<open>Messages\<close>

definition activate_service_user ::
  "world_env \<Rightarrow> ServiceUser \<Rightarrow> string \<Rightarrow> string \<Rightarrow> string \<Rightarrow> string_map \<Rightarrow> unit ic_act" where
  "activate_service_user e su cluster ns n labels c =
     (case get_service_username (we_sample e (done_actions c)) cluster ns n of
        None \<Rightarrow> (Panic ''assertion failed: self.is_char_boundary(new_len)'', c)
      | Some uname \<Rightarrow>
          (let u = (SDPUser_from su)\<lparr>u_disabled := False, u_labels := labels, u_name := uname\<rparr>;
               su' = su\<lparr>su_name := uname\<rparr>
           in case on_ext ise_of_client_error (get_user e (su_id su)) c of
                (Panic q, c1) \<Rightarrow> (Panic q, c1)
              | (r, c1) \<Rightarrow>
                  (let u' = (case r of Ok existing \<Rightarrow> u\<lparr>u_tags := u_tags existing\<rparr> | _ \<Rightarrow> u)
                   in bindR (log_error (on_ext ise_of_client_error (modify_user e u')))
                        (\<lambda>_. bindR (log_error (send_manager e (ActivatedServiceUser su' ns n)))
                          (\<lambda>_. bindR (log_error (on_k8s (create_or_update_secrets e su' ns n)))
                            (\<lambda>_. log_error (on_k8s (create_config e ns n))))) c1)))"

definition create_identity :: "world_env \<Rightarrow> unit ic_act" where
  "create_identity e c =
     (case create_user e c of
        (Ok su, c1) \<Rightarrow> log_error (send_manager e (FoundServiceUser su False)) c1
      | (Err err, c1) \<Rightarrow> (Ok (), c1)
      | (Panic q, c1) \<Rightarrow> (Panic q, c1))"

definition delete_service_user :: "world_env \<Rightarrow> ServiceUser \<Rightarrow> string \<Rightarrow> string \<Rightarrow> unit ic_act" where
  "delete_service_user e su ns n c =
     bindR (log_error (delete_sdp_user e (SDPUser_new (we_uuid e (done_actions c) 5) (su_id su) (Some (su_name su)) None)))
       (\<lambda>_. bindR (log_error (on_k8s (delete_secrets e ns n)))
         (\<lambda>_. log_error (on_k8s (delete_config e ns n)))) c"

definition delete_orphan_user :: "world_env \<Rightarrow> string \<Rightarrow> unit ic_act" where
  "delete_orphan_user e i c =
     log_error (delete_sdp_user e (SDPUser_new (we_uuid e (done_actions c) 5) i None None)) c"

definition reconcile_sdp_users :: "world_env \<Rightarrow> string list \<Rightarrow> unit ic_act" where
  "reconcile_sdp_users e names c =
     for_each (\<lambda>name c. log_error (on_own ise_of_client_error
         (unregister_device_ids_for_username e
            (prefix_name (SDPUser_new (we_uuid e (done_actions c) 5) name (Some name) (Some False)))
            (Some names) None None False)) c) names c"

definition release_user_device :: "world_env \<Rightarrow> ServiceUser \<Rightarrow> 128 word \<Rightarrow> unit ic_act" where
  "release_user_device e su d c =
     log_error (on_ext ise_of_client_error (unregister_device_id_for_user e
       (SDPUser_new (we_uuid e (done_actions c) 5) (su_id su) (Some (su_name su)) None) d False)) c"

fun creator_handle :: "world_env \<Rightarrow> IdentityCreatorProtocol \<Rightarrow> unit ic_act" where
  "creator_handle e StartService c = (Ok (), c)"
| "creator_handle e CreateIdentity c = create_identity e c"
| "creator_handle e (DeleteServiceUser su ns n) c = delete_service_user e su ns n c"
| "creator_handle e (ActivateServiceUser su cluster ns n labels) c = activate_service_user e su cluster ns n labels c"
| "creator_handle e (DeleteSDPUser i) c = delete_orphan_user e i c"
| "creator_handle e (ReconcileSDPUsers names) c = reconcile_sdp_users e names c"
| "creator_handle e (CreatorReleaseDeviceId su d) c = release_user_device e su d c"

lemmas creator_branches = create_identity_def delete_service_user_def delete_orphan_user_def reconcile_sdp_users_def
  release_user_device_def

lemmas creator_handle_eqs = creator_handle.simps [unfolded creator_branches]

text \<open>
  \<^verbatim>\<open>run\<close> on the messages received until the channel closes: those before \<^verbatim>\<open>StartService\<close> are ignored, and
  an error of the initialisation ends the task.
\<close>

fun after_start :: "IdentityCreatorProtocol list \<Rightarrow> IdentityCreatorProtocol list" where
  "after_start [] = []"
| "after_start (msg # msgs) = (if msg = StartService then msgs else after_start msgs)"

definition creator_run :: "world_env \<Rightarrow> IdentityCreatorProtocol list \<Rightarrow> unit ic_act" where
  "creator_run e msgs c =
     (case creator_initialize e c of
        (Err err, c1) \<Rightarrow> (Panic ''explicit panic'', c1)
      | (Panic q, c1) \<Rightarrow> (Panic q, c1)
      | (Ok _, c1) \<Rightarrow>
          (case send_manager e IdentityCreatorReady c1 of
             (Ok _, c2) \<Rightarrow> for_each (creator_handle e) (after_start msgs) c2
           | (Err err, c2) \<Rightarrow> (Panic (''Unable to notify IdentityManager: '' @ err_text err), c2)
           | (Panic q, c2) \<Rightarrow> (Panic q, c2)))"

end
