(* ===== verification/Creator_Laws.thy ===== *)
theory Creator_Laws
  imports Identity_Creator
begin

text \<open>
  What the SDP client and the identity creator guarantee: when a login is renewed, what a dry run
  leaves alone, that the pool is filled at start, and which messages the creator sends.
\<close>

declare creator_branches [simp]

section \<open>Operations that leave a trace\<close>

text \<open>
  An operation on a state that carries the list of what was done. It is \<open>sound P\<close> when, on a state that is
  \<open>alive\<close>, it adds only actions that satisfy \<open>P\<close>, stays alive and does not panic. The laws are those of
  the operations the larger ones are made of.
\<close>

lemma bindR_OkE:
  assumes "bindR m f s = (Ok b, s')"
  obtains a t where "m s = (Ok a, t)" and "f a t = (Ok b, s')"
  using assms by (auto simp: bindR_def split: prod.splits res.splits)

locale traced =
  fixes trace_of :: "'s \<Rightarrow> world" and alive :: "'s \<Rightarrow> bool"
begin

definition sound :: "(action \<Rightarrow> bool) \<Rightarrow> ('s, 'e, 'a) act \<Rightarrow> bool" where
  "sound P m \<longleftrightarrow>
     (\<forall>s. alive s \<longrightarrow> (\<exists>acts. trace_of (snd (m s)) = trace_of s @ acts \<and> (\<forall>a \<in> set acts. P a)) \<and>
        alive (snd (m s)) \<and> (\<forall>q. fst (m s) \<noteq> Panic q))"

lemma soundI:
  assumes "\<And>s. alive s \<Longrightarrow> (\<exists>acts. trace_of (snd (m s)) = trace_of s @ acts \<and> (\<forall>a \<in> set acts. P a)) \<and>
     alive (snd (m s)) \<and> (\<forall>q. fst (m s) \<noteq> Panic q)"
  shows "sound P m"
  using assms by (simp add: sound_def)

lemma sound_trace:
  assumes "sound P m" and "alive s"
  obtains acts where "trace_of (snd (m s)) = trace_of s @ acts" and "\<forall>a \<in> set acts. P a"
  using assms unfolding sound_def by blast

lemma sound_alive: "sound P m \<Longrightarrow> alive s \<Longrightarrow> alive (snd (m s))"
  by (simp add: sound_def)

lemma sound_no_panic: "sound P m \<Longrightarrow> alive s \<Longrightarrow> fst (m s) \<noteq> Panic q"
  by (simp add: sound_def)

lemma sound_pure: "(\<And>q. r \<noteq> Panic q) \<Longrightarrow> sound P (\<lambda>s. (r, s))"
  by (simp add: sound_def)

lemma sound_mono: "sound P m \<Longrightarrow> (\<And>a. P a \<Longrightarrow> Q a) \<Longrightarrow> sound Q m"
  unfolding sound_def by blast

lemma sound_read: "(\<And>x. alive x \<Longrightarrow> sound P (g x)) \<Longrightarrow> sound P (\<lambda>s. g s s)"
  unfolding sound_def by blast

lemma sound_pointwise:
  assumes "\<And>s. alive s \<Longrightarrow> \<exists>m'. sound P m' \<and> m s = m' s"
  shows "sound P m"
  using assms unfolding sound_def by metis

lemma sound_bindR:
  assumes "sound P m" and "\<And>a. sound P (f a)"
  shows "sound P (bindR m f)"
proof (rule soundI)
  fix s assume s: "alive s"
  obtain r t where m: "m s = (r, t)" by (cases "m s")
  obtain acts where acts: "trace_of t = trace_of s @ acts" "\<forall>a \<in> set acts. P a"
    using sound_trace [OF assms(1) s] m by auto
  have t: "alive t" and np: "\<forall>q. r \<noteq> Panic q"
    using sound_alive [OF assms(1) s] sound_no_panic [OF assms(1) s] m by auto
  show "(\<exists>acts. trace_of (snd (bindR m f s)) = trace_of s @ acts \<and> (\<forall>a \<in> set acts. P a)) \<and>
      alive (snd (bindR m f s)) \<and> (\<forall>q. fst (bindR m f s) \<noteq> Panic q)"
  proof (cases r)
    case (Ok a)
    obtain acts' where acts': "trace_of (snd (f a t)) = trace_of t @ acts'" "\<forall>a \<in> set acts'. P a"
      using sound_trace [OF assms(2) t] by blast
    have "\<forall>a \<in> set (acts @ acts'). P a" using acts(2) acts'(2) by auto
    moreover have "trace_of (snd (f a t)) = trace_of s @ (acts @ acts')" using acts(1) acts'(1) by simp
    ultimately have "\<exists>acts. trace_of (snd (f a t)) = trace_of s @ acts \<and> (\<forall>a \<in> set acts. P a)" by blast
    then show ?thesis
      using Ok m sound_alive [OF assms(2) t] sound_no_panic [OF assms(2) t] by simp
  qed (use m acts t np in \<open>auto simp: bindR_def\<close>)
qed

lemma sound_try_each:
  assumes "\<And>x. sound P (f x)"
  shows "sound P (try_each f xs)"
proof (induction xs)
  case Nil
  then show ?case by (simp add: sound_def)
next
  case (Cons x xs)
  have "try_each f (x # xs) = bindR (f x) (\<lambda>_. try_each f xs)"
    by (rule ext) (simp add: bindR_def)
  then show ?case using sound_bindR [OF assms Cons] by simp
qed

text \<open>An operation whose error is logged.\<close>

definition logged :: "('s, 'e, 'a) act \<Rightarrow> ('s, 'e, unit) act" where
  "logged m s = (case m s of (Panic q, t) \<Rightarrow> (Panic q, t) | (_, t) \<Rightarrow> (Ok (), t))"

lemma sound_logged: "sound P m \<Longrightarrow> sound P (logged m)"
  unfolding sound_def logged_def by (auto split: prod.splits res.splits)

lemma sound_for_each:
  assumes "\<And>x. sound P (f x)"
  shows "sound P (for_each f xs)"
proof (induction xs)
  case Nil
  then show ?case by (simp add: sound_def)
next
  case (Cons x xs)
  have "for_each f (x # xs) = bindR (logged (f x)) (\<lambda>_. for_each f xs)"
    by (rule ext) (auto simp: bindR_def logged_def split: prod.splits res.splits)
  then show ?case using sound_bindR [OF sound_logged [OF assms] Cons] by simp
qed

end

text \<open>
  The client is alive when it has a host, as it has whenever it is configured. The creator is
  when both of its clients are and its cluster id can be cut; \<open>n\<close> is its pool size.
\<close>

definition has_host :: "System \<times> world \<Rightarrow> bool" where
  "has_host s \<longleftrightarrow> sys_hosts (fst s) \<noteq> []"

definition creator_ok :: "nat \<Rightarrow> IdentityCreator \<Rightarrow> bool" where
  "creator_ok n c \<longleftrightarrow> sys_hosts (own_system c) \<noteq> [] \<and> sys_hosts (ext_system c) \<noteq> [] \<and>
     truncate_str 14 (creator_cluster_id c) \<noteq> None \<and> service_users_pool_size c = n"

interpretation sys: traced snd has_host .

interpretation k8s: traced "\<lambda>w. w" "\<lambda>_. True" .

interpretation creator: traced done_actions "creator_ok n" for n .

section \<open>The client's requests\<close>

text \<open>A client operation is sound for \<open>P\<close> when \<open>P\<close> holds of the requests with the methods it uses.\<close>

definition methods :: "(action \<Rightarrow> bool) \<Rightarrow> http_method set \<Rightarrow> bool" where
  "methods P ms \<longleftrightarrow> (\<forall>rq. hr_method rq \<in> ms \<longrightarrow> P (Http rq))"

lemma methodsD: "methods P ms \<Longrightarrow> hr_method rq \<in> ms \<Longrightarrow> P (Http rq)"
  by (simp add: methods_def)

lemma methods_mono: "methods P ms \<Longrightarrow> ns \<subseteq> ms \<Longrightarrow> methods P ns"
  by (auto simp: methods_def)

lemma sound_send_request: "P (Http rq) \<Longrightarrow> sys.sound P (send_request e rq)"
  by (rule sys.soundI) (auto simp: send_request_def has_host_def split: sum.splits)

lemma sound_send_read: "(\<And>s. P (Http (rq s))) \<Longrightarrow> sys.sound P (\<lambda>s. send_request e (rq s) s)"
  using sys.sound_read [of P "\<lambda>x. send_request e (rq x)"] sound_send_request by blast

lemma sound_pure_res: "(\<And>q. r \<noteq> Panic q) \<Longrightarrow> sys.sound P (pure_res r)"
  using sys.sound_pure [of r P] by (simp add: pure_res_def [abs_def])

lemma sound_at_path: "sys.sound P (at_path p q)"
  by (rule sys.soundI) (auto simp: at_path_def has_host_def split: list.splits)

lemma error_for_status_no_panic: "error_for_status dec r \<noteq> Panic q"
  by (auto simp: error_for_status_def split: sum.splits)

lemma expect_entity_no_panic: "expect_entity what d \<noteq> Panic q"
  by (auto simp: expect_entity_def split: ResponseData.splits)

lemmas decode_no_panic = and_then_no_panic [OF error_for_status_no_panic expect_entity_no_panic]

lemma sound_login: "methods P {HPost} \<Longrightarrow> sys.sound P (sys_login_request e)"
  unfolding sys_login_request_def
  by (intro sys.sound_bindR sound_at_path sound_send_read sound_pure_res decode_no_panic) (simp add: methods_def)

lemma sound_refresh:
  assumes "methods P {HPost}"
  shows "sys.sound P (maybe_refresh_login e)"
proof -
  have "sys.sound P (\<lambda>s. (Ok l, (fst s)\<lparr>sys_login := Some l\<rparr>, snd s))" for l
    by (rule sys.soundI) (simp add: has_host_def)
  then have "sys.sound P (bindR (sys_login_request e) (\<lambda>l s. (Ok l, (fst s)\<lparr>sys_login := Some l\<rparr>, snd s)))"
    by (intro sys.sound_bindR sound_login assms)
  then show ?thesis
    unfolding sys.sound_def maybe_refresh_login_def by (auto simp: needs_login_def split: option.splits)
qed

lemma sound_authorized: "methods P {HPost, m} \<Longrightarrow> sys.sound P (authorized e m b u)"
  unfolding authorized_def
  by (intro sys.sound_bindR sound_refresh sound_send_request) (auto intro: methods_mono methodsD)

lemma sound_expect: "sys.sound P (expect_instance dec resp)"
  unfolding expect_instance_def by (intro sound_pure_res decode_no_panic)

lemma sound_get: "methods P {HPost, HGet} \<Longrightarrow> sys.sound P (sys_get e dec u)"
  and sound_post: "methods P {HPost} \<Longrightarrow> sys.sound P (sys_post e dec u b)"
  and sound_put: "methods P {HPost, HPut} \<Longrightarrow> sys.sound P (sys_put e dec u b)"
  unfolding sys_get_def sys_post_def sys_put_def
  by (intro sys.sound_bindR sound_authorized sound_expect; simp)+

lemma sound_delete: "methods P {HPost, HDelete} \<Longrightarrow> sys.sound P (sys_delete e u)"
  unfolding sys_delete_def
  by (intro sys.sound_bindR sound_authorized sound_pure_res and_then_no_panic error_for_status_no_panic) simp_all

lemmas client_sound =
  sys.sound_bindR sys.sound_try_each sound_at_path sound_get sound_post sound_put sound_delete sys.sound_pure
  sound_pure_res

lemma sound_queries:
  assumes "methods P {HPost, HGet}"
  shows "sys.sound P (get_users e)" and "sys.sound P (get_user e i)"
    and "sys.sound P (get_registered_device_ids e n)" and "sys.sound P (get_registered_device_ids_for_user e u)"
    and "sys.sound P (get_client_profiles e tag)" and "sys.sound P (get_profile_client_url e i)"
  unfolding get_users_def get_user_def get_registered_device_ids_for_user_def get_registered_device_ids_def
    get_client_profiles_def get_profile_client_url_def
  by (intro client_sound assms; simp)+

lemma sound_updates:
  assumes "methods P UNIV"
  shows "sys.sound P (create_sdp_user e u)" and "sys.sound P (modify_user e u)" and "sys.sound P (delete_user e i)"
    and "sys.sound P (create_client_profile e p)"
  unfolding create_sdp_user_def modify_user_def delete_user_def create_client_profile_def
  by (intro client_sound methods_mono [OF assms] subset_UNIV; simp)+

lemma sound_unregister:
  assumes "methods P (if dry_run then {HPost, HGet} else UNIV)"
  shows "sys.sound P (unregister_device_id e dn dry_run)"
  using methods_mono [OF assms, of "{HPost, HDelete}"]
  by (cases dry_run) (auto simp: unregister_device_id_def [abs_def] intro!: client_sound)

lemma sound_unregister_devices:
  assumes "methods P (if dry_run then {HPost, HGet} else UNIV)"
  shows "sys.sound P (unregister_device_ids_for_username e n fo fi since dry_run)"
    and "sys.sound P (unregister_device_id_for_user e u d dry_run)"
  unfolding unregister_device_ids_for_username_def unregister_device_id_for_user_def
  by (intro client_sound sound_queries sound_unregister methods_mono [OF assms]; simp)+

section \<open>The creator's operations\<close>

text \<open>The actions other than a message to the manager, and those other than a request to the controller.\<close>

fun unsent :: "action \<Rightarrow> bool" where
  "unsent (SendManager msg) = False"
| "unsent _ = True"

lemma methods_quiet: "methods unsent ms"
  by (simp add: methods_def)

lemma sound_k8s_steps:
  "P a \<Longrightarrow> k8s.sound P (do_action e a)" "P a \<Longrightarrow> k8s.sound P (exists_action e a)"
  "P (SecretGet ns n) \<Longrightarrow> k8s.sound P (secret_get e ns n)"
  unfolding k8s.sound_def
  by (auto simp: do_action_def exists_action_def secret_get_def split: option.splits sum.splits)

lemma remove_paths_no_panic: "remove_paths e fs \<noteq> Panic q"
  by (induction fs) (simp_all add: and_then_Panic_iff split: option.splits)

lemma removals_no_panic: "removals e fs \<noteq> Panic q"
  by (induction fs) (simp_all add: and_then_Panic_iff split: option.splits)

lemma get_secrets_fields_trace: "snd (get_secrets_fields e su ns n w) = w @ [SecretGet ns n]"
  by (auto simp: get_secrets_fields_def secret_get_def split: prod.splits res.splits option.splits sum.splits)

lemma has_secrets_fields_trace: "snd (has_secrets_fields e su ns n w) = w @ [SecretGet ns n]"
  using get_secrets_fields_trace [of e su ns n w]
  by (auto simp: has_secrets_fields_def split: prod.splits)

lemma restore_trace: "snd (restore e su ns n w) = w @ [SecretGet ns n]"
  using get_secrets_fields_trace [of e su ns n w] by (auto simp: restore_def split: prod.splits)

lemma sound_update_secrets: "k8s.sound unsent (update_secrets_fields e su ns n always)"
proof (rule k8s.soundI)
  fix w :: world
  obtain r w' where r: "has_secrets_fields e su ns n w = (r, w')" by fastforce
  then have "w' = w @ [SecretGet ns n]" using has_secrets_fields_trace [of e su ns n w] by simp
  with r show "(\<exists>acts. snd (update_secrets_fields e su ns n always w) = w @ acts \<and> (\<forall>a \<in> set acts. unsent a)) \<and>
      True \<and> (\<forall>q. fst (update_secrets_fields e su ns n always w) \<noteq> Panic q)"
    by (auto simp: update_secrets_fields_def do_action_def Let_def split: prod.splits option.splits)
qed

lemma sound_secrets:
  "k8s.sound unsent (delete_secrets e ns n)" "k8s.sound unsent (delete_config e ns n)"
  "k8s.sound unsent (create_or_update_secrets e su ns n)" "k8s.sound unsent (create_config e ns n)"
  unfolding delete_secrets_def delete_config_def create_or_update_secrets_def create_config_def Let_def
  by (auto intro!: k8s.sound_bindR sound_k8s_steps sound_update_secrets k8s.sound_pure split: prod.splits)

lemma sound_delete_fields: "k8s.sound unsent (delete_secrets_fields e su ns n)"
proof -
  have "k8s.sound unsent (\<lambda>w. case remove_paths e fs of Ok ps \<Rightarrow> do_action e (SecretPatchRemove ns n ps) w
     | Err err \<Rightarrow> (Err err, w) | Panic q \<Rightarrow> (Panic q, w))" for fs
    using remove_paths_no_panic [of e fs]
    by (cases "remove_paths e fs") (simp_all add: k8s.sound_pure sound_k8s_steps)
  then show ?thesis
    unfolding delete_secrets_fields_def Let_def
    by (auto intro!: k8s.sound_bindR sound_k8s_steps k8s.sound_pure split: prod.splits option.splits)
qed

lemma sound_on_own: "sys.sound P m \<Longrightarrow> creator.sound n P (on_own f m)"
  unfolding sys.sound_def creator.sound_def on_own_def creator_ok_def has_host_def map_err_def
  by (auto split: prod.splits res.splits) (metis fst_conv snd_conv)+

lemma sound_on_ext: "sys.sound P m \<Longrightarrow> creator.sound n P (on_ext f m)"
  unfolding sys.sound_def creator.sound_def on_ext_def creator_ok_def has_host_def map_err_def
  by (auto split: prod.splits res.splits) (metis fst_conv snd_conv)+

lemma sound_on_k8s: "k8s.sound P m \<Longrightarrow> creator.sound n P (on_k8s m)"
  unfolding k8s.sound_def creator.sound_def on_k8s_def creator_ok_def map_err_def
  by (auto split: prod.splits res.splits) (metis fst_conv snd_conv)+

lemma sound_log_error: "creator.sound n P m \<Longrightarrow> creator.sound n P (log_error m)"
  unfolding creator.sound_def log_error_def by (auto split: prod.splits res.splits)

lemma client_profile_total:
  assumes "creator_ok n c"
  shows "\<exists>r. get_or_create_client_profile_url smp uuid (creator_cluster_id c) ps = Some r"
  using assms by (auto simp: creator_ok_def get_or_create_client_profile_url_def get_profile_client_url_name_def)

lemma sound_client_profile_url:
  assumes "\<And>f m. sys.sound unsent m \<Longrightarrow> creator.sound n unsent (on1 f m)"
    and on2: "\<And>f m. sys.sound unsent m \<Longrightarrow> creator.sound n unsent (on2 f m)"
    and "\<And>f m. sys.sound unsent m \<Longrightarrow> creator.sound n unsent (on3 f m)"
  shows "creator.sound n unsent (get_client_profile_url e on1 on2 on3)"
proof -
  have "creator.sound n unsent
      (\<lambda>c. case get_or_create_client_profile_url (we_sample e (done_actions c)) (we_uuid e (done_actions c) 0)
                      (creator_cluster_id c) ps of
                 None \<Rightarrow> (Panic q, c)
               | Some (FreshClientProfile p, _) \<Rightarrow> on2 f (create_client_profile e p) c
               | Some (ExistingClientProfile p, _) \<Rightarrow> (Ok p, c))" for ps f q
  proof (rule creator.sound_pointwise)
    fix c assume c: "creator_ok n c"
    obtain t x where "get_or_create_client_profile_url (we_sample e (done_actions c))
        (we_uuid e (done_actions c) 0) (creator_cluster_id c) ps = Some (t, x)"
      using client_profile_total [OF c] by fastforce
    moreover have "creator.sound n unsent (on2 f (create_client_profile e p))" for p
      by (intro on2 sound_updates methods_quiet)
    moreover have "creator.sound n unsent (\<lambda>c. (Ok p, c))" for p :: ClientProfile
      by (simp add: creator.sound_pure)
    ultimately show "\<exists>m. creator.sound n unsent m \<and> (case get_or_create_client_profile_url (we_sample e (done_actions c))
          (we_uuid e (done_actions c) 0) (creator_cluster_id c) ps of None \<Rightarrow> (Panic q, c)
        | Some (FreshClientProfile p, _) \<Rightarrow> on2 f (create_client_profile e p) c
        | Some (ExistingClientProfile p, _) \<Rightarrow> (Ok p, c)) = m c"
      by (cases t) auto
  qed
  then show ?thesis
    unfolding get_client_profile_url_def
    by (intro creator.sound_bindR assms sound_queries methods_quiet) simp
qed

lemma sound_own_url: "creator.sound n unsent (own_client_profile_url e)"
  and sound_ext_url: "creator.sound n unsent (ext_client_profile_url e)"
  unfolding own_client_profile_url_def ext_client_profile_url_def
  by (intro sound_client_profile_url sound_on_own sound_on_ext; assumption)+


lemmas creator_sound =
  creator.sound_bindR sound_on_own sound_on_ext sound_on_k8s sound_log_error sound_queries sound_updates
  sound_unregister_devices sound_delete_fields sound_secrets sound_update_secrets methods_quiet

lemma sound_ok: "creator.sound n P (\<lambda>c. (Ok x, c))" and sound_err: "creator.sound n P (\<lambda>c. (Err y, c))"
  by (simp_all add: creator.sound_pure)

lemma sound_create_user: "creator.sound n unsent (create_user e)"
proof (rule creator.sound_pointwise)
  fix c assume "creator_ok n c"
  have "creator.sound n unsent (bindR (own_client_profile_url e)
           (\<lambda>profile_url. bindR (on_own ise_of_client_error (create_sdp_user e user))
             (\<lambda>u. case from_sdp_user u profile_url None (Some []) of
                 Some su \<Rightarrow>
                   bindR (on_k8s (update_secrets_fields e su SDP_K8S_NAMESPACE IDENTITY_MANAGER_SECRET_NAME False))
                     (\<lambda>_ c. (Ok su, c))
               | None \<Rightarrow> (\<lambda>c. (Err err, c)))))" for user err
    by (intro creator_sound sound_own_url) (auto split: option.splits intro!: creator_sound sound_ok sound_err)
  then show "\<exists>m. creator.sound n unsent m \<and> create_user e c = m c"
    unfolding create_user_def Let_def by blast
qed

lemma sound_delete_sdp_user: "creator.sound n unsent (delete_sdp_user e u)"
proof (rule creator.sound_pointwise)
  fix c assume "creator_ok n c"
  have "creator.sound n unsent (bindR
       (case from_sdp_user u url None (Some []) of
          Some su \<Rightarrow> on_k8s (delete_secrets_fields e su SDP_K8S_NAMESPACE IDENTITY_MANAGER_SECRET_NAME)
        | None \<Rightarrow> (\<lambda>c. (Ok (), c)))
       (\<lambda>_. bindR (log_error (on_own ise_of_client_error
                (unregister_device_ids_for_username e (prefix_name u) None None None False)))
          (\<lambda>_. on_own ise_of_client_error (delete_user e (u_id u)))))" for url
    by (cases "from_sdp_user u url None (Some [])") (auto intro!: creator_sound sound_ok)
  then show "\<exists>m. creator.sound n unsent m \<and> delete_sdp_user e u c = m c"
    unfolding delete_sdp_user_def by blast
qed

lemma sound_recover: "creator.sound n unsent (recover_sdp_user e u url ds)"
proof (rule creator.soundI)
  fix c assume c: "creator_ok n c"
  define su where "su = \<lparr>su_id = u_id u, su_name = u_name u, su_password = we_uuid e (done_actions c) 4,
    su_profile_url = url, su_device_ids = Some (map (we_uuid_to_string e) ds)\<rparr>"
  obtain r w where r: "restore e su SDP_K8S_NAMESPACE IDENTITY_MANAGER_SECRET_NAME (done_actions c) = (r, w)"
    by fastforce
  have "w = done_actions c @ [SecretGet SDP_K8S_NAMESPACE IDENTITY_MANAGER_SECRET_NAME]"
    using restore_trace [of e su SDP_K8S_NAMESPACE IDENTITY_MANAGER_SECRET_NAME "done_actions c"] r by simp
  moreover have "recover_sdp_user e u url ds c = (Ok r, c\<lparr>done_actions := w\<rparr>)"
    using r by (simp add: recover_sdp_user_def from_sdp_user_def su_def)
  ultimately show "(\<exists>acts. done_actions (snd (recover_sdp_user e u url ds c)) = done_actions c @ acts \<and>
      (\<forall>a \<in> set acts. unsent a)) \<and> creator_ok n (snd (recover_sdp_user e u url ds c)) \<and>
      (\<forall>q. fst (recover_sdp_user e u url ds c) \<noteq> Panic q)"
    using c by (simp add: creator_ok_def)
qed

lemma sound_registered: "creator.sound n unsent (registered_devices e u)"
proof -
  have "creator.sound n unsent (on_ext ise_of_client_error (get_registered_device_ids_for_user e u))"
    by (intro creator_sound)
  then show ?thesis
    unfolding creator.sound_def registered_devices_def by (auto split: prod.splits res.splits)
qed

lemma sound_cleanup: "creator.sound n unsent (cleanup_secret_entries e known)"
  unfolding cleanup_secret_entries_def pure_res_def [abs_def]
  by (auto intro!: sound_on_k8s k8s.sound_bindR sound_k8s_steps k8s.sound_pure removals_no_panic
      split: option.splits)

section \<open>Filling the pool\<close>

text \<open>
  A world for the witnesses: the controller has one inactive user, whose password is stored, and one
  client profile; every request and every call succeeds. The login is fresh on both clients.
\<close>

definition sample_sdp_user :: SDPUser where
  "sample_sdp_user = \<lparr>u_id = ''u1'', u_name = ''u1'', u_labels = [], u_tags = [], u_password = None, u_disabled = True,
     u_failed_login_attempts = None, u_lock_start = None\<rparr>"

definition sample_profile :: ClientProfile where
  "sample_profile = \<lparr>cp_id = ''p1'', cp_name = ''cluster-abcde'', cp_spa_key_name = ''cluster-abcde'',
     cp_identity_provider_name = ''service'', cp_tags = []\<rparr>"

definition sample_world :: world_env where
  "sample_world = \<lparr>we_http = \<lambda>_ _. Inr \<lparr>hp_status = 200, hp_body = Inr ''body''\<rparr>,
     we_secret_get = \<lambda>_ _ _. Inr (Some [(''u1-service-password'', ''secret'')]),
     we_exists = \<lambda>_ _. Inr False, we_do = \<lambda>_ _. None, we_now = \<lambda>_. 0, we_datetime_min = - 1000000000000000000,
     we_uuid = \<lambda>_ _. ''uuid'', we_sample = \<lambda>_ _. CHR ''a'', we_cannot_be_a_base = \<lambda>_. False,
     we_pointer_parse = \<lambda>_. None, we_parse_uuid = \<lambda>_. Some 7, we_uuid_to_string = \<lambda>_. ''00-07'',
     we_parse_login = \<lambda>_. Inr \<lparr>login_token = ''t'', login_expires = 1000000000000\<rparr>,
     we_parse_users = \<lambda>_. Inr [sample_sdp_user], we_parse_user = \<lambda>_. Inr sample_sdp_user,
     we_parse_devices = \<lambda>_. Inr [\<lparr>ob_distinguished_name = ''CN=07,CN=u1,OU=service'', ob_device_id = ''00-07'',
        ob_username = ''u1'', ob_last_seen_at = 0\<rparr>],
     we_parse_profiles = \<lambda>_. Inr [sample_profile], we_parse_profile = \<lambda>_. Inr sample_profile,
     we_parse_profile_url = \<lambda>_. Inr ''url'', we_parse_unit = \<lambda>_. Inr None\<rparr>"

definition sample_system :: System where
  "sample_system = \<lparr>sys_hosts = [''https://controller''],
     sys_credentials = \<lparr>cr_username = ''admin'', cr_password = ''admin'', cr_provider_name = ''local'', cr_device_id = ''d''\<rparr>,
     sys_login = Some \<lparr>login_token = ''t'', login_expires = 1000000000000\<rparr>\<rparr>"

definition sample_creator :: IdentityCreator where
  "sample_creator = \<lparr>own_system = sample_system, ext_system = sample_system, service_users_pool_size = 2,
     creator_cluster_id = ''cluster'', done_actions = []\<rparr>"

fun announces :: "action \<Rightarrow> bool" where
  "announces (SendManager (FoundServiceUser su activated)) = (\<not> activated)"
| "announces _ = False"

definition announced :: "IdentityCreator \<Rightarrow> nat" where
  "announced c = length (filter announces (done_actions c))"

lemma quiet_not_announces: "unsent a \<Longrightarrow> \<not> announces a"
  by (cases a) simp_all

lemma quiet_step:
  assumes "creator.sound n unsent m" and "creator_ok n c" and "m c = (r, c')"
  shows "announced c' = announced c" and "creator_ok n c'"
proof -
  obtain acts where "done_actions c' = done_actions c @ acts" "\<forall>a \<in> set acts. unsent a"
    using creator.sound_trace [OF assms(1,2)] assms(3) by auto
  then show "announced c' = announced c" using quiet_not_announces by (auto simp: announced_def filter_empty_conv)
  show "creator_ok n c'" using creator.sound_alive [OF assms(1,2)] assms(3) by simp
qed

lemma send_manager_done:
  assumes "send_manager e msg c = (r, c')"
  shows "done_actions c' = done_actions c @ [SendManager msg]" and "creator_ok n c \<Longrightarrow> creator_ok n c'"
    and "\<And>q. r \<noteq> Panic q"
  using assms
  by (auto simp: send_manager_def on_k8s_def do_action_def creator_ok_def map_err_def split: option.splits)

lemma send_manager_announced:
  "send_manager e msg c = (r, c') \<Longrightarrow> announced c' = announced c + (if announces (SendManager msg) then 1 else 0)"
  using send_manager_done(1) by (fastforce simp: announced_def)

lemma sound_send_manager: "P (SendManager msg) \<Longrightarrow> creator.sound n P (send_manager e msg)"
  unfolding send_manager_def by (intro sound_on_k8s sound_k8s_steps)

lemma recover_users_announced:
  assumes "creator_ok n c" and "recover_users e url us missing known c = (Ok (missing', known'), c')"
  shows "announced c + missing \<le> announced c' + missing' \<and> creator_ok n c'"
  using assms
proof (induction us arbitrary: missing known c)
  case Nil
  then show ?case by simp
next
  case (Cons u us)
  obtain ds c1 r c2 where c1: "registered_devices e u c = (Ok ds, c1)"
    and c2: "recover_sdp_user e u url ds c1 = (Ok r, c2)"
    and rest: "(case r of
             Some su \<Rightarrow>
               (let activated = \<not> u_disabled u;
                    missing' = (if \<not> activated \<and> missing > 0 then missing - 1 else missing);
                    (_, pw_field, _) = secrets_field_names su False
                in bindR (send_manager e (FoundServiceUser su activated))
                     (\<lambda>_. recover_users e url us missing' (List.insert pw_field known)))
           | None \<Rightarrow>
               bindR (log_error (delete_sdp_user e u))
                 (\<lambda>_. recover_users e url us missing known)) c2 = (Ok (missing', known'), c')"
    using Cons.prems(2) unfolding recover_users.simps by (elim bindR_OkE) blast
  have same: "announced c2 = announced c" and ok2: "creator_ok n c2"
    using quiet_step [OF sound_registered Cons.prems(1) c1] quiet_step [OF sound_recover _ c2] by simp_all
  show ?case
  proof (cases r)
    case None
    then obtain c3 where "log_error (delete_sdp_user e u) c2 = (Ok (), c3)"
        and "recover_users e url us missing known c3 = (Ok (missing', known'), c')"
      using rest by (auto elim!: bindR_OkE)
    then show ?thesis
      using Cons.IH quiet_step [OF sound_log_error [OF sound_delete_sdp_user] ok2] same by metis
  next
    case (Some su)
    define m where "m = (if u_disabled u \<and> missing > 0 then missing - 1 else missing)"
    from Some rest obtain k c3 where send: "send_manager e (FoundServiceUser su (\<not> u_disabled u)) c2 = (Ok (), c3)"
      and step: "recover_users e url us m k c3 = (Ok (missing', known'), c')"
      by (auto simp: Let_def m_def split: prod.splits elim!: bindR_OkE)
    have "announced c3 + m \<le> announced c' + missing' \<and> creator_ok n c'"
      using Cons.IH [OF send_manager_done(2) [OF send ok2] step] .
    moreover have "announced c + missing \<le> announced c3 + m"
      using send_manager_announced [OF send] same by (auto simp: m_def)
    ultimately show ?thesis by linarith
  qed
qed

lemma create_users_announced:
  assumes "creator_ok n c" and "create_users e k c = (Ok (), c')"
  shows "announced c' = announced c + k \<and> creator_ok n c'"
  using assms
proof (induction k arbitrary: c)
  case 0
  then show ?case by simp
next
  case (Suc k)
  from Suc.prems(2) obtain su c1 c2 where c1: "create_user e c = (Ok su, c1)"
    and c2: "send_manager e (FoundServiceUser su False) c1 = (Ok (), c2)"
    and rest: "create_users e k c2 = (Ok (), c')"
    by (auto elim!: bindR_OkE)
  have "announced c1 = announced c" "creator_ok n c1"
    using quiet_step [OF sound_create_user Suc.prems(1) c1] by simp_all
  then show ?case
    using Suc.IH [OF send_manager_done(2) [OF c2] rest] send_manager_announced [OF c2] by simp
qed

text \<open>
  C24: When the initialisation of the creator succeeds, the manager has been told of at least as many
  inactive service users as the configured pool size: those recovered from the SDP system whose
  password is still stored, and enough fresh ones for what is missing.\<close>
theorem initial_pool_filled:
  assumes "creator_ok n c" and "creator_initialize e c = (Ok url, c')"
  shows "announced c + n \<le> announced c'"
proof -
  from assms(2) obtain users c1 url1 c2 missing known c3 c4 c5
    where c1: "on_ext ise_of_client_error (get_users e) c = (Ok users, c1)"
      and c2: "ext_client_profile_url e c1 = (Ok url1, c2)"
      and c3: "recover_users e url1 users (service_users_pool_size c2) [] c2 = (Ok (missing, known), c3)"
      and c4: "cleanup_secret_entries e known c3 = (Ok (), c4)"
      and c5: "create_users e missing c4 = (Ok (), c5)" and c': "c' = c5"
    unfolding creator_initialize_def by (auto elim!: bindR_OkE)
  have "creator.sound n unsent (on_ext ise_of_client_error (get_users e))" by (intro creator_sound)
  from quiet_step [OF this assms(1) c1] have 1: "announced c1 = announced c" "creator_ok n c1" by auto
  have 2: "announced c2 = announced c1" "creator_ok n c2" using quiet_step [OF sound_ext_url 1(2) c2] by auto
  have 3: "announced c2 + n \<le> announced c3 + missing" "creator_ok n c3"
    using recover_users_announced [OF 2(2) c3] 2(2) by (auto simp: creator_ok_def)
  have 4: "announced c4 = announced c3" "creator_ok n c4" using quiet_step [OF sound_cleanup 3(2) c4] by auto
  show ?thesis using create_users_announced [OF 4(2) c5] 1 2 3 4 c' by simp
qed

lemma sample_creator_ok: "creator_ok 2 sample_creator"
  by code_simp

theorem initial_pool_filled_witness:
  "creator_ok 2 sample_creator \<and> fst (creator_initialize sample_world sample_creator) = Ok ''url'' \<and>
   2 \<le> announced (snd (creator_initialize sample_world sample_creator))"
proof -
  have ok: "fst (creator_initialize sample_world sample_creator) = Ok ''url''" by code_simp
  have "announced sample_creator + 2 \<le> announced (snd (creator_initialize sample_world sample_creator))"
    by (rule initial_pool_filled [OF sample_creator_ok prod_eqI]) (simp_all add: ok)
  then show ?thesis using ok sample_creator_ok by simp
qed

section \<open>Logins\<close>

definition with_token :: "http_method \<Rightarrow> http_body \<Rightarrow> url \<Rightarrow> Login \<Rightarrow> http_request" where
  "with_token m b u l = \<lparr>hr_method = m, hr_url = u, hr_token = Some (login_token l), hr_body = b\<rparr>"

definition login_request :: "System \<Rightarrow> http_request" where
  "login_request sy = \<lparr>hr_method = HPost, hr_url = \<lparr>url_host = hd (sys_hosts sy), url_path = Path ''/admin/login'', url_query = []\<rparr>,
     hr_token = None, hr_body = CredentialsBody (sys_credentials sy)\<rparr>"

lemma login_request_done:
  assumes "has_host s"
  shows "snd (sys_login_request e s) = (fst s, snd s @ [Http (login_request (fst s))])"
  using assms
  by (cases "sys_hosts (fst s)")
    (auto simp: has_host_def sys_login_request_def bindR_def at_path_def send_request_def pure_res_def login_request_def
      split: sum.splits)

lemma send_request_done: "snd (send_request e rq s) = (fst s, snd s @ [Http rq])"
  by (simp add: send_request_def)

text \<open>The actions of a request and the login it leaves.\<close>

lemma authorized_kept:
  assumes "\<not> needs_login e s" and "sys_login (fst s) = Some l"
  shows "snd (authorized e m b u s) = (fst s, snd s @ [Http (with_token m b u l)])"
  using assms by (simp add: authorized_def maybe_refresh_login_def bindR_def send_request_done with_token_def)

lemma authorized_renewed:
  assumes "has_host s" and "needs_login e s"
  shows "snd (authorized e m b u s) =
     (case fst (sys_login_request e s) of
        Ok l \<Rightarrow> ((fst s)\<lparr>sys_login := Some l\<rparr>, snd s @ [Http (login_request (fst s)), Http (with_token m b u l)])
      | _ \<Rightarrow> (fst s, snd s @ [Http (login_request (fst s))]))"
proof -
  obtain r where "sys_login_request e s = (r, fst s, snd s @ [Http (login_request (fst s))])"
    using login_request_done [OF assms(1), of e] by (cases "sys_login_request e s") simp
  then show ?thesis
    using assms(2)
    by (cases r) (simp_all add: authorized_def maybe_refresh_login_def bindR_def send_request_done with_token_def)
qed

text \<open>
  C30: A request to the SDP controller uses the stored token exactly when that token is valid for more than
  fifteen minutes more, and is then the only request sent. Otherwise, and when there is no token, the
  client logs in first without a token: when that succeeds the new token is kept and the request is sent
  with it, and when it fails the request is not sent.\<close>
theorem token_renewed_when_needed:
  assumes "has_host s"
    and "\<And>l. sys_login (fst s) = Some l \<Longrightarrow> we_datetime_min e \<le> login_expires l - FIFTEEN_MINUTES"
  shows "snd (authorized e m b u s) =
    (let login = login_request (fst s);
         renewed = (case fst (sys_login_request e s) of
           Ok l \<Rightarrow> ((fst s)\<lparr>sys_login := Some l\<rparr>, snd s @ [Http login, Http (with_token m b u l)])
         | _ \<Rightarrow> (fst s, snd s @ [Http login]))
     in case sys_login (fst s) of
          None \<Rightarrow> renewed
        | Some l \<Rightarrow> if we_now e (snd s) < login_expires l - FIFTEEN_MINUTES
                    then (fst s, snd s @ [Http (with_token m b u l)]) else renewed)"
proof (cases "sys_login (fst s)")
  case None
  then have "needs_login e s" by (simp add: needs_login_def)
  with None show ?thesis using authorized_renewed [OF assms(1)] by (simp add: Let_def)
next
  case (Some l)
  then have "needs_login e s \<longleftrightarrow> \<not> we_now e (snd s) < login_expires l - FIFTEEN_MINUTES"
    using assms(2) by (auto simp: needs_login_def is_expired_def)
  with Some show ?thesis
    using authorized_renewed [OF assms(1)] authorized_kept [of e s l m b u] by (simp add: Let_def)
qed

theorem token_renewed_when_needed_witness:
  "snd (authorized sample_world HGet NoBody \<lparr>url_host = ''h'', url_path = Path ''p'', url_query = []\<rparr> (sample_system, [])) =
     (sample_system, [Http (with_token HGet NoBody \<lparr>url_host = ''h'', url_path = Path ''p'', url_query = []\<rparr>
        \<lparr>login_token = ''t'', login_expires = 1000000000000\<rparr>)])"
proof -
  have "has_host (sample_system, [])" by code_simp
  moreover have "we_datetime_min sample_world \<le> login_expires l - FIFTEEN_MINUTES"
    if "sys_login (fst (sample_system, [])) = Some l" for l
    using that by (auto simp: sample_system_def sample_world_def FIFTEEN_MINUTES_def)
  ultimately show ?thesis
    using token_renewed_when_needed [of "(sample_system, [])" sample_world HGet NoBody "\<lparr>url_host = ''h'', url_path = Path ''p'', url_query = []\<rparr>"]
    by (simp add: sample_system_def sample_world_def FIFTEEN_MINUTES_def)
qed

section \<open>Unregistering devices\<close>

text \<open>The distinguished names of the devices whose deletion was requested, in order.\<close>

definition deleted_dn :: "action \<Rightarrow> string list" where
  "deleted_dn a =
     (case a of
        Http rq \<Rightarrow>
          (case (hr_method rq, url_path (hr_url rq)) of
             (HDelete, Segments [x, y, dn]) \<Rightarrow> if x = ''admin'' \<and> y = ''on-boarded-devices'' then [dn] else []
           | _ \<Rightarrow> [])
      | _ \<Rightarrow> [])"

definition deletions :: "world \<Rightarrow> string list" where
  "deletions w = concat (map deleted_dn w)"

lemma deletions_append: "deletions (v @ w) = deletions v @ deletions w"
  by (simp add: deletions_def)

lemma deletions_login: "deletions [Http (login_request sy)] = []"
  by (simp add: deletions_def deleted_dn_def login_request_def)

lemma maybe_refresh_deletions:
  assumes "maybe_refresh_login e s = (Ok l, s')"
  shows "deletions (snd s') = deletions (snd s)" and "sys_hosts (fst s') = sys_hosts (fst s)"
proof -
  have "sys_hosts (fst s) \<noteq> []" if "needs_login e s"
    using that assms by (auto simp: maybe_refresh_login_def sys_login_request_def at_path_def bindR_def)
  then have "snd s' = snd s \<or> snd s' = snd s @ [Http (login_request (fst s))]"
    and "sys_hosts (fst s') = sys_hosts (fst s)"
    using assms login_request_done [of s e]
    by (auto simp: maybe_refresh_login_def has_host_def split: if_splits option.splits elim!: bindR_OkE)
  then show "deletions (snd s') = deletions (snd s)" "sys_hosts (fst s') = sys_hosts (fst s)"
    by (auto simp: deletions_append deletions_login)
qed

lemma authorized_deletions:
  assumes "authorized e m b u s = (Ok resp, s')"
  shows "\<exists>l. deletions (snd s') = deletions (snd s) @ deleted_dn (Http (with_token m b u l))"
proof -
  obtain l t where "maybe_refresh_login e s = (Ok l, t)" and "send_request e (with_token m b u l) t = (Ok resp, s')"
    using assms unfolding authorized_def with_token_def by (elim bindR_OkE) blast
  then show ?thesis
    using maybe_refresh_deletions send_request_done [of e "with_token m b u l" t]
    by (auto simp: deletions_append deletions_def)
qed

lemma get_deletions: "sys_get e dec u s = (Ok d, s') \<Longrightarrow> deletions (snd s') = deletions (snd s)"
  unfolding sys_get_def expect_instance_def pure_res_def
  by (auto elim!: bindR_OkE dest!: authorized_deletions simp: deleted_dn_def with_token_def)

lemma get_registered_deletions:
  "get_registered_device_ids e username s = (Ok devices, s1) \<Longrightarrow> deletions (snd s1) = deletions (snd s)"
  by (auto simp: get_registered_device_ids_def at_path_def split: list.splits elim!: bindR_OkE dest!: get_deletions)

lemma unregister_deletions:
  assumes "unregister_device_id e dn dry_run s = (Ok (), s')"
  shows "deletions (snd s') = deletions (snd s) @ (if dry_run then [] else [dn])"
  using assms
  by (auto simp: unregister_device_id_def at_path_def sys_delete_def pure_res_def deleted_dn_def with_token_def
      split: if_splits list.splits elim!: bindR_OkE dest!: authorized_deletions)

lemma unregister_each_deletions:
  "try_each (\<lambda>d. unregister_device_id e (f d) dry_run) ds s = (Ok (), s') \<Longrightarrow>
   deletions (snd s') = deletions (snd s) @ (if dry_run then [] else map f ds)"
  by (induction ds arbitrary: s)
    (auto split: prod.splits res.splits dest!: unregister_deletions)

text \<open>
  C31: When the devices of a user name are unregistered without an error, the deletions requested are those of
  the registered devices that the filters select, each once and in the order the controller lists them;
  in a dry run nothing is deleted.\<close>
theorem devices_unregistered:
  assumes "get_registered_device_ids e username s = (Ok devices, s1)"
    and "unregister_device_ids_for_username e username filter_out filter_in since dry_run s = (Ok (), s')"
  shows "deletions (snd s') = deletions (snd s) @
    (if dry_run then []
     else map ob_distinguished_name (filter (filter_on_boarder_user filter_out filter_in since) devices))"
proof -
  have "deletions (snd s1) = deletions (snd s)" using assms(1) by (rule get_registered_deletions)
  moreover have each: "try_each (\<lambda>d. unregister_device_id e (ob_distinguished_name d) dry_run)
      (filter (filter_on_boarder_user filter_out filter_in since) devices) s1 = (Ok (), s')"
    using assms by (simp add: unregister_device_ids_for_username_def)
  ultimately show ?thesis using unregister_each_deletions [OF each] by simp
qed

theorem devices_unregistered_witness:
  "deletions (snd (snd (unregister_device_ids_for_username sample_world ''u1'' None None None False (sample_system, [])))) =
     [''CN=07,CN=u1,OU=service'']"
proof -
  let ?s = "(sample_system, [])" and ?d = "\<lparr>ob_distinguished_name = ''CN=07,CN=u1,OU=service'', ob_device_id = ''00-07'',
        ob_username = ''u1'', ob_last_seen_at = 0\<rparr>"
  have "fst (get_registered_device_ids sample_world ''u1'' ?s) = Ok [?d]" by code_simp
  moreover have "fst (unregister_device_ids_for_username sample_world ''u1'' None None None False ?s) = Ok ()" by code_simp
  ultimately have "deletions (snd (snd (unregister_device_ids_for_username sample_world ''u1'' None None None False ?s))) =
      deletions (snd ?s) @ map ob_distinguished_name (filter (filter_on_boarder_user None None None) [?d])"
    using devices_unregistered [OF prod_eqI prod_eqI, of sample_world "''u1''" ?s "[?d]" _ None None None False]
    by simp
  then show ?thesis by (simp add: deletions_def filter_on_boarder_user_def)
qed

section \<open>Messages\<close>

text \<open>The messages sent to the manager, in order.\<close>

fun sent_msg :: "action \<Rightarrow> IdentityManagerProtocol list" where
  "sent_msg (SendManager msg) = [msg]"
| "sent_msg _ = []"

definition sent :: "IdentityCreator \<Rightarrow> IdentityManagerProtocol list" where
  "sent c = concat (map sent_msg (done_actions c))"

lemma quiet_not_sent: "unsent a \<Longrightarrow> sent_msg a = []"
  by (cases a) simp_all

lemma quiet_sent:
  assumes "creator.sound n unsent m" and "creator_ok n c"
  shows "sent (snd (m c)) = sent c"
proof -
  obtain acts where "done_actions (snd (m c)) = done_actions c @ acts" "\<forall>a \<in> set acts. unsent a"
    using creator.sound_trace [OF assms] by blast
  then show ?thesis using quiet_not_sent by (auto simp: sent_def)
qed

lemma send_manager_sent: "sent (snd (send_manager e msg c)) = sent c @ [msg]"
  using send_manager_done(1) [of e msg c] by (cases "send_manager e msg c") (simp add: sent_def)

lemma log_error_snd: "snd (log_error m c) = snd (m c)"
  by (auto simp: log_error_def split: prod.splits res.splits)

lemma log_error_ok:
  "creator.sound n P m \<Longrightarrow> creator_ok n c \<Longrightarrow> log_error m c = (Ok (), snd (m c))"
  using creator.sound_no_panic [of n P m c] by (cases "m c") (auto simp: log_error_def split: res.splits)

text \<open>The message that handling a message sends, if any.\<close>

lemma sound_delete_messages:
  "creator.sound n unsent (creator_handle e (DeleteServiceUser su ns nm))"
  "creator.sound n unsent (creator_handle e (DeleteSDPUser i))"
  "creator.sound n unsent (creator_handle e (ReconcileSDPUsers names))"
  "creator.sound n unsent (creator_handle e (CreatorReleaseDeviceId su d))"
  "creator.sound n unsent (creator_handle e StartService)"
proof -
  show "creator.sound n unsent (creator_handle e (DeleteServiceUser su ns nm))"
  proof (rule creator.sound_pointwise)
    fix c
    have "creator.sound n unsent (bindR (log_error (delete_sdp_user e u))
       (\<lambda>_. bindR (log_error (on_k8s (delete_secrets e ns nm))) (\<lambda>_. log_error (on_k8s (delete_config e ns nm)))))" for u
      by (intro creator_sound sound_delete_sdp_user)
    then show "\<exists>m. creator.sound n unsent m \<and> creator_handle e (DeleteServiceUser su ns nm) c = m c"
      unfolding creator_handle_eqs by blast
  qed
  show "creator.sound n unsent (creator_handle e (DeleteSDPUser i))"
    by (rule creator.sound_pointwise) (metis creator_handle_eqs(5) sound_log_error sound_delete_sdp_user)
  have "creator.sound n unsent (log_error (on_own ise_of_client_error
         (unregister_device_ids_for_username e u fo None None False)))" for u fo
    by (intro creator_sound)
  then have "creator.sound n unsent (\<lambda>c. log_error (on_own ise_of_client_error
         (unregister_device_ids_for_username e (prefix_name (SDPUser_new (we_uuid e (done_actions c) 5) name (Some name) (Some False)))
            (Some names) None None False)) c)" for name
    by (intro creator.sound_pointwise) blast
  then have "creator.sound n unsent (for_each (\<lambda>name c. log_error (on_own ise_of_client_error
         (unregister_device_ids_for_username e (prefix_name (SDPUser_new (we_uuid e (done_actions c) 5) name (Some name) (Some False)))
            (Some names) None None False)) c) names)"
    by (rule creator.sound_for_each)
  then show "creator.sound n unsent (creator_handle e (ReconcileSDPUsers names))"
    by (rule creator.sound_pointwise [OF exI, OF conjI]) simp
  have "creator.sound n unsent (log_error (on_ext ise_of_client_error (unregister_device_id_for_user e u d False)))" for u
    by (intro creator_sound)
  then show "creator.sound n unsent (creator_handle e (CreatorReleaseDeviceId su d))"
    by (intro creator.sound_pointwise) (metis creator_handle_eqs(7))
  show "creator.sound n unsent (creator_handle e StartService)"
    by (rule creator.sound_pointwise) (metis creator_handle_eqs(1) sound_ok)
qed

lemma activate_rest:
  assumes "creator_ok n c"
  shows "\<exists>c'. bindR (log_error (on_ext ise_of_client_error (modify_user e u)))
        (\<lambda>_. bindR (log_error (send_manager e msg))
          (\<lambda>_. bindR (log_error (on_k8s (create_or_update_secrets e su ns nm)))
            (\<lambda>_. log_error (on_k8s (create_config e ns nm))))) c = (Ok (), c') \<and>
     sent c' = sent c @ [msg] \<and> creator_ok n c'"
proof -
  define p1 where "p1 = on_ext ise_of_client_error (modify_user e u)"
  define p3 where "p3 = on_k8s (create_or_update_secrets e su ns nm)"
  define p4 where "p4 = on_k8s (create_config e ns nm)"
  have s1: "creator.sound n unsent p1" and s3: "creator.sound n unsent p3" and s4: "creator.sound n unsent p4"
    unfolding p1_def p3_def p4_def by (intro creator_sound)+
  have s2: "creator.sound n (\<lambda>_. True) (send_manager e msg)" by (simp add: sound_send_manager)
  define c1 where "c1 = snd (p1 c)"
  define c2 where "c2 = snd (send_manager e msg c1)"
  define c3 where "c3 = snd (p3 c2)"
  note alive = creator.sound_alive
  have ok1: "creator_ok n c1" unfolding c1_def by (rule alive [OF s1 assms])
  have ok2: "creator_ok n c2" unfolding c2_def by (rule alive [OF s2 ok1])
  have ok3: "creator_ok n c3" unfolding c3_def by (rule alive [OF s3 ok2])
  have "log_error p1 c = (Ok (), c1)" "log_error (send_manager e msg) c1 = (Ok (), c2)"
    "log_error p3 c2 = (Ok (), c3)" "log_error p4 c3 = (Ok (), snd (p4 c3))"
    unfolding c1_def c2_def c3_def
    using log_error_ok s1 s2 s3 s4 assms ok1 ok2 ok3 c1_def c2_def c3_def by metis+
  moreover have "sent (snd (p4 c3)) = sent c @ [msg]"
    using quiet_sent [OF s4 ok3] quiet_sent [OF s3 ok2] quiet_sent [OF s1 assms] send_manager_sent [of e msg c1]
    by (simp add: c1_def c2_def c3_def)
  ultimately show ?thesis
    using alive [OF s4 ok3] unfolding p1_def p3_def p4_def by simp
qed

lemma activate_sent:
  assumes ok: "creator_ok n c" and uname: "get_service_username (we_sample e (done_actions c)) cl ns nm = Some uname"
  shows "\<exists>c'. activate_service_user e su cl ns nm ls c = (Ok (), c') \<and>
     sent c' = sent c @ [ActivatedServiceUser (su\<lparr>su_name := uname\<rparr>) ns nm] \<and> creator_ok n c'"
proof -
  define get where "get = on_ext ise_of_client_error (get_user e (su_id su))"
  have s: "creator.sound n unsent get" unfolding get_def by (intro creator_sound)
  obtain r c1 where get: "get c = (r, c1)" by fastforce
  have ok1: "creator_ok n c1" and sent1: "sent c1 = sent c" and np: "\<forall>q. r \<noteq> Panic q"
    using creator.sound_alive [OF s ok] quiet_sent [OF s ok] creator.sound_no_panic [OF s ok] get by auto
  show ?thesis
    using activate_rest [OF ok1] sent1 np get unfolding activate_service_user_def uname get_def
    by (cases r) (simp_all add: Let_def)
qed

text \<open>
  C29: Handling an activation sends the manager exactly one message, which says that the service's user was
  activated, under its new name and with its id, password and devices unchanged. It is sent whatever the
  controller answers: also when the user could not be modified.\<close>
theorem activation_reported:
  assumes "creator_ok n c" and "get_service_username (we_sample e (done_actions c)) cl ns nm = Some uname"
  shows "fst (creator_handle e (ActivateServiceUser su cl ns nm ls) c) = Ok () \<and>
    sent (snd (creator_handle e (ActivateServiceUser su cl ns nm ls) c)) =
      sent c @ [ActivatedServiceUser (su\<lparr>su_name := uname\<rparr>) ns nm]"
  using activate_sent [OF assms, of su ls] by auto

definition failing_world :: world_env where
  "failing_world = sample_world\<lparr>we_http := \<lambda>_ _. Inr \<lparr>hp_status = 500, hp_body = Inr ''no''\<rparr>\<rparr>"

definition sample_service_user :: ServiceUser where
  "sample_service_user = \<lparr>su_id = ''u1'', su_name = ''u1'', su_password = ''secret'', su_profile_url = ''url'', su_device_ids = Some []\<rparr>"

theorem activation_reported_witness:
  "sent (snd (creator_handle failing_world (ActivateServiceUser sample_service_user ''cluster'' ''ns'' ''web'' []) sample_creator)) =
     [ActivatedServiceUser (sample_service_user\<lparr>su_name := ''cluster_ns_web_aaaaa''\<rparr>) ''ns'' ''web'']"
proof -
  have "get_service_username (we_sample failing_world (done_actions sample_creator)) ''cluster'' ''ns'' ''web'' =
      Some ''cluster_ns_web_aaaaa''" by code_simp
  then show ?thesis
    using activation_reported [OF sample_creator_ok, of failing_world "''cluster''" "''ns''" "''web''"
        "''cluster_ns_web_aaaaa''" sample_service_user "[]"]
    by (simp add: sample_creator_def sent_def)
qed

section \<open>The creator's run\<close>

text \<open>The names in a message that are cut must be cut at a character.\<close>

fun names_ok :: "IdentityCreatorProtocol \<Rightarrow> bool" where
  "names_ok (ActivateServiceUser su cl ns nm ls) \<longleftrightarrow> truncate_str 122 (cl @ ''_'' @ ns @ ''_'' @ nm) \<noteq> None"
| "names_ok _ \<longleftrightarrow> True"

text \<open>What the manager may hear while a message is handled.\<close>

fun reply_ok :: "IdentityCreatorProtocol \<Rightarrow> IdentityManagerProtocol list \<Rightarrow> bool" where
  "reply_ok (ActivateServiceUser su cl ns nm ls) msgs \<longleftrightarrow>
     map (\<lambda>msg. case msg of ActivatedServiceUser su' ns' nm' \<Rightarrow> Some (su_id su', su_password su', ns', nm') | _ \<Rightarrow> None) msgs =
       [Some (su_id su, su_password su, ns, nm)]"
| "reply_ok CreateIdentity msgs \<longleftrightarrow>
     msgs = [] \<or> list_all (\<lambda>msg. case msg of FoundServiceUser su activated \<Rightarrow> \<not> activated | _ \<Rightarrow> False) msgs \<and> length msgs = 1"
| "reply_ok _ msgs \<longleftrightarrow> msgs = []"

lemma creator_handle_reply:
  assumes ok: "creator_ok n c" and names: "names_ok msg"
  shows "\<exists>c' msgs. creator_handle e msg c = (Ok (), c') \<and> creator_ok n c' \<and> sent c' = sent c @ msgs \<and> reply_ok msg msgs"
proof -
  have silent: ?thesis if s: "creator.sound n unsent (creator_handle e msg)"
      and r: "\<And>err. fst (creator_handle e msg c) \<noteq> Err err" and "reply_ok msg []"
  proof -
    obtain c' where "creator_handle e msg c = (Ok (), c')"
      using r creator.sound_no_panic [OF s ok] by (cases "creator_handle e msg c"; cases "fst (creator_handle e msg c)") auto
    then show ?thesis using quiet_sent [OF s ok] creator.sound_alive [OF s ok] that(3) by auto
  qed
  have log: "fst (log_error m d) \<noteq> Err err" for m d err
    by (auto simp: log_error_def split: prod.splits res.splits)
  show ?thesis
  proof (cases msg)
    case CreateIdentity
    obtain r c1 where c1: "create_user e c = (r, c1)" by fastforce
    have ok1: "creator_ok n c1" and sent1: "sent c1 = sent c" and np: "\<forall>q. r \<noteq> Panic q"
      using creator.sound_alive [OF sound_create_user ok] quiet_sent [OF sound_create_user ok]
        creator.sound_no_panic [OF sound_create_user ok] c1 by (metis fst_conv snd_conv)+
    have sm: "creator.sound n (\<lambda>_. True) (send_manager e m)" for m by (simp add: sound_send_manager)
    show ?thesis
    proof (cases r)
      case (Ok su)
      then show ?thesis
        using CreateIdentity c1 sent1 log_error_ok [OF sm ok1] creator.sound_alive [OF sm ok1] send_manager_sent
        by simp
    qed (use CreateIdentity c1 ok1 sent1 np in auto)
  next
    case (ActivateServiceUser su cl ns nm ls)
    then obtain uname where "get_service_username (we_sample e (done_actions c)) cl ns nm = Some uname"
      using names by (auto simp: get_service_username_def)
    from activate_sent [OF ok this, of su ls] show ?thesis
      using ActivateServiceUser by auto
  next
    case (DeleteServiceUser su ns nm)
    have "fst (bindR (log_error m1) (\<lambda>_. bindR (log_error m2) (\<lambda>_. log_error m3)) c) \<noteq> Err err" for m1 m2 m3 err
      by (auto simp: bindR_def log_error_def split: prod.splits res.splits)
    then have "fst (creator_handle e msg c) \<noteq> Err err" for err
      unfolding DeleteServiceUser creator_handle_eqs by blast
    then show ?thesis by (intro silent) (simp_all add: DeleteServiceUser sound_delete_messages)
  qed (rule silent; simp add: log sound_delete_messages for_each_never_err)+
qed

text \<open>What the creator does while it initialises: it announces users, and sends the manager nothing else.\<close>

fun announcement :: "action \<Rightarrow> bool" where
  "announcement (SendManager (FoundServiceUser su activated)) = True"
| "announcement (SendManager msg) = False"
| "announcement _ = True"

lemma unsent_announcement: "unsent a \<Longrightarrow> announcement a"
  by (cases a) simp_all

lemma sound_announcement: "creator.sound n unsent m \<Longrightarrow> creator.sound n announcement m"
  using creator.sound_mono unsent_announcement by blast

lemma sound_recover_users: "creator.sound n announcement (recover_users e url us missing known)"
proof (induction us arbitrary: missing known)
  case Nil
  then show ?case by (simp add: creator.sound_def)
next
  case (Cons u us)
  have "creator.sound n announcement (bindR (registered_devices e u)
       (\<lambda>ds. bindR (recover_sdp_user e u url ds)
         (\<lambda>r. case r of
             Some su \<Rightarrow>
               (let activated = \<not> u_disabled u;
                    missing' = (if \<not> activated \<and> missing > 0 then missing - 1 else missing);
                    (_, pw_field, _) = secrets_field_names su False
                in bindR (send_manager e (FoundServiceUser su activated))
                     (\<lambda>_. recover_users e url us missing' (List.insert pw_field known)))
           | None \<Rightarrow>
               bindR (log_error (delete_sdp_user e u)) (\<lambda>_. recover_users e url us missing known))))"
    by (intro creator.sound_bindR sound_announcement [OF sound_registered] sound_announcement [OF sound_recover])
      (auto simp: Let_def split: option.splits prod.splits
        intro!: creator.sound_bindR sound_send_manager Cons.IH sound_log_error sound_announcement [OF sound_delete_sdp_user])
  then show ?case
    by (intro creator.sound_pointwise) (use recover_users.simps(2) in blast)
qed

lemma sound_create_users: "creator.sound n announcement (create_users e k)"
proof (induction k)
  case 0
  then show ?case by (simp add: creator.sound_def)
next
  case (Suc k)
  have "creator.sound n announcement (bindR (create_user e)
       (\<lambda>su. bindR (send_manager e (FoundServiceUser su False)) (\<lambda>_. create_users e k)))"
    by (intro creator.sound_bindR sound_announcement [OF sound_create_user] sound_send_manager Suc.IH) simp
  then show ?case
    by (intro creator.sound_pointwise) (use create_users.simps(2) in blast)
qed

lemma sound_initialize: "creator.sound n announcement (creator_initialize e)"
proof -
  have "creator.sound n announcement (\<lambda>c. recover_users e url us (service_users_pool_size c) [] c)" for url us
    by (intro creator.sound_pointwise) (use sound_recover_users in blast)
  then show ?thesis
    unfolding creator_initialize_def
    by (intro creator.sound_bindR sound_announcement [OF sound_ext_url] sound_announcement [OF sound_on_ext] sound_queries methods_quiet)
      (auto intro!: creator.sound_bindR sound_announcement [OF sound_cleanup] sound_create_users sound_ok)
qed

text \<open>
  C28: Once it is initialised the creator handles every message it receives without a panic, whatever the
  controller and the cluster answer, provided the names it has to cut are cut at a character (as they
  are when they are ASCII).\<close>
theorem creator_survives:
  assumes "creator_ok n c" and "creator_initialize e c = (Ok url, c1)" and "we_do e (done_actions c1) (SendManager IdentityCreatorReady) = None"
    and "list_all names_ok msgs"
  shows "fst (creator_run e msgs c) = Ok ()"
proof -
  have "creator_ok n d \<Longrightarrow> list_all names_ok ms \<Longrightarrow> fst (for_each (creator_handle e) ms d) = Ok ()" for ms d
  proof (induction ms arbitrary: d)
    case (Cons m ms)
    then show ?case using creator_handle_reply [of n d m e] by auto
  qed simp
  moreover have "creator_ok n c1" using creator.sound_alive [OF sound_initialize assms(1), of e] assms(2) by simp
  moreover have "send_manager e IdentityCreatorReady c1 = (Ok (), c1\<lparr>done_actions := done_actions c1 @ [SendManager IdentityCreatorReady]\<rparr>)"
    using assms(3) by (simp add: send_manager_def on_k8s_def do_action_def)
  moreover have "list_all names_ok (after_start msgs)"
    using assms(4) by (induction msgs rule: after_start.induct) auto
  ultimately show ?thesis using assms(2) by (simp add: creator_run_def creator_ok_def)
qed

theorem creator_survives_witness:
  "fst (creator_run sample_world [CreateIdentity, StartService, CreateIdentity,
      ActivateServiceUser sample_service_user ''cluster'' ''ns'' ''web'' []] sample_creator) = Ok ()"
proof -
  have "fst (creator_initialize sample_world sample_creator) = Ok ''url''" by code_simp
  then show ?thesis
    by (intro creator_survives [OF sample_creator_ok prod_eqI])
      (auto simp: sample_world_def truncate_str_def is_char_boundary_def)
qed

end
