(* ===== verification/Watcher.thy ===== *)
theory Watcher
  imports Protocols Device_Id
begin

text \<open>
  The watchers: the generic one of \<^verbatim>\<open>sdp-common/src/watcher.rs\<close>, and the protocols that deployments,
  SDP services, pods and service identities follow (\<^verbatim>\<open>service_candidate_watcher.rs\<close>, \<^verbatim>\<open>pod_watcher.rs\<close> of
  the identity service, \<^verbatim>\<open>service_identity_watcher.rs\<close> of the injector), as \<^verbatim>\<open>main.rs\<close> sets them up.

  What the cluster and the channel answer is a \<open>watch_env\<close>, a function of how many objects the
  watcher has handled: at most one namespace is read and one message sent for each. Where the code
  draws a UUID for a resource without a name, the operations take the sequence of the drawn texts.
\<close>

section \<open>Protocols\<close>

text \<open>
  The trait \<^verbatim>\<open>SimpleWatchingProtocol\<close> as its methods; \<open>wp_namespace\<close> is \<^verbatim>\<open>ResourceExt::namespace\<close> of the
  resource.
\<close>

record ('e, 'p) watching =
  wp_namespace :: "'e \<Rightarrow> string option"
  wp_initialized :: "(nat \<Rightarrow> string) \<Rightarrow> 'e \<Rightarrow> kube_namespace option \<Rightarrow> 'p option"
  wp_applied :: "(nat \<Rightarrow> string) \<Rightarrow> 'e \<Rightarrow> kube_namespace option \<Rightarrow> 'p option"
  wp_reapplied :: "(nat \<Rightarrow> string) \<Rightarrow> 'e \<Rightarrow> kube_namespace option \<Rightarrow> 'p option"
  wp_deleted :: "(nat \<Rightarrow> string) \<Rightarrow> 'e \<Rightarrow> kube_namespace option \<Rightarrow> 'p option"
  wp_key :: "(nat \<Rightarrow> string) \<Rightarrow> 'e \<Rightarrow> string option"

section \<open>The generic watcher\<close>

record ('e, 'p) Watcher =
  w_api_ns :: bool
  w_protocol :: "('e, 'p) watching"
  notification_message :: "'p option"

record 'p watch_env =
  wv_get_ns :: "nat \<Rightarrow> string \<Rightarrow> string + kube_namespace option"
  wv_send :: "nat \<Rightarrow> 'p \<Rightarrow> string option"
  wv_uuid :: "nat \<Rightarrow> nat \<Rightarrow> string"

text \<open>The state: the keys in the set \<^verbatim>\<open>applied\<close>, the messages sent, and how many objects were handled.\<close>

record 'p watch_state =
  applied_keys :: "string list"
  queue_sent :: "'p list"
  handled :: nat

definition watch_start :: "'p watch_state" where
  "watch_start = \<lparr>applied_keys = [], queue_sent = [], handled = 0\<rparr>"

datatype WatcherOperation = Apply | ReApply

text \<open>What the stream of \<^verbatim>\<open>kube::runtime::watcher\<close> gives to \<^verbatim>\<open>try_next\<close>.\<close>

datatype 'e stream_item =
    EventApply 'e | EventDelete 'e | EventInit | EventInitApply 'e | EventInitDone | StreamNone | StreamErr string

text \<open>\<^verbatim>\<open>get_ns\<close> with its error logged and replaced by no namespace.\<close>

definition get_ns :: "('e, 'p) Watcher \<Rightarrow> 'p watch_env \<Rightarrow> nat \<Rightarrow> string option \<Rightarrow> kube_namespace option" where
  "get_ns w v t ns_name =
     (case (if w_api_ns w
            then (case ns_name of
                    Some ns \<Rightarrow>
                      (case wv_get_ns v t ns of
                         Inr x \<Rightarrow> Inr x
                       | Inl err \<Rightarrow> Inl (''Error getting namespace: '' @ err))
                  | None \<Rightarrow> Inl ''Unable to get namespace'')
            else Inr None) of
        Inr x \<Rightarrow> x
      | Inl err \<Rightarrow> None)"

text \<open>Sending on the channel: whether it succeeded.\<close>

definition queue_send :: "'p watch_env \<Rightarrow> 'p \<Rightarrow> 'p watch_state \<Rightarrow> bool \<times> 'p watch_state" where
  "queue_send v msg s =
     (case wv_send v (handled s) msg of
        None \<Rightarrow> (True, s\<lparr>queue_sent := queue_sent s @ [msg]\<rparr>)
      | Some err \<Rightarrow> (False, s))"

definition watch_init :: "('e, 'p) Watcher \<Rightarrow> 'p watch_env \<Rightarrow> 'e \<Rightarrow> 'p watch_state \<Rightarrow> 'p watch_state" where
  "watch_init w v e s =
     (let p = w_protocol w; u = wv_uuid v (handled s);
          key = wp_key p u e;
          ns = get_ns w v (handled s) (wp_namespace p e);
          s1 = (case wp_initialized p u e ns of Some msg \<Rightarrow> snd (queue_send v msg s) | None \<Rightarrow> s);
          s2 = (case key of Some k \<Rightarrow> s1\<lparr>applied_keys := List.insert k (applied_keys s1)\<rparr> | None \<Rightarrow> s1)
      in s2\<lparr>handled := Suc (handled s2)\<rparr>)"

definition watch_apply :: "('e, 'p) Watcher \<Rightarrow> 'p watch_env \<Rightarrow> 'e \<Rightarrow> 'p watch_state \<Rightarrow> 'p watch_state" where
  "watch_apply w v e s =
     (let p = w_protocol w; u = wv_uuid v (handled s);
          key = wp_key p u e;
          ns = get_ns w v (handled s) (wp_namespace p e);
          op = (case key of Some k \<Rightarrow> if k \<in> set (applied_keys s) then ReApply else Apply | None \<Rightarrow> Apply);
          msg = (case op of Apply \<Rightarrow> wp_applied p u e ns | ReApply \<Rightarrow> wp_reapplied p u e ns);
          s1 = (case msg of
                  Some m \<Rightarrow>
                    (case queue_send v m s of
                       (False, s') \<Rightarrow> s'
                     | (True, s') \<Rightarrow>
                         if op = Apply \<and> key \<noteq> None
                         then s'\<lparr>applied_keys := List.insert (the key) (applied_keys s')\<rparr> else s')
                | None \<Rightarrow> s)
      in s1\<lparr>handled := Suc (handled s1)\<rparr>)"

text \<open>In the code, \<^verbatim>\<open>key\<close> is computed after the message was sent.\<close>

definition watch_delete :: "('e, 'p) Watcher \<Rightarrow> 'p watch_env \<Rightarrow> 'e \<Rightarrow> 'p watch_state \<Rightarrow> 'p watch_state" where
  "watch_delete w v e s =
     (let p = w_protocol w; u = wv_uuid v (handled s);
          ns = get_ns w v (handled s) (wp_namespace p e);
          s1 = (case wp_deleted p u e ns of
                  Some m \<Rightarrow>
                    (case queue_send v m s of
                       (False, s') \<Rightarrow> s'
                     | (True, s') \<Rightarrow>
                         (case wp_key p u e of
                            Some k \<Rightarrow> s'\<lparr>applied_keys := removeAll k (applied_keys s')\<rparr>
                          | None \<Rightarrow> s'))
                | None \<Rightarrow> s)
      in s1\<lparr>handled := Suc (handled s1)\<rparr>)"

fun watch_step :: "('e, 'p) Watcher \<Rightarrow> 'p watch_env \<Rightarrow> 'e stream_item \<Rightarrow> 'p watch_state \<Rightarrow> 'p watch_state" where
  "watch_step w v (EventApply e) s = watch_apply w v e s"
| "watch_step w v (EventDelete e) s = watch_delete w v e s"
| "watch_step w v EventInit s = s"
| "watch_step w v (EventInitApply e) s = s"
| "watch_step w v EventInitDone s = s"
| "watch_step w v StreamNone s = s"
| "watch_step w v (StreamErr err) s = s"

text \<open>
  \<^verbatim>\<open>wait_ready\<close> on what the broadcast channel gives to \<^verbatim>\<open>recv\<close>: a message the predicate accepts or an error
  of the channel ends the wait; without either, the watcher still waits.
\<close>

fun wait_over :: "('r \<Rightarrow> bool) \<Rightarrow> (string + 'r) list \<Rightarrow> bool" where
  "wait_over f [] = False"
| "wait_over f (Inl err # rs) = True"
| "wait_over f (Inr msg # rs) = (if f msg then True else wait_over f rs)"

definition notify :: "('e, 'p) Watcher \<Rightarrow> 'p watch_env \<Rightarrow> 'p watch_state \<Rightarrow> 'p watch_state" where
  "notify w v s =
     (case notification_message w of
        Some msg \<Rightarrow> (let s1 = snd (queue_send v msg s) in s1\<lparr>handled := Suc (handled s1)\<rparr>)
      | None \<Rightarrow> s)"

text \<open>
  \<^verbatim>\<open>watch\<close> until the stream has given \<open>items\<close>: the loop does not end, so the state is that of a watcher
  still running, and the only result that ends it is the error of the listing.
\<close>

definition watch ::
  "('e, 'p) Watcher \<Rightarrow> 'p watch_env \<Rightarrow> string + 'e list \<Rightarrow> (('r \<Rightarrow> bool) \<times> (string + 'r) list) option \<Rightarrow>
   'e stream_item list \<Rightarrow> (SDPServiceError, 'p watch_state) res" where
  "watch w v listing ready items =
     (case listing of
        Inl err \<Rightarrow> Err (from_string (''Error initializing watcher: '' @ err))
      | Inr xs \<Rightarrow>
          (let s = notify w v (fold (watch_init w v) xs watch_start)
           in if (case ready of Some (f, rs) \<Rightarrow> wait_over f rs | None \<Rightarrow> True)
              then Ok (fold (watch_step w v) items s) else Ok s))"

section \<open>Service candidates\<close>

text \<open>The macro \<^verbatim>\<open>when_ok\<close>.\<close>

definition when_ok :: "('e, 'a) res \<Rightarrow> ('a \<Rightarrow> 'b option) \<Rightarrow> 'b option" where
  "when_ok r f = (case r of Ok a \<Rightarrow> f a | _ \<Rightarrow> None)"

definition ns_candidate :: "kube_namespace option \<Rightarrow> bool" where
  "ns_candidate ns =
     unwrap_or (map_option (\<lambda>s. eq_ignore_ascii_case s ''enabled'')
       (Option.bind ns (\<lambda>n. map_of (meta_labels (ns_meta n)) SDP_INJECTOR_LABEL))) False"

definition candidate_initialized ::
  "(nat \<Rightarrow> string) \<Rightarrow> ServiceCandidate \<Rightarrow> kube_namespace option \<Rightarrow> IdentityManagerProtocol option" where
  "candidate_initialized u c ns =
     when_ok (candidate_service_id (u 0) c)
       (\<lambda>_. if ns_candidate ns \<and> candidate_is_candidate c then Some (FoundServiceCandidate c) else None)"

definition candidate_applied ::
  "(nat \<Rightarrow> string) \<Rightarrow> ServiceCandidate \<Rightarrow> kube_namespace option \<Rightarrow> IdentityManagerProtocol option" where
  "candidate_applied u c ns =
     when_ok (candidate_service_id (u 0) c)
       (\<lambda>_. if ns_candidate ns \<and> candidate_is_candidate c then Some (RequestServiceIdentity c) else None)"

definition candidate_reapplied ::
  "(nat \<Rightarrow> string) \<Rightarrow> ServiceCandidate \<Rightarrow> kube_namespace option \<Rightarrow> IdentityManagerProtocol option" where
  "candidate_reapplied u c ns = when_ok (candidate_service_id (u 0) c) (\<lambda>_. None)"

definition candidate_deleted ::
  "(nat \<Rightarrow> string) \<Rightarrow> ServiceCandidate \<Rightarrow> kube_namespace option \<Rightarrow> IdentityManagerProtocol option" where
  "candidate_deleted u c ns =
     when_ok (candidate_service_id (u 0) c)
       (\<lambda>_. if ns_candidate ns \<and> candidate_is_candidate c then Some (DeletedServiceCandidate c) else None)"

definition candidate_key :: "(nat \<Rightarrow> string) \<Rightarrow> ServiceCandidate \<Rightarrow> string option" where
  "candidate_key u c = when_ok (candidate_service_id (u 1) c) Some"

text \<open>
  The macro \<^verbatim>\<open>service_candidate_protocol\<close>: a resource follows the protocol through the candidate that
  \<open>mk\<close> makes of it.
\<close>

definition service_candidate_protocol ::
  "('e \<Rightarrow> ServiceCandidate) \<Rightarrow> ('e, IdentityManagerProtocol) watching" where
  "service_candidate_protocol mk =
     \<lparr>wp_namespace = \<lambda>e. candidate_namespace (mk e),
      wp_initialized = \<lambda>u e. candidate_initialized u (mk e),
      wp_applied = \<lambda>u e. candidate_applied u (mk e),
      wp_reapplied = \<lambda>u e. candidate_reapplied u (mk e),
      wp_deleted = \<lambda>u e. candidate_deleted u (mk e),
      wp_key = \<lambda>u e. candidate_key u (mk e)\<rparr>"

definition deployment_watcher :: "(deployment, IdentityManagerProtocol) Watcher" where
  "deployment_watcher = \<lparr>w_api_ns = True, w_protocol = service_candidate_protocol SCDeployment,
     notification_message = Some DeploymentWatcherReady\<rparr>"

definition sdp_service_watcher :: "(SDPService, IdentityManagerProtocol) Watcher" where
  "sdp_service_watcher = \<lparr>w_api_ns = True, w_protocol = service_candidate_protocol SCSDPService,
     notification_message = Some DeploymentWatcherReady\<rparr>"

section \<open>Pods\<close>

definition device_id_release_message ::
  "(string \<Rightarrow> uuid option) \<Rightarrow> pod \<Rightarrow> string \<Rightarrow> string \<Rightarrow> IdentityManagerProtocol option" where
  "device_id_release_message parse p ns n =
     (if pod_is_candidate p
      then Option.bind (annotation (pod_annotations p) SDP_ANNOTATION_CLIENT_DEVICE_ID)
             (\<lambda>s. case parse s of
                  None \<Rightarrow> None
                | Some d \<Rightarrow> Some (ReleaseDeviceId (ServiceLookup_new ns n None) d))
      else None)"

text \<open>
  \<^verbatim>\<open>self.namespace().unwrap()\<close> stands under a service id, which a pod without a namespace has not: that
  case is the \<open>None\<close> below.
\<close>

definition pod_release ::
  "(string \<Rightarrow> uuid option) \<Rightarrow> (nat \<Rightarrow> string) \<Rightarrow> pod \<Rightarrow> IdentityManagerProtocol option" where
  "pod_release parse u p =
     Option.bind (pod_namespace p) (\<lambda>ns. device_id_release_message parse p ns (pod_name (u 1) p))"

definition pod_initialized ::
  "(nat \<Rightarrow> string) \<Rightarrow> pod \<Rightarrow> kube_namespace option \<Rightarrow> IdentityManagerProtocol option" where
  "pod_initialized u p ns = None"

definition pod_reapplied ::
  "(string \<Rightarrow> uuid option) \<Rightarrow> (nat \<Rightarrow> string) \<Rightarrow> pod \<Rightarrow> kube_namespace option \<Rightarrow> IdentityManagerProtocol option" where
  "pod_reapplied parse u p ns =
     when_ok (pod_service_id (u 0) p)
       (\<lambda>_. Option.bind (pod_status_of p)
          (\<lambda>st. if pst_reason st = Some ''Evicted'' then pod_release parse u p else None))"

definition pod_applied ::
  "(string \<Rightarrow> uuid option) \<Rightarrow> (nat \<Rightarrow> string) \<Rightarrow> pod \<Rightarrow> kube_namespace option \<Rightarrow> IdentityManagerProtocol option" where
  "pod_applied parse u p ns = pod_reapplied parse u p ns"

definition pod_deleted ::
  "(string \<Rightarrow> uuid option) \<Rightarrow> (nat \<Rightarrow> string) \<Rightarrow> pod \<Rightarrow> kube_namespace option \<Rightarrow> IdentityManagerProtocol option" where
  "pod_deleted parse u p ns = when_ok (pod_service_id (u 0) p) (\<lambda>_. pod_release parse u p)"

definition pod_key :: "(nat \<Rightarrow> string) \<Rightarrow> pod \<Rightarrow> string option" where
  "pod_key u p = when_ok (pod_service_id (u 2) p) Some"

definition pod_watcher :: "(string \<Rightarrow> uuid option) \<Rightarrow> (pod, IdentityManagerProtocol) Watcher" where
  "pod_watcher parse = \<lparr>w_api_ns = False,
     w_protocol = \<lparr>wp_namespace = pod_namespace, wp_initialized = pod_initialized, wp_applied = pod_applied parse,
       wp_reapplied = pod_reapplied parse, wp_deleted = pod_deleted parse, wp_key = pod_key\<rparr>,
     notification_message = None\<rparr>"

section \<open>Service identities\<close>

definition identity_initialized ::
  "(nat \<Rightarrow> string) \<Rightarrow> ServiceIdentity \<Rightarrow> kube_namespace option \<Rightarrow> DeviceIdProviderRequestProtocol option" where
  "identity_initialized u si ns = Some (FoundServiceIdentity si False)"

definition identity_applied ::
  "(nat \<Rightarrow> string) \<Rightarrow> ServiceIdentity \<Rightarrow> kube_namespace option \<Rightarrow> DeviceIdProviderRequestProtocol option" where
  "identity_applied u si ns = Some (FoundServiceIdentity si False)"

definition identity_reapplied ::
  "(nat \<Rightarrow> string) \<Rightarrow> ServiceIdentity \<Rightarrow> kube_namespace option \<Rightarrow> DeviceIdProviderRequestProtocol option" where
  "identity_reapplied u si ns = Some (FoundServiceIdentity si True)"

definition identity_deleted ::
  "(nat \<Rightarrow> string) \<Rightarrow> ServiceIdentity \<Rightarrow> kube_namespace option \<Rightarrow> DeviceIdProviderRequestProtocol option" where
  "identity_deleted u si ns = Some (DeletedServiceIdentity si)"

definition identity_key :: "(nat \<Rightarrow> string) \<Rightarrow> ServiceIdentity \<Rightarrow> string option" where
  "identity_key u si = Some (si_service_id si)"

text \<open>The service identities watched are those of one namespace, which is not read.\<close>

definition service_identity_watcher :: "(ServiceIdentity, DeviceIdProviderRequestProtocol) Watcher" where
  "service_identity_watcher = \<lparr>w_api_ns = False,
     w_protocol = \<lparr>wp_namespace = \<lambda>_. Some SDP_K8S_NAMESPACE, wp_initialized = identity_initialized,
       wp_applied = identity_applied, wp_reapplied = identity_reapplied, wp_deleted = identity_deleted,
       wp_key = identity_key\<rparr>,
     notification_message = None\<rparr>"

end
