(* ===== verification/Watcher_Laws.thy ===== *)
theory Watcher_Laws
  imports Watcher
begin

text \<open>
  What the watchers guarantee to the tasks they feed: in which order the messages about a service
  come, which events are lost, and that the device id provider knows the identities of the cluster.
\<close>

section \<open>Sequences of messages\<close>

text \<open>
  The abstract specification of a watcher's messages. A message is about a service; between a
  request for a service and an earlier message about it there is a message that ends it. \<open>known\<close> is
  the set of services that were announced and not ended.
\<close>

definition known_step :: "('p \<Rightarrow> string option) \<Rightarrow> ('p \<Rightarrow> bool) \<Rightarrow> 'p \<Rightarrow> string list \<Rightarrow> string list" where
  "known_step about fin m known =
     (case about m of
        None \<Rightarrow> known
      | Some k \<Rightarrow> if fin m then removeAll k known else List.insert k known)"

fun well_sequenced ::
  "('p \<Rightarrow> string option) \<Rightarrow> ('p \<Rightarrow> bool) \<Rightarrow> ('p \<Rightarrow> bool) \<Rightarrow> string list \<Rightarrow> 'p list \<Rightarrow> bool" where
  "well_sequenced about req fin known [] \<longleftrightarrow> True"
| "well_sequenced about req fin known (m # ms) \<longleftrightarrow>
     (case about m of None \<Rightarrow> True | Some k \<Rightarrow> \<not> (req m \<and> k \<in> set known)) \<and>
     well_sequenced about req fin (known_step about fin m known) ms"

lemma well_sequenced_snoc:
  "well_sequenced about req fin known (ms @ [m]) \<longleftrightarrow>
     well_sequenced about req fin known ms \<and>
     (case about m of None \<Rightarrow> True | Some k \<Rightarrow> \<not> (req m \<and> k \<in> set (fold (known_step about fin) ms known)))"
  by (cases "about m"; induction ms arbitrary: known; simp)

section \<open>The contract of a watching protocol\<close>

text \<open>
  The messages of a resource are about the service its key names, \<open>applied\<close> may request it and
  \<open>deleted\<close> ends it. \<open>good\<close> resources have a key that does not depend on a drawn UUID.
\<close>

locale keyed_watching =
  fixes w :: "('e, 'p) Watcher" and good :: "'e \<Rightarrow> bool" and about :: "'p \<Rightarrow> string option"
    and req :: "'p \<Rightarrow> bool" and fin :: "'p \<Rightarrow> bool"
  assumes initialized_about: "good e \<Longrightarrow> wp_initialized (w_protocol w) u e ns = Some m \<Longrightarrow>
        \<exists>k. about m = Some k \<and> wp_key (w_protocol w) u e = Some k \<and> \<not> req m \<and> \<not> fin m"
    and applied_about: "good e \<Longrightarrow> wp_applied (w_protocol w) u e ns = Some m \<Longrightarrow>
        \<exists>k. about m = Some k \<and> wp_key (w_protocol w) u e = Some k \<and> \<not> fin m"
    and deleted_about: "good e \<Longrightarrow> wp_deleted (w_protocol w) u e ns = Some m \<Longrightarrow>
        \<exists>k. about m = Some k \<and> wp_key (w_protocol w) u e = Some k \<and> fin m \<and> \<not> req m"
    and notification_about: "notification_message w = Some m \<Longrightarrow> about m = None"
begin

text \<open>What is known is recorded in the watcher's set, and the messages so far are in order.\<close>

definition sequenced :: "'p watch_state \<Rightarrow> bool" where
  "sequenced s \<longleftrightarrow> well_sequenced about req fin [] (queue_sent s) \<and>
     set (fold (known_step about fin) (queue_sent s) []) \<subseteq> set (applied_keys s)"

lemma sequenced_handled [simp]: "sequenced (s\<lparr>handled := n\<rparr>) = sequenced s"
  by (simp add: sequenced_def)

lemma sequenced_start: "sequenced watch_start"
  by (simp add: sequenced_def watch_start_def)

lemma sequenced_insert: "sequenced s \<Longrightarrow> sequenced (s\<lparr>applied_keys := List.insert k (applied_keys s)\<rparr>)"
  by (auto simp: sequenced_def)

lemma queue_send_cases:
  obtains "queue_send v m s = (True, s\<lparr>queue_sent := queue_sent s @ [m]\<rparr>)" | "queue_send v m s = (False, s)"
  by (cases "wv_send v (handled s) m") (simp_all add: queue_send_def)

text \<open>An announcement is in order when it is no request, or when its service is not recorded.\<close>

lemma sequenced_announce:
  assumes "sequenced s" and "about m = Some k" and "\<not> fin m" and "req m \<Longrightarrow> k \<notin> set (applied_keys s)"
  shows "sequenced (s\<lparr>queue_sent := queue_sent s @ [m], applied_keys := List.insert k (applied_keys s)\<rparr>)"
  using assms by (auto simp: sequenced_def well_sequenced_snoc known_step_def)

lemma sequenced_end:
  assumes "sequenced s" and "about m = Some k" and "fin m" and "\<not> req m"
  shows "sequenced (s\<lparr>queue_sent := queue_sent s @ [m], applied_keys := removeAll k (applied_keys s)\<rparr>)"
  using assms by (auto simp: sequenced_def well_sequenced_snoc known_step_def)

lemma sequenced_init:
  assumes "sequenced s" and "good e"
  shows "sequenced (watch_init w v e s)"
proof (cases "wp_initialized (w_protocol w) (wv_uuid v (handled s)) e (get_ns w v (handled s) (wp_namespace (w_protocol w) e))")
  case None
  then show ?thesis using assms sequenced_insert by (auto simp: watch_init_def Let_def split: option.splits)
next
  case (Some m)
  from initialized_about [OF assms(2) this] obtain k
    where "about m = Some k" "wp_key (w_protocol w) (wv_uuid v (handled s)) e = Some k" "\<not> req m" "\<not> fin m" by blast
  moreover have "sequenced (s\<lparr>applied_keys := List.insert k (applied_keys s)\<rparr>)" using assms(1) by (rule sequenced_insert)
  ultimately show ?thesis
    using Some sequenced_announce [OF assms(1), of m k]
    by (cases rule: queue_send_cases [of v m s]) (simp_all add: watch_init_def Let_def)
qed

lemma sequenced_delete:
  assumes "sequenced s" and "good e"
  shows "sequenced (watch_delete w v e s)"
proof (cases "wp_deleted (w_protocol w) (wv_uuid v (handled s)) e (get_ns w v (handled s) (wp_namespace (w_protocol w) e))")
  case None
  then show ?thesis using assms by (simp add: watch_delete_def Let_def)
next
  case (Some m)
  from deleted_about [OF assms(2) this] obtain k
    where "about m = Some k" "wp_key (w_protocol w) (wv_uuid v (handled s)) e = Some k" "\<not> req m" "fin m" by blast
  then show ?thesis
    using Some assms(1) sequenced_end [OF assms(1), of m k]
    by (cases rule: queue_send_cases [of v m s]) (simp_all add: watch_delete_def Let_def)
qed

lemma sequenced_notify:
  assumes "sequenced s"
  shows "sequenced (notify w v s)"
proof (cases "notification_message w")
  case None
  then show ?thesis using assms by (simp add: notify_def)
next
  case (Some m)
  then have "about m = None" by (rule notification_about)
  with Some assms show ?thesis
    by (cases rule: queue_send_cases [of v m s])
      (auto simp: notify_def Let_def sequenced_def well_sequenced_snoc known_step_def)
qed

end

text \<open>A protocol that says nothing of a resource applied again.\<close>

locale silent_watching = keyed_watching +
  assumes reapplied_silent: "wp_reapplied (w_protocol w) u e ns = None"
begin

lemma sequenced_apply:
  assumes "sequenced s" and "good e"
  shows "sequenced (watch_apply w v e s)"
proof -
  let ?u = "wv_uuid v (handled s)" and ?ns = "get_ns w v (handled s) (wp_namespace (w_protocol w) e)"
  show ?thesis
  proof (cases "wp_applied (w_protocol w) ?u e ?ns")
    case None
    then show ?thesis
      using assms by (auto simp: watch_apply_def Let_def reapplied_silent split: option.splits)
  next
    case (Some m)
    from applied_about [OF assms(2) this] obtain k
      where k: "about m = Some k" "wp_key (w_protocol w) ?u e = Some k" "\<not> fin m" by blast
    show ?thesis
    proof (cases "k \<in> set (applied_keys s)")
      case True
      then show ?thesis using assms k by (simp add: watch_apply_def Let_def reapplied_silent)
    next
      case False
      then show ?thesis
        using Some k assms(1) sequenced_announce [OF assms(1), of m k]
        by (cases rule: queue_send_cases [of v m s]) (simp_all add: watch_apply_def Let_def)
    qed
  qed
qed

lemma sequenced_step:
  assumes "sequenced s" and "\<forall>e \<in> set_stream_item i. good e"
  shows "sequenced (watch_step w v i s)"
  using assms by (cases i) (auto intro: sequenced_apply sequenced_delete)

lemma sequenced_watch:
  assumes "watch w v (Inr xs) ready items = Ok s" and "\<forall>e \<in> set xs. good e"
    and "\<forall>i \<in> set items. \<forall>e \<in> set_stream_item i. good e"
  shows "sequenced s"
proof -
  have "sequenced (fold (watch_init w v) xs t)" if "sequenced t" "\<forall>e \<in> set xs. good e" for t xs
    using that by (induction xs arbitrary: t) (auto intro: sequenced_init)
  then have "sequenced (notify w v (fold (watch_init w v) xs watch_start))"
    using assms(2) sequenced_start by (auto intro: sequenced_notify)
  moreover have "sequenced (fold (watch_step w v) items t)" if "sequenced t" for t
    using that assms(3) by (induction items arbitrary: t) (auto intro: sequenced_step)
  ultimately show ?thesis
    using assms(1) by (auto simp: watch_def Let_def split: if_splits)
qed

text \<open>A recorded service stays recorded, and unmentioned, while no message ends it.\<close>

lemma recorded_silent:
  assumes "wp_key (w_protocol w) (wv_uuid v (handled s)) e = Some k" and "k \<in> set (applied_keys s)"
  shows "watch_apply w v e s = s\<lparr>handled := Suc (handled s)\<rparr>"
  using assms by (simp add: watch_apply_def Let_def reapplied_silent)

end

section \<open>Candidate watchers\<close>

fun about_candidate :: "IdentityManagerProtocol \<Rightarrow> string option" where
  "about_candidate (FoundServiceCandidate c) = when_ok (candidate_service_id [] c) Some"
| "about_candidate (RequestServiceIdentity c) = when_ok (candidate_service_id [] c) Some"
| "about_candidate (DeletedServiceCandidate c) = when_ok (candidate_service_id [] c) Some"
| "about_candidate _ = None"

fun is_request :: "IdentityManagerProtocol \<Rightarrow> bool" where
  "is_request (RequestServiceIdentity c) \<longleftrightarrow> True"
| "is_request _ \<longleftrightarrow> False"

fun is_deleted :: "IdentityManagerProtocol \<Rightarrow> bool" where
  "is_deleted (DeletedServiceCandidate c) \<longleftrightarrow> True"
| "is_deleted _ \<longleftrightarrow> False"

lemma named_candidate_id: "named_candidate c \<Longrightarrow> candidate_service_id u c = candidate_service_id [] c"
  by (simp add: candidate_service_id_def candidate_name_named [of c u "[]"])

lemma when_ok_Some: "when_ok r f = Some x \<longleftrightarrow> (\<exists>a. r = Ok a \<and> f a = Some x)"
  by (auto simp: when_ok_def split: res.splits)

text \<open>A message about a candidate names the service that is the candidate's key.\<close>

lemma candidate_message_key:
  assumes "named_candidate c" and "when_ok (candidate_service_id (u 0) c) (\<lambda>_. if b then Some (f c) else None) = Some m"
    and "f \<in> {FoundServiceCandidate, RequestServiceIdentity, DeletedServiceCandidate}"
  shows "m = f c \<and> (\<exists>k. about_candidate m = Some k \<and> candidate_key u c = Some k)"
proof -
  from assms(2) obtain k where k: "candidate_service_id (u 0) c = Ok k" "m = f c"
    by (auto simp: when_ok_Some split: if_splits)
  then have "candidate_service_id v c = Ok k" for v
    using named_candidate_id [OF assms(1), of v] named_candidate_id [OF assms(1), of "u 0"] by simp
  with k assms(3) show ?thesis by (auto simp: candidate_key_def when_ok_def)
qed

lemma candidate_laws:
  assumes "named_candidate c"
  shows "candidate_initialized u c ns = Some m \<Longrightarrow>
      \<exists>k. about_candidate m = Some k \<and> candidate_key u c = Some k \<and> \<not> is_request m \<and> \<not> is_deleted m"
    and "candidate_applied u c ns = Some m \<Longrightarrow>
      \<exists>k. about_candidate m = Some k \<and> candidate_key u c = Some k \<and> \<not> is_deleted m"
    and "candidate_deleted u c ns = Some m \<Longrightarrow>
      \<exists>k. about_candidate m = Some k \<and> candidate_key u c = Some k \<and> is_deleted m \<and> \<not> is_request m"
  unfolding candidate_initialized_def candidate_applied_def candidate_deleted_def
  using candidate_message_key [OF assms, of u] by fastforce+

lemma candidate_reapplied_None: "candidate_reapplied u c ns = None"
  by (simp add: candidate_reapplied_def when_ok_def split: res.splits)

interpretation dep: silent_watching deployment_watcher "\<lambda>d. named_candidate (SCDeployment d)"
  about_candidate is_request is_deleted
  by unfold_locales
    (auto simp: deployment_watcher_def service_candidate_protocol_def candidate_reapplied_None
      simp del: named_candidate.simps dest: candidate_laws)

interpretation sdps: silent_watching sdp_service_watcher "\<lambda>s. named_candidate (SCSDPService s)"
  about_candidate is_request is_deleted
  by unfold_locales
    (auto simp: sdp_service_watcher_def service_candidate_protocol_def candidate_reapplied_None
      simp del: named_candidate.simps dest: candidate_laws)

text \<open>Objects for the witnesses: a namespace with injection on, and a deployment in it.\<close>

definition sample_ns :: kube_namespace where
  "sample_ns = \<lparr>ns_meta = \<lparr>meta_name = Some ''shop'', generate_name = None, name_any = ''shop'', meta_namespace = None,
     meta_annotations = [], meta_labels = [(''sdp-injection'', ''enabled'')]\<rparr>\<rparr>"

definition web_deployment :: "string_map \<Rightarrow> deployment" where
  "web_deployment anns = \<lparr>dep_meta = \<lparr>meta_name = Some ''web'', generate_name = None, name_any = ''web'',
     meta_namespace = Some ''shop'', meta_annotations = anns, meta_labels = []\<rparr>, dep_spec = None\<rparr>"

definition sample_watch_env :: "'p watch_env" where
  "sample_watch_env = \<lparr>wv_get_ns = \<lambda>_ _. Inr (Some sample_ns), wv_send = \<lambda>_ _. None, wv_uuid = \<lambda>_ _. ''uuid''\<rparr>"

section \<open>Properties\<close>

text \<open>
  C23: A candidate watcher asks for a service's identity only when it has not announced the service
  before, or has reported its deletion since: along every run of the deployment watcher, and of the one of SDP services, the messages
  follow the abstract specification \<open>well_sequenced\<close>, whatever the cluster answers and whichever sends
  fail.\<close>
theorem requests_not_repeated:
  assumes "watch deployment_watcher v (Inr ds) ready items = Ok s"
    and "\<forall>d \<in> set ds. named_candidate (SCDeployment d)"
    and "\<forall>i \<in> set items. \<forall>d \<in> set_stream_item i. named_candidate (SCDeployment d)"
    and "watch sdp_service_watcher v' (Inr ss) ready' items' = Ok s'"
  shows "well_sequenced about_candidate is_request is_deleted [] (queue_sent s) \<and>
    well_sequenced about_candidate is_request is_deleted [] (queue_sent s')"
  using dep.sequenced_watch [OF assms(1-3)] sdps.sequenced_watch [OF assms(4)]
  by (simp add: dep.sequenced_def sdps.sequenced_def)

theorem requests_not_repeated_witness:
  "\<exists>s. watch deployment_watcher sample_watch_env (Inr [])
        (Some (\<lambda>_. True, [Inr WatcherIdentityManagerReady])) [EventApply (web_deployment []),
           EventApply (web_deployment []), EventDelete (web_deployment []), EventApply (web_deployment [])] = Ok s \<and>
     well_sequenced about_candidate is_request is_deleted [] (queue_sent s) \<and> length (queue_sent s) = 4"
proof -
  let ?d = "web_deployment []"
  let ?run = "watch deployment_watcher sample_watch_env (Inr []) (Some (\<lambda>_. True, [Inr WatcherIdentityManagerReady]))
      [EventApply ?d, EventApply ?d, EventDelete ?d, EventApply ?d]"
  have "case ?run of Ok s \<Rightarrow> length (queue_sent s) = 4 | _ \<Rightarrow> False" by code_simp
  then obtain s where s: "?run = Ok s" "length (queue_sent s) = 4" by (cases ?run) auto
  obtain s' where s': "watch sdp_service_watcher sample_watch_env (Inr []) (None :: ((unit \<Rightarrow> bool) \<times> _) option) [] = Ok s'"
    by (simp add: watch_def)
  have "well_sequenced about_candidate is_request is_deleted [] (queue_sent s)"
    by (rule conjunct1, rule requests_not_repeated [OF s(1) _ _ s']) (auto simp: web_deployment_def)
  with s show ?thesis by blast
qed

text \<open>An event of the deployment of the service \<open>k\<close>; it is deleted only while it is no candidate.\<close>

fun event_of :: "string \<Rightarrow> deployment stream_item \<Rightarrow> bool" where
  "event_of k (EventApply d) \<longleftrightarrow> named_candidate (SCDeployment d) \<and> candidate_service_id [] (SCDeployment d) = Ok k"
| "event_of k (EventDelete d) \<longleftrightarrow> \<not> deployment_is_candidate d"
| "event_of k _ \<longleftrightarrow> True"

lemma deployment_key:
  assumes "named_candidate (SCDeployment d)" and "candidate_service_id [] (SCDeployment d) = Ok k"
  shows "wp_key (w_protocol deployment_watcher) u d = Some k"
  using assms(2) named_candidate_id [OF assms(1), of "u 1"]
  by (simp add: deployment_watcher_def service_candidate_protocol_def candidate_key_def when_ok_def)

lemma delete_of_no_candidate:
  "\<not> deployment_is_candidate d \<Longrightarrow> watch_delete deployment_watcher v d s = s\<lparr>handled := Suc (handled s)\<rparr>"
  by (simp add: watch_delete_def Let_def deployment_watcher_def service_candidate_protocol_def candidate_deleted_def
      when_ok_def split: res.splits)

text \<open>
  Once a deployment is recorded, because it was listed at the start or applied before, the watcher
  sends nothing more about it until it is deleted while it is a candidate. A deployment that was no
  candidate when it was listed, was deleted, and was created again as a candidate, gets no identity.\<close>
theorem recreated_candidate_ignored:
  assumes "k \<in> set (applied_keys s)" and "list_all (event_of k) items"
  shows "queue_sent (fold (watch_step deployment_watcher v) items s) = queue_sent s \<and>
    k \<in> set (applied_keys (fold (watch_step deployment_watcher v) items s))"
  using assms
proof (induction items arbitrary: s)
  case (Cons i items)
  have "\<exists>n. watch_step deployment_watcher v i s = s\<lparr>handled := n\<rparr>"
  proof (cases i)
    case (EventApply d)
    then show ?thesis
      using Cons.prems dep.recorded_silent [OF deployment_key, of d k s v] by (auto simp del: named_candidate.simps)
  next
    case (EventDelete d)
    then show ?thesis using Cons.prems delete_of_no_candidate [of d v s] by auto
  qed (use watch_state.surjective [of s] in \<open>auto intro: exI [of _ "handled s"]\<close>)
  then obtain n where "watch_step deployment_watcher v i s = s\<lparr>handled := n\<rparr>" by blast
  then show ?case using Cons.IH [of "s\<lparr>handled := n\<rparr>"] Cons.prems by simp
qed simp

theorem recreated_candidate_ignored_witness:
  "\<exists>s. watch deployment_watcher sample_watch_env (Inr [web_deployment [(''k8s.appgate.com/sdp-injector.enabled'', ''false'')]])
        (None :: ((unit \<Rightarrow> bool) \<times> _) option)
        [EventDelete (web_deployment [(''k8s.appgate.com/sdp-injector.enabled'', ''false'')]),
         EventApply (web_deployment [])] = Ok s \<and>
     queue_sent s = [DeploymentWatcherReady] \<and> deployment_is_candidate (web_deployment [])"
proof -
  let ?off = "web_deployment [(''k8s.appgate.com/sdp-injector.enabled'', ''false'')]" and ?on = "web_deployment []"
  let ?s = "notify deployment_watcher sample_watch_env (fold (watch_init deployment_watcher sample_watch_env) [?off] watch_start)"
  have "''shop_web'' \<in> set (applied_keys ?s)" and q: "queue_sent ?s = [DeploymentWatcherReady]" by code_simp+
  moreover have "list_all (event_of ''shop_web'') [EventDelete ?off, EventApply ?on]" by code_simp
  ultimately have "queue_sent (fold (watch_step deployment_watcher sample_watch_env) [EventDelete ?off, EventApply ?on] ?s) =
      [DeploymentWatcherReady]"
    using recreated_candidate_ignored [of "''shop_web''" ?s "[EventDelete ?off, EventApply ?on]" sample_watch_env] by simp
  moreover have "deployment_is_candidate ?on" by code_simp
  ultimately show ?thesis by (simp add: watch_def)
qed

text \<open>The listing that the stream starts with, or starts again with, changes nothing.\<close>

lemma relisting_ignored:
  "watch w v listing ready (EventInit # map EventInitApply ys @ EventInitDone # items) = watch w v listing ready items"
proof -
  have "fold (watch_step w v) (map EventInitApply ys) s = s" for s by (induction ys) simp_all
  then show ?thesis by (simp add: watch_def Let_def split: sum.splits)
qed

section \<open>The provider's view of the cluster\<close>

text \<open>The ids of the identities in the cluster, as the listing and the events tell.\<close>

fun live_step :: "ServiceIdentity stream_item \<Rightarrow> string list \<Rightarrow> string list" where
  "live_step (EventApply si) ids = List.insert (si_service_id si) ids"
| "live_step (EventDelete si) ids = removeAll (si_service_id si) ids"
| "live_step _ ids = ids"

definition live_ids :: "ServiceIdentity list \<Rightarrow> ServiceIdentity stream_item list \<Rightarrow> string list" where
  "live_ids xs items = fold live_step items (map si_service_id xs)"

text \<open>The messages of the watcher among those the provider handles, in order.\<close>

fun watcher_msgs :: "provider_event list \<Rightarrow> DeviceIdProviderRequestProtocol list" where
  "watcher_msgs [] = []"
| "watcher_msgs (WatcherMsg m used # es) = m # watcher_msgs es"
| "watcher_msgs (ProviderMsg m f # es) = watcher_msgs es"

text \<open>What a message of the watcher makes of the ids that are registered.\<close>

fun registered_step :: "DeviceIdProviderRequestProtocol \<Rightarrow> string set \<Rightarrow> string set" where
  "registered_step (FoundServiceIdentity si b) ids = insert (si_service_id si) ids"
| "registered_step (DeletedServiceIdentity si) ids = ids - {si_service_id si}"
| "registered_step (RequestDeviceId sid) ids = ids"

definition registered :: "InMemoryIdentityStore \<Rightarrow> string set" where
  "registered st = {sid. map_of (identities st) sid \<noteq> None}"

lemma registered_provider_step:
  "registered (snd (provider_step parse e st)) = fold registered_step (watcher_msgs [e]) (registered st)"
proof (cases e)
  case (WatcherMsg m used)
  then show ?thesis
    by (cases m) (auto simp: registered_def register_or_update_def unregister_service_def Let_def split: if_splits)
next
  case (ProviderMsg m f)
  then show ?thesis
    by (cases m) (auto simp: registered_def pop_device_id_def split: prod.splits res.splits option.splits)
qed

lemma watcher_msgs_Cons: "watcher_msgs (e # es) = watcher_msgs [e] @ watcher_msgs es"
  by (cases e) simp_all

lemma registered_provider_run:
  "registered (snd (provider_run parse es st)) = fold registered_step (watcher_msgs es) (registered st)"
proof (induction es arbitrary: st)
  case (Cons e es)
  then show ?case
    using registered_provider_step [of parse e st]
    by (simp add: watcher_msgs_Cons [of e es] del: watcher_msgs.simps split: prod.splits) (metis snd_conv)
qed simp

text \<open>The watcher's messages, when all are sent, register what is live.\<close>

lemma identity_watch_step:
  assumes "\<forall>t m. wv_send v t m = None"
  shows "fold registered_step (queue_sent (watch_step service_identity_watcher v i s)) A =
      (case i of
         EventApply si \<Rightarrow> insert (si_service_id si) (fold registered_step (queue_sent s) A)
       | EventDelete si \<Rightarrow> fold registered_step (queue_sent s) A - {si_service_id si}
       | _ \<Rightarrow> fold registered_step (queue_sent s) A)"
  using assms
  by (cases i)
    (simp_all add: watch_apply_def watch_delete_def service_identity_watcher_def Let_def queue_send_def identity_applied_def
      identity_reapplied_def identity_deleted_def identity_key_def)

lemma identity_watch_items:
  assumes "\<forall>t m. wv_send v t m = None" and "fold registered_step (queue_sent s) {} = set ids"
  shows "fold registered_step (queue_sent (fold (watch_step service_identity_watcher v) items s)) {} =
    set (fold live_step items ids)"
  using assms(2)
proof (induction items arbitrary: s ids)
  case (Cons i items)
  have "fold registered_step (queue_sent (watch_step service_identity_watcher v i s)) {} = set (live_step i ids)"
    unfolding identity_watch_step [OF assms(1)] using Cons.prems by (cases i) auto
  then show ?case using Cons.IH by simp
qed simp

lemma identity_watch_init:
  assumes "\<forall>t m. wv_send v t m = None"
  shows "fold registered_step (queue_sent (fold (watch_init service_identity_watcher v) xs s)) A =
    fold registered_step (queue_sent s) A \<union> si_service_id ` set xs"
proof (induction xs arbitrary: s)
  case (Cons x xs)
  have "fold registered_step (queue_sent (watch_init service_identity_watcher v x s)) A =
      insert (si_service_id x) (fold registered_step (queue_sent s) A)"
    using assms by (simp add: watch_init_def service_identity_watcher_def Let_def queue_send_def
        identity_initialized_def identity_key_def)
  then show ?case using Cons.IH by simp
qed simp

lemma registered_watch:
  assumes "watch service_identity_watcher v (Inr xs) (None :: ((unit \<Rightarrow> bool) \<times> _) option) items = Ok s"
    and send: "\<forall>t m. wv_send v t m = None"
  shows "fold registered_step (queue_sent s) {} = set (live_ids xs items)"
proof -
  have "s = fold (watch_step service_identity_watcher v) items (fold (watch_init service_identity_watcher v) xs watch_start)"
    using assms(1) by (simp add: watch_def notify_def service_identity_watcher_def)
  moreover have "fold registered_step (queue_sent (fold (watch_init service_identity_watcher v) xs watch_start)) {} =
      set (map si_service_id xs)"
    by (simp add: identity_watch_init [OF send] watch_start_def)
  ultimately show ?thesis using identity_watch_items [OF send] by (simp add: live_ids_def)
qed

lemma request_answered_iff:
  assumes "store_wf st"
  shows "fst (provider_step parse (ProviderMsg (RequestDeviceId sid) f) st) = Some NotFound \<longleftrightarrow> sid \<notin> registered st"
  using store_wf_keys [OF assms, of sid]
  by (auto simp: registered_def pop_device_id_def rdi_pop_def split: option.splits prod.splits)

text \<open>
  C22: The injector knows the identities of the cluster. However the provider interleaves the watcher's
  messages with requests, once it has handled what the watcher sent, a request for a device id is
  answered with an identity exactly when the identity was listed or applied and not deleted since.\<close>
theorem provider_mirrors_cluster:
  assumes "watch service_identity_watcher v (Inr xs) (None :: ((unit \<Rightarrow> bool) \<times> _) option) items = Ok s"
    and "\<forall>t m. wv_send v t m = None" and "watcher_msgs es = queue_sent s"
  shows "fst (provider_step parse (ProviderMsg (RequestDeviceId sid) f)
      (snd (provider_run parse es InMemoryIdentityStore_new))) = Some NotFound \<longleftrightarrow> sid \<notin> set (live_ids xs items)"
proof -
  have "registered (snd (provider_run parse es InMemoryIdentityStore_new)) = set (live_ids xs items)"
    using registered_watch [OF assms(1,2)] assms(3)
    by (simp add: registered_provider_run) (simp add: registered_def InMemoryIdentityStore_new_def)
  then show ?thesis
    using request_answered_iff [OF provider_run_wf [OF store_wf_new]] by blast
qed

theorem provider_mirrors_cluster_witness:
  "fst (provider_step sample_parse (ProviderMsg (RequestDeviceId (si_service_id (sample_identity None))) 5)
      (snd (provider_run sample_parse [WatcherMsg (FoundServiceIdentity (sample_identity None) False) None,
         ProviderMsg (RequestDeviceId (si_service_id (sample_identity None))) 4,
         WatcherMsg (DeletedServiceIdentity (sample_identity None)) None] InMemoryIdentityStore_new))) = Some NotFound"
proof -
  let ?i = "sample_identity None"
  let ?run = "watch service_identity_watcher sample_watch_env (Inr [?i]) (None :: ((unit \<Rightarrow> bool) \<times> _) option) [EventDelete ?i]"
  have "case ?run of Ok s \<Rightarrow> queue_sent s = [FoundServiceIdentity ?i False, DeletedServiceIdentity ?i] | _ \<Rightarrow> False" by code_simp
  then obtain s where "?run = Ok s" "queue_sent s = [FoundServiceIdentity ?i False, DeletedServiceIdentity ?i]"
    by (cases ?run) auto
  then show ?thesis
    by (subst provider_mirrors_cluster [of sample_watch_env "[?i]" "[EventDelete ?i]" s])
      (simp_all add: sample_watch_env_def live_ids_def)
qed

end
