(* ===== verification/Startup.thy ===== *)
theory Startup
  imports Identity_Creator
begin

text \<open>
  How the two services start: the settings taken from the environment, the SDP client's configuration
  (\<^verbatim>\<open>sdp-common/src/sdp/system.rs\<close>), the command that releases device ids
  (\<^verbatim>\<open>sdp-identity-service/src/main.rs\<close>), the injector's settings and its loop, which reloads the TLS
  certificates (\<^verbatim>\<open>sdp-injector/src/main.rs\<close>, \<^verbatim>\<open>files_watcher.rs\<close>, \<^verbatim>\<open>injector.rs\<close>).

  Environment variables are a partial map \<open>vars\<close>. What the parsers, the HTTP client and the files
  give is an argument.
\<close>

type_synonym env_vars = "string \<Rightarrow> string option"

definition var_or :: "env_vars \<Rightarrow> string \<Rightarrow> string \<Rightarrow> string" where
  "var_or vars k d = unwrap_or (vars k) d"

section \<open>Numbers\<close>

text \<open>\<^verbatim>\<open>str::parse\<close> for an unsigned type of \<open>w\<close> bits: an optional plus sign and at least one digit.\<close>

definition digit_val :: "char \<Rightarrow> nat option" where
  "digit_val c = (let n = of_char c in if 48 \<le> n \<and> n \<le> (57 :: nat) then Some (n - 48) else None)"

fun parse_digits :: "nat \<Rightarrow> nat \<Rightarrow> string \<Rightarrow> nat option" where
  "parse_digits w acc [] = Some acc"
| "parse_digits w acc (c # cs) =
     (case digit_val c of
        None \<Rightarrow> None
      | Some d \<Rightarrow> if acc * 10 + d < 2 ^ w then parse_digits w (acc * 10 + d) cs else None)"

definition parse_unsigned :: "nat \<Rightarrow> string \<Rightarrow> nat option" where
  "parse_unsigned w s =
     (case s of
        [] \<Rightarrow> None
      | c # cs \<Rightarrow> (if c = CHR ''+'' then (if cs = [] then None else parse_digits w 0 cs) else parse_digits w 0 s))"

section \<open>The SDP client's configuration\<close>

record SystemConfig =
  cfg_hosts :: "string list"
  cfg_api_version :: "string option"

definition SystemConfig_new :: "string list \<Rightarrow> SystemConfig" where
  "SystemConfig_new hosts = \<lparr>cfg_hosts = hosts, cfg_api_version = None\<rparr>"

text \<open>\<open>hv\<close> is \<^verbatim>\<open>HeaderValue::from_str\<close>, with the text of its error.\<close>

definition cfg_headers :: "(string \<Rightarrow> string option) \<Rightarrow> SystemConfig \<Rightarrow> (string, string) res" where
  "cfg_headers hv c =
     (case cfg_api_version c of
        None \<Rightarrow> Panic ''Expected API version to be set for application/vnd.appgate.peer header''
      | Some v \<Rightarrow>
          (let value = ''application/vnd.appgate.peer-v'' @ v @ ''+json''
           in case hv value of None \<Rightarrow> Ok value | Some err \<Rightarrow> Err err))"

definition no_verify :: "env_vars \<Rightarrow> string \<Rightarrow> bool" where
  "no_verify vars k = (case vars k of Some v \<Rightarrow> v = ''1'' \<or> to_lowercase v = ''true'' | None \<Rightarrow> False)"

text \<open>
  What the network gives: whether an HTTP client can be built, with or without verification, and the
  answer to the request for the names of the identity providers, an error or the status and, when
  the body can be decoded, the highest version it says is supported.
\<close>

record startup_env =
  st_client :: "bool \<Rightarrow> string option"
  st_probe :: "bool \<Rightarrow> string \<Rightarrow> string + nat \<times> (string + 16 word)"
  st_url :: "string \<Rightarrow> string + string"
  st_header :: "string \<Rightarrow> string option"
  st_uuid :: string

definition fix_api_version :: "startup_env \<Rightarrow> env_vars \<Rightarrow> SystemConfig \<Rightarrow> (string, SystemConfig) res" where
  "fix_api_version e vars c =
     (let nv = no_verify vars ''SDP_SYSTEM_NO_VERIFY''
      in case st_client e nv of
           Some err \<Rightarrow> Panic (''Failed to build HTTP client: '' @ err)
         | None \<Rightarrow>
             (case cfg_hosts c of
                [] \<Rightarrow> Panic ''index out of bounds: the len is 0 but the index is 0''
              | h # _ \<Rightarrow>
                  (case st_probe e nv h of
                     Inl err \<Rightarrow> Ok c
                   | Inr (status, body) \<Rightarrow>
                       if status = 406
                       then (case body of
                               Inl err \<Rightarrow> Panic (''Expect response: '' @ err)
                             | Inr v \<Rightarrow> Ok (c\<lparr>cfg_api_version := Some (show_nat (unat v))\<rparr>))
                       else Ok c)))"

definition cfg_build :: "startup_env \<Rightarrow> env_vars \<Rightarrow> SystemConfig \<Rightarrow> Credentials \<Rightarrow> (string, System) res" where
  "cfg_build e vars c cr =
     and_then (map_err (\<lambda>err. ''Unable to create SDP client: '' @ err) (cfg_headers (st_header e) c))
       (\<lambda>_. case st_client e (no_verify vars ''SDP_SYSTEM_NO_VERIFY'') of
             Some err \<Rightarrow> Err (''Unable to create SDP client: '' @ err)
           | None \<Rightarrow> Ok (System_build (cfg_hosts c) cr))"

fun parse_hosts :: "(string \<Rightarrow> string + string) \<Rightarrow> string list \<Rightarrow> (string, string list) res" where
  "parse_hosts url [] = Ok []"
| "parse_hosts url (v # vs) =
     (case url v of
        Inl err \<Rightarrow> Panic (''Error parsing host: '' @ err)
      | Inr h \<Rightarrow> and_then (parse_hosts url vs) (\<lambda>hs. Ok (h # hs)))"

text \<open>\<^verbatim>\<open>expect\<close> on an error panics; the quotes its text is shown in are left out.\<close>

definition expect :: "string \<Rightarrow> (string, 'a) res \<Rightarrow> (string, 'a) res" where
  "expect msg r = (case r of Err err \<Rightarrow> Panic (msg @ '': '' @ err) | x \<Rightarrow> x)"

definition get_sdp_system :: "startup_env \<Rightarrow> env_vars \<Rightarrow> (string, System) res" where
  "get_sdp_system e vars =
     (case vars ''SDP_SYSTEM_HOSTS'' of
        None \<Rightarrow> Panic ''Unable to get SDP system hosts: NotPresent''
      | Some vs \<Rightarrow>
          and_then (parse_hosts (st_url e) (split_char (CHR '','') vs)) (\<lambda>hosts.
            (let credentials =
                   \<lparr>cr_username = var_or vars ''SDP_K8S_USERNAME'' ''admin'',
                    cr_password = var_or vars ''SDP_K8S_PASSWORD'' ''admin'',
                    cr_provider_name = var_or vars ''SDP_K8S_PROVIDER'' ''local'',
                    cr_device_id = st_uuid e\<rparr>
             in and_then (fix_api_version e vars (SystemConfig_new hosts))
                  (\<lambda>c. expect ''Unable to create SDP client'' (cfg_build e vars c credentials)))))"

section \<open>Releasing device ids\<close>

definition parse_seconds :: "string \<Rightarrow> nat option" where
  "parse_seconds arg = parse_unsigned 64 arg"

text \<open>The command on the client \<^verbatim>\<open>get_sdp_system\<close> gives; an error is logged.\<close>

definition release_device_ids ::
  "world_env \<Rightarrow> string \<Rightarrow> 64 word \<Rightarrow> bool \<Rightarrow> bool \<Rightarrow> System \<times> world \<Rightarrow> (SDPClientError, unit) res \<times> System \<times> world" where
  "release_device_ids e user_name since dry_run exact_match s =
     (let hs = (if exact_match then Some [user_name] else None)
      in case unregister_device_ids_for_username e user_name None hs (Some since) dry_run s of
           (Err err, s') \<Rightarrow> (Ok (), s')
         | r \<Rightarrow> r)"

section \<open>The injector's settings\<close>

definition k8s_host :: "env_vars \<Rightarrow> string" where
  "k8s_host vars = ''https://'' @ var_or vars ''SDP_K8S_HOST'' ''kubernetes.default.svc''"

text \<open>The alphanumeric characters; the version Kubernetes reports is ASCII.\<close>

definition is_alphanumeric :: "char \<Rightarrow> bool" where
  "is_alphanumeric c =
     (let n = of_char c :: nat in (48 \<le> n \<and> n \<le> 57) \<or> (65 \<le> n \<and> n \<le> 90) \<or> (97 \<le> n \<and> n \<le> 122))"

definition server_version :: "string \<Rightarrow> nat option" where
  "server_version minor = parse_unsigned 32 (filter is_alphanumeric minor)"

definition SDP_FILE_WATCHER_POLL_INTERVAL :: nat where
  "SDP_FILE_WATCHER_POLL_INTERVAL = 900"

definition poll_interval :: "env_vars \<Rightarrow> nat" where
  "poll_interval vars =
     unwrap_or (map_option (\<lambda>s. unwrap_or (parse_unsigned 64 (trim s)) SDP_FILE_WATCHER_POLL_INTERVAL)
       (vars ''SDP_FILE_WATCHER_POLL_INTERVAL'')) SDP_FILE_WATCHER_POLL_INTERVAL"

definition get_cert_path :: "env_vars \<Rightarrow> string" where
  "get_cert_path vars = var_or vars ''SDP_CERT_FILE'' ''/opt/sdp-injector/k8s/sdp-injector.crt''"

definition get_key_path :: "env_vars \<Rightarrow> string" where
  "get_key_path vars = var_or vars ''SDP_KEY_FILE'' ''/opt/sdp-injector/k8s/sdp-injector.key''"

text \<open>
  \<^verbatim>\<open>load_ssl\<close> on the files: opening a file, reading the certificates and the key from its contents, and
  building the configuration are \<^verbatim>\<open>std\<close>, \<^verbatim>\<open>rustls_pemfile\<close> and \<^verbatim>\<open>rustls\<close>.
\<close>

record tls_env =
  tls_open :: "string \<Rightarrow> string + string"
  tls_certs :: "string \<Rightarrow> string + string list"
  tls_key :: "string \<Rightarrow> string + string option"
  tls_config :: "string list \<Rightarrow> string \<Rightarrow> string + string"

definition of_sum :: "string \<Rightarrow> string + 'a \<Rightarrow> (SDPServiceError, 'a) res" where
  "of_sum pre x = (case x of Inl err \<Rightarrow> Err (from_string (pre @ err)) | Inr a \<Rightarrow> Ok a)"

definition load_ssl :: "tls_env \<Rightarrow> env_vars \<Rightarrow> (SDPServiceError, string) res" where
  "load_ssl e vars =
     and_then (of_sum ''Unable to open cert file: '' (tls_open e (get_cert_path vars))) (\<lambda>cert_text.
     and_then (of_sum ''Unable to open key file: '' (tls_open e (get_key_path vars))) (\<lambda>key_text.
     and_then (of_sum ''Unable to load certificates: '' (tls_certs e cert_text)) (\<lambda>certs.
     and_then (of_sum ''Unable to load keys: '' (tls_key e key_text)) (\<lambda>k.
     and_then (ok_or k (from_string ''No private key found in key file'')) (\<lambda>key.
       of_sum ''Unable to create ServerConfig with TLS certificate: '' (tls_config e certs key))))))"

section \<open>Reloading the certificates\<close>

text \<open>\<^verbatim>\<open>watch_files\<close>: what an event of the notifier makes of the flag \<^verbatim>\<open>reload_certs\<close>.\<close>

datatype notify_event = NotifyModify | NotifyOther | NotifyError string

fun watch_files_event :: "notify_event \<Rightarrow> bool \<Rightarrow> bool" where
  "watch_files_event NotifyModify flag = True"
| "watch_files_event NotifyOther flag = flag"
| "watch_files_event (NotifyError err) flag = flag"

text \<open>
  The server loop and the file watcher run as two tasks. The state: the flag, the configuration the
  listener accepts with, what \<^verbatim>\<open>load_ssl\<close> gives for the files as they are, whether they changed without
  a notification yet, and where the loop is.
\<close>

datatype server_pc = LoopTop | Reloading | Reloaded | Accepting | Stopped

record server =
  reload_certs :: bool
  acceptor :: string
  ssl_on_disk :: "(SDPServiceError, string) res"
  unnotified :: bool
  server_at :: server_pc

datatype connection = Conn | ConnErr string | ConnNone

text \<open>
  A step of the file system, of the file watcher, or of the loop: reading the flag (or not getting
  the lock within 10 ms), loading and replacing the acceptor, clearing the flag, and accepting.
\<close>

inductive server_step :: "server \<Rightarrow> server \<Rightarrow> bool" where
  files_change: "server_step s (s\<lparr>ssl_on_disk := d, unnotified := True\<rparr>)"
| notified: "unnotified s \<Longrightarrow>
    server_step s (s\<lparr>reload_certs := watch_files_event NotifyModify (reload_certs s), unnotified := False\<rparr>)"
| other_event: "ev \<noteq> NotifyModify \<Longrightarrow> server_step s (s\<lparr>reload_certs := watch_files_event ev (reload_certs s)\<rparr>)"
| flag_read: "server_at s = LoopTop \<Longrightarrow>
    server_step s (s\<lparr>server_at := (if reload_certs s then Reloading else Accepting)\<rparr>)"
| lock_timeout: "server_at s = LoopTop \<Longrightarrow> server_step s (s\<lparr>server_at := Accepting\<rparr>)"
| load_ok: "server_at s = Reloading \<Longrightarrow> ssl_on_disk s = Ok cfg \<Longrightarrow>
    server_step s (s\<lparr>acceptor := cfg, server_at := Reloaded\<rparr>)"
| load_err: "server_at s = Reloading \<Longrightarrow> ssl_on_disk s = Err err \<Longrightarrow> server_step s (s\<lparr>server_at := Accepting\<rparr>)"
| flag_clear: "server_at s = Reloaded \<Longrightarrow> server_step s (s\<lparr>reload_certs := False, server_at := Accepting\<rparr>)"
| accepted: "server_at s = Accepting \<Longrightarrow>
    server_step s (s\<lparr>server_at := (case c of ConnNone \<Rightarrow> Stopped | _ \<Rightarrow> LoopTop)\<rparr>)"

inductive server_steps :: "server \<Rightarrow> server \<Rightarrow> bool" where
  steps_refl: "server_steps s s"
| steps_step: "server_steps s t \<Longrightarrow> server_step t u \<Longrightarrow> server_steps s u"

definition server_start :: "string \<Rightarrow> server" where
  "server_start cfg = \<lparr>reload_certs = False, acceptor = cfg, ssl_on_disk = Ok cfg, unnotified = False, server_at = LoopTop\<rparr>"

end
