(* ===== verification/Service_Net.thy ===== *)
theory Service_Net
  imports Identity_Manager Identity_Creator
begin

text \<open>
  The identity service as \<^verbatim>\<open>main.rs\<close> puts it together: the manager and the creator as tasks with one bounded
  channel each, the watchers, which send to the manager, and the exit of the process on a panic.

  A task takes a message from its channel when the sends of the previous one are done. Its handler is run
  at once on the states of \<^verbatim>\<open>Identity_Manager\<close> and \<^verbatim>\<open>Identity_Creator\<close>; what it sent waits in the task's list of
  pending sends and goes to the channels one by one, when there is room: \<^verbatim>\<open>send(..).await\<close> waits. The
  broadcast to the watchers does not wait. No external queue is set in \<^verbatim>\<open>main.rs\<close>.
\<close>

section \<open>State\<close>

text \<open>The capacity of both channels.\<close>

definition CHANNEL_SIZE :: nat where
  "CHANNEL_SIZE = 50"

datatype outgoing = ToManager IdentityManagerProtocol | ToCreator IdentityCreatorProtocol

fun outgoing_of :: "im_action \<Rightarrow> outgoing option" where
  "outgoing_of (SendSelf msg) = Some (ToManager msg)"
| "outgoing_of (SendCreator msg) = Some (ToCreator msg)"
| "outgoing_of _ = None"

fun report_of :: "action \<Rightarrow> IdentityManagerProtocol option" where
  "report_of (SendManager msg) = Some msg"
| "report_of _ = None"

record net =
  manager_task :: IdentityManager
  manager_rx :: "IdentityManagerProtocol list"
  manager_pending :: "outgoing list"
  manager_panicked :: bool
  creator_task :: IdentityCreator
  creator_rx :: "IdentityCreatorProtocol list"
  creator_pending :: "IdentityManagerProtocol list"
  creator_started :: bool
  creator_panicked :: bool
  exited :: bool

text \<open>As long as the process runs the channels are open: a send succeeds once there is room.\<close>

definition open_env :: "im_env \<Rightarrow> im_env" where
  "open_env e = e\<lparr>e_send_creator := \<lambda>_ _. Inr (), e_send_self := \<lambda>_ _. Inr (), e_broadcast := \<lambda>_ _. Inr ()\<rparr>"

definition open_world :: "world_env \<Rightarrow> world_env" where
  "open_world w = w\<lparr>we_do := \<lambda>tr a. if report_of a = None then we_do w tr a else None\<rparr>"

text \<open>What a task sent between two of its states.\<close>

definition outgoings :: "IdentityManager \<Rightarrow> outgoing list" where
  "outgoings m = List.map_filter outgoing_of (trace m)"

definition manager_output :: "IdentityManager \<Rightarrow> IdentityManager \<Rightarrow> outgoing list" where
  "manager_output m m' = drop (length (outgoings m)) (outgoings m')"

definition reports :: "IdentityCreator \<Rightarrow> IdentityManagerProtocol list" where
  "reports c = List.map_filter report_of (done_actions c)"

definition creator_output :: "IdentityCreator \<Rightarrow> IdentityCreator \<Rightarrow> IdentityManagerProtocol list" where
  "creator_output c c' = drop (length (reports c)) (reports c')"

fun panics :: "('e, 'a) res \<Rightarrow> bool" where
  "panics (Panic q) = True"
| "panics _ = False"

section \<open>Steps\<close>

text \<open>The start: empty channels, and the manager in its initialisation.\<close>

definition net_start :: "im_env \<Rightarrow> IdentityManager \<Rightarrow> IdentityCreator \<Rightarrow> net" where
  "net_start e m c =
     (case initialize (open_env e) m of
        (r, m') \<Rightarrow>
          \<lparr>manager_task = m', manager_rx = [], manager_pending = manager_output m m', manager_panicked = panics r,
           creator_task = c, creator_rx = [], creator_pending = [], creator_started = False,
           creator_panicked = False, exited = False\<rparr>)"

definition manager_take :: "im_env \<Rightarrow> net \<Rightarrow> net option" where
  "manager_take e s =
     (if exited s \<or> manager_panicked s \<or> manager_pending s \<noteq> [] then None
      else case manager_rx s of
             [] \<Rightarrow> None
           | msg # q \<Rightarrow>
               (case handle (open_env e) msg (manager_task s) of
                  (r, m') \<Rightarrow>
                    Some (s\<lparr>manager_task := m', manager_rx := q, manager_pending := manager_output (manager_task s) m',
                            manager_panicked := panics r\<rparr>)))"

definition manager_send :: "net \<Rightarrow> net option" where
  "manager_send s =
     (if exited s then None
      else case manager_pending s of
             [] \<Rightarrow> None
           | ToManager msg # rest \<Rightarrow>
               if length (manager_rx s) < CHANNEL_SIZE
               then Some (s\<lparr>manager_rx := manager_rx s @ [msg], manager_pending := rest\<rparr>) else None
           | ToCreator msg # rest \<Rightarrow>
               if length (creator_rx s) < CHANNEL_SIZE
               then Some (s\<lparr>creator_rx := creator_rx s @ [msg], manager_pending := rest\<rparr>) else None)"

text \<open>
  The creator ignores what comes before \<^verbatim>\<open>StartService\<close>, then initialises itself and reports to the manager;
  any error on the way is a panic.
\<close>

definition creator_begin :: "world_env \<Rightarrow> unit ic_act" where
  "creator_begin w = bindR (creator_initialize w) (\<lambda>_. send_manager w IdentityCreatorReady)"

definition creator_take :: "world_env \<Rightarrow> net \<Rightarrow> net option" where
  "creator_take w s =
     (if exited s \<or> creator_panicked s \<or> creator_pending s \<noteq> [] then None
      else case creator_rx s of
             [] \<Rightarrow> None
           | msg # q \<Rightarrow>
               if creator_started s
               then (case creator_handle (open_world w) msg (creator_task s) of
                       (r, c') \<Rightarrow>
                         Some (s\<lparr>creator_task := c', creator_rx := q,
                                 creator_pending := creator_output (creator_task s) c', creator_panicked := panics r\<rparr>))
               else if msg = StartService
               then (case creator_begin (open_world w) (creator_task s) of
                       (r, c') \<Rightarrow>
                         Some (s\<lparr>creator_task := c', creator_rx := q, creator_started := True,
                                 creator_pending := creator_output (creator_task s) c',
                                 creator_panicked := (r \<noteq> Ok ())\<rparr>))
               else Some (s\<lparr>creator_rx := q\<rparr>))"

definition creator_send :: "net \<Rightarrow> net option" where
  "creator_send s =
     (if exited s then None
      else case creator_pending s of
             [] \<Rightarrow> None
           | msg # rest \<Rightarrow>
               if length (manager_rx s) < CHANNEL_SIZE
               then Some (s\<lparr>manager_rx := manager_rx s @ [msg], creator_pending := rest\<rparr>) else None)"

text \<open>The panic hook: the process exits when a task has panicked, after what the task sent before.\<close>

definition panic_hook :: "net \<Rightarrow> net option" where
  "panic_hook s =
     (if \<not> exited s \<and> (manager_panicked s \<and> manager_pending s = [] \<or> creator_panicked s \<and> creator_pending s = [])
      then Some (s\<lparr>exited := True\<rparr>) else None)"

text \<open>What the watchers of deployments, SDP services and pods send.\<close>

fun from_watcher :: "IdentityManagerProtocol \<Rightarrow> bool" where
  "from_watcher (FoundServiceCandidate c) = True"
| "from_watcher (RequestServiceIdentity c) = True"
| "from_watcher (DeletedServiceCandidate c) = True"
| "from_watcher DeploymentWatcherReady = True"
| "from_watcher (ReleaseDeviceId l d) = True"
| "from_watcher _ = False"

definition watcher_send :: "IdentityManagerProtocol \<Rightarrow> net \<Rightarrow> net option" where
  "watcher_send msg s =
     (if \<not> exited s \<and> from_watcher msg \<and> length (manager_rx s) < CHANNEL_SIZE
      then Some (s\<lparr>manager_rx := manager_rx s @ [msg]\<rparr>) else None)"

text \<open>The steps of the service by itself, and with those of the watchers.\<close>

inductive task_step :: "im_env \<Rightarrow> world_env \<Rightarrow> net \<Rightarrow> net \<Rightarrow> bool" for e w where
  m_take: "manager_take e s = Some t \<Longrightarrow> task_step e w s t"
| m_send: "manager_send s = Some t \<Longrightarrow> task_step e w s t"
| c_take: "creator_take w s = Some t \<Longrightarrow> task_step e w s t"
| c_send: "creator_send s = Some t \<Longrightarrow> task_step e w s t"
| hook: "panic_hook s = Some t \<Longrightarrow> task_step e w s t"

inductive net_step :: "im_env \<Rightarrow> world_env \<Rightarrow> net \<Rightarrow> net \<Rightarrow> bool" for e w where
  task: "task_step e w s t \<Longrightarrow> net_step e w s t"
| watcher: "watcher_send msg s = Some t \<Longrightarrow> net_step e w s t"

end
