(* ===== verification/Boot.thy ===== *)
theory Boot
  imports Startup Service_Net Injector
begin

text \<open>
  How the two programs come up: the Kubernetes client (\<^verbatim>\<open>sdp-common/src/kubernetes.rs\<close>), the injector's \<^verbatim>\<open>main\<close> up to
  its server loop, and the \<^verbatim>\<open>main\<close> of the identity service with its commands.

  An error of \<^verbatim>\<open>main\<close> and a panic both end the process; \<open>Err\<close> and \<open>Panic\<close> keep them apart.
\<close>

section \<open>The Kubernetes client\<close>

record KubeConfig =
  cluster_url :: string
  accept_invalid_certs :: bool
  kc_rest :: string

text \<open>
  What is outside: parsing a URI, \<^verbatim>\<open>Config::infer\<close>, \<^verbatim>\<open>Client::try_from\<close> (with its error), the minor version the API
  server reports, the parser's error for it, the files, and binding the port.
\<close>

record boot_env =
  be_uri :: "string \<Rightarrow> string + string"
  be_infer :: "string + KubeConfig"
  be_client :: "KubeConfig \<Rightarrow> string option"
  be_minor :: "string + string"
  be_parse_error :: "string \<Rightarrow> string"
  be_cwd :: "string + (string \<Rightarrow> string)"
  be_open :: "string \<Rightarrow> string + string"
  be_sidecars :: "string \<Rightarrow> string + SDPSidecars"
  be_tls :: tls_env
  be_bind :: "string + unit"

definition or_err :: "string + 'a \<Rightarrow> (string, 'a) res" where
  "or_err x = (case x of Inl err \<Rightarrow> Err err | Inr a \<Rightarrow> Ok a)"

definition expect_or :: "string \<Rightarrow> string + 'a \<Rightarrow> (string, 'a) res" where
  "expect_or msg x = expect msg (or_err x)"

text \<open>The client for a host, with the texts of the three \<^verbatim>\<open>expect\<close>s.\<close>

definition kube_client :: "boot_env \<Rightarrow> env_vars \<Rightarrow> string \<Rightarrow> string \<Rightarrow> string \<Rightarrow> string \<Rightarrow> (string, KubeConfig) res" where
  "kube_client e vars host uri_msg infer_msg client_msg =
     and_then (expect_or uri_msg (be_uri e host)) (\<lambda>uri.
     and_then (expect_or infer_msg (be_infer e)) (\<lambda>inferred.
       (let config = inferred\<lparr>cluster_url := uri, accept_invalid_certs := no_verify vars ''SDP_K8S_NO_VERIFY''\<rparr>
        in case be_client e config of
             Some err \<Rightarrow> Panic (client_msg @ '': '' @ err)
           | None \<Rightarrow> Ok config)))"

definition get_k8s_client :: "boot_env \<Rightarrow> env_vars \<Rightarrow> (string, KubeConfig) res" where
  "get_k8s_client e vars =
     (let host = ''https://'' @ var_or vars ''SDP_K8S_HOST'' ''kubernetes.default.svc'' @ '':'' @ var_or vars ''SDP_K8S_PORT'' ''443''
      in kube_client e vars host (''Unable to parse SDP_K8S_HOST value: '' @ host)
           ''Unable to infer K8S configuration'' ''Unable to create k8s client'')"

section \<open>The injector\<close>

definition load_sidecars :: "boot_env \<Rightarrow> env_vars \<Rightarrow> (string, SDPSidecars) res" where
  "load_sidecars e vars =
     and_then (or_err (be_cwd e)) (\<lambda>cwd.
       (let path = (case vars ''SDP_SIDECARS_FILE'' of Some f \<Rightarrow> f | None \<Rightarrow> cwd ''/opt/sdp-injector/k8s/sdp-sidecars.json'')
        in and_then (or_err (be_open e path)) (\<lambda>text. or_err (be_sidecars e text))))"

definition injector_kube_client :: "boot_env \<Rightarrow> env_vars \<Rightarrow> (string, KubeConfig) res" where
  "injector_kube_client e vars =
     kube_client e vars (k8s_host vars) (''Unable to parse SDP_K8S_HOST environment value: '' @ k8s_host vars)
       ''Unable to infer Kubernetes config'' ''Unable to create kubernetes client''"

definition injector_main :: "boot_env \<Rightarrow> env_vars \<Rightarrow> (string, SDPInjectorContext \<times> server) res" where
  "injector_main e vars =
     and_then (injector_kube_client e vars) (\<lambda>_.
     and_then (expect ''Unable to load the sidecar context'' (load_sidecars e vars)) (\<lambda>ss.
     and_then (or_err (be_minor e)) (\<lambda>minor.
     and_then (ok_or (server_version minor) (be_parse_error e minor)) (\<lambda>version.
     and_then (map_err SDPServiceError_fmt (load_ssl (be_tls e) vars)) (\<lambda>ssl.
     and_then (or_err (be_bind e)) (\<lambda>_.
       Ok (\<lparr>ic_sidecars = ss, ic_server_version = version\<rparr>, server_start ssl)))))))"

section \<open>The identity service\<close>

definition CREDENTIALS_POOL_SIZE :: nat where
  "CREDENTIALS_POOL_SIZE = 10"

text \<open>
  The command \<^verbatim>\<open>Run\<close>: the manager in the main task, the creator in a task of its own, with two clients of the SDP
  system that are made one after the other. \<open>se\<close> and \<open>se'\<close> are what the network answers to them.
\<close>

definition service_main :: "boot_env \<Rightarrow> startup_env \<Rightarrow> startup_env \<Rightarrow> im_env \<Rightarrow> env_vars \<Rightarrow> (string, net) res" where
  "service_main e se se' ime vars =
     and_then (get_k8s_client e vars) (\<lambda>_.
     and_then (map_err SDPServiceError_fmt
       (IdentityManager_new (vars ''SDP_CLUSTER_ID'') False)) (\<lambda>manager.
     and_then (get_sdp_system se vars) (\<lambda>system.
     and_then (get_sdp_system se' vars) (\<lambda>system2.
     and_then (map_err SDPServiceError_fmt
       (IdentityCreator_new system system2 CREDENTIALS_POOL_SIZE (vars ''SDP_CLUSTER_ID''))) (\<lambda>creator.
       Ok (net_start ime manager creator))))))"

end
