(* ===== verification/Startup_Laws.thy ===== *)
theory Startup_Laws
  imports Startup Creator_Laws
begin

text \<open>
  What the start of the services guarantees: when there is an SDP client and that it has a host, that
  the server's version is read whatever suffix it carries, which devices the command releases, and
  when a changed certificate is loaded.
\<close>

section \<open>Numbers\<close>

lemma digit_val_digit: "d < 10 \<Longrightarrow> digit_val (char_of (48 + d)) = Some d"
  by (simp add: digit_val_def Let_def)

lemma parse_digits_append:
  "parse_digits w acc (xs @ ys) = (case parse_digits w acc xs of None \<Rightarrow> None | Some a \<Rightarrow> parse_digits w a ys)"
  by (induction w acc xs rule: parse_digits.induct) (auto split: option.splits)

lemma parse_digits_show:
  assumes "n < 2 ^ w"
  shows "parse_digits w 0 (show_nat n) = Some n"
  using assms
proof (induction n rule: less_induct)
  case (less n)
  show ?case
  proof (cases "n < 10")
    case True
    then show ?thesis using less.prems digit_val_digit [of n] by (subst show_nat.simps) simp
  next
    case False
    then have "parse_digits w 0 (show_nat (n div 10)) = Some (n div 10)" using less by simp
    moreover have "digit_val (char_of (48 + n mod 10)) = Some (n mod 10)" by (rule digit_val_digit) simp
    moreover have "n div 10 * 10 + n mod 10 = n" by (rule div_mult_mod_eq)
    ultimately show ?thesis using False less.prems by (subst show_nat.simps) (simp add: parse_digits_append)
  qed
qed

lemma show_nat_digits: "c \<in> set (show_nat n) \<Longrightarrow> \<exists>d < (10 :: nat). c = char_of (48 + d)"
proof (induction n rule: show_nat.induct)
  case (1 n)
  then show ?case
    by (subst (asm) (2) show_nat.simps) (auto split: if_splits intro: exI [of _ n] exI [of _ "n mod 10"])
qed

lemma show_nat_nonempty: "show_nat n \<noteq> []"
  by (subst show_nat.simps) simp

lemma parse_unsigned_show:
  assumes "n < 2 ^ w"
  shows "parse_unsigned w (show_nat n) = Some n"
proof -
  obtain c cs where c: "show_nat n = c # cs" using show_nat_nonempty by (cases "show_nat n") auto
  then obtain d :: nat where "d < 10" "c = char_of (48 + d)" using show_nat_digits [of c n] by auto
  then have "digit_val c = Some d" using digit_val_digit by simp
  moreover have "digit_val (CHR ''+'') = None" by (simp add: digit_val_def)
  ultimately have "c \<noteq> CHR ''+''" by auto
  with c parse_digits_show [OF assms] show ?thesis by (simp add: parse_unsigned_def)
qed

text \<open>
  The minor version of the API server is read whatever characters other than letters and digits
  stand around it, such as the plus sign of a managed cluster: the number printed is the number read, as
  long as it fits into 32 bits.\<close>
theorem server_version_roundtrip:
  assumes "n < 2 ^ 32" and "\<not> list_ex is_alphanumeric pre" and "\<not> list_ex is_alphanumeric post"
  shows "server_version (pre @ show_nat n @ post) = Some n"
proof -
  have "is_alphanumeric c" if "c \<in> set (show_nat n)" for c
    using show_nat_digits [OF that] by (auto simp: is_alphanumeric_def Let_def)
  then have "filter is_alphanumeric (pre @ show_nat n @ post) = show_nat n"
    using assms(2,3) by (simp add: list_ex_iff filter_id_conv)
  then show ?thesis using parse_unsigned_show [OF assms(1)] by (simp add: server_version_def)
qed

theorem server_version_roundtrip_witness: "server_version (show_nat 29 @ ''+'') = Some 29"
  using server_version_roundtrip [of 29 "[]" "''+''"] by (simp add: is_alphanumeric_def)

section \<open>The SDP client\<close>

lemma parse_hosts_length: "parse_hosts url vs = Ok hs \<Longrightarrow> length hs = length vs"
  by (induction vs arbitrary: hs) (auto simp: and_then_Ok_iff split: sum.splits)

lemma fix_api_version_Ok:
  assumes "fix_api_version e vars (SystemConfig_new hosts) = Ok c"
  shows "cfg_hosts c = hosts \<and> hosts \<noteq> [] \<and>
    (cfg_api_version c \<noteq> None \<longrightarrow>
      (\<exists>v. st_probe e (no_verify vars ''SDP_SYSTEM_NO_VERIFY'') (hd hosts) = Inr (406, Inr v)))"
  using assms
  by (auto simp: fix_api_version_def SystemConfig_new_def Let_def split: option.splits list.splits sum.splits if_splits prod.splits)

text \<open>
  There is an SDP client only when the controller refused the API version zero, with status 406 and the
  highest version it supports: every other answer, and no answer at all, ends the process, although the
  code logs it and goes on. The client then has a host, so no request on it panics for want of one, and no
  login.\<close>
theorem client_needs_refusal:
  assumes "get_sdp_system e vars = Ok sys"
  shows "sys_hosts sys \<noteq> [] \<and> sys_login sys = None \<and>
    (\<exists>v. st_probe e (no_verify vars ''SDP_SYSTEM_NO_VERIFY'') (hd (sys_hosts sys)) = Inr (406, Inr v))"
proof -
  have expect_Ok: "expect msg r = Ok x \<longleftrightarrow> r = Ok x" for msg and r :: "(string, System) res" and x
    by (cases r) (simp_all add: expect_def)
  from assms obtain hosts c cr where fixed: "fix_api_version e vars (SystemConfig_new hosts) = Ok c"
    and build: "cfg_build e vars c cr = Ok sys"
    by (auto simp: get_sdp_system_def Let_def and_then_Ok_iff expect_Ok split: option.splits)
  from build have "sys = System_build (cfg_hosts c) cr" "cfg_api_version c \<noteq> None"
    by (auto simp: cfg_build_def and_then_Ok_iff map_err_def cfg_headers_def split: option.splits res.splits)
  with fix_api_version_Ok [OF fixed] show ?thesis by (auto simp: System_build_def)
qed

definition sample_startup :: "nat \<Rightarrow> startup_env" where
  "sample_startup status = \<lparr>st_client = \<lambda>_. None, st_probe = \<lambda>_ _. Inr (status, Inr 18), st_url = Inr, st_header = \<lambda>_. None,
     st_uuid = ''device''\<rparr>"

definition sample_vars :: env_vars where
  "sample_vars = [''SDP_SYSTEM_HOSTS'' \<mapsto> ''https://a,https://b'']"

theorem client_needs_refusal_witness:
  "(\<exists>sys. get_sdp_system (sample_startup 406) sample_vars = Ok sys \<and> sys_hosts sys \<noteq> []) \<and>
   (\<nexists>sys. get_sdp_system (sample_startup 200) sample_vars = Ok sys)"
proof -
  have "case get_sdp_system (sample_startup 406) sample_vars of Ok sys \<Rightarrow> True | _ \<Rightarrow> False" by code_simp
  then obtain sys where "get_sdp_system (sample_startup 406) sample_vars = Ok sys"
    by (cases "get_sdp_system (sample_startup 406) sample_vars") auto
  moreover from client_needs_refusal [OF this] have "sys_hosts sys \<noteq> []" by blast
  moreover have "get_sdp_system (sample_startup 200) sample_vars \<noteq> Ok sys'" for sys'
    using client_needs_refusal [of "sample_startup 200" sample_vars sys'] by (auto simp: sample_startup_def)
  ultimately show ?thesis by blast
qed
section \<open>Releasing device ids\<close>

text \<open>
  The time given to the command that releases device ids is compared with the time a device was last
  seen as seconds since 1970, not with its age: when no device was last seen that early, nothing is deleted,
  however long ago the devices were seen.\<close>
theorem release_since_absolute:
  assumes "get_registered_device_ids e user s = (Ok devices, s1)"
    and "\<forall>d \<in> set devices. sint since < timestamp (ob_last_seen_at d)"
  shows "fst (release_device_ids e user since dry_run exact_match s) = Ok () \<and>
    deletions (snd (snd (release_device_ids e user since dry_run exact_match s))) = deletions (snd s)"
proof -
  let ?f = "filter_on_boarder_user None (if exact_match then Some [user] else None) (Some since)"
  have "filter ?f devices = []"
    using assms(2) by (auto simp: filter_empty_conv filter_on_boarder_user_def)
  then have r: "unregister_device_ids_for_username e user None (if exact_match then Some [user] else None) (Some since) dry_run s =
      (Ok (), s1)"
    using assms(1) by (simp add: unregister_device_ids_for_username_def)
  moreover have "deletions (snd s1) = deletions (snd s)"
    using assms(1) by (rule get_registered_deletions)
  ultimately show ?thesis by (simp add: release_device_ids_def Let_def)
qed

definition recent_world :: world_env where
  "recent_world = sample_world\<lparr>we_parse_devices := \<lambda>_. Inr [\<lparr>ob_distinguished_name = ''CN=07,CN=u1,OU=service'',
     ob_device_id = ''00-07'', ob_username = ''u1'', ob_last_seen_at = 1700000000000000000\<rparr>]\<rparr>"

theorem release_since_absolute_witness:
  "deletions (snd (snd (release_device_ids recent_world ''u1'' 3600 False True (sample_system, [])))) = []"
proof -
  let ?d = "\<lparr>ob_distinguished_name = ''CN=07,CN=u1,OU=service'', ob_device_id = ''00-07'', ob_username = ''u1'',
     ob_last_seen_at = 1700000000000000000\<rparr>"
  have "fst (get_registered_device_ids recent_world ''u1'' (sample_system, [])) = Ok [?d]" by code_simp
  then have "get_registered_device_ids recent_world ''u1'' (sample_system, []) =
      (Ok [?d], snd (get_registered_device_ids recent_world ''u1'' (sample_system, [])))" by (simp add: prod_eq_iff)
  from release_since_absolute [OF this, of 3600 False True] show ?thesis
    by (simp add: timestamp_def deletions_def)
qed

section \<open>Reloading the certificates\<close>

inductive_cases server_stepE: "server_step s t"

text \<open>Steps in which no notification comes between loading the files and clearing the flag.\<close>

inductive undisturbed :: "server \<Rightarrow> server \<Rightarrow> bool" where
  undisturbed_refl: "undisturbed s s"
| undisturbed_step: "undisturbed s t \<Longrightarrow> server_step t u \<Longrightarrow> \<not> (server_at t = Reloaded \<and> unnotified t \<and> \<not> unnotified u) \<Longrightarrow>
    undisturbed s u"

definition reload_due :: "server \<Rightarrow> bool" where
  "reload_due s \<longleftrightarrow> ssl_on_disk s = Ok (acceptor s) \<or> unnotified s \<or> reload_certs s \<and> server_at s \<noteq> Reloaded"

lemma other_event_keeps: "ev \<noteq> NotifyModify \<Longrightarrow> watch_files_event ev flag = flag"
  by (cases ev) simp_all

lemma reload_due_step:
  assumes "server_step s t" and "reload_due s" and "\<not> (server_at s = Reloaded \<and> unnotified s \<and> \<not> unnotified t)"
  shows "reload_due t"
  using assms
  by (elim server_stepE) (auto simp: reload_due_def other_event_keeps split: connection.splits)



text \<open>
  A change of the certificates can be forgotten. When the notification of a second change comes
  after the files were loaded for the first one and before the flag is cleared, the listener goes on
  with the files of the first change, and neither a notification nor the flag tells of the second.\<close>
theorem certificate_change_lost:
  "\<exists>s. server_steps (server_start ''a'') s \<and> server_at s = Accepting \<and> acceptor s = ''b'' \<and> ssl_on_disk s = Ok ''c'' \<and>
     \<not> unnotified s \<and> \<not> reload_certs s"
proof -
  let ?s0 = "server_start ''a''"
  let ?s1 = "?s0\<lparr>ssl_on_disk := Ok ''b'', unnotified := True\<rparr>"
  let ?s2 = "?s1\<lparr>reload_certs := watch_files_event NotifyModify (reload_certs ?s1), unnotified := False\<rparr>"
  let ?s3 = "?s2\<lparr>server_at := (if reload_certs ?s2 then Reloading else Accepting)\<rparr>"
  let ?s4 = "?s3\<lparr>acceptor := ''b'', server_at := Reloaded\<rparr>"
  let ?s5 = "?s4\<lparr>ssl_on_disk := Ok ''c'', unnotified := True\<rparr>"
  let ?s6 = "?s5\<lparr>reload_certs := watch_files_event NotifyModify (reload_certs ?s5), unnotified := False\<rparr>"
  let ?s7 = "?s6\<lparr>reload_certs := False, server_at := Accepting\<rparr>"
  have "server_steps ?s0 ?s1" by (rule steps_step [OF steps_refl files_change])
  then have "server_steps ?s0 ?s2" by (rule steps_step [OF _ notified]) simp
  then have "server_steps ?s0 ?s3" by (rule steps_step [OF _ flag_read]) (simp add: server_start_def)
  then have "server_steps ?s0 ?s4" by (rule steps_step [OF _ load_ok]) simp_all
  then have "server_steps ?s0 ?s5" by (rule steps_step [OF _ files_change])
  then have "server_steps ?s0 ?s6" by (rule steps_step [OF _ notified]) simp
  then have "server_steps ?s0 ?s7" by (rule steps_step [OF _ flag_clear]) simp
  then show ?thesis by (intro exI [of _ ?s7]) simp
qed

end
