(* ===== verification/Service_Net_Laws.thy ===== *)
theory Service_Net_Laws
  imports Service_Net Manager_Laws Creator_Laws "HOL-Library.Multiset"
begin

text \<open>
  What the tasks of the identity service guarantee together: that the messages they send each other die
  out, in which states the service stands still, and how the manager can block itself.
\<close>

section \<open>What handlers send\<close>

lemma map_filter_append: "List.map_filter f (xs @ ys) = List.map_filter f xs @ List.map_filter f ys"
  by (simp add: List.map_filter_def)

lemma manager_output_append:
  "trace m' = trace m @ acts \<Longrightarrow> manager_output m m' = List.map_filter outgoing_of acts"
  by (simp add: manager_output_def outgoings_def map_filter_append)

text \<open>
  The height of a message: handling it sends only lower ones. The ready signals come before
  \<^verbatim>\<open>IdentityManagerReady\<close>, a deleted candidate before the deletion of its identity, orders to the creator
  before its reports, which are the last.
\<close>

fun manager_height :: "IdentityManagerProtocol \<Rightarrow> nat" where
  "manager_height IdentityCreatorReady = 3"
| "manager_height DeploymentWatcherReady = 3"
| "manager_height (DeletedServiceCandidate c) = 3"
| "manager_height IdentityManagerReady = 2"
| "manager_height (RequestServiceIdentity c) = 2"
| "manager_height (DeleteServiceIdentity si) = 2"
| "manager_height (ReleaseDeviceId l d) = 2"
| "manager_height _ = 0"

fun creator_height :: "IdentityCreatorProtocol \<Rightarrow> nat" where
  "creator_height StartService = 4"
| "creator_height _ = 1"

fun outgoing_height :: "outgoing \<Rightarrow> nat" where
  "outgoing_height (ToManager msg) = manager_height msg"
| "outgoing_height (ToCreator msg) = creator_height msg"

text \<open>\<open>sends_below h m m'\<close>: from \<open>m\<close> to \<open>m'\<close> the manager sent only messages lower than \<open>h\<close>.\<close>

definition sends_below :: "nat \<Rightarrow> IdentityManager \<Rightarrow> IdentityManager \<Rightarrow> bool" where
  "sends_below h m m' \<longleftrightarrow>
     (\<exists>acts. trace m' = trace m @ acts \<and> (\<forall>o' \<in> set (List.map_filter outgoing_of acts). outgoing_height o' < h))"

lemma sends_below_output: "sends_below h m m' \<Longrightarrow> o' \<in> set (manager_output m m') \<Longrightarrow> outgoing_height o' < h"
  by (auto simp: sends_below_def manager_output_append)

lemma sends_below_trans: "sends_below h m m' \<Longrightarrow> sends_below h m' m'' \<Longrightarrow> sends_below h m m''"
  unfolding sends_below_def by (force simp: map_filter_append)

lemma sends_below_same: "trace m' = trace m \<Longrightarrow> sends_below h m m'"
  by (auto simp: sends_below_def List.map_filter_def)

lemma sends_below_perform:
  "(\<And>o'. outgoing_of a = Some o' \<Longrightarrow> outgoing_height o' < h) \<Longrightarrow> sends_below h m (perform a m)"
  unfolding sends_below_def perform_def
  by (intro exI [of _ "[a]"]) (auto simp: List.map_filter_def split: option.splits)

lemma handler_call_height: "handler_call a \<Longrightarrow> outgoing_of a = Some o' \<Longrightarrow> outgoing_height o' < 2"
proof (cases a)
  fix msg
  assume "handler_call a" "outgoing_of a = Some o'" "a = SendCreator msg"
  then show ?thesis by (cases msg) auto
qed auto

lemma serves_sends_below: "serves m m' \<Longrightarrow> sends_below 2 m m'"
  unfolding serves_def sends_below_def using handler_call_height
  by (fastforce simp: List.map_filter_def)

lemma queue_info_sends_below: "sends_below h m (debug_info t m)"
  by (auto simp: debug_info_def queue_info_def sends_below_same intro!: sends_below_perform)


lemma api_update_sends_below: "sends_below h m (snd (api_update e si m))"
  by (auto simp: api_update_def api_create_def bindR_def api_get_opt_def kube_replace_def kube_create_def
      split: sum.splits option.splits intro!: sends_below_trans [OF sends_below_perform sends_below_perform]
      sends_below_trans [OF sends_below_trans [OF sends_below_perform sends_below_perform] sends_below_perform]
      sends_below_perform)

lemma sends_below_trace: "sends_below h m m' \<Longrightarrow> trace n = trace m \<Longrightarrow> trace n' = trace m' \<Longrightarrow> sends_below h n n'"
  by (simp add: sends_below_def)

lemma debug_sends_below: "trace n = trace m \<Longrightarrow> sends_below h m (debug_info t n)"
  by (rule sends_below_trace [OF queue_info_sends_below]) simp_all

lemma activated_sends_below: "sends_below h m (snd (activated_service_user e su ns n m))"
proof (cases "identity (ServiceLookup_new ns n None) (provider m)")
  case (Some si)
  then have "trace (snd (activated_service_user e su ns n m)) = trace (snd (api_update e (si_set_user su si) m))"
    by (auto simp: activated_service_user_def Let_def split: prod.splits res.splits)
  then show ?thesis by (rule sends_below_trace [OF api_update_sends_below refl])
qed (simp add: activated_service_user_def sends_below_same)

lemma candidate_sends_below:
  "sends_below h m (snd (found_service_candidate e c m))" "sends_below h m (snd (found_service_user su a m))"
  by (auto simp: found_service_candidate_def found_service_user_def Let_def sends_below_same
      split: res.splits option.splits intro: sends_below_trace [OF queue_info_sends_below refl] debug_sends_below)

lemma notify_ready_sends_below: "trace n = trace m \<Longrightarrow> sends_below 3 m (snd (notify_ready e n))"
  by (rule sends_below_trace [OF sends_below_perform [of "SendSelf IdentityManagerReady" _ n]])
    (auto simp: notify_ready_def send_self_def split: sum.splits)

lemma ready_signals_sends_below:
  "sends_below 3 m (snd (identity_creator_ready e m))" "sends_below 3 m (snd (deployment_watcher_ready e m))"
  by (auto simp: identity_creator_ready_def deployment_watcher_ready_def Let_def sends_below_same
      intro: notify_ready_sends_below)

lemma deleted_sends_below: "sends_below 3 m (snd (deleted_service_candidate e c m))"
  by (auto simp: deleted_service_candidate_def Let_def send_self_def sends_below_same
      split: res.splits option.splits intro!: sends_below_perform)

lemma release_sends_below: "sends_below 2 m (snd (release_device_id e l u m))"
proof (cases "identity l (provider m)")
  case (Some si)
  define m1 where "m1 = m\<lparr>provider := (provider m)\<lparr>services := AList.update (lookup_id l)
    (add_device_id (e_uuid_to_string e u) si) (services (provider m))\<rparr>\<rparr>"
  define m2 where "m2 = snd (api_update e (add_device_id (e_uuid_to_string e u) si) m1)"
  have m2: "sends_below 2 m m2"
    unfolding m2_def by (rule sends_below_trace [OF api_update_sends_below]) (simp_all add: m1_def)
  have "sends_below 2 m2 (perform (SendCreator (CreatorReleaseDeviceId su u)) m2)" for su
    by (rule sends_below_perform) auto
  then have "sends_below 2 m (perform (SendCreator (CreatorReleaseDeviceId su u)) m2)" for su
    by (rule sends_below_trans [OF m2])
  with Some m2 show ?thesis
    by (auto simp: release_device_id_def lookup_service_id_lookup_id Let_def send_creator_def m1_def m2_def
        split: prod.splits res.splits sum.splits)
qed (simp add: release_device_id_def lookup_service_id_lookup_id sends_below_same)

lemma handle_sends_below: "sends_below (manager_height msg) m (snd (handle e msg m))"
  by (cases msg) (simp_all add: serves_sends_below serves_delete serves_request conjunct1 [OF iffD1 [OF serving_def serving_ready]]
      activated_sends_below candidate_sends_below ready_signals_sends_below deleted_sends_below
      release_sends_below sends_below_same)


lemma open_channels [simp]: "channels_open (open_env e)"
  by (simp add: channels_open_def open_env_def)

lemma manager_handles:
  obtains r m' where "handle (open_env e) msg m = (r, m')" and "\<not> panics r" and "sends_below (manager_height msg) m m'"
proof -
  obtain r m' where h: "handle (open_env e) msg m = (r, m')" by fastforce
  have "\<not> panics r" using handle_no_panic [OF open_channels, of e msg m] h by (cases r) auto
  then show thesis using that [OF h] handle_sends_below [of msg m "open_env e"] h by simp
qed

section \<open>What the creator reports\<close>

lemma reports_sent: "List.map_filter report_of acts = concat (map sent_msg acts)"
proof (induction acts)
  case (Cons a acts)
  then show ?case by (cases a) (simp_all add: List.map_filter_def)
qed (simp add: List.map_filter_def)

lemma reports_eq_sent: "reports c = sent c"
  by (simp add: reports_def sent_def reports_sent)

lemma creator_output_append: "sent c' = sent c @ msgs \<Longrightarrow> creator_output c c' = msgs"
  by (simp add: creator_output_def reports_eq_sent)

lemma manager_height_less: "manager_height msg < 4"
  by (cases msg) simp_all

lemma creator_height_pos: "0 < creator_height msg"
  by (cases msg) simp_all

lemma reply_ok_height: "reply_ok msg msgs \<Longrightarrow> rep \<in> set msgs \<Longrightarrow> manager_height rep = 0"
proof (induction msg msgs rule: reply_ok.induct)
  case (1 su cl ns nm ls msgs)
  then obtain x where "msgs = [x]" by auto
  with 1 show ?case by (cases x) auto
next
  case (2 msgs)
  then show ?case by (cases rep) (auto simp: list_all_iff)
qed auto

lemma creator_handles:
  assumes "creator_ok n c"
  obtains r c' where "creator_handle w msg c = (r, c')" and "creator_ok n c'"
    and "\<forall>rep \<in> set (creator_output c c'). manager_height rep = 0"
proof (cases "names_ok msg")
  case True
  then show thesis
    using creator_handle_reply [OF assms True, of w] that creator_output_append reply_ok_height by blast
next
  case False
  then obtain su cl ns nm ls where msg: "msg = ActivateServiceUser su cl ns nm ls" by (cases msg) auto
  with False have "creator_handle w msg c = (Panic ''assertion failed: self.is_char_boundary(new_len)'', c)"
    by (simp add: activate_service_user_def get_service_username_def)
  then show thesis using that assms creator_output_append [of c c "[]"] by simp
qed

lemma announcement_sent: "\<forall>a \<in> set acts. announcement a \<Longrightarrow> count_list (concat (map sent_msg acts)) IdentityCreatorReady = 0"
proof (induction acts)
  case (Cons a acts)
  moreover have "announcement a \<Longrightarrow> count_list (sent_msg a) IdentityCreatorReady = 0"
    by (cases a rule: announcement.cases) auto
  ultimately show ?case by simp
qed simp

lemma creator_begins:
  assumes ok: "creator_ok n c"
  obtains r c' where "creator_begin w c = (r, c')" and "creator_ok n c'"
    and "count_list (creator_output c c') IdentityCreatorReady \<le> 1"
proof -
  obtain r c1 where c1: "creator_initialize w c = (r, c1)" by fastforce
  obtain acts where acts: "done_actions c1 = done_actions c @ acts" "\<forall>a \<in> set acts. announcement a"
    using creator.sound_trace [OF sound_initialize ok] c1 by (metis snd_conv)
  have ok1: "creator_ok n c1" using creator.sound_alive [OF sound_initialize ok, of w] c1 by simp
  define more where "more = concat (map sent_msg acts)"
  have sent1: "sent c1 = sent c @ more" by (simp add: sent_def acts(1) more_def)
  have none: "count_list more IdentityCreatorReady = 0" unfolding more_def by (rule announcement_sent [OF acts(2)])
  show thesis
  proof (cases r)
    case (Ok url)
    obtain r2 c2 where c2: "send_manager w IdentityCreatorReady c1 = (r2, c2)" by fastforce
    have "sent c2 = sent c @ more @ [IdentityCreatorReady]"
      using send_manager_sent [of w IdentityCreatorReady c1] c2 sent1 by simp
    then show thesis
      using that [of r2 c2] c1 c2 Ok none send_manager_done(2) [OF c2 ok1] creator_output_append [of c2 c]
      by (simp add: creator_begin_def bindR_def)
  qed (use that c1 ok1 none creator_output_append [OF sent1] in \<open>auto simp: creator_begin_def bindR_def\<close>)
qed

section \<open>The messages die out\<close>

text \<open>The messages in flight, by their heights; one that is still to be sent counts more than one in a channel.\<close>

definition load :: "net \<Rightarrow> nat multiset" where
  "load s =
     image_mset (\<lambda>msg. 2 * manager_height msg) (mset (manager_rx s)) +
     image_mset (\<lambda>o'. 2 * outgoing_height o' + 1) (mset (manager_pending s)) +
     image_mset (\<lambda>msg. 2 * creator_height msg) (mset (creator_rx s)) +
     image_mset (\<lambda>msg. 2 * manager_height msg + 1) (mset (creator_pending s)) +
     (if exited s then {#} else {#0#})"

definition lighter :: "(nat multiset \<times> nat multiset) set" where
  "lighter = mult less_than"

lemma wf_lighter: "wf lighter"
  by (simp add: lighter_def wf_mult)

lemma lighterI: "N = I + {#x#} \<Longrightarrow> M = I + K \<Longrightarrow> (\<And>k. k \<in># K \<Longrightarrow> k < x) \<Longrightarrow> (M, N) \<in> lighter"
  using one_step_implies_mult [of "{#x#}" K less_than I] by (simp add: lighter_def)

lemma manager_take_lighter:
  assumes "manager_take e s = Some t"
  shows "(load t, load s) \<in> lighter \<and> creator_task t = creator_task s"
proof -
  from assms obtain msg q where s: "\<not> exited s" "manager_pending s = []" "manager_rx s = msg # q"
    by (auto simp: manager_take_def split: if_splits list.splits)
  obtain r m' where h: "handle (open_env e) msg (manager_task s) = (r, m')"
    and below: "sends_below (manager_height msg) (manager_task s) m'"
    using manager_handles by metis
  have t: "t = s\<lparr>manager_task := m', manager_rx := q, manager_pending := manager_output (manager_task s) m',
      manager_panicked := panics r\<rparr>"
    using assms s h by (auto simp: manager_take_def split: if_splits)
  have "(load t, load s) \<in> lighter"
    by (rule lighterI [where x = "2 * manager_height msg"
          and K = "image_mset (\<lambda>o'. 2 * outgoing_height o' + 1) (mset (manager_output (manager_task s) m'))"])
      (use sends_below_output [OF below] s in \<open>auto simp: t load_def\<close>, fastforce)
  then show ?thesis by (simp add: t)
qed

lemma creator_take_lighter:
  assumes "creator_take w s = Some t" and ok: "creator_ok n (creator_task s)"
  shows "(load t, load s) \<in> lighter \<and> creator_ok n (creator_task t)"
proof -
  from assms obtain msg q where s: "\<not> exited s" "creator_pending s = []" "creator_rx s = msg # q"
    by (auto simp: creator_take_def split: if_splits list.splits)
  have step: "(load t, load s) \<in> lighter \<and> creator_ok n (creator_task t)" if t: "creator_rx t = q" "manager_rx t = manager_rx s" "manager_pending t = manager_pending s"
      "exited t = exited s" "creator_ok n (creator_task t)"
      and below: "\<forall>rep \<in> set (creator_pending t). manager_height rep < creator_height msg" for t :: net
  proof -
    have "(load t, load s) \<in> lighter"
      by (rule lighterI [where x = "2 * creator_height msg"
            and I = "image_mset (\<lambda>msg. 2 * manager_height msg) (mset (manager_rx s)) +
              image_mset (\<lambda>o'. 2 * outgoing_height o' + 1) (mset (manager_pending s)) +
              image_mset (\<lambda>msg. 2 * creator_height msg) (mset q) + {#0#}" and K = "image_mset (\<lambda>msg. 2 * manager_height msg + 1) (mset (creator_pending t))"])
        (use below s t in \<open>auto simp: load_def dest: bspec\<close>)
    then show ?thesis using t by simp
  qed
  obtain r c' where h: "creator_handle (open_world w) msg (creator_task s) = (r, c')" "creator_ok n c'"
    "\<forall>rep \<in> set (creator_output (creator_task s) c'). manager_height rep < creator_height msg"
    using creator_height_pos creator_handles [OF ok] by metis
  obtain r2 c2 where b: "creator_begin (open_world w) (creator_task s) = (r2, c2)" "creator_ok n c2"
    using creator_begins [OF ok] by metis
  show ?thesis
    by (rule step) (use assms(1) s h b ok manager_height_less in \<open>auto simp: creator_take_def split: if_splits\<close>)
qed

lemma sends_lighter:
  "manager_send s = Some t \<Longrightarrow> (load t, load s) \<in> lighter" "creator_send s = Some t \<Longrightarrow> (load t, load s) \<in> lighter"
  "panic_hook s = Some t \<Longrightarrow> (load t, load s) \<in> lighter"
proof -
  have I: "(add_mset x I, add_mset (Suc x) I) \<in> lighter" for I :: "nat multiset" and x :: nat
    by (rule lighterI [of _ I "Suc x" _ "{#x#}"]) simp_all
  from this have I0: "(add_mset 0 (add_mset x I), add_mset 0 (add_mset (Suc x) I)) \<in> lighter"
    for I :: "nat multiset" and x :: nat
    by (simp add: add_mset_commute [of 0])
  have J: "(I, add_mset x I) \<in> lighter" for I :: "nat multiset" and x :: nat
    by (rule lighterI [of _ I x _ "{#}"]) simp_all
  show "manager_send s = Some t \<Longrightarrow> (load t, load s) \<in> lighter"
    by (auto simp: manager_send_def load_def split: if_splits list.splits outgoing.splits)
      (use I0 in \<open>simp_all add: ac_simps\<close>)
  show "creator_send s = Some t \<Longrightarrow> (load t, load s) \<in> lighter"
    by (auto simp: creator_send_def load_def split: if_splits list.splits)
      (use I0 in \<open>simp_all add: ac_simps\<close>)
  show "panic_hook s = Some t \<Longrightarrow> (load t, load s) \<in> lighter"
    by (auto simp: panic_hook_def load_def split: if_splits)
      (use J in \<open>simp_all add: ac_simps\<close>)
qed


lemma task_step_lighter:
  assumes "task_step e w s t" and "creator_ok n (creator_task s)"
  shows "(load t, load s) \<in> lighter \<and> creator_ok n (creator_task t)"
  using assms
proof cases
  case m_take
  then show ?thesis using manager_take_lighter assms(2) by simp
next
  case c_take
  then show ?thesis by (rule creator_take_lighter) (rule assms(2))
next
  case m_send
  moreover from this have "creator_task t = creator_task s"
    by (auto simp: manager_send_def split: if_splits list.splits outgoing.splits)
  ultimately show ?thesis using sends_lighter(1) assms(2) by simp
next
  case c_send
  moreover from this have "creator_task t = creator_task s"
    by (auto simp: creator_send_def split: if_splits list.splits)
  ultimately show ?thesis using sends_lighter(2) assms(2) by simp
next
  case hook
  moreover from this have "creator_task t = creator_task s"
    by (auto simp: panic_hook_def split: if_splits)
  ultimately show ?thesis using sends_lighter(3) assms(2) by simp
qed


lemma steps_from:
  assumes "\<forall>i. task_step e w (f i) (f (Suc i))" and "creator_ok n (creator_task (f 0))"
  shows "creator_ok n (creator_task (f i))"
  by (induction i) (use assms task_step_lighter in blast)+

text \<open>
  C10: The tasks do not keep each other busy: without new messages from the watchers the manager and the
  creator stop, whatever the cluster and the controller answer. There is no endless sequence of steps in
  which they take messages, send the messages this causes, and exit on a panic.\<close>
theorem messages_die_out:
  assumes "creator_ok n (creator_task s)"
  shows "\<nexists>f. f 0 = s \<and> (\<forall>i. task_step e w (f i) (f (Suc i)))"
proof
  assume "\<exists>f. f 0 = s \<and> (\<forall>i. task_step e w (f i) (f (Suc i)))"
  then obtain f where f: "f 0 = s" "\<forall>i. task_step e w (f i) (f (Suc i))" by blast
  then have "\<exists>g. \<forall>i. (g (Suc i), g i) \<in> lighter"
    using steps_from [of e w f n] task_step_lighter assms by (intro exI [of _ "\<lambda>i. load (f i)"]) blast
  then show False using wf_lighter unfolding wf_iff_no_infinite_down_chain by blast
qed

theorem messages_die_out_witness:
  "\<nexists>f. f 0 = net_start calm sample_manager sample_creator \<and> (\<forall>i. task_step calm sample_world (f i) (f (Suc i)))"
  by (rule messages_die_out [of 2]) (simp add: net_start_def sample_creator_ok split: prod.split)

section \<open>Standing still\<close>

text \<open>
  Nothing to do; the manager waiting for room in its own full channel; the manager and the creator each
  waiting for room in the full channel of the other.
\<close>

definition idle :: "net \<Rightarrow> bool" where
  "idle s \<longleftrightarrow> manager_rx s = [] \<and> manager_pending s = [] \<and> creator_rx s = [] \<and> creator_pending s = []"

fun waits_for_manager :: "outgoing list \<Rightarrow> bool" where
  "waits_for_manager (ToManager msg # rest) = True"
| "waits_for_manager _ = False"

definition self_blocked :: "net \<Rightarrow> bool" where
  "self_blocked s \<longleftrightarrow> waits_for_manager (manager_pending s) \<and> CHANNEL_SIZE \<le> length (manager_rx s)"

definition mutually_blocked :: "net \<Rightarrow> bool" where
  "mutually_blocked s \<longleftrightarrow>
     manager_pending s \<noteq> [] \<and> \<not> waits_for_manager (manager_pending s) \<and> CHANNEL_SIZE \<le> length (creator_rx s) \<and>
     creator_pending s \<noteq> [] \<and> CHANNEL_SIZE \<le> length (manager_rx s)"

lemma manager_send_None: "manager_send s = None \<longleftrightarrow>
    exited s \<or> manager_pending s = [] \<or>
    (if waits_for_manager (manager_pending s) then CHANNEL_SIZE \<le> length (manager_rx s)
     else CHANNEL_SIZE \<le> length (creator_rx s))"
proof (cases "manager_pending s")
  case (Cons o' rest)
  then show ?thesis by (cases o') (auto simp: manager_send_def)
qed (simp add: manager_send_def)

lemma creator_send_None: "creator_send s = None \<longleftrightarrow>
    exited s \<or> creator_pending s = [] \<or> CHANNEL_SIZE \<le> length (manager_rx s)"
  by (auto simp: creator_send_def split: list.splits)

lemma manager_take_None: "manager_take e s = None \<longleftrightarrow>
    exited s \<or> manager_panicked s \<or> manager_pending s \<noteq> [] \<or> manager_rx s = []"
  by (auto simp: manager_take_def split: list.splits prod.splits)

lemma creator_take_None: "creator_take w s = None \<longleftrightarrow>
    exited s \<or> creator_panicked s \<or> creator_pending s \<noteq> [] \<or> creator_rx s = []"
  by (auto simp: creator_take_def split: list.splits prod.splits)

lemma panic_hook_None: "panic_hook s = None \<longleftrightarrow>
    exited s \<or> \<not> (manager_panicked s \<and> manager_pending s = []) \<and> \<not> (creator_panicked s \<and> creator_pending s = [])"
  by (auto simp: panic_hook_def)

lemmas no_step_simps = manager_send_None creator_send_None manager_take_None creator_take_None panic_hook_None

lemma no_task_step: "(\<nexists>t. task_step e w s t) \<longleftrightarrow>
    manager_take e s = None \<and> manager_send s = None \<and> creator_take w s = None \<and> creator_send s = None \<and> panic_hook s = None"
  unfolding task_step.simps by (metis not_None_eq)

lemma standing_still:
  assumes "\<nexists>t. task_step e w s t"
  shows "exited s \<or> idle s \<or> self_blocked s \<or> mutually_blocked s"
proof -
  have pos: "CHANNEL_SIZE > 0" by (simp add: CHANNEL_SIZE_def)
  show ?thesis
    using assms pos unfolding no_task_step no_step_simps idle_def self_blocked_def mutually_blocked_def
    by (cases "manager_pending s") (auto split: if_splits)
qed

lemma blocked_step:
  assumes "self_blocked s \<or> mutually_blocked s" and "net_step e w s t"
  shows "manager_task t = manager_task s \<and> manager_rx t = manager_rx s \<and> (self_blocked t \<or> mutually_blocked t)"
  using assms(2,1)
  by (auto elim!: net_step.cases task_step.cases simp: self_blocked_def mutually_blocked_def
      manager_take_def manager_send_def creator_send_def creator_take_def panic_hook_def watcher_send_def
      split: if_splits list.splits outgoing.splits prod.splits)

lemma blocked_forever:
  assumes "(net_step e w)\<^sup>*\<^sup>* s t" and "self_blocked s \<or> mutually_blocked s"
  shows "manager_task t = manager_task s \<and> manager_rx t = manager_rx s \<and> (self_blocked t \<or> mutually_blocked t)"
  using assms by (induction rule: rtranclp_induct) (use blocked_step in metis)+


lemma settles:
  assumes "creator_ok n (creator_task s)"
  shows "\<exists>t. (task_step e w)\<^sup>*\<^sup>* s t \<and> (\<nexists>u. task_step e w t u)"
  using assms
proof (induction s rule: wf_induct_rule [OF wf_inv_image [OF wf_lighter, of load]])
  case (1 s)
  show ?case
  proof (cases "\<exists>t. task_step e w s t")
    case True
    then obtain t where t: "task_step e w s t" by blast
    then obtain u where "(task_step e w)\<^sup>*\<^sup>* t u" "\<nexists>v. task_step e w u v"
      using 1(1) [of t] task_step_lighter [OF t 1(2)] by (auto simp: inv_image_def)
    with t show ?thesis by (meson converse_rtranclp_into_rtranclp)
  qed blast
qed

text \<open>
  C12: From every state the manager and the creator come to a standstill by themselves, and then the process
  has exited, or all messages were handled and sent, or the manager waits for room in its own full
  channel, or the manager and the creator each wait for room in the other's full channel. There is no
  other way to stop.\<close>
theorem service_settles:
  assumes "creator_ok n (creator_task s)"
  shows "\<exists>t. (task_step e w)\<^sup>*\<^sup>* s t \<and> (\<nexists>u. task_step e w t u) \<and>
     (exited t \<or> idle t \<or> self_blocked t \<or> mutually_blocked t)"
  using settles [OF assms, of e w] standing_still by blast

theorem service_settles_witness:
  "\<exists>t. (task_step calm sample_world)\<^sup>*\<^sup>* (net_start calm sample_manager sample_creator) t \<and>
     (\<nexists>u. task_step calm sample_world t u) \<and> (exited t \<or> idle t \<or> self_blocked t \<or> mutually_blocked t)"
  by (rule service_settles [of 2]) (simp add: net_start_def sample_creator_ok split: prod.split)

section \<open>The manager blocks itself\<close>

lemma watchers_fill:
  assumes "\<not> exited s" and "list_all from_watcher ms" and "length (manager_rx s) + length ms \<le> CHANNEL_SIZE"
  shows "(net_step e w)\<^sup>*\<^sup>* s (s\<lparr>manager_rx := manager_rx s @ ms\<rparr>)"
  using assms
proof (induction ms arbitrary: s)
  case (Cons msg ms)
  let ?t = "s\<lparr>manager_rx := manager_rx s @ [msg]\<rparr>"
  have "net_step e w s ?t"
    using Cons.prems by (intro net_step.watcher [of msg]) (simp add: watcher_send_def)
  moreover have "(net_step e w)\<^sup>*\<^sup>* ?t (?t\<lparr>manager_rx := manager_rx ?t @ ms\<rparr>)"
    by (rule Cons.IH) (use Cons.prems in auto)
  ultimately show ?case by (auto intro: converse_rtranclp_into_rtranclp)
qed simp

lemma deleted_candidate_sends:
  assumes "named_candidate c" and "candidate_namespace c = Some ns" and "candidate_labels [] c = Ok ls"
    and "provider_lookup (provider m) (ns @ ''_'' @ candidate_name [] c) = Some si"
  shows "deleted_service_candidate (open_env e) c m = (Ok (), perform (SendSelf (DeleteServiceIdentity si)) m)"
  using assms(4) candidate_lookup_named [OF assms(1-3)]
  by (simp add: deleted_service_candidate_def identity_lookup lookup_id_def send_self_def open_env_def Let_def)

text \<open>
  C14: The manager can block itself. When 51 messages of the watchers reach an idle manager, the first of
  them the deletion of a candidate that has an identity, then the manager can be stopped for good: it
  waits to send itself the order to delete the identity, its channel is full of the 50 other messages,
  and whatever happens later it handles none of them.\<close>
theorem deletion_blocks_manager:
  assumes "\<not> exited s" "\<not> manager_panicked s" "manager_pending s = []" "manager_rx s = []"
    and c: "named_candidate c" "candidate_namespace c = Some ns" "candidate_labels [] c = Ok ls"
    and si: "provider_lookup (provider (manager_task s)) (ns @ ''_'' @ candidate_name [] c) = Some si"
    and ms: "list_all from_watcher ms" "length ms = CHANNEL_SIZE"
  shows "\<exists>t. (net_step e w)\<^sup>*\<^sup>* s t \<and> manager_pending t = [ToManager (DeleteServiceIdentity si)] \<and> manager_rx t = ms \<and>
     (\<forall>u. (net_step e w)\<^sup>*\<^sup>* t u \<longrightarrow> manager_task u = manager_task t \<and> manager_rx u = ms)"
proof -
  obtain ms' msg where ms': "ms = ms' @ [msg]"
    using ms(2) by (cases ms rule: rev_cases) (auto simp: CHANNEL_SIZE_def)
  define s1 where "s1 = s\<lparr>manager_rx := DeletedServiceCandidate c # ms'\<rparr>"
  define s2 where "s2 = s1\<lparr>manager_task := perform (SendSelf (DeleteServiceIdentity si)) (manager_task s),
    manager_rx := ms', manager_pending := [ToManager (DeleteServiceIdentity si)]\<rparr>"
  define t where "t = s2\<lparr>manager_rx := ms\<rparr>"
  have "(net_step e w)\<^sup>*\<^sup>* s s1"
    using watchers_fill [of s "DeletedServiceCandidate c # ms'" e w] assms ms' by (simp add: s1_def)
  moreover have "manager_take e s1 = Some s2"
    using assms deleted_candidate_sends [OF c si]
    by (simp add: manager_take_def s1_def s2_def manager_output_def outgoings_def perform_def map_filter_append
        List.map_filter_def)
  then have "net_step e w s1 s2" by (intro net_step.task task_step.m_take)
  moreover have "(net_step e w)\<^sup>*\<^sup>* s2 t"
    using watchers_fill [of s2 "[msg]" e w] assms ms' by (simp add: s1_def s2_def t_def)
  ultimately have "(net_step e w)\<^sup>*\<^sup>* s t" by (meson rtranclp.rtrancl_into_rtrancl rtranclp_trans)
  moreover have "self_blocked t" "manager_rx t = ms" "manager_pending t = [ToManager (DeleteServiceIdentity si)]"
    using ms(2) by (simp_all add: t_def s2_def self_blocked_def)
  ultimately show ?thesis using blocked_forever [of e w t] by blast
qed


definition served_identity :: ServiceIdentity where
  "served_identity = identity_for (ServiceLookup_new ''shop'' ''web'' (Some sample_labels)) ''shop-web'' (sample_user ''a'')"

definition served_manager :: IdentityManager where
  "served_manager = sample_manager\<lparr>provider := register_or_update_identity
     served_identity provider_default\<rparr>"

definition served_net :: net where
  "served_net = (net_start calm served_manager sample_creator)\<lparr>manager_pending := []\<rparr>"

lemma served_net_sels [simp]:
  "\<not> exited served_net" "\<not> manager_panicked served_net" "manager_pending served_net = []" "manager_rx served_net = []"
  "provider_wf (provider (manager_task served_net))" "\<not> has_external_queue (manager_task served_net)"
  "provider_lookup (provider (manager_task served_net)) ''shop_web'' =
     Some served_identity"
proof -
  have "open_env calm = calm" by (simp add: open_env_def calm_def)
  then have init: "initialize (open_env calm) served_manager =
      (Ok (), perform (SendCreator StartService) (perform ApiList served_manager))"
    by (simp add: initialize_eq [where xs = "[]"] channels_open_def calm_def queue_info_def perform_def served_manager_def
        sample_manager_def)
  then show "\<not> exited served_net" "\<not> manager_panicked served_net" "manager_pending served_net = []" "manager_rx served_net = []"
    "\<not> has_external_queue (manager_task served_net)"
    by (simp_all add: served_net_def net_start_def served_manager_def sample_manager_def perform_def)
  show "provider_wf (provider (manager_task served_net))"
    using init by (simp add: served_net_def net_start_def served_manager_def perform_def cred.invar_register)
  show "provider_lookup (provider (manager_task served_net)) ''shop_web'' =
     Some served_identity"
    using init by (simp add: served_net_def net_start_def served_manager_def sample_candidate_facts perform_def
        cred.lookup_register lookup_id_def served_identity_def)
qed

theorem deletion_blocks_manager_witness:
  "\<exists>t. (net_step calm sample_world)\<^sup>*\<^sup>* served_net t \<and>
     manager_pending t = [ToManager (DeleteServiceIdentity served_identity)] \<and>
     manager_rx t = replicate 50 (DeletedServiceCandidate sample_candidate) \<and>
     (\<forall>u. (net_step calm sample_world)\<^sup>*\<^sup>* t u \<longrightarrow>
        manager_task u = manager_task t \<and> manager_rx u = replicate 50 (DeletedServiceCandidate sample_candidate))"
  by (rule deletion_blocks_manager [OF _ _ _ _ sample_candidate_facts(1-3)])
    (simp_all add: list_all_iff CHANNEL_SIZE_def sample_candidate_facts)

section \<open>The manager's task is a run of the manager\<close>

lemma run_more:
  assumes "\<not> panics (fst (run E msgs m))" and "handle E msg (snd (run E msgs m)) = (r, m')" and "\<not> panics r"
  shows "snd (run E (msgs @ [msg]) m) = m' \<and> \<not> panics (fst (run E (msgs @ [msg]) m))"
proof -
  obtain r0 m0 where i: "initialize E m = (r0, m0)" by fastforce
  with assms(1) have "run E msgs m = for_each (handle E) msgs m0" "run E (msgs @ [msg]) m = for_each (handle E) (msgs @ [msg]) m0"
    by (cases r0; simp add: run_def)+
  with assms show ?thesis
    by (cases "for_each (handle E) msgs m0"; cases "fst (for_each (handle E) msgs m0)"; cases r)
      (auto simp: for_each_append)
qed

lemma report_heights: "\<forall>rep \<in> set reps. manager_height rep = 0 \<Longrightarrow> count_list reps IdentityCreatorReady = 0"
  by (induction reps) auto

definition follows_run :: "im_env \<Rightarrow> IdentityManager \<Rightarrow> nat \<Rightarrow> IdentityManagerProtocol list \<Rightarrow> net \<Rightarrow> bool" where
  "follows_run e m n msgs s \<longleftrightarrow>
     creator_ok n (creator_task s) \<and> manager_task s = snd (run (open_env e) msgs m) \<and>
     (panics (fst (run (open_env e) msgs m)) \<longrightarrow> manager_panicked s) \<and>
     ToManager IdentityCreatorReady \<notin> set (manager_pending s) \<and>
     count_list (msgs @ manager_rx s @ creator_pending s) IdentityCreatorReady \<le> (if creator_started s then 1 else 0)"

lemma follows_take:
  assumes "follows_run e m n msgs s" and "manager_take e s = Some t"
  shows "\<exists>msgs'. follows_run e m n msgs' t"
proof -
  from assms(2) obtain msg q where s: "\<not> manager_panicked s" "manager_pending s = []" "manager_rx s = msg # q"
    by (auto simp: manager_take_def split: if_splits list.splits)
  obtain r m' where h: "handle (open_env e) msg (manager_task s) = (r, m')" "\<not> panics r"
    and below: "sends_below (manager_height msg) (manager_task s) m'"
    using manager_handles by metis
  have t: "t = s\<lparr>manager_task := m', manager_rx := q, manager_pending := manager_output (manager_task s) m',
      manager_panicked := panics r\<rparr>"
    using assms(2) s h by (auto simp: manager_take_def split: if_splits)
  have "manager_height msg \<le> 3" using manager_height_less [of msg] by simp
  then have "ToManager IdentityCreatorReady \<notin> set (manager_output (manager_task s) m')"
    using sends_below_output [OF below] by fastforce
  moreover have "snd (run (open_env e) (msgs @ [msg]) m) = m' \<and> \<not> panics (fst (run (open_env e) (msgs @ [msg]) m))"
    using run_more [of "open_env e" msgs m msg r m'] assms(1) s h by (simp add: follows_run_def)
  ultimately have "follows_run e m n (msgs @ [msg]) t"
    using assms(1) s h by (simp add: follows_run_def t)
  then show ?thesis by blast
qed

lemma follows_creator_take:
  assumes "follows_run e m n msgs s" and "creator_take w s = Some t"
  shows "follows_run e m n msgs t"
proof -
  have ok: "creator_ok n (creator_task s)" using assms(1) by (simp add: follows_run_def)
  obtain msg q where s: "creator_pending s = []" "creator_rx s = msg # q"
    using assms(2) by (auto simp: creator_take_def split: if_splits list.splits)
  obtain r c' where h: "creator_handle (open_world w) msg (creator_task s) = (r, c')" "creator_ok n c'"
    "\<forall>rep \<in> set (creator_output (creator_task s) c'). manager_height rep = 0"
    using creator_handles [OF ok] by metis
  obtain r2 c2 where b: "creator_begin (open_world w) (creator_task s) = (r2, c2)" "creator_ok n c2"
    "count_list (creator_output (creator_task s) c2) IdentityCreatorReady \<le> 1"
    using creator_begins [OF ok] by metis
  show ?thesis
    using assms s h(1,2) b report_heights [OF h(3)]
    by (auto simp: follows_run_def creator_take_def split: if_splits)
qed

lemma follows_sends:
  assumes "follows_run e m n msgs s"
  shows "manager_send s = Some t \<Longrightarrow> follows_run e m n msgs t" "creator_send s = Some t \<Longrightarrow> follows_run e m n msgs t"
    "panic_hook s = Some t \<Longrightarrow> follows_run e m n msgs t" "watcher_send msg s = Some t \<Longrightarrow> follows_run e m n msgs t"
  using assms
  by (auto simp: follows_run_def manager_send_def creator_send_def panic_hook_def watcher_send_def
      split: if_splits list.splits outgoing.splits)

lemma follows_step:
  assumes "net_step e w s t" and "\<exists>msgs. follows_run e m n msgs s"
  shows "\<exists>msgs. follows_run e m n msgs t"
  using assms(1)
proof cases
  case task
  then show ?thesis
    using assms(2) by cases (metis follows_take, metis follows_sends(1), metis follows_creator_take,
        metis follows_sends(2), metis follows_sends(3))
next
  case (watcher msg)
  then show ?thesis using assms(2) follows_sends(4) by metis
qed

lemma follows_start:
  assumes "creator_ok n c"
  shows "follows_run e m n [] (net_start e m c)"
proof -
  obtain r m' where i: "initialize (open_env e) m = (r, m')" by fastforce
  have "ToManager IdentityCreatorReady \<notin> set (manager_output m m')"
  proof -
    have "manager_output m m' = [] \<or> manager_output m m' = [ToCreator StartService]"
      using i by (auto simp: initialize_def api_list_def queue_info_def perform_def send_creator_def Let_def
          manager_output_def outgoings_def map_filter_append open_env_def List.map_filter_def split: sum.splits)
    then show ?thesis by auto
  qed
  with i assms show ?thesis by (cases r) (simp_all add: follows_run_def net_start_def run_def)
qed

lemma follows_steps:
  assumes "creator_ok n c" and "(net_step e w)\<^sup>*\<^sup>* (net_start e m c) s"
  shows "\<exists>msgs. follows_run e m n msgs s"
  using assms(2) by (induction rule: rtranclp_induct) (use follows_start [OF assms(1)] follows_step in blast)+


text \<open>
  C11: In the assembled service the manager behaves as its message loop run on some sequence of messages, in
  which the creator reports ready at most once, however the tasks and the watchers interleave. So, when
  the two watchers report ready at most twice, the manager has declared itself ready at most once.\<close>
theorem service_runs_manager:
  assumes "IdentityManager_new cl ext = Ok m" and "e_list e (trace m) = Inr xs" and "creator_ok n c"
    and "(net_step e w)\<^sup>*\<^sup>* (net_start e m c) s"
  shows "\<exists>msgs. manager_task s = snd (run (open_env e) msgs m) \<and> count_list msgs IdentityCreatorReady \<le> 1 \<and>
     (count_list msgs DeploymentWatcherReady \<le> 2 \<longrightarrow> readies (trace (manager_task s)) \<le> 1)"
proof -
  obtain msgs where f: "follows_run e m n msgs s" using follows_steps [OF assms(3,4)] by blast
  have run: "manager_task s = snd (run (open_env e) msgs m)" using f by (simp add: follows_run_def)
  have "count_list msgs IdentityCreatorReady + k \<le> (if b then 1 else 0) \<Longrightarrow> count_list msgs IdentityCreatorReady \<le> 1"
    for k :: nat and b by (cases b) simp_all
  then have one: "count_list msgs IdentityCreatorReady \<le> 1"
    using f unfolding follows_run_def count_list_append by blast
  have "e_list (open_env e) (trace m) = Inr xs" using assms(2) by (simp add: open_env_def)
  then have "count_list msgs DeploymentWatcherReady \<le> 2 \<Longrightarrow> readies (trace (manager_task s)) \<le> 1"
    using run_readies [OF assms(1) open_channels _ one] run by simp
  with run one show ?thesis by blast
qed

theorem service_runs_manager_witness:
  "\<exists>msgs. manager_task (the (manager_send (net_start calm sample_manager sample_creator))) = snd (run (open_env calm) msgs sample_manager) \<and>
     count_list msgs IdentityCreatorReady \<le> 1 \<and>
     (count_list msgs DeploymentWatcherReady \<le> 2 \<longrightarrow>
        readies (trace (manager_task (the (manager_send (net_start calm sample_manager sample_creator))))) \<le> 1)"
proof (rule service_runs_manager [OF sample_manager_new calm_open(3) sample_creator_ok])
  have "initialize (open_env calm) sample_manager =
      (Ok (), perform (SendCreator StartService) (perform ApiList sample_manager))"
    by (simp add: initialize_eq [where xs = "[]"] open_env_def channels_open_def calm_def queue_info_def perform_def sample_manager_def)
  then have "manager_send (net_start calm sample_manager sample_creator) \<noteq> None"
    by (simp add: manager_send_def net_start_def manager_output_def outgoings_def List.map_filter_def perform_def
        sample_manager_def CHANNEL_SIZE_def)
  then show "(net_step calm sample_world)\<^sup>*\<^sup>* (net_start calm sample_manager sample_creator)
      (the (manager_send (net_start calm sample_manager sample_creator)))"
    by (intro r_into_rtranclp net_step.task task_step.m_send) simp
qed


section \<open>A candidate deleted and created again\<close>

lemma request_registered:
  assumes "named_candidate c" and "candidate_namespace c = Some ns" and "candidate_labels [] c = Ok ls"
    and "\<not> has_external_queue m" and "provider_lookup (provider m) (ns @ ''_'' @ candidate_name [] c) = Some si"
  shows "request_service_identity e c m = (Ok (), m)"
  using assms(4,5) candidate_lookup_named [OF assms(1-3)] cred.next_known [of "provider m" "ServiceLookup_new ns (candidate_name [] c) (Some ls)" si]
  by (simp add: request_service_identity_def Let_def lookup_id_def)

lemma delete_registered:
  assumes "deletes_succeed e" and "provider_wf (provider m)" and "\<not> has_external_queue m"
    and "provider_lookup (provider m) (si_service_id si) = Some old"
  shows "\<exists>m'. delete_service_identity (open_env e) si m = (Ok (), m') \<and>
     outgoings m' = outgoings m @ [ToCreator (DeleteServiceUser (si_credentials si) (si_namespace si) (si_name si))] \<and>
     provider_lookup (provider m') (si_service_id si) = None"
  using assms
  by (simp add: delete_service_identity_eq api_delete_def bindR_def kube_delete_def deletes_succeed_def open_env_def
      send_creator_def perform_def outgoings_def map_filter_append cred.lookup_unregister List.map_filter_def)

text \<open>
  C15: A candidate that is deleted and created again can lose its identity for good. When the manager finds
  the deletion of a candidate that has an identity and the request for the new one in its channel, it puts
  its order to delete the identity behind the request: the request finds the old identity registered and
  is dropped, and then the identity is deleted. What is left is the order to the creator to delete the
  user; no message asks for an identity again.\<close>
theorem recreation_lost:
  assumes "\<not> exited s" "\<not> manager_panicked s" "manager_pending s = []"
    and rx: "manager_rx s = [DeletedServiceCandidate c, RequestServiceIdentity c]"
    and c: "named_candidate c" "candidate_namespace c = Some ns" "candidate_labels [] c = Ok ls"
    and m: "provider_wf (provider (manager_task s))" "\<not> has_external_queue (manager_task s)" "deletes_succeed e"
    and si: "provider_lookup (provider (manager_task s)) (ns @ ''_'' @ candidate_name [] c) = Some si"
  shows "\<exists>t. (task_step e w)\<^sup>*\<^sup>* s t \<and> manager_rx t = [] \<and>
     manager_pending t = [ToCreator (DeleteServiceUser (si_credentials si) (si_namespace si) (si_name si))] \<and>
     provider_lookup (provider (manager_task t)) (ns @ ''_'' @ candidate_name [] c) = None"
proof -
  define m1 where "m1 = perform (SendSelf (DeleteServiceIdentity si)) (manager_task s)"
  have p1: "provider m1 = provider (manager_task s)" "\<not> has_external_queue m1" using m(2) by (simp_all add: m1_def perform_def)
  have sid: "si_service_id si = ns @ ''_'' @ candidate_name [] c" using cred.lookup_own_id [OF m(1) si] .
  obtain m2 where m2: "delete_service_identity (open_env e) si m1 = (Ok (), m2)"
    "outgoings m2 = outgoings m1 @ [ToCreator (DeleteServiceUser (si_credentials si) (si_namespace si) (si_name si))]"
    "provider_lookup (provider m2) (ns @ ''_'' @ candidate_name [] c) = None"
    using delete_registered [OF m(3), of m1 si si] m(1) p1 si sid by auto
  define s1 where "s1 = s\<lparr>manager_task := m1, manager_rx := [RequestServiceIdentity c],
    manager_pending := [ToManager (DeleteServiceIdentity si)]\<rparr>"
  define s2 where "s2 = s1\<lparr>manager_rx := [RequestServiceIdentity c, DeleteServiceIdentity si], manager_pending := []\<rparr>"
  define s3 where "s3 = s2\<lparr>manager_rx := [DeleteServiceIdentity si]\<rparr>"
  define t where "t = s3\<lparr>manager_task := m2, manager_rx := [],
    manager_pending := [ToCreator (DeleteServiceUser (si_credentials si) (si_namespace si) (si_name si))]\<rparr>"
  have "manager_take e s = Some s1"
    using assms(1-3) rx deleted_candidate_sends [OF c si]
    by (simp add: manager_take_def s1_def m1_def manager_output_def outgoings_def perform_def map_filter_append List.map_filter_def)
  moreover have "manager_send s1 = Some s2"
    using assms(1) by (simp add: manager_send_def s1_def s2_def CHANNEL_SIZE_def)
  moreover have "manager_take e s2 = Some s3"
    using assms(1,2) request_registered [OF c, of m1 si "open_env e"] p1 si
    by (simp add: manager_take_def s3_def s2_def s1_def manager_output_def)
  moreover have "manager_take e s3 = Some t"
    using assms(1,2) m2 by (simp add: manager_take_def t_def s3_def s2_def s1_def manager_output_def)
  ultimately have "(task_step e w)\<^sup>*\<^sup>* s t"
    by (meson task_step.m_take task_step.m_send r_into_rtranclp rtranclp.rtrancl_into_rtrancl)
  with m2(3) show ?thesis by (intro exI [of _ t]) (simp add: t_def)
qed


theorem recreation_lost_witness:
  "\<exists>t. (task_step calm sample_world)\<^sup>*\<^sup>*
       (served_net\<lparr>manager_rx := [DeletedServiceCandidate sample_candidate, RequestServiceIdentity sample_candidate]\<rparr>) t \<and>
     manager_rx t = [] \<and>
     manager_pending t = [ToCreator (DeleteServiceUser (si_credentials served_identity) (si_namespace served_identity) (si_name served_identity))] \<and>
     provider_lookup (provider (manager_task t)) (''shop'' @ ''_'' @ candidate_name [] sample_candidate) = None"
  by (rule recreation_lost [OF _ _ _ _ sample_candidate_facts(1-3)]) (simp_all add: sample_candidate_facts)

end
