(* ===== verification/Boot_Laws.thy ===== *)
theory Boot_Laws
  imports Boot Startup_Laws Service_Net_Laws Injector_Laws
begin

text \<open>
  What holds of the programs once they are up: the hypotheses of the theorems on the assembled identity service and on
  the injector are met by what their \<^verbatim>\<open>main\<close> builds.
\<close>

section \<open>Results of the start\<close>

lemma expect_OkD: "expect msg r = Ok x \<Longrightarrow> r = Ok x"
  by (cases r) (simp_all add: expect_def)

lemma map_err_OkD: "map_err f r = Ok x \<Longrightarrow> r = Ok x"
  by (cases r) simp_all

lemma kube_client_Ok:
  assumes "kube_client e vars host m1 m2 m3 = Ok cfg"
  shows "be_uri e host = Inr (cluster_url cfg) \<and> accept_invalid_certs cfg = no_verify vars ''SDP_K8S_NO_VERIFY''"
  using assms
  by (auto simp: kube_client_def and_then_Ok_iff Let_def expect_or_def expect_def or_err_def split: sum.splits option.splits res.splits)

text \<open>A client of the SDP system has a host.\<close>

lemma sdp_system_hosts:
  assumes "get_sdp_system e vars = Ok sys"
  shows "sys_hosts sys \<noteq> []"
proof -
  from assms obtain hosts c cr where fixed: "fix_api_version e vars (SystemConfig_new hosts) = Ok c"
    and build: "cfg_build e vars c cr = Ok sys"
    by (auto simp: get_sdp_system_def Let_def and_then_Ok_iff dest!: expect_OkD split: option.splits)
  from build have "sys = System_build (cfg_hosts c) cr"
    by (auto simp: cfg_build_def and_then_Ok_iff split: option.splits)
  with fix_api_version_Ok [OF fixed] show ?thesis by (auto simp: System_build_def)
qed

lemma service_main_Ok:
  assumes "service_main e se se' ime vars = Ok s"
  obtains cl manager creator where "vars ''SDP_CLUSTER_ID'' = Some cl" and "IdentityManager_new (Some cl) False = Ok manager"
    and "s = net_start ime manager creator" and "creator_cluster_id creator = cl"
    and "sys_hosts (own_system creator) \<noteq> []" and "sys_hosts (ext_system creator) \<noteq> []"
    and "service_users_pool_size creator = CREDENTIALS_POOL_SIZE" and "done_actions creator = []"
proof -
  from assms obtain manager sys1 sys2 creator where
    m: "IdentityManager_new (vars ''SDP_CLUSTER_ID'') False = Ok manager"
    and sys: "get_sdp_system se vars = Ok sys1" "get_sdp_system se' vars = Ok sys2"
    and c: "IdentityCreator_new sys1 sys2 CREDENTIALS_POOL_SIZE (vars ''SDP_CLUSTER_ID'') = Ok creator"
    and s: "s = net_start ime manager creator"
    by (auto simp: service_main_def and_then_Ok_iff dest!: map_err_OkD)
  then show thesis
    using sdp_system_hosts [OF sys(1)] sdp_system_hosts [OF sys(2)]
    by (cases "vars ''SDP_CLUSTER_ID''") (auto simp: IdentityCreator_new_def intro!: that)
qed

lemma net_creator_ok:
  assumes "(net_step e w)\<^sup>*\<^sup>* s t" and "creator_ok n (creator_task s)"
  shows "creator_ok n (creator_task t)"
  using assms
proof (induction rule: rtranclp_induct)
  case (step t u)
  from step.hyps(2) show ?case
  proof cases
    case task
    then show ?thesis using task_step_lighter step by blast
  next
    case (watcher msg)
    then show ?thesis using step by (auto simp: watcher_send_def split: if_splits)
  qed
qed

section \<open>Properties\<close>

text \<open>
  C13: The identity service, once up, keeps to the theorems on its tasks. When \<^verbatim>\<open>main\<close> gets as far as running the
  manager, both tasks have the cluster id that is configured and the pool holds ten users, as \<^verbatim>\<open>main.rs\<close> says;
  and from every state it can get into, the tasks come to a standstill by themselves, idle, exited or in one of
  the two deadlocks, provided the cluster id can be cut to 14 bytes, which any text in ASCII can.\<close>
theorem booted_service_settles:
  assumes "service_main b se se' e vars = Ok s" and "vars ''SDP_CLUSTER_ID'' = Some cl" and "truncate_str 14 cl \<noteq> None"
    and "(net_step e w)\<^sup>*\<^sup>* s t"
  shows "cluster_id (manager_task s) = cl \<and> creator_cluster_id (creator_task s) = cl \<and>
    service_users_pool_size (creator_task s) = 10 \<and>
    (\<exists>u. (task_step e w)\<^sup>*\<^sup>* t u \<and> (\<nexists>v. task_step e w u v) \<and> (exited u \<or> idle u \<or> self_blocked u \<or> mutually_blocked u))"
proof -
  obtain manager creator where m: "IdentityManager_new (Some cl) False = Ok manager" and s: "s = net_start e manager creator"
    and c: "creator_cluster_id creator = cl" "sys_hosts (own_system creator) \<noteq> []" "sys_hosts (ext_system creator) \<noteq> []"
      "service_users_pool_size creator = CREDENTIALS_POOL_SIZE"
    using service_main_Ok [OF assms(1)] assms(2) by (metis option.inject)
  have cr: "creator_task s = creator" by (simp add: s net_start_def split: prod.split)
  have "cluster_id manager = cl" using m by (auto simp: IdentityManager_new_def)
  moreover have "cluster_id (manager_task s) = cluster_id manager"
    by (auto simp: s net_start_def initialize_def api_list_def perform_def queue_info_def send_creator_def Let_def
        split: prod.splits sum.splits)
  moreover have "creator_ok 10 (creator_task s)"
    using c assms(3) by (simp add: cr creator_ok_def CREDENTIALS_POOL_SIZE_def)
  ultimately show ?thesis
    using settles [OF net_creator_ok [OF assms(4)], of 10] standing_still c cr by (auto simp: CREDENTIALS_POOL_SIZE_def) blast
qed

text \<open>A cluster in which both programs come up.\<close>

definition sample_boot :: boot_env where
  "sample_boot = \<lparr>be_uri = Inr, be_infer = Inr \<lparr>cluster_url = [], accept_invalid_certs = False, kc_rest = []\<rparr>, be_client = \<lambda>_. None,
     be_minor = Inr ''29+'', be_parse_error = \<lambda>_. ''invalid digit found in string'', be_cwd = Inr (\<lambda>f. f), be_open = Inr,
     be_sidecars = \<lambda>_. Inr sample_sidecars,
     be_tls = \<lparr>tls_open = Inr, tls_certs = \<lambda>c. Inr [c], tls_key = \<lambda>k. Inr (Some k), tls_config = \<lambda>_ _. Inr ''tls''\<rparr>,
     be_bind = Inr ()\<rparr>"

definition boot_vars :: env_vars where
  "boot_vars = [''SDP_SYSTEM_HOSTS'' \<mapsto> ''https://a'', ''SDP_CLUSTER_ID'' \<mapsto> ''cluster'']"

lemma injector_boots:
  "injector_main sample_boot (\<lambda>_. None) = Ok (\<lparr>ic_sidecars = sample_sidecars, ic_server_version = 29\<rparr>, server_start ''tls'')"
proof -
  have "server_version ''29+'' = Some 29"
    by (simp add: server_version_def parse_unsigned_def is_alphanumeric_def digit_val_def)
  then show ?thesis
    by (simp add: injector_main_def injector_kube_client_def kube_client_def expect_or_def expect_def or_err_def
        load_sidecars_def load_ssl_def of_sum_def sample_boot_def Let_def)
qed

theorem booted_service_settles_witness:
  "\<exists>s. service_main sample_boot (sample_startup 406) (sample_startup 406) calm boot_vars = Ok s \<and>
     cluster_id (manager_task s) = ''cluster'' \<and>
     (\<exists>u. (task_step calm sample_world)\<^sup>*\<^sup>* s u \<and> (exited u \<or> idle u \<or> self_blocked u \<or> mutually_blocked u))"
proof -
  have cl: "boot_vars ''SDP_CLUSTER_ID'' = Some ''cluster''" "truncate_str 14 ''cluster'' \<noteq> None" by code_simp+
  have "case get_k8s_client sample_boot boot_vars of Ok _ \<Rightarrow> True | _ \<Rightarrow> False"
    "case get_sdp_system (sample_startup 406) boot_vars of Ok _ \<Rightarrow> True | _ \<Rightarrow> False" by code_simp+
  then obtain cfg sys where "get_k8s_client sample_boot boot_vars = Ok cfg" "get_sdp_system (sample_startup 406) boot_vars = Ok sys"
    by (auto split: res.splits)
  then obtain s where s: "service_main sample_boot (sample_startup 406) (sample_startup 406) calm boot_vars = Ok s"
    by (simp add: service_main_def cl IdentityManager_new_def IdentityCreator_new_def)
  from booted_service_settles [OF s cl, of sample_world s] s show ?thesis by blast
qed

end
