(* ===== verification/Early_Injector.thy ===== *)
theory Early_Injector
  imports Injector Startup
begin

text \<open>
  The earlier injector (\<^verbatim>\<open>src/bin/sdp-injector/main.rs\<close>), a single file the workspace no longer builds: patches
  and validation of pods, its HTTP handlers, and the application they run in.

  Names the current injector has too get the prefix \<open>early\<close>. Its operations are the current ones where the
  code is the same: \<open>containers\<close>, \<open>volumes\<close>, \<open>volume_names\<close>, the constructors of environment variables, \<open>maybe_ip\<close>
  and the split of the search list. Third-party code is an \<open>early_env\<close>.
\<close>

section \<open>Data\<close>

definition SDP_DEFAULT_CLIENT_CONFIG :: string where
  "SDP_DEFAULT_CLIENT_CONFIG = ''sdp-injector-client-config''"

definition SDP_DEFAULT_CLIENT_SECRETS :: string where
  "SDP_DEFAULT_CLIENT_SECRETS = ''sdp-injector-client-secrets''"

definition EARLY_ANNOTATION_CLIENT_CONFIG :: string where
  "EARLY_ANNOTATION_CLIENT_CONFIG = ''sdp-injector-client-config''"

definition EARLY_ANNOTATION_CLIENT_SECRETS :: string where
  "EARLY_ANNOTATION_CLIENT_SECRETS = ''sdp-injector-client-secrets''"

definition EARLY_DNS_SERVICE_NAMES :: "string list" where
  "EARLY_DNS_SERVICE_NAMES = [''kube-dns'', ''coredns'', ''rke2-coredns-rke2-coredns'']"

text \<open>A service with its name; \<open>es_service\<close> has its cluster IP.\<close>

record early_service =
  es_name :: "string option"
  es_service :: kube_service

record EarlySidecars =
  el_containers :: "container list"
  el_volumes :: "volume list"
  el_dns_searches :: string

record EarlyPod =
  ep_pod :: pod
  ep_sidecars :: EarlySidecars
  ep_dns_service :: "kube_service option"

text \<open>
  \<open>ee_parse\<close> is \<^verbatim>\<open>serde_json::from_str\<close> followed by the conversion of the review into a request;
  \<open>ee_open\<close>, \<open>ee_sidecars\<close> and \<open>ee_pem\<close> read files and parse them.
\<close>

datatype pem_item = X509Certificate string | PKCS8Key string | RSAKey string | OtherItem

record early_env =
  ee_services :: "string + early_service list"
  ee_to_value :: "patch_value \<Rightarrow> string option"
  ee_parse :: "string \<Rightarrow> string + (string + pod AdmissionRequest)"
  ee_response :: "string \<Rightarrow> AdmissionResponse"
  ee_with_patch :: "AdmissionResponse \<Rightarrow> Patch \<Rightarrow> string + AdmissionResponse"
  ee_cwd :: "string + (string \<Rightarrow> string)"
  ee_open :: "string \<Rightarrow> string + string"
  ee_sidecars :: "string \<Rightarrow> string + EarlySidecars"
  ee_pem :: "string \<Rightarrow> string + pem_item option"
  ee_tls_config :: "string list \<Rightarrow> string \<Rightarrow> string + string"

section \<open>Environment variables\<close>

text \<open>The \<^verbatim>\<open>secrets\<close> form of \<^verbatim>\<open>env_var!\<close>: the key is made from the variable's name.\<close>

definition early_env_secret :: "string \<Rightarrow> string \<Rightarrow> env_var_t" where
  "early_env_secret n secret = env_secret n secret (env_key n)"

definition get_env_vars :: "string \<Rightarrow> string \<Rightarrow> string \<Rightarrow> string \<Rightarrow> string option \<Rightarrow> env_var_t list" where
  "get_env_vars cname cfg secret n dns_ip =
     (let k8s_dns = unwrap_or dns_ip []
      in if cname = SDP_SERVICE_CONTAINER_NAME
         then [env_config_map ''CLIENT_LOG_LEVEL'' cfg,
               early_env_secret ''CLIENT_CONTROLLER_URL'' secret,
               early_env_secret ''CLIENT_USERNAME'' secret,
               early_env_secret ''CLIENT_PASSWORD'' secret,
               env_field_ref ''POD_NODE'' ''spec.nodeName'',
               env_field_ref ''POD_NAME'' ''metadata.name'',
               env_field_ref ''POD_NAMESPACE'' ''metadata.namespace'',
               env_field_ref ''POD_SERVICE_ACCOUNT'' ''spec.serviceAccountName'',
               env_value ''POD_N_CONTAINERS'' n,
               env_value ''K8S_DNS_SERVICE'' k8s_dns]
         else [env_value ''POD_N_CONTAINERS'' n, env_value ''K8S_DNS_SERVICE'' k8s_dns])"

definition early_dns_discover :: "early_env \<Rightarrow> kube_service option" where
  "early_dns_discover e =
     (case ee_services e of
        Inr xs \<Rightarrow>
          map_option es_service
            (List.find (\<lambda>s. unwrap_or (map_option (\<lambda>n. n \<in> set EARLY_DNS_SERVICE_NAMES) (es_name s)) False) xs)
      | Inl err \<Rightarrow> None)"

section \<open>Pods\<close>

definition early_annotations :: "pod \<Rightarrow> string_map option" where
  "early_annotations p = Some (meta_annotations (pod_meta p))"

definition early_container_names :: "EarlySidecars \<Rightarrow> string list" where
  "early_container_names ss = map c_name (el_containers ss)"

definition early_dns_config :: "EarlySidecars \<Rightarrow> PodDNSConfig" where
  "early_dns_config ss =
     \<lparr>dc_nameservers = Some [''127.0.0.1''], dc_searches = Some (searches_string_to_vec (el_dns_searches ss))\<rparr>"

definition early_sidecars :: "EarlyPod \<Rightarrow> container list option" where
  "early_sidecars sp =
     map_option (filter (\<lambda>c. c_name c \<in> set (early_container_names (ep_sidecars sp)))) (containers (ep_pod sp))"

definition early_sidecar_names :: "EarlyPod \<Rightarrow> string list option" where
  "early_sidecar_names sp = map_option (map c_name) (early_sidecars sp)"

definition early_has_any_sidecars :: "EarlyPod \<Rightarrow> bool" where
  "early_has_any_sidecars sp = unwrap_or (map_option (\<lambda>xs. length xs \<noteq> 0) (early_sidecars sp)) False"

definition has_containers :: "EarlyPod \<Rightarrow> bool" where
  "has_containers sp \<longleftrightarrow> length (unwrap_or (containers (ep_pod sp)) []) > 0"

definition disabled_by_annotations :: "EarlyPod \<Rightarrow> bool" where
  "disabled_by_annotations sp =
     unwrap_or (map_option (\<lambda>a. a = ''false'') (annotation (early_annotations (ep_pod sp)) ''sdp-injector'')) False"

definition early_needs_patching :: "EarlyPod \<Rightarrow> bool" where
  "early_needs_patching sp \<longleftrightarrow>
     has_containers sp \<and> \<not> early_has_any_sidecars sp \<and> \<not> disabled_by_annotations sp"

definition early_sidecar_for :: "string \<Rightarrow> string \<Rightarrow> nat \<Rightarrow> string option \<Rightarrow> container \<Rightarrow> container" where
  "early_sidecar_for config secret n ip c = c\<lparr>c_env := Some (get_env_vars (c_name c) config secret (show_nat n) ip)\<rparr>"

definition early_volume_patches :: "EarlySidecars \<Rightarrow> pod \<Rightarrow> (string \<times> patch_value) list" where
  "early_volume_patches ss p =
     (if volumes p \<noteq> None then map (\<lambda>v. (''/spec/volumes/-'', VVolume v)) (el_volumes ss)
      else [(''/spec/volumes'', VVolumes (el_volumes ss))])"

text \<open>The operations of the patch, the first value that cannot be serialised is the error.\<close>

fun early_ops :: "early_env \<Rightarrow> (string \<times> patch_value) list \<Rightarrow> (string, Patch) res" where
  "early_ops e [] = Ok []"
| "early_ops e ((path, v) # pvs) =
     (case ee_to_value e v of
        Some err \<Rightarrow> Err err
      | None \<Rightarrow> and_then (early_ops e pvs) (\<lambda>ops. Ok (\<lparr>op_path = path, op_value = v\<rparr> # ops)))"

definition patch_sidecars :: "early_env \<Rightarrow> EarlyPod \<Rightarrow> (string, Patch) res" where
  "patch_sidecars e sp =
     (let p = ep_pod sp; ss = ep_sidecars sp;
          config_map = unwrap_or (annotation (early_annotations p) EARLY_ANNOTATION_CLIENT_CONFIG) SDP_DEFAULT_CLIENT_CONFIG;
          secrets = unwrap_or (annotation (early_annotations p) EARLY_ANNOTATION_CLIENT_SECRETS) SDP_DEFAULT_CLIENT_SECRETS
      in if early_needs_patching sp
         then (let ip = maybe_ip (ep_dns_service sp);
                   n = unwrap_or (map_option length (containers p)) 0
               in early_ops e
                    (map (\<lambda>c. (''/spec/containers/-'', VContainer (early_sidecar_for config_map secrets n ip c))) (el_containers ss) @
                     early_volume_patches ss p @
                     [(''/spec/dnsConfig'', VDNSConfig (early_dns_config ss)), (''/spec/dnsPolicy'', VString ''None'')]))
         else Ok [])"

definition validate_sidecars :: "EarlyPod \<Rightarrow> string + unit" where
  "validate_sidecars sp =
     (let expected_volume_names = map v_name (el_volumes (ep_sidecars sp));
          expected_container_names = map c_name (el_containers (ep_sidecars sp));
          cnames = unwrap_or (early_sidecar_names sp) [];
          vnames = unwrap_or (volume_names (ep_pod sp)) [];
          errors =
            (if \<not> set expected_container_names \<subseteq> set cnames
             then [''POD is missing needed containers: '' @ join '', '' (missing_names expected_container_names cnames)]
             else []) @
            (if \<not> set expected_volume_names \<subseteq> set vnames
             then [''POD is missing needed volumes: '' @ join '', '' (missing_names expected_volume_names vnames)]
             else [])
      in if errors = [] then Inr ()
         else Inl (''Unable to run SDP client on POD: '' @ join [CHR 0x0A] errors))"

definition early_pod_name :: "pod \<Rightarrow> string" where
  "early_pod_name p = unwrap_or (meta_name (pod_meta p)) ''Unnamed''"

definition early_pod_fmt :: "EarlyPod \<Rightarrow> string" where
  "early_pod_fmt sp =
     ''POD(name:'' @ early_pod_name (ep_pod sp) @ '', needs_patching:'' @ bool_to_string (early_needs_patching sp) @
     '', containers:['' @ join '','' (unwrap_or (map_option (map c_name) (containers (ep_pod sp))) []) @
     ''], volumes: ['' @ join '','' (unwrap_or (volume_names (ep_pod sp)) []) @ ''])''"

section \<open>Requests\<close>

text \<open>Files are looked for in the working directory; joining an absolute path gives that path.\<close>

definition of_sum_res :: "string + 'a \<Rightarrow> (string, 'a) res" where
  "of_sum_res x = (case x of Inl err \<Rightarrow> Err err | Inr a \<Rightarrow> Ok a)"

definition reader_from_cwd :: "early_env \<Rightarrow> string \<Rightarrow> (string, string) res" where
  "reader_from_cwd e file_name = and_then (of_sum_res (ee_cwd e)) (\<lambda>cwd. of_sum_res (ee_open e (cwd file_name)))"

definition load_sidecar_containers :: "early_env \<Rightarrow> env_vars \<Rightarrow> (string, EarlySidecars) res" where
  "load_sidecar_containers e vars =
     and_then (of_sum_res (ee_cwd e)) (\<lambda>cwd.
       (let path = var_or vars ''SDP_SIDECARS_FILE'' (cwd ''/opt/sdp-injector/k8s/sdp-sidecars.json'')
        in and_then (of_sum_res (ee_open e path)) (\<lambda>text. of_sum_res (ee_sidecars e text))))"

definition load_cert_files :: "early_env \<Rightarrow> env_vars \<Rightarrow> (string, pem_item option \<times> pem_item option) res" where
  "load_cert_files e vars =
     and_then (reader_from_cwd e (var_or vars ''SDP_CERT_FILE'' ''/opt/sdp-injector/k8s/sdp-injector-crt.pem'')) (\<lambda>cert_text.
     and_then (reader_from_cwd e (var_or vars ''SDP_KEY_FILE'' ''/opt/sdp-injector/k8s/sdp-injector-key.pem'')) (\<lambda>key_text.
     and_then (of_sum_res (ee_pem e cert_text)) (\<lambda>cert.
     and_then (of_sum_res (ee_pem e key_text)) (\<lambda>key. Ok (cert, key)))))"

definition early_load_ssl :: "early_env \<Rightarrow> env_vars \<Rightarrow> (string, string) res" where
  "early_load_ssl e vars =
     and_then (load_cert_files e vars) (\<lambda>(cert_pem, key_pem).
       (case cert_pem of
          Some (X509Certificate cs) \<Rightarrow>
            (case key_pem of
               Some (PKCS8Key k) \<Rightarrow> of_sum_res (ee_tls_config e [cs] k)
             | Some (RSAKey k) \<Rightarrow> of_sum_res (ee_tls_config e [cs] k)
             | _ \<Rightarrow> Err ''Unable to load private key'')
        | _ \<Rightarrow> Err ''Unable to load certificate''))"

record EarlyPatchContext =
  ex_sidecars :: EarlySidecars
  ex_dns_service :: "kube_service option"

text \<open>The request of a body, and the pod in it.\<close>

definition early_request :: "early_env \<Rightarrow> string \<Rightarrow> (string, pod AdmissionRequest \<times> pod) res" where
  "early_request e body =
     (case ee_parse e body of
        Inl err \<Rightarrow> Err (''Error parsing payload: '' @ err)
      | Inr (Inl err) \<Rightarrow> Err err
      | Inr (Inr r) \<Rightarrow>
          (case ar_object r of
             None \<Rightarrow> Err ''Admission review does not contain a POD''
           | Some p \<Rightarrow> Ok (r, p)))"

definition refuse :: "string \<Rightarrow> AdmissionResponse \<Rightarrow> AdmissionResponse" where
  "refuse msg resp = resp\<lparr>resp_allowed := False, resp_code := 40, resp_message := msg\<rparr>"

definition patch_request :: "early_env \<Rightarrow> string \<Rightarrow> EarlyPatchContext \<Rightarrow> (string, AdmissionResponse) res" where
  "patch_request e body ctx =
     and_then (early_request e body) (\<lambda>(r, p).
       (let sp = \<lparr>ep_pod = p, ep_sidecars = ex_sidecars ctx, ep_dns_service = ex_dns_service ctx\<rparr>;
            resp = ee_response e (ar_uid r)
        in case patch_sidecars e sp of
             Ok ops \<Rightarrow> of_sum_res (ee_with_patch e resp ops)
           | Err err \<Rightarrow> Ok (refuse (''This POD can not be patched '' @ err) resp)
           | Panic q \<Rightarrow> Panic q))"

definition validate_request :: "early_env \<Rightarrow> string \<Rightarrow> EarlySidecars \<Rightarrow> (string, AdmissionResponse) res" where
  "validate_request e body ss =
     and_then (early_request e body) (\<lambda>(r, p).
       (let sp = \<lparr>ep_pod = p, ep_sidecars = ss, ep_dns_service = None\<rparr>;
            resp = ee_response e (ar_uid r)
        in case validate_sidecars sp of
             Inl err \<Rightarrow> Ok (refuse err resp)
           | Inr _ \<Rightarrow> Ok resp))"

section \<open>The application\<close>

text \<open>
  The data of the application, by type: \<^verbatim>\<open>app_data::<T>()\<close> finds what was registered for \<^verbatim>\<open>T\<close>. \<^verbatim>\<open>main\<close> registers
  the injector's context, which holds the sidecars.
\<close>

record app_data =
  app_context :: "EarlySidecars option"
  app_sidecars :: "EarlySidecars option"

definition early_app :: "EarlySidecars \<Rightarrow> app_data" where
  "early_app ss = \<lparr>app_context = Some ss, app_sidecars = None\<rparr>"

text \<open>What a handler answers, before it is serialised; \<^verbatim>\<open>ErrorBadRequest\<close> is the error.\<close>

datatype early_answer = AnswerReview AdmissionResponse | AnswerService kube_service | AnswerNotFound

definition early_mutate :: "early_env \<Rightarrow> app_data \<Rightarrow> string \<Rightarrow> (string, early_answer) res" where
  "early_mutate e app body =
     (case app_context app of
        None \<Rightarrow> Panic ''Unable to get injector context''
      | Some ss \<Rightarrow>
          and_then (patch_request e body \<lparr>ex_sidecars = ss, ex_dns_service = early_dns_discover e\<rparr>)
            (\<lambda>resp. Ok (AnswerReview resp)))"

definition early_validate :: "early_env \<Rightarrow> app_data \<Rightarrow> string \<Rightarrow> (string, early_answer) res" where
  "early_validate e app body =
     (case app_sidecars app of
        None \<Rightarrow> Panic ''Unable to get app context''
      | Some ss \<Rightarrow> and_then (validate_request e body ss) (\<lambda>resp. Ok (AnswerReview resp)))"

definition early_get_dns_service :: "early_env \<Rightarrow> app_data \<Rightarrow> (string, early_answer) res" where
  "early_get_dns_service e app =
     (case app_context app of
        None \<Rightarrow> Panic ''Unable to get injector context''
      | Some ss \<Rightarrow>
          Ok (case early_dns_discover e of Some s \<Rightarrow> AnswerService s | None \<Rightarrow> AnswerNotFound))"

text \<open>
  \<^verbatim>\<open>main\<close> up to the server: the sidecars, the settings of the Kubernetes client, which \<open>uri\<close> parses, and the TLS
  configuration, each of which panics when it cannot be had.
\<close>

record early_settings =
  ey_app :: app_data
  ey_uri :: string
  ey_no_verify :: bool
  ey_tls :: string

definition early_main :: "early_env \<Rightarrow> (string \<Rightarrow> string + string) \<Rightarrow> env_vars \<Rightarrow> (string, early_settings) res" where
  "early_main e uri vars =
     and_then (expect ''Unable to load the sidecar information'' (load_sidecar_containers e vars)) (\<lambda>ss.
     and_then (expect ''Unable to parse SDP_K8S_HOST value:'' (of_sum_res (uri (k8s_host vars)))) (\<lambda>u.
     and_then (expect ''Unable to load certificates'' (early_load_ssl e vars)) (\<lambda>tls.
       Ok \<lparr>ey_app = early_app ss, ey_uri = u,
           ey_no_verify = unwrap_or (map_option (\<lambda>v. v = ''1'' \<or> to_lowercase v = ''true'') (vars ''SDP_K8S_NO_VERIFY'')) False,
           ey_tls = tls\<rparr>)))"

end
