(* ===== verification/Early_Injector_Laws.thy ===== *)
theory Early_Injector_Laws
  imports Early_Injector Injector_Laws
begin

text \<open>
  What the earlier injector guarantees, and how it relates to the current one: both give a pod the same
  containers and volumes and accept the same pods.
\<close>

section \<open>Patches\<close>

lemma early_ops_Ok: "early_ops e pvs = Ok ops \<Longrightarrow> ops = map op_of pvs"
  by (induction e pvs arbitrary: ops rule: early_ops.induct)
    (auto simp: and_then_Ok_iff op_of_def split: option.splits)

lemma early_ops_no_panic: "early_ops e pvs \<noteq> Panic q"
  by (induction e pvs rule: early_ops.induct) (auto simp: and_then_Panic_iff split: option.splits)

text \<open>The sidecars of the current injector that correspond to those of the earlier one.\<close>

definition current_sidecars :: "container \<times> container \<Rightarrow> EarlySidecars \<Rightarrow> SDPSidecars" where
  "current_sidecars i ss =
     \<lparr>ss_init_containers = i, ss_containers = el_containers ss, ss_volumes = el_volumes ss, ss_dns_searches = el_dns_searches ss\<rparr>"

lemma early_volume_patches_eq: "early_volume_patches ss p = volume_patches (current_sidecars i ss) p"
  by (simp add: early_volume_patches_def volume_patches_def current_sidecars_def)

lemma early_needs_patching_iff:
  "early_needs_patching sp \<longleftrightarrow> unwrap_or (containers (ep_pod sp)) [] \<noteq> [] \<and>
     (\<forall>c \<in> set (unwrap_or (containers (ep_pod sp)) []). c_name c \<notin> set (early_container_names (ep_sidecars sp))) \<and>
     \<not> disabled_by_annotations sp"
  by (cases "containers (ep_pod sp)")
    (auto simp: early_needs_patching_def has_containers_def early_has_any_sidecars_def early_sidecars_def filter_empty_conv)

lemma early_patched_pod:
  assumes "rfc6902_add app" and "patch_sidecars e sp = Ok ops" and "early_needs_patching sp"
    and "containers (ep_pod sp) = Some cs"
  shows "\<exists>cfg secret n ip. containers (fold app ops (ep_pod sp)) =
       Some (cs @ map (early_sidecar_for cfg secret n ip) (el_containers (ep_sidecars sp))) \<and>
     volumes (fold app ops (ep_pod sp)) = Some (unwrap_or (volumes (ep_pod sp)) [] @ el_volumes (ep_sidecars sp))"
proof -
  let ?p = "ep_pod sp" and ?ss = "ep_sidecars sp"
  obtain cfg secret n ip where ops: "ops = map op_of
      (map (\<lambda>c. (''/spec/containers/-'', VContainer (early_sidecar_for cfg secret n ip c))) (el_containers ?ss) @
       early_volume_patches ?ss ?p @
       [(''/spec/dnsConfig'', VDNSConfig (early_dns_config ?ss)), (''/spec/dnsPolicy'', VString ''None'')])"
    by (rule that [OF early_ops_Ok [OF assms(2) [unfolded patch_sidecars_def Let_def if_P [OF assms(3)]]]])
  let ?p1 = "fold app (map op_of (map (\<lambda>c. (''/spec/containers/-'', VContainer (early_sidecar_for cfg secret n ip c)))
      (el_containers ?ss))) ?p"
  let ?p2 = "fold app (map op_of (early_volume_patches ?ss ?p)) ?p1"
  let ?fin = "[(''/spec/dnsConfig'', VDNSConfig (early_dns_config ?ss)), (''/spec/dnsPolicy'', VString ''None'')]"
  have p1: "containers ?p1 = Some (cs @ map (early_sidecar_for cfg secret n ip) (el_containers ?ss))" "volumes ?p1 = volumes ?p"
    using fold_containers [OF assms(1,4), of "early_sidecar_for cfg secret n ip" "el_containers ?ss"] by simp_all
  have p2: "containers ?p2 = containers ?p1" "volumes ?p2 = Some (unwrap_or (volumes ?p) [] @ el_volumes ?ss)"
    using fold_volume_patches [OF assms(1) _ p1(2), of "current_sidecars undefined ?ss"] p1(1)
    unfolding early_volume_patches_eq [of ?ss ?p undefined] by (simp_all add: current_sidecars_def del: map_map)
  have "\<forall>pv \<in> set ?fin. neutral pv" by (simp add: neutral_def)
  from fold_neutral [OF assms(1) this, of ?p2] p1 p2 ops show ?thesis by auto
qed

section \<open>Validation\<close>

lemma early_sidecar_for_name [simp]: "c_name (early_sidecar_for cfg secret n ip c) = c_name c"
  by (simp add: early_sidecar_for_def)

lemma validate_sidecars_eq:
  assumes "ar_object r = Some (ep_pod sp)" and "sp_sidecars sp' = current_sidecars i (ep_sidecars sp)"
  shows "(validate_sidecars sp = Inr ()) = (pod_validate sp' r = Inr ())"
  using assms
  by (simp add: validate_sidecars_def pod_validate_def Let_def current_sidecars_def early_sidecar_names_def
      early_sidecars_def sidecar_names_def sidecars_def container_names_def early_container_names_def)

lemma needs_patching_eq:
  assumes "ar_object r = Some (ep_pod sp)" and "sp_sidecars sp' = current_sidecars i (ep_sidecars sp)"
  shows "early_needs_patching sp = (needs_patching sp' r \<and> \<not> disabled_by_annotations sp)"
  using assms(2)
  by (simp add: early_needs_patching_iff needs_patching_iff [OF assms(1)] current_sidecars_def container_names_def
      early_container_names_def)

lemma validate_sidecars_iff:
  "validate_sidecars sp = Inr () \<longleftrightarrow>
     (\<forall>c \<in> set (el_containers (ep_sidecars sp)). c_name c \<in> c_name ` set (unwrap_or (containers (ep_pod sp)) [])) \<and>
     (\<forall>v \<in> set (el_volumes (ep_sidecars sp)). v_name v \<in> v_name ` set (unwrap_or (volumes (ep_pod sp)) []))"
proof -
  let ?r = "\<lparr>ar_uid = [], ar_namespace = None, ar_object = Some (ep_pod sp)\<rparr>"
  let ?sp = "\<lparr>sp_sidecars = current_sidecars undefined (ep_sidecars sp), sp_dns_service = None, sp_server_version = 0\<rparr>"
  have "(validate_sidecars sp = Inr ()) = (pod_validate ?sp ?r = Inr ())"
    by (rule validate_sidecars_eq) simp_all
  then show ?thesis by (simp add: pod_validate_iff [of ?r "ep_pod sp"] current_sidecars_def)
qed

text \<open>A pod, sidecars and an outside world for the witnesses.\<close>

definition sample_early_sidecars :: EarlySidecars where
  "sample_early_sidecars = \<lparr>el_containers = ss_containers sample_sidecars, el_volumes = ss_volumes sample_sidecars,
     el_dns_searches = ss_dns_searches sample_sidecars\<rparr>"

definition sample_early_pod :: EarlyPod where
  "sample_early_pod = \<lparr>ep_pod = sample_pod, ep_sidecars = sample_early_sidecars, ep_dns_service = None\<rparr>"

definition sample_early_env :: early_env where
  "sample_early_env = \<lparr>ee_services = Inl ''none'', ee_to_value = \<lambda>_. None, ee_parse = \<lambda>_. Inr (Inr sample_request),
     ee_response = ie_response sample_env, ee_with_patch = ie_with_patch sample_env, ee_cwd = Inr (\<lambda>f. f),
     ee_open = \<lambda>f. Inr f, ee_sidecars = \<lambda>_. Inr sample_early_sidecars,
     ee_pem = \<lambda>t. Inr (Some (if t = ''/opt/sdp-injector/k8s/sdp-injector-crt.pem'' then X509Certificate t else PKCS8Key t)),
     ee_tls_config = \<lambda>_ _. Inr ''tls''\<rparr>"

lemma sample_early_facts:
  "early_needs_patching sample_early_pod" "el_containers (ep_sidecars sample_early_pod) \<noteq> []"
  "ep_pod sample_early_pod = sample_pod"
  "sp_sidecars sample_sdp_pod = current_sidecars (ss_init_containers sample_sidecars) (ep_sidecars sample_early_pod)"
  by (code_simp | simp add: sample_early_pod_def sample_early_sidecars_def sample_sidecars_def sample_sdp_pod_def
      current_sidecars_def)+

lemma sample_early_ops: "early_ops sample_early_env pvs = Ok (map op_of pvs)"
  by (induction sample_early_env pvs rule: early_ops.induct) (auto simp: sample_early_env_def op_of_def)

lemma sample_early_patch: "\<exists>ops. patch_sidecars sample_early_env sample_early_pod = Ok ops"
  by (auto simp: patch_sidecars_def Let_def sample_early_ops)

text \<open>
  The earlier injector's patch makes a valid pod. Applied as RFC 6902 says, it gives a pod that passes the
  validation and that is not patched again.\<close>
theorem early_patched_pod_valid:
  assumes "rfc6902_add app" and "patch_sidecars e sp = Ok ops" and "early_needs_patching sp"
    and "el_containers (ep_sidecars sp) \<noteq> []" and "sp' = sp\<lparr>ep_pod := fold app ops (ep_pod sp)\<rparr>"
  shows "validate_sidecars sp' = Inr () \<and> patch_sidecars e' sp' = Ok []"
proof -
  obtain cs where cs: "containers (ep_pod sp) = Some cs"
    using assms(3) by (cases "containers (ep_pod sp)") (auto simp: early_needs_patching_iff)
  obtain cfg secret n ip where p': "containers (fold app ops (ep_pod sp)) =
       Some (cs @ map (early_sidecar_for cfg secret n ip) (el_containers (ep_sidecars sp)))"
    "volumes (fold app ops (ep_pod sp)) = Some (unwrap_or (volumes (ep_pod sp)) [] @ el_volumes (ep_sidecars sp))"
    using early_patched_pod [OF assms(1-3) cs] by blast
  have "validate_sidecars sp' = Inr ()"
    using assms(5) by (auto simp: validate_sidecars_iff p' image_Un image_image)
  moreover have "\<not> early_needs_patching sp'"
    using assms(4,5) by (cases "el_containers (ep_sidecars sp)") (auto simp: early_needs_patching_iff p' early_container_names_def)
  ultimately show ?thesis by (simp add: patch_sidecars_def Let_def)
qed

theorem early_patched_pod_valid_witness:
  "\<exists>ops. patch_sidecars sample_early_env sample_early_pod = Ok ops \<and>
     validate_sidecars (sample_early_pod\<lparr>ep_pod := fold pod_add ops (ep_pod sample_early_pod)\<rparr>) = Inr ()"
  using early_patched_pod_valid [OF pod_add_rfc6902 _ sample_early_facts(1,2) refl] sample_early_patch by blast



section \<open>The application\<close>

text \<open>
  The earlier injector validates nothing. In the application that \<^verbatim>\<open>main\<close> builds every call of \<^verbatim>\<open>/validate\<close>
  panics, because the handler asks for data of a type that was not registered; \<^verbatim>\<open>/mutate\<close> never does.\<close>
theorem early_validation_panics:
  assumes "early_main e uri vars = Ok st"
  shows "early_validate e' (ey_app st) body = Panic ''Unable to get app context'' \<and>
     (\<forall>q. early_mutate e' (ey_app st) body \<noteq> Panic q)"
proof -
  obtain ss where st: "ey_app st = early_app ss" using assms by (auto simp: early_main_def and_then_Ok_iff)
  have "early_request e' body \<noteq> Panic q" for q
    by (auto simp: early_request_def split: sum.splits option.splits)
  moreover have "patch_sidecars e' sp \<noteq> Panic q" for sp q
    using early_ops_no_panic by (auto simp: patch_sidecars_def Let_def)
  ultimately have "patch_request e' body ctx \<noteq> Panic q" for ctx q
    by (auto simp: patch_request_def and_then_Panic_iff Let_def of_sum_res_def split: res.splits sum.splits)
  then show ?thesis by (auto simp: st early_app_def early_validate_def early_mutate_def and_then_Panic_iff)
qed

theorem early_validation_panics_witness:
  "\<exists>st. early_main sample_early_env (\<lambda>u. Inr u) (\<lambda>_. None) = Ok st \<and>
     early_validate sample_early_env (ey_app st) ''{}'' = Panic ''Unable to get app context''"
proof -
  obtain st where st: "early_main sample_early_env (\<lambda>u. Inr u) (\<lambda>_. None) = Ok st"
    by (simp add: early_main_def expect_def load_sidecar_containers_def of_sum_res_def sample_early_env_def early_load_ssl_def
        load_cert_files_def reader_from_cwd_def var_or_def Let_def)
  from early_validation_panics [OF this, of sample_early_env "''{}''"] st show ?thesis by blast
qed

end
