(* ===== verification/Test_Objects.thy ===== *)
theory Test_Objects
  imports Service_Model
begin

text \<open>
  The objects the repository's unit tests are written over: the macros \<^verbatim>\<open>deployment!\<close>, \<^verbatim>\<open>sdp_service!\<close>,
  \<^verbatim>\<open>service_user!\<close> and \<^verbatim>\<open>service_identity!\<close> of \<^verbatim>\<open>sdp-macros\<close> and \<^verbatim>\<open>pod!\<close> of \<^verbatim>\<open>sdp-test-macros\<close>. A Rust
  default is the empty string, list or option. The pull secrets of a pod are not a field of the
  model, so the arm of \<^verbatim>\<open>set_pod_field!\<close> that sets them is left out, and so is its arm for a field \<open>ns\<close> that no test sets.
\<close>

definition default_meta :: object_meta where
  "default_meta = \<lparr>meta_name = None, generate_name = None, name_any = [], meta_namespace = None,
     meta_annotations = [], meta_labels = []\<rparr>"

definition named_meta :: "string \<Rightarrow> string \<Rightarrow> object_meta" where
  "named_meta ns n = default_meta\<lparr>meta_name := Some n, name_any := n, meta_namespace := Some ns\<rparr>"

definition default_container :: "string \<Rightarrow> container" where
  "default_container n = \<lparr>c_name = n, c_image = None, c_env = None, c_rest = []\<rparr>"

definition default_volume :: "string \<Rightarrow> volume" where
  "default_volume n = \<lparr>v_name = n, v_rest = []\<rparr>"

definition test_deployment :: "string \<Rightarrow> string \<Rightarrow> deployment" where
  "test_deployment ns n = \<lparr>dep_meta = named_meta ns n, dep_spec = None\<rparr>"

definition test_sdp_service :: "string \<Rightarrow> string \<Rightarrow> string \<Rightarrow> SDPService" where
  "test_sdp_service ns n kind = \<lparr>sdps_meta = named_meta ns n, sdps_spec = \<lparr>sdps_kind = kind, sdps_name = n\<rparr>\<rparr>"

definition test_service_user :: "nat \<Rightarrow> ServiceUser" where
  "test_service_user n =
     \<lparr>su_id = ''service_user_id'' @ show_nat n, su_name = ''service_user'' @ show_nat n,
      su_password = ''password'' @ show_nat n, su_profile_url = ''profile_url'' @ show_nat n,
      su_device_ids = None\<rparr>"

definition test_service_identity :: "nat \<Rightarrow> ServiceIdentity" where
  "test_service_identity n =
     (let service_name = ''srv'' @ show_nat n; service_ns = ''ns'' @ show_nat n
      in ServiceIdentity_new (service_ns @ ''-'' @ service_name)
           \<lparr>sis_service_user = test_service_user n, sis_service_name = service_name,
            sis_service_namespace = service_ns, sis_labels = [], sis_disabled = False\<rparr>)"

section \<open>Pods\<close>

datatype pod_field =
    PF_containers "string list"
  | PF_init_containers "string list"
  | PF_volumes "string list"
  | PF_annotations "(string \<times> string) list"
  | PF_sysctls "sysctl list"
  | PF_generate_name "string option"
  | PF_name "string option"

definition update_spec :: "(pod_spec \<Rightarrow> pod_spec) \<Rightarrow> pod \<Rightarrow> pod" where
  "update_spec f p = p\<lparr>pod_spec_of := map_option f (pod_spec_of p)\<rparr>"

definition update_meta :: "(object_meta \<Rightarrow> object_meta) \<Rightarrow> pod \<Rightarrow> pod" where
  "update_meta f p = p\<lparr>pod_meta := f (pod_meta p)\<rparr>"

fun set_pod_field :: "pod_field \<Rightarrow> pod \<Rightarrow> pod" where
  "set_pod_field (PF_containers cs) p = update_spec (\<lambda>s. s\<lparr>ps_containers := map default_container cs\<rparr>) p"
| "set_pod_field (PF_init_containers cs) p =
     update_spec (\<lambda>s. s\<lparr>ps_init_containers := Some (map default_container cs)\<rparr>) p"
| "set_pod_field (PF_volumes vs) p =
     (if length vs > 0 then update_spec (\<lambda>s. s\<lparr>ps_volumes := Some (map default_volume vs)\<rparr>) p else p)"
| "set_pod_field (PF_annotations cs) p =
     update_meta (\<lambda>m. m\<lparr>meta_annotations := fold (\<lambda>(k, v). AList.update k v) cs []\<rparr>) p"
| "set_pod_field (PF_sysctls ss) p =
     update_spec (\<lambda>s. s\<lparr>ps_security_context :=
       (case ps_security_context s of
          Some sc \<Rightarrow> Some (sc\<lparr>sc_sysctls := Some ss\<rparr>)
        | None \<Rightarrow> Some \<lparr>sc_sysctls = Some ss, sc_rest = []\<rparr>)\<rparr>) p"
| "set_pod_field (PF_generate_name g) p = update_meta (\<lambda>m. m\<lparr>generate_name := g\<rparr>) p"
| "set_pod_field (PF_name n) p = update_meta (\<lambda>m. m\<lparr>meta_name := n\<rparr>) p"

definition default_pod :: pod where
  "default_pod =
     \<lparr>pod_meta = default_meta,
      pod_spec_of = Some \<lparr>ps_containers = [], ps_init_containers = None, ps_volumes = None, ps_security_context = None\<rparr>,
      pod_status_of = None\<rparr>"

text \<open>The names the macro gives a pod that has none; the generated name ``None'' takes it away.\<close>

definition pod_names :: "nat \<Rightarrow> pod \<Rightarrow> pod" where
  "pod_names n p =
     (let i = show_nat n; m = pod_meta p;
          m = (if meta_namespace m = None then m\<lparr>meta_namespace := Some (''ns'' @ i)\<rparr> else m);
          m = (if meta_name m = None
               then m\<lparr>meta_name := Some (''srv'' @ i @ ''-replica'' @ i @ ''-testpod'' @ i)\<rparr> else m);
          m = (case generate_name m of
                 None \<Rightarrow> m\<lparr>generate_name := Some (''srv'' @ i @ ''-replica'' @ i @ ''-'')\<rparr>
               | Some x \<Rightarrow> if x = ''None'' then m\<lparr>generate_name := None\<rparr> else m)
      in p\<lparr>pod_meta := m\<rparr>)"

definition test_pod :: "nat \<Rightarrow> pod_field list \<Rightarrow> pod" where
  "test_pod n fs = pod_names n (fold set_pod_field fs default_pod)"

section \<open>Assertions\<close>

text \<open>\<^verbatim>\<open>unwrap\<close> and \<^verbatim>\<open>expect\<close> in a test: an error or a panic fails it.\<close>

definition unwrapping :: "('e, 'a) res \<Rightarrow> ('a \<Rightarrow> bool) \<Rightarrow> bool" where
  "unwrapping r f = (case r of Ok a \<Rightarrow> f a | _ \<Rightarrow> False)"

text \<open>The same for an operation on a state: the test goes on in the state it leaves.\<close>

definition unwrapping_act :: "('e, 'a) res \<times> 's \<Rightarrow> ('a \<Rightarrow> 's \<Rightarrow> bool) \<Rightarrow> bool" where
  "unwrapping_act rs f = unwrapping (fst rs) (\<lambda>a. f a (snd rs))"

lemma show_digits:
  "show_nat 0 = ''0''"
  "show_nat 1 = ''1''"
  "show_nat 2 = ''2''"
  "show_nat 3 = ''3''"
  "show_nat 4 = ''4''"
  "show_nat 5 = ''5''"
  "show_nat 6 = ''6''"
  "show_nat 7 = ''7''"
  "show_nat 8 = ''8''"
  "show_nat 9 = ''9''"
  "show_nat 10 = ''10''"
  "show_nat 11 = ''11''"
  "show_nat 12 = ''12''"
  "show_nat 13 = ''13''"
  by code_simp+

lemma unwrapping_simps [simp]:
  "unwrapping (Ok a) f = f a" "unwrapping (Err e) f = False" "unwrapping (Panic q) f = False"
  "unwrapping_act (Ok a, s) g = g a s" "unwrapping_act (Err e, s) g = False"
  by (simp_all add: unwrapping_def unwrapping_act_def)

lemma unwrapping_mono: "unwrapping r f \<Longrightarrow> (\<And>a. f a \<Longrightarrow> g a) \<Longrightarrow> unwrapping r g"
  by (cases r) auto

lemma unwrapping_Ok: "unwrapping r f \<Longrightarrow> \<exists>a. r = Ok a \<and> f a"
  by (cases r) auto

end
