(* ===== verification/Common_Tests.thy ===== *)
theory Common_Tests
  imports Test_Objects World Sdp_System
begin

text \<open>
  The unit tests of \<^verbatim>\<open>sdp-common\<close>, each as the boolean its assertions make: \<^verbatim>\<open>kubernetes.rs\<close>,
  \<^verbatim>\<open>service.rs\<close>, \<^verbatim>\<open>sdp/auth.rs\<close> and \<^verbatim>\<open>sdp/system.rs\<close>. What a test draws at random is an argument. The
  test that decodes a client profile with \<^verbatim>\<open>serde\<close> is left out.
\<close>

section \<open>Names and candidates\<close>

definition test_pod_service_name :: "string \<Rightarrow> bool" where
  "test_pod_service_name u \<longleftrightarrow>
     pod_name u (test_pod 0 [PF_generate_name (Some ''None''), PF_name (Some ''bat'')]) = ''bat'' \<and>
     pod_name u (test_pod 0 [PF_generate_name (Some ''None''), PF_name (Some ''bat-bi'')]) = ''bat-bi'' \<and>
     pod_name u (test_pod 0 [PF_generate_name (Some ''None''), PF_name (Some ''bat-bi-hiru'')]) = ''bat-bi-hiru'' \<and>
     pod_name u (test_pod 0 [PF_generate_name (Some ''None''), PF_name (Some ''bat-bi''),
       PF_annotations [(SDP_INJECTOR_ANNOTATION_POD_NAME, ''bost-sei-zazpi-zortzi'')]]) = ''bost-sei-zazpi-zortzi'' \<and>
     pod_name u (test_pod 0 [PF_name (Some ''bat-bi''), PF_generate_name (Some ''bost-sei-zazpi-'')]) = ''bost-sei'' \<and>
     pod_name u (test_pod 0 [PF_name (Some ''bat-bi''), PF_generate_name (Some ''bost-sei-zazpi-''),
       PF_annotations [(SDP_INJECTOR_ANNOTATION_POD_NAME, ''bost-sei-zazpi-zortzi'')]]) = ''bost-sei-zazpi-zortzi''"

text \<open>A pod with one or more annotations and no other field.\<close>

definition annotated :: "(string \<times> string) list \<Rightarrow> pod" where
  "annotated as = test_pod 0 [PF_annotations as]"

definition test_pod_is_candidate :: bool where
  "test_pod_is_candidate \<longleftrightarrow>
     pod_is_candidate (test_pod 0 []) \<and>
     pod_is_candidate (annotated [(SDP_INJECTOR_ANNOTATION_STRATEGY, [])]) \<and>
     pod_is_candidate (annotated [(SDP_INJECTOR_ANNOTATION_STRATEGY, ''enabledByDefault'')]) \<and>
     pod_is_candidate (annotated [(SDP_INJECTOR_ANNOTATION_STRATEGY, ''enabledByDefault''),
       (SDP_INJECTOR_ANNOTATION_ENABLED, ''true'')]) \<and>
     \<not> pod_is_candidate (annotated [(SDP_INJECTOR_ANNOTATION_ENABLED, ''false'')]) \<and>
     \<not> pod_is_candidate (annotated [(SDP_INJECTOR_ANNOTATION_STRATEGY, []),
       (SDP_INJECTOR_ANNOTATION_ENABLED, ''false'')]) \<and>
     \<not> pod_is_candidate (annotated [(SDP_INJECTOR_ANNOTATION_STRATEGY, ''enabledByDefault''),
       (SDP_INJECTOR_ANNOTATION_ENABLED, ''false'')]) \<and>
     pod_is_candidate (annotated [(SDP_INJECTOR_ANNOTATION_STRATEGY, ''disabledByDefault''),
       (SDP_INJECTOR_ANNOTATION_ENABLED, ''true'')]) \<and>
     \<not> pod_is_candidate (annotated [(SDP_INJECTOR_ANNOTATION_STRATEGY, ''disabledByDefault'')]) \<and>
     \<not> pod_is_candidate (annotated [(SDP_INJECTOR_ANNOTATION_STRATEGY, ''disabledByDefault''),
       (SDP_INJECTOR_ANNOTATION_ENABLED, ''false'')])"

definition strategy_of :: "pod \<Rightarrow> SDPInjectionStrategy" where
  "strategy_of p = injection_strategy (pod_annotations p)"

definition test_sdp_injection_strategy_0 :: bool where
  "test_sdp_injection_strategy_0 \<longleftrightarrow>
     strategy_of (test_pod 0 []) = EnabledByDefault \<and>
     strategy_of (annotated [(''SDP_INJECTOR_ANNOTATION_STRATEGY'', [])]) = EnabledByDefault \<and>
     strategy_of (annotated [(SDP_INJECTOR_ANNOTATION_STRATEGY, ''enabledByDefault'')]) = EnabledByDefault \<and>
     strategy_of (annotated [(SDP_INJECTOR_ANNOTATION_STRATEGY, ''enabledbydefault'')]) = EnabledByDefault \<and>
     strategy_of (annotated [(SDP_INJECTOR_ANNOTATION_STRATEGY, ''enabled-by-default'')]) = EnabledByDefault \<and>
     strategy_of (annotated [(SDP_INJECTOR_ANNOTATION_STRATEGY, ''disabledByDefault'')]) = DisabledByDefault \<and>
     strategy_of (annotated [(SDP_INJECTOR_ANNOTATION_STRATEGY, ''disabledbydefault'')]) = DisabledByDefault \<and>
     strategy_of (annotated [(SDP_INJECTOR_ANNOTATION_STRATEGY, ''disabled-by-default'')]) = EnabledByDefault"

definition injected :: "pod \<Rightarrow> bool" where
  "injected p \<longleftrightarrow> needs_injection (pod_annotations p)"

definition test_sdp_injection_enabled :: bool where
  "test_sdp_injection_enabled \<longleftrightarrow>
     injected (test_pod 0 []) \<and>
     injected (annotated [(SDP_INJECTOR_ANNOTATION_STRATEGY, [])]) \<and>
     injected (annotated [(SDP_INJECTOR_ANNOTATION_STRATEGY, ''enabledByDefault'')]) \<and>
     injected (annotated [(SDP_INJECTOR_ANNOTATION_STRATEGY, ''enabledByDefault''),
       (SDP_INJECTOR_ANNOTATION_ENABLED, ''true'')]) \<and>
     \<not> injected (annotated [(SDP_INJECTOR_ANNOTATION_ENABLED, ''false'')]) \<and>
     \<not> injected (annotated [(SDP_INJECTOR_ANNOTATION_STRATEGY, []), (SDP_INJECTOR_ANNOTATION_ENABLED, ''false'')]) \<and>
     \<not> injected (annotated [(SDP_INJECTOR_ANNOTATION_STRATEGY, ''enabledByDefault''),
       (SDP_INJECTOR_ANNOTATION_ENABLED, ''false'')]) \<and>
     injected (annotated [(SDP_INJECTOR_ANNOTATION_STRATEGY, ''disabledByDefault''),
       (SDP_INJECTOR_ANNOTATION_ENABLED, ''true'')]) \<and>
     \<not> injected (annotated [(SDP_INJECTOR_ANNOTATION_STRATEGY, ''disabledByDefault'')]) \<and>
     \<not> injected (annotated [(SDP_INJECTOR_ANNOTATION_STRATEGY, ''disabledByDefault''),
       (SDP_INJECTOR_ANNOTATION_ENABLED, ''false'')])"

section \<open>User names\<close>

text \<open>The ASCII upper-case letters; a suffix is alphanumeric ASCII.\<close>

definition is_uppercase :: "char \<Rightarrow> bool" where
  "is_uppercase c \<longleftrightarrow> 65 \<le> (of_char c :: nat) \<and> (of_char c :: nat) \<le> 90"

definition test_get_service_username_0 :: "(nat \<Rightarrow> char) \<Rightarrow> bool" where
  "test_get_service_username_0 smp \<longleftrightarrow>
     (let pre = ''my-cluster_my-ns_my-service_''; n = length pre
      in case get_service_username smp ''my-cluster'' ''my-ns'' ''my-service'' of
           None \<Rightarrow> False
         | Some service_username \<Rightarrow>
             take n service_username = pre \<and>
             length service_username = length pre + 5 \<and>
             length (filter is_uppercase (drop n service_username)) = 0)"

definition test_get_service_username_1 :: "(nat \<Rightarrow> char) \<Rightarrow> bool" where
  "test_get_service_username_1 smp \<longleftrightarrow>
     (let pre = ''my-cluster_my-ns_my-service-'' @ replicate 128 (CHR ''X'')
      in length pre > 128 \<and>
         (case get_service_username smp ''my-cluster'' ''my-ns'' (''my-service-'' @ replicate 128 (CHR ''X'')) of
            None \<Rightarrow> False
          | Some service_username \<Rightarrow>
              length service_username = 128 \<and>
              take 122 service_username = take 122 pre \<and>
              take 1 (drop 122 service_username) = ''_'' \<and>
              length (filter is_uppercase (drop 123 service_username)) = 0))"

definition prefix_name_of :: "string \<Rightarrow> string \<Rightarrow> string option \<Rightarrow> bool option \<Rightarrow> string" where
  "prefix_name_of pwd i n disabled = prefix_name (SDPUser_new pwd i n disabled)"

definition test_prefix_name :: "string \<Rightarrow> bool" where
  "test_prefix_name pwd \<longleftrightarrow>
     prefix_name_of pwd ''bat'' None None = ''bat'' \<and>
     prefix_name_of pwd ''bat_bi'' (Some ''bat'') None = ''bat'' \<and>
     prefix_name_of pwd ''bat_bi'' None None = ''bat_bi'' \<and>
     prefix_name_of pwd ''bat_bi'' (Some ''bat_bi_hiru'') None = ''bat_bi_hiru'' \<and>
     prefix_name_of pwd ''bat_bi_hiru'' None None = ''bat_bi_hiru'' \<and>
     prefix_name_of pwd ''bat_bi_hiru_lau'' None None = ''bat_bi_hiru'' \<and>
     prefix_name_of pwd ''id'' (Some ''bat_bi_hiru_lau'') None = ''bat_bi_hiru'' \<and>
     prefix_name_of pwd ''id'' (Some ''bat_bi_hiru_lau'') (Some True) = ''bat_bi_hiru'' \<and>
     prefix_name_of pwd ''id'' (Some ''bat_bi_hiru_lau_bost'') None = ''bat_bi_hiru_lau_bost'' \<and>
     prefix_name_of pwd ''id'' (Some ''bat_bi_hiru_lau_bost_sei'') None = ''bat_bi_hiru_lau_bost_sei'' \<and>
     prefix_name_of pwd ''id'' (Some ''bat_bi_hiru_lau_bost_sei'') (Some True) = ''bat_bi_hiru_lau_bost_sei'' \<and>
     prefix_name_of pwd ''id'' (Some ''bat-bi-hiru-lau'') (Some True) = ''bat-bi-hiru-lau''"

section \<open>Logins and on-boarded devices\<close>

text \<open>Seconds since 1970 for a date, and the nanoseconds the model counts an instant in.\<close>

definition seconds_since_1970 :: "int \<Rightarrow> int \<Rightarrow> int \<Rightarrow> int \<Rightarrow> int" where
  "seconds_since_1970 days h m s = ((days * 24 + h) * 60 + m) * 60 + s"

definition instant :: "int \<Rightarrow> int \<Rightarrow> int" where
  "instant secs nanos = secs * 1000000000 + nanos"

text \<open>2023-01-19 is day 19376 and 2024-01-04 day 19726.\<close>

definition jan_19_2023 :: "int \<Rightarrow> int \<Rightarrow> int \<Rightarrow> int" where
  "jan_19_2023 h m s = instant (seconds_since_1970 19376 h m s) 0"

definition jan_4_2024 :: "int \<Rightarrow> int \<Rightarrow> int \<Rightarrow> int \<Rightarrow> int" where
  "jan_4_2024 h m s nanos = instant (seconds_since_1970 19726 h m s) nanos"

definition test_token_is_expired :: "int \<Rightarrow> bool" where
  "test_token_is_expired least \<longleftrightarrow>
     (let l = \<lparr>login_token = ''TOKEN'', login_expires = jan_19_2023 14 45 0\<rparr>
      in is_expired least (jan_19_2023 14 40 0) l \<and>
         is_expired least (jan_19_2023 14 46 0) l \<and>
         is_expired least (jan_19_2023 14 50 0) l \<and>
         is_expired least (jan_19_2023 14 30 0) l \<and>
         \<not> is_expired least (jan_19_2023 14 29 59) l)"

definition test_device :: OnBoardedUser where
  "test_device =
     \<lparr>ob_distinguished_name = ''CN=CN0,CN=user_name,OU=service'', ob_device_id = ''uuid'',
      ob_username = ''user_name'', ob_last_seen_at = jan_4_2024 8 57 57 531413000\<rparr>"

definition test_filter_on_boarder_user_using_names0 :: bool where
  "test_filter_on_boarder_user_using_names0 \<longleftrightarrow>
     filter_on_boarder_user None None None test_device \<and>
     filter_on_boarder_user (Some []) None None test_device \<and>
     filter_on_boarder_user (Some [''another_user_name'']) None None test_device \<and>
     \<not> filter_on_boarder_user (Some [''user_name'']) None None test_device"

definition test_filter_on_boarder_user_using_names1 :: bool where
  "test_filter_on_boarder_user_using_names1 \<longleftrightarrow>
     filter_on_boarder_user None None None test_device \<and>
     \<not> filter_on_boarder_user None (Some []) None test_device \<and>
     \<not> filter_on_boarder_user None (Some [''another_user_name'']) None test_device \<and>
     filter_on_boarder_user None (Some [''user_name'']) None test_device"

definition test_filter_on_boarder_user_using_names2 :: bool where
  "test_filter_on_boarder_user_using_names2 \<longleftrightarrow>
     \<not> filter_on_boarder_user (Some []) (Some []) None test_device \<and>
     \<not> filter_on_boarder_user (Some [''another_user_name'']) (Some []) None test_device \<and>
     \<not> filter_on_boarder_user (Some []) (Some [''another_user_name'']) None test_device \<and>
     \<not> filter_on_boarder_user (Some [''user_name'']) (Some []) None test_device \<and>
     filter_on_boarder_user (Some []) (Some [''user_name'']) None test_device \<and>
     filter_on_boarder_user (Some [''another_user_name'']) (Some [''user_name'']) None test_device \<and>
     \<not> filter_on_boarder_user (Some [''user_name'']) (Some [''user_name'']) None test_device"

text \<open>The seconds of an instant, cast to \<^verbatim>\<open>u64\<close>.\<close>

definition since :: "int \<Rightarrow> 64 word" where
  "since t = of_int (timestamp t)"

definition test_filter_on_boarder_user :: bool where
  "test_filter_on_boarder_user \<longleftrightarrow>
     \<not> filter_on_boarder_user None None (Some (since (jan_4_2024 8 0 0 531413000))) test_device \<and>
     \<not> filter_on_boarder_user None None (Some (since (jan_4_2024 8 57 56 531415000))) test_device \<and>
     filter_on_boarder_user None None (Some (since (jan_4_2024 8 57 57 531413000))) test_device \<and>
     filter_on_boarder_user None None (Some (since (jan_4_2024 8 57 59 531413000))) test_device"

section \<open>The tests pass\<close>

lemmas test_object_defs =
  test_pod_def pod_names_def default_pod_def default_meta_def annotated_def update_spec_def update_meta_def
  show_nat.simps

lemmas selection_defs =
  pod_annotations_def pod_is_candidate_def needs_injection_def injection_strategy_def
  is_injection_enabled_def is_injection_disabled_def annotation_def unwrap_or_def injected_def strategy_of_def

lemma names_and_candidates_pass:
  "test_pod_service_name u"
  "test_pod_is_candidate \<and> test_sdp_injection_strategy_0 \<and> test_sdp_injection_enabled"
     apply (simp add: test_pod_service_name_def pod_name_def test_object_defs annotation_defs pod_annotations_def annotation_def unwrap_or_def)
  by code_simp+


lemma lowered_not_uppercase: "\<not> is_uppercase (ascii_lower c)"
  by (auto simp: is_uppercase_def ascii_lower_def Let_def)

lemma suffix_not_uppercase [simp]: "filter is_uppercase (get_random_suffix smp n) = []"
  by (auto simp: get_random_suffix_def to_lowercase_def filter_empty_conv lowered_not_uppercase)

lemma suffix_length [simp]: "length (get_random_suffix smp n) = n"
  by (simp add: get_random_suffix_def to_lowercase_def)

lemma long_username:
  assumes "122 < length s" and "(of_char (s ! 122) :: nat) < 128"
  shows "truncate_str 122 s = Some (take 122 s)"
  using assms by (simp add: truncate_str_def is_char_boundary_def)

lemma service_username_0_pass: "test_get_service_username_0 smp"
  by (simp add: test_get_service_username_0_def get_service_username_def truncate_str_def Let_def)

lemma long_username_shape:
  assumes "128 < length s" and "t = take 122 s @ ''_'' @ get_random_suffix smp 5"
  shows "length t = 128 \<and> take 122 t = take 122 s \<and> take 1 (drop 122 t) = ''_'' \<and>
    length (filter is_uppercase (drop 123 t)) = 0"
  using assms by simp

lemma service_username_1_pass: "test_get_service_username_1 smp"
proof -
  define xs where "xs = replicate 128 (CHR ''X'')"
  define s where "s = ''my-cluster_my-ns_my-service-'' @ xs"
  have n: "128 < length s" by (simp add: s_def xs_def)
  have "s ! 122 = CHR ''X''" unfolding s_def nth_append xs_def by (simp only: nth_replicate) simp
  with n have "truncate_str 122 s = Some (take 122 s)" by (intro long_username) simp_all
  moreover have "''my-cluster'' @ ''_'' @ ''my-ns'' @ ''_'' @ ''my-service-'' @ xs = s"
    by (simp add: s_def)
  ultimately have "get_service_username smp ''my-cluster'' ''my-ns'' (''my-service-'' @ xs) =
      Some (take 122 s @ ''_'' @ get_random_suffix smp 5)"
    by (simp only: get_service_username_def option.map)
  with long_username_shape [OF n refl] n show ?thesis
    by (simp only: test_get_service_username_1_def Let_def flip: xs_def s_def) simp
qed

lemma system_tests_pass:
  "test_prefix_name pwd"
  "least \<le> jan_19_2023 14 30 0 \<Longrightarrow> test_token_is_expired least"
  "test_filter_on_boarder_user_using_names0" "test_filter_on_boarder_user_using_names1"
  "test_filter_on_boarder_user_using_names2"
  apply (simp add: test_prefix_name_def prefix_name_of_def prefix_name_def SDPUser_new_def user_prefix_name_def unwrap_or_def)
  apply (simp add: test_token_is_expired_def is_expired_def jan_19_2023_def instant_def seconds_since_1970_def FIFTEEN_MINUTES_def unwrap_or_def)
  by code_simp+

lemma sint_since: "0 \<le> timestamp t \<Longrightarrow> timestamp t < 2 ^ 63 \<Longrightarrow> sint (since t) = timestamp t"
  by (simp add: since_def signed_take_bit_int_eq_self sint_sbintrunc')

lemma test_filter_pass: "test_filter_on_boarder_user"
  by (simp add: test_filter_on_boarder_user_def filter_on_boarder_user_def sint_since test_device_def timestamp_def
      jan_4_2024_def instant_def seconds_since_1970_def)

definition common_tests :: "string \<Rightarrow> (nat \<Rightarrow> char) \<Rightarrow> int \<Rightarrow> (string \<times> bool) list" where
  "common_tests u smp least =
     [(''test_pod_service_name'', test_pod_service_name u),
      (''test_pod_is_candidate'', test_pod_is_candidate),
      (''test_sdp_injection_strategy_0'', test_sdp_injection_strategy_0),
      (''test_sdp_injection_enabled'', test_sdp_injection_enabled),
      (''test_get_service_username_0'', test_get_service_username_0 smp),
      (''test_get_service_username_1'', test_get_service_username_1 smp),
      (''test_prefix_name'', test_prefix_name u),
      (''test_token_is_expired'', test_token_is_expired least),
      (''test_filter_on_boarder_user_using_names0'', test_filter_on_boarder_user_using_names0),
      (''test_filter_on_boarder_user_using_names1'', test_filter_on_boarder_user_using_names1),
      (''test_filter_on_boarder_user_using_names2'', test_filter_on_boarder_user_using_names2),
      (''test_filter_on_boarder_user'', test_filter_on_boarder_user)]"

lemma common_tests_pass:
  "least \<le> jan_19_2023 14 30 0 \<Longrightarrow> filter (\<lambda>t. \<not> snd t) (common_tests u smp least) = []"
  by (simp add: common_tests_def names_and_candidates_pass service_username_0_pass service_username_1_pass
      system_tests_pass test_filter_pass)

end
