(* ===== verification/Identity_Tests.thy ===== *)
theory Identity_Tests
  imports Test_Objects Device_Id Identity_Creator Identity_Manager "HOL-Library.List_Lexorder" "HOL-Library.Product_Lexorder"
    "HOL-Library.Char_ord"
begin

text \<open>
  The unit tests of the identity side, each as the boolean its assertions make: the device id store
  (\<^verbatim>\<open>deviceid.rs\<close>), the service credentials provider (\<^verbatim>\<open>identity_manager.rs\<close>) and the client
  profiles (\<^verbatim>\<open>identity_creator.rs\<close>). UUIDs a test draws are arguments. The test of the runner uses a
  manager of its own, which counts calls, and the tests after it are commented out in the source.
\<close>

section \<open>The device id store\<close>

definition device_text_1 :: string where "device_text_1 = ''f464d45a-869e-45e2-a4c0-b604fc2feafc''"

definition device_text_2 :: string where "device_text_2 = ''ecdfa8b7-39d9-44ba-8358-e8a693bf9c6d''"

definition device_text_3 :: string where "device_text_3 = ''b46eb528-a4fd-42b8-80b7-836d09fdb78c''"

text \<open>
  What the tests rely on of the \<^verbatim>\<open>uuid\<close> crate: a printed UUID parses back, and the texts of the tests,
  in lower case with hyphens, are what their UUIDs print as.
\<close>

definition uuid_text :: "(string \<Rightarrow> uuid option) \<Rightarrow> (uuid \<Rightarrow> string) \<Rightarrow> bool" where
  "uuid_text parse print \<longleftrightarrow>
     (\<forall>u. parse (print u) = Some u) \<and>
     (\<forall>s \<in> {device_text_1, device_text_2, device_text_3}. \<exists>u. parse s = Some u \<and> print u = s)"

definition missing_srv0 :: SDPServiceError where
  "missing_srv0 = from_string ''ServiceIdentity is missing for service ns0_srv0''"

definition test_in_memory_identity_store_0 :: "uuid \<Rightarrow> bool" where
  "test_in_memory_identity_store_0 fresh \<longleftrightarrow>
     (let m = InMemoryIdentityStore_new; s = test_service_identity 0
      in fst (pop_device_id fresh (si_service_id s) m) = Err missing_srv0)"

definition test_in_memory_identity_store_1 :: "uuid \<Rightarrow> bool" where
  "test_in_memory_identity_store_1 fresh \<longleftrightarrow>
     (let m = InMemoryIdentityStore_new; s = test_service_identity 0; service_id = si_service_id s
      in fst (pop_device_id fresh service_id m) = Err missing_srv0)"

definition test_in_memory_identity_store_2 :: "(string \<Rightarrow> uuid option) \<Rightarrow> (uuid \<Rightarrow> string) \<Rightarrow> uuid \<Rightarrow> bool" where
  "test_in_memory_identity_store_2 parse print fresh \<longleftrightarrow>
     (let s = test_service_identity 0; service_id = si_service_id s
      in unwrapping_act (register_or_update parse s None InMemoryIdentityStore_new) (\<lambda>_ m.
         unwrapping_act (pop_device_id fresh service_id m) (\<lambda>(got_s, got_uuid) m.
           parse (print got_uuid) \<noteq> None \<and>
           si_spec got_s = si_spec s \<and>
           si_service_name got_s = si_service_name s \<and>
           si_service_id got_s = si_service_id s \<and>
           si_name got_s = si_name s \<and>
           si_namespace got_s = si_namespace s)))"

text \<open>The device ids popped one after the other print as these texts.\<close>

fun pops_print :: "(uuid \<Rightarrow> string) \<Rightarrow> uuid \<Rightarrow> string \<Rightarrow> string list \<Rightarrow> InMemoryIdentityStore \<Rightarrow> bool" where
  "pops_print print fresh sid [] m \<longleftrightarrow> True"
| "pops_print print fresh sid (t # ts) m \<longleftrightarrow>
     unwrapping_act (pop_device_id fresh sid m) (\<lambda>(_, got_uuid) m.
       print got_uuid = t \<and> pops_print print fresh sid ts m)"

definition test_in_memory_identity_store_3 :: "(string \<Rightarrow> uuid option) \<Rightarrow> (uuid \<Rightarrow> string) \<Rightarrow> uuid \<Rightarrow> bool" where
  "test_in_memory_identity_store_3 parse print fresh \<longleftrightarrow>
     (let vs0 = [device_text_1]; s0 = si_set_device_ids (Some vs0) (test_service_identity 0);
          vs1 = [device_text_2, device_text_3]; s1 = si_set_device_ids (Some vs1) (test_service_identity 0);
          vss = [device_text_1, device_text_2, device_text_3]
      in unwrapping_act (register_or_update parse s0 None InMemoryIdentityStore_new) (\<lambda>s00 m.
         si_device_ids s00 = Some vs0 \<and>
         unwrapping_act (register_or_update parse s1 None m) (\<lambda>s11 m.
           si_device_ids s11 = Some vss \<and>
           pops_print print fresh (si_service_id s0) [device_text_3, device_text_2, device_text_1] m)))"

definition test_in_memory_identity_store_4 :: "(string \<Rightarrow> uuid option) \<Rightarrow> (uuid \<Rightarrow> string) \<Rightarrow> uuid \<Rightarrow> bool" where
  "test_in_memory_identity_store_4 parse print fresh \<longleftrightarrow>
     (let vs0 = [device_text_1]; s0 = si_set_device_ids (Some vs0) (test_service_identity 0);
          vs1 = [device_text_1, device_text_2, device_text_3];
          s1 = si_set_device_ids (Some vs1) (test_service_identity 0)
      in unwrapping_act (register_or_update parse s0 None InMemoryIdentityStore_new) (\<lambda>s00 m.
         si_device_ids s00 = Some vs0 \<and>
         unwrapping_act (register_or_update parse s1 None m) (\<lambda>s11 m.
           si_device_ids s11 = Some vs1 \<and>
           pops_print print fresh (si_service_id s0) [device_text_3, device_text_2, device_text_1] m)))"

text \<open>The device ids popped one after the other are these.\<close>

fun pops :: "uuid \<Rightarrow> string \<Rightarrow> uuid list \<Rightarrow> InMemoryIdentityStore \<Rightarrow> bool" where
  "pops fresh sid [] m \<longleftrightarrow> True"
| "pops fresh sid (u # us) m \<longleftrightarrow>
     unwrapping_act (pop_device_id fresh sid m) (\<lambda>(_, got_uuid) m. got_uuid = u \<and> pops fresh sid us m)"

definition test_in_memory_identity_store_pop_device_id ::
  "(string \<Rightarrow> uuid option) \<Rightarrow> uuid \<Rightarrow> uuid \<Rightarrow> uuid \<Rightarrow> uuid \<Rightarrow> bool" where
  "test_in_memory_identity_store_pop_device_id parse u0 u1 u2 fresh \<longleftrightarrow>
     (let s = test_service_identity 0; service_id = si_service_id s
      in unwrapping_act (register_or_update parse s None InMemoryIdentityStore_new) (\<lambda>_ m.
         unwrapping_act (register_or_update parse (test_service_identity 0) None m) (\<lambda>_ m.
           pops fresh service_id [u2, u1, u0]
             (fold (\<lambda>u m. snd (push_device_id service_id u m)) [u0, u1, u2] m))))"

definition test_regitered_device_id_get_device_id_pop :: "uuid \<Rightarrow> uuid \<Rightarrow> uuid \<Rightarrow> uuid \<Rightarrow> bool" where
  "test_regitered_device_id_get_device_id_pop u0 u1 u2 fresh \<longleftrightarrow>
     (let r = [u0, u1, u2]
      in length r = 3 \<and>
         (case rdi_pop fresh r of (got, r) \<Rightarrow> got = FromPool u0 \<and>
         (case rdi_pop fresh r of (got, r) \<Rightarrow> got = FromPool u1 \<and>
         (case rdi_pop fresh r of (got, r) \<Rightarrow> got = FromPool u2 \<and>
         (case fst (rdi_pop fresh r) of FromPool _ \<Rightarrow> False | Fresh _ \<Rightarrow> True)))))"

definition test_regitered_device_id_get_device_id_push :: "uuid \<Rightarrow> uuid \<Rightarrow> uuid \<Rightarrow> bool" where
  "test_regitered_device_id_get_device_id_push u0 extra_uuid fresh \<longleftrightarrow>
     (let r = [u0]
      in length r = 1 \<and>
         (case rdi_pop fresh r of (got, r) \<Rightarrow> got = FromPool u0 \<and>
         (let r = snd (rdi_push u0 r)
          in case rdi_pop fresh r of (got, r) \<Rightarrow> got = FromPool u0 \<and>
         (case rdi_pop fresh r of
            (FromPool _, r) \<Rightarrow> False
          | (Fresh fresh_uuid, r) \<Rightarrow>
              (let r = snd (rdi_push extra_uuid (snd (rdi_push u0 (snd (rdi_push fresh_uuid r)))))
               in case rdi_pop fresh r of (got, r) \<Rightarrow> got = FromPool extra_uuid \<and>
                  (case rdi_pop fresh r of (got, r) \<Rightarrow> got = FromPool u0 \<and>
                  (case rdi_pop fresh r of (got, r) \<Rightarrow> got = FromPool fresh_uuid)))))))"

definition test_merge_device_ids :: bool where
  "test_merge_device_ids \<longleftrightarrow>
     (let xs0 = Some [''60fb061e-2fbf-4a07-a730-0f12e9dbd5c9'', ''da34ad27-0276-4b91-ba7e-80a81e5da858''];
          xs1 = [''60fb061e-2fbf-4a07-a730-0f12e9dbd5c9'']
      in merge_device_ids xs0 xs1 [] =
           Some [''60fb061e-2fbf-4a07-a730-0f12e9dbd5c9'', ''da34ad27-0276-4b91-ba7e-80a81e5da858''])"

section \<open>The client profiles\<close>

definition test_client_profile :: "string \<Rightarrow> string \<Rightarrow> ClientProfile" where
  "test_client_profile i n =
     \<lparr>cp_id = ''xxxxxx'' @ i, cp_name = n @ ''-'' @ i, cp_spa_key_name = ''my-spa-key-'' @ i,
      cp_identity_provider_name = ''service'', cp_tags = []\<rparr>"

text \<open>The test's pattern match: a fresh profile whose name starts with \<open>n\<close> and no others left over, or an
  existing one with these names left over.\<close>

definition fresh_profile :: "string \<Rightarrow> (ClientProfileType \<times> ClientProfile list option) option \<Rightarrow> bool" where
  "fresh_profile n r \<longleftrightarrow>
     (case r of Some (FreshClientProfile p, None) \<Rightarrow> prefix n (cp_name p) | _ \<Rightarrow> False)"

definition existing_profile ::
  "string \<Rightarrow> string list option \<Rightarrow> (ClientProfileType \<times> ClientProfile list option) option \<Rightarrow> bool" where
  "existing_profile n left r \<longleftrightarrow>
     (case r of
        Some (ExistingClientProfile p, ps) \<Rightarrow> prefix n (cp_name p) \<and> map_option (map cp_name) ps = left
      | _ \<Rightarrow> False)"

definition test_get_or_create_client_profile_url_0 :: "(nat \<Rightarrow> char) \<Rightarrow> string \<Rightarrow> bool" where
  "test_get_or_create_client_profile_url_0 smp uuid \<longleftrightarrow>
     fresh_profile ''my-cluster-1'' (get_or_create_client_profile_url smp uuid ''my-cluster-1'' [])"

definition test_get_or_create_client_profile_url_1 :: "(nat \<Rightarrow> char) \<Rightarrow> string \<Rightarrow> bool" where
  "test_get_or_create_client_profile_url_1 smp uuid \<longleftrightarrow>
     (let ps = [test_client_profile ''2'' ''my-cluster-1'']
      in existing_profile ''my-cluster-1-2'' None (get_or_create_client_profile_url smp uuid ''my-cluster-1'' ps))"

definition test_get_or_create_client_profile_url_2 :: "(nat \<Rightarrow> char) \<Rightarrow> string \<Rightarrow> bool" where
  "test_get_or_create_client_profile_url_2 smp uuid \<longleftrightarrow>
     (let ps = [test_client_profile ''2'' ''my-cluster-1'', test_client_profile ''3'' ''my-cluster-1'',
                test_client_profile ''4'' ''my-cluster-1'']
      in existing_profile ''my-cluster-1-2'' (Some [''my-cluster-1-3'', ''my-cluster-1-4''])
           (get_or_create_client_profile_url smp uuid ''my-cluster-1'' ps))"

definition test_get_or_create_client_profile_url_3 :: "(nat \<Rightarrow> char) \<Rightarrow> string \<Rightarrow> bool" where
  "test_get_or_create_client_profile_url_3 smp uuid \<longleftrightarrow>
     (let ps = [test_client_profile ''2'' ''my-cluster-2'', test_client_profile ''3'' ''my-cluster-3'',
                test_client_profile ''4'' ''my-cluster-4'']
      in fresh_profile ''my-cluster-1'' (get_or_create_client_profile_url smp uuid ''my-cluster-1'' ps))"

definition test_get_or_create_client_profile_url_4 :: "(nat \<Rightarrow> char) \<Rightarrow> string \<Rightarrow> bool" where
  "test_get_or_create_client_profile_url_4 smp uuid \<longleftrightarrow>
     (let ps = [test_client_profile ''1'' ''my-cluster-1'', test_client_profile ''2'' ''my-cluster-2'',
                test_client_profile ''3'' ''my-cluster-3'', test_client_profile ''4'' ''my-cluster-4'']
      in existing_profile ''my-cluster-1-1'' None (get_or_create_client_profile_url smp uuid ''my-cluster-1'' ps))"

section \<open>The service credentials provider\<close>

text \<open>The provider a test runs in: empty at first, then these identities are registered.\<close>

definition provider_with :: "ServiceIdentity list \<Rightarrow> Provider" where
  "provider_with vs = fold register_or_update_identity vs provider_default"

definition in_provider :: "ServiceIdentity list \<Rightarrow> (Provider \<Rightarrow> bool) \<Rightarrow> bool" where
  "in_provider vs test \<longleftrightarrow> length (provider_identities provider_default) = 0 \<and> test (provider_with vs)"

definition four_identities :: "ServiceIdentity list" where
  "four_identities = [test_service_identity 1, test_service_identity 2, test_service_identity 3, test_service_identity 4]"

definition lookup_in :: "string \<Rightarrow> ServiceCandidate \<Rightarrow> (ServiceLookup \<Rightarrow> bool) \<Rightarrow> bool" where
  "lookup_in u c f = unwrapping (lookup_of_candidate u u c) f"

text \<open>
  The test sorts two vectors and compares what \<^verbatim>\<open>sort_by\<close> returns, which is \<open>()\<close> on both sides. A vacant
  entry is \<^term>\<open>None\<close>.
\<close>

definition test_provider_identities :: "string \<Rightarrow> bool" where
  "test_provider_identities u \<longleftrightarrow>
     (let d1 = SCDeployment (test_deployment ''ns1'' ''dep1'');
          d2 = SCDeployment (test_deployment ''ns1'' ''srv1'');
          ss1 = SCSDPService (test_sdp_service ''ns2'' ''srv2'' ''customrunner'')
      in in_provider four_identities (\<lambda>im.
           length (provider_identities im) = 4 \<and>
           (let sorted_is0 = (); sorted_is1 = () in sorted_is0 = sorted_is1) \<and>
           lookup_in u d1 (\<lambda>l. identity l im = None) \<and>
           lookup_in u d2 (\<lambda>l. identity l im \<noteq> None) \<and>
           lookup_in u ss1 (\<lambda>l. identity l im \<noteq> None)))"

definition check_service_identity ::
  "(ServiceIdentity \<times> bool) option \<Rightarrow> ServiceUser \<Rightarrow> string \<Rightarrow> string \<Rightarrow> bool" where
  "check_service_identity si c service_name service_ns \<longleftrightarrow>
     (case si of
        None \<Rightarrow> False
      | Some (si, _) \<Rightarrow>
          sis_service_name (si_spec si) = service_name \<and>
          sis_service_namespace (si_spec si) = service_ns \<and>
          su_name (sis_service_user (si_spec si)) = su_name c)"

text \<open>\<^verbatim>\<open>im.next_identity(&ServiceLookup::try_from_service(&c).unwrap())\<close>, checked by \<open>f\<close>; the test goes on in the
  provider it leaves.\<close>

definition next_in ::
  "string \<Rightarrow> ServiceCandidate \<Rightarrow> Provider \<Rightarrow> ((ServiceIdentity \<times> bool) option \<Rightarrow> Provider \<Rightarrow> bool) \<Rightarrow> bool" where
  "next_in u c im f = lookup_in u c (\<lambda>l. case next_identity l im of (r, im) \<Rightarrow> f r im)"

definition d1_1 :: ServiceCandidate where "d1_1 = SCDeployment (test_deployment ''ns1'' ''srv1'')"

definition d2_2 :: ServiceCandidate where "d2_2 = SCDeployment (test_deployment ''ns2'' ''srv2'')"

definition d1_2 :: ServiceCandidate where "d1_2 = SCDeployment (test_deployment ''ns2'' ''srv1'')"

definition d3_1 :: ServiceCandidate where "d3_1 = SCDeployment (test_deployment ''ns1'' ''srv3'')"

definition ss3_1 :: ServiceCandidate where "ss3_1 = SCSDPService (test_sdp_service ''ns1'' ''srv3'' ''customservice'')"

definition next_identity_empty_pool :: "string \<Rightarrow> bool" where
  "next_identity_empty_pool u \<longleftrightarrow>
     (let id1 = test_service_identity 1
      in in_provider [id1] (\<lambda>im.
           length (provider_identities im) = 1 \<and>
           next_in u d1_2 im (\<lambda>r im. r = None \<and>
           next_in u d2_2 im (\<lambda>r im. r = None \<and>
           next_in u d1_1 im (\<lambda>d1_id im.
             check_service_identity d1_id (sis_service_user (si_spec id1)) ''srv1'' ''ns1'')))))"

definition next_identity_two_users :: "string \<Rightarrow> bool" where
  "next_identity_two_users u \<longleftrightarrow>
     (let id1 = test_service_identity 1; c1 = test_service_user 1; c2 = test_service_user 2
      in in_provider [id1] (\<lambda>im.
           (let im = pool_push c2 (pool_push c1 im)
            in length (provider_identities im) = 1 \<and>
               next_in u d2_2 im (\<lambda>r im. check_service_identity r c1 ''srv2'' ''ns2'' \<and>
               next_in u d1_1 im (\<lambda>r im. map_option (si_spec \<circ> fst) r = Some (si_spec id1) \<and>
               next_in u d1_2 im (\<lambda>r im. check_service_identity r c2 ''srv1'' ''ns2'' \<and>
               next_in u d3_1 im (\<lambda>r im. r = None \<and>
               next_in u d2_2 im (\<lambda>r im. check_service_identity r c1 ''srv2'' ''ns2'' \<and>
               next_in u d1_2 im (\<lambda>r im. check_service_identity r c2 ''srv1'' ''ns2'' \<and>
                 length (provider_identities im) = 3 \<and>
                 sort (map si_service_id (provider_identities im)) = [''ns1_srv1'', ''ns2_srv1'', ''ns2_srv2''])))))))))"

definition next_identity_sdp_service :: "string \<Rightarrow> bool" where
  "next_identity_sdp_service u \<longleftrightarrow>
     (let c1 = test_service_user 1; c2 = test_service_user 2
      in in_provider [test_service_identity 1] (\<lambda>im.
           (let im = pool_push c2 (pool_push c1 im)
            in length (provider_identities im) = 1 \<and>
               next_in u ss3_1 im (\<lambda>r im. check_service_identity r c1 ''srv3'' ''ns1''))))"

definition test_provider_next_identity :: "string \<Rightarrow> bool" where
  "test_provider_next_identity u \<longleftrightarrow>
     next_identity_empty_pool u \<and> next_identity_two_users u \<and> next_identity_sdp_service u"

definition service_identities_to_tuple :: "ServiceIdentity list \<Rightarrow> (string \<times> string \<times> string) list" where
  "service_identities_to_tuple sis =
     sort (map (\<lambda>si. let spec = si_spec si
                     in (sis_service_namespace spec, sis_service_name spec, su_id (sis_service_user spec))) sis)"

text \<open>The tuple of the identity number \<open>n\<close>.\<close>

definition identity_tuple :: "string \<Rightarrow> string \<times> string \<times> string" where
  "identity_tuple n = (''ns'' @ n, ''srv'' @ n, ''service_user_id'' @ n)"

text \<open>The identities sorted by name, which the tests index.\<close>

definition sorted_identities :: "Provider \<Rightarrow> ServiceIdentity list" where
  "sorted_identities im = sort_key si_meta_name (provider_identities im)"

definition test_provider_extras_identities :: bool where
  "test_provider_extras_identities \<longleftrightarrow>
     in_provider four_identities (\<lambda>im.
       (let ids = map si_service_id (sorted_identities im);
            extra = (\<lambda>known. service_identities_to_tuple (extra_service_identities known im));
            t = identity_tuple
        in length (extra []) = 4 \<and>
           extra [] = [t ''1'', t ''2'', t ''3'', t ''4''] \<and>
           length (extra [ids ! 0]) = 3 \<and>
           extra [ids ! 0] = [t ''2'', t ''3'', t ''4''] \<and>
           extra [ids ! 0, ids ! 1, ids ! 2, ids ! 3] = [] \<and>
           extra [ids ! 0, ids ! 1, ids ! 2, ids ! 3, si_service_id (test_service_identity 5)] = []))"

definition test_provider_orphan_identities :: bool where
  "test_provider_orphan_identities \<longleftrightarrow>
     in_provider four_identities (\<lambda>im.
       (let us = map (\<lambda>si. su_id (si_credentials si)) (sorted_identities im);
            orphans = (\<lambda>deactivated. service_identities_to_tuple (orphan_service_identities deactivated im));
            t = identity_tuple
        in orphans [] = [] \<and>
           orphans [us ! 0, us ! 1, us ! 2, us ! 3] = [t ''1'', t ''2'', t ''3'', t ''4''] \<and>
           orphans [us ! 0, us ! 2] = [t ''1'', t ''3''] \<and>
           orphans [su_id (si_credentials (test_service_identity 5))] = []))"

text \<open>A set of user ids is a list without repetitions.\<close>

definition is_set :: "string list \<Rightarrow> string list \<Rightarrow> bool" where
  "is_set xs ys \<longleftrightarrow> set xs = set ys \<and> length xs = length ys"

definition test_provider_orphan_service_users :: bool where
  "test_provider_orphan_service_users \<longleftrightarrow>
     in_provider four_identities (\<lambda>im.
       (let orphans = (\<lambda>activated. orphan_service_users activated im);
            i = (\<lambda>n. ''service_user_id'' @ n)
        in is_set (orphans []) [] \<and>
           is_set (orphans [i ''1'', i ''2'', i ''3'', i ''4'']) [] \<and>
           is_set (orphans [i ''5'']) [i ''5''] \<and>
           is_set (orphans [i ''1'', i ''2'', i ''3'', i ''4'', i ''5'', i ''6'', i ''7'', i ''8''])
             [i ''5'', i ''6'', i ''7'', i ''8'']))"

section \<open>The tests pass\<close>

lemma distinct_devices:
  assumes "uuid_text parse print"
  obtains a b c where "parse device_text_1 = Some a" "print a = device_text_1" "parse device_text_2 = Some b"
    "print b = device_text_2" "parse device_text_3 = Some c" "print c = device_text_3" "a \<noteq> b" "a \<noteq> c" "b \<noteq> c"
proof -
  obtain a b c where abc: "parse device_text_1 = Some a" "print a = device_text_1" "parse device_text_2 = Some b"
    "print b = device_text_2" "parse device_text_3 = Some c" "print c = device_text_3"
    using assms by (auto simp: uuid_text_def)
  moreover have "device_text_1 \<noteq> device_text_2" "device_text_1 \<noteq> device_text_3" "device_text_2 \<noteq> device_text_3"
    by (simp_all add: device_text_1_def device_text_2_def device_text_3_def)
  ultimately show ?thesis by (intro that [of a b c]) auto
qed

lemmas store_defs =
  Let_def register_or_update_def pop_device_id_def push_device_id_def rdi_push_def rdi_pop_def si_device_ids_def
  si_set_device_ids_def InMemoryIdentityStore_new_def unwrap_or_def missing_service_def missing_srv0_def
  test_service_identity_def si_service_id_def si_service_name_def si_namespace_def si_name_def show_digits test_service_user_def

lemma empty_store_tests_pass:
  "test_in_memory_identity_store_0 fresh" "test_in_memory_identity_store_1 fresh"
  "uuid_text parse print \<Longrightarrow> test_in_memory_identity_store_2 parse print fresh"
  by (simp_all add: test_in_memory_identity_store_0_def test_in_memory_identity_store_1_def uuid_text_def
      test_in_memory_identity_store_2_def store_defs)

text \<open>The store with one service and its pool.\<close>

definition one_service :: "ServiceIdentity \<Rightarrow> RegisteredDeviceId \<Rightarrow> InMemoryIdentityStore" where
  "one_service s ds = \<lparr>identities = [(si_service_id s, s)], registered_device_ids = [(si_service_id s, ds)]\<rparr>"

lemma register_no_devices:
  assumes "si_device_ids s = None"
  shows "register_or_update parse s None InMemoryIdentityStore_new = (Ok s, one_service s [])"
    "register_or_update parse s None (one_service s ds) = (Ok s, one_service s ds)"
proof -
  have "si_set_device_ids None s = s" using assms by (simp add: si_set_device_ids_def si_device_ids_def)
  with assms show "register_or_update parse s None InMemoryIdentityStore_new = (Ok s, one_service s [])"
    "register_or_update parse s None (one_service s ds) = (Ok s, one_service s ds)"
    by (simp_all add: register_or_update_def InMemoryIdentityStore_new_def one_service_def unwrap_or_def Let_def)
qed

lemma one_service_pool:
  "push_device_id (si_service_id s) u (one_service s ds) = (Ok (Some u), one_service s (snd (rdi_push u ds)))"
  "pop_device_id fresh (si_service_id s) (one_service s (u # ds)) = (Ok (s, u), one_service s ds)"
  by (simp_all add: push_device_id_def pop_device_id_def one_service_def rdi_pop_def)

lemma pop_test_passes:
  assumes "distinct [u0, u1, u2]"
  shows "test_in_memory_identity_store_pop_device_id parse u0 u1 u2 fresh"
proof -
  have "si_device_ids (test_service_identity 0) = None"
    by (simp add: test_service_identity_def Let_def si_device_ids_def test_service_user_def)
  note reg = register_no_devices [OF this, of parse]
  from assms show ?thesis
    by (auto simp: test_in_memory_identity_store_pop_device_id_def Let_def reg one_service_pool rdi_push_def)
qed

lemma pool_tests_pass:
  "test_regitered_device_id_get_device_id_pop u0 u1 u2 fresh"
  "distinct [u0, extra, fresh] \<Longrightarrow> test_regitered_device_id_get_device_id_push u0 extra fresh"
  test_merge_device_ids
  by (auto simp: test_regitered_device_id_get_device_id_pop_def
      test_regitered_device_id_get_device_id_push_def test_merge_device_ids_def rdi_push_def rdi_pop_def)

lemma stored_device_tests_pass:
  assumes "uuid_text parse print"
  shows "test_in_memory_identity_store_3 parse print fresh" "test_in_memory_identity_store_4 parse print fresh"
proof -
  have t: "device_text_1 \<noteq> device_text_2" "device_text_1 \<noteq> device_text_3" "device_text_2 \<noteq> device_text_3"
    by (simp_all add: device_text_1_def device_text_2_def device_text_3_def)
  obtain a b c where "parse device_text_1 = Some a" "print a = device_text_1" "parse device_text_2 = Some b"
    "print b = device_text_2" "parse device_text_3 = Some c" "print c = device_text_3" "a \<noteq> b" "a \<noteq> c" "b \<noteq> c"
    using distinct_devices [OF assms] .
  with t show "test_in_memory_identity_store_3 parse print fresh" "test_in_memory_identity_store_4 parse print fresh"
    by (auto simp: test_in_memory_identity_store_3_def test_in_memory_identity_store_4_def store_defs)
qed

lemma profile_tests_pass:
  "test_get_or_create_client_profile_url_0 smp i" "test_get_or_create_client_profile_url_1 smp i"
  "test_get_or_create_client_profile_url_2 smp i" "test_get_or_create_client_profile_url_3 smp i"
  "test_get_or_create_client_profile_url_4 smp i"
  by (simp_all add: test_get_or_create_client_profile_url_0_def test_get_or_create_client_profile_url_1_def
      test_get_or_create_client_profile_url_2_def test_get_or_create_client_profile_url_3_def
      test_get_or_create_client_profile_url_4_def get_or_create_client_profile_url_def get_profile_client_url_name_def
      truncate_str_def fresh_profile_def existing_profile_def test_client_profile_def)

lemma in_provider_iff: "in_provider vs test \<longleftrightarrow> test (provider_with vs)"
  by (simp add: in_provider_def provider_default_def provider_identities_def)

lemma provider_tests_pass:
  "test_provider_extras_identities \<and> test_provider_orphan_identities \<and> test_provider_orphan_service_users \<and>
   test_provider_identities u \<and> test_provider_next_identity u"
  by code_simp

section \<open>All of them\<close>

definition identity_tests ::
  "string \<Rightarrow> (nat \<Rightarrow> char) \<Rightarrow> (string \<Rightarrow> uuid option) \<Rightarrow> (uuid \<Rightarrow> string) \<Rightarrow> uuid list \<Rightarrow> uuid \<Rightarrow> (string \<times> bool) list" where
  "identity_tests u smp parse print us fresh =
     [(''test_in_memory_identity_store_0'', test_in_memory_identity_store_0 fresh),
      (''test_in_memory_identity_store_1'', test_in_memory_identity_store_1 fresh),
      (''test_in_memory_identity_store_2'', test_in_memory_identity_store_2 parse print fresh),
      (''test_in_memory_identity_store_3'', test_in_memory_identity_store_3 parse print fresh),
      (''test_in_memory_identity_store_4'', test_in_memory_identity_store_4 parse print fresh),
      (''test_in_memory_identity_store_pop_device_id'',
         test_in_memory_identity_store_pop_device_id parse (us ! 0) (us ! 1) (us ! 2) fresh),
      (''test_regitered_device_id_get_device_id_pop'',
         test_regitered_device_id_get_device_id_pop (us ! 0) (us ! 1) (us ! 2) fresh),
      (''test_regitered_device_id_get_device_id_push'',
         test_regitered_device_id_get_device_id_push (us ! 0) (us ! 1) fresh),
      (''test_merge_device_ids'', test_merge_device_ids),
      (''test_identity_manager_service_credentials_provider_identities'', test_provider_identities u),
      (''test_identity_manager_service_credentials_provider_identities_next_identity'', test_provider_next_identity u),
      (''test_identity_manager_service_credentials_provider_extras_identities'', test_provider_extras_identities),
      (''test_identity_manager_service_credentials_provider_orphan_identities'', test_provider_orphan_identities),
      (''test_identity_manager_service_credentials_provider_orphan_service_users'', test_provider_orphan_service_users),
      (''test_get_or_create_client_profile_url_0'', test_get_or_create_client_profile_url_0 smp u),
      (''test_get_or_create_client_profile_url_1'', test_get_or_create_client_profile_url_1 smp u),
      (''test_get_or_create_client_profile_url_2'', test_get_or_create_client_profile_url_2 smp u),
      (''test_get_or_create_client_profile_url_3'', test_get_or_create_client_profile_url_3 smp u),
      (''test_get_or_create_client_profile_url_4'', test_get_or_create_client_profile_url_4 smp u)]"

lemma identity_tests_pass:
  assumes "uuid_text parse print" and "distinct (fresh # us)" and "length us = 3"
  shows "filter (\<lambda>t. \<not> snd t) (identity_tests u smp parse print us fresh) = []"
proof -
  obtain a b c where us: "us = [a, b, c]"
    using assms(3) by (auto simp: length_Suc_conv numeral_3_eq_3)
  have "distinct [a, b, c]" "distinct [a, b, fresh]" using assms(2) us by auto
  with assms(1) show ?thesis
    by (simp add: identity_tests_def us empty_store_tests_pass stored_device_tests_pass pop_test_passes
        pool_tests_pass provider_tests_pass profile_tests_pass)
qed

text \<open>UUIDs that print as their number of letters, but for the three of the tests.\<close>

definition sample_print :: "uuid \<Rightarrow> string" where
  "sample_print u =
     (if u = 1 then device_text_1 else if u = 2 then device_text_2 else if u = 3 then device_text_3
      else replicate (unat u + 100) (CHR ''x''))"

definition sample_uuid_parse :: "string \<Rightarrow> uuid option" where
  "sample_uuid_parse s =
     (if s = device_text_1 then Some 1 else if s = device_text_2 then Some 2 else if s = device_text_3 then Some 3
      else Some (of_nat (length s - 100)))"

lemma sample_uuid_text: "uuid_text sample_uuid_parse sample_print"
proof -
  have "length device_text_1 < 100" "length device_text_2 < 100" "length device_text_3 < 100"
    by (simp_all add: device_text_1_def device_text_2_def device_text_3_def)
  then have n: "replicate (k + 100) c \<noteq> device_text_1" "replicate (k + 100) c \<noteq> device_text_2"
    "replicate (k + 100) c \<noteq> device_text_3" for k c
    by (metis length_replicate not_add_less2)+
  have "device_text_1 \<noteq> device_text_2" "device_text_1 \<noteq> device_text_3" "device_text_2 \<noteq> device_text_3"
    by (simp_all add: device_text_1_def device_text_2_def device_text_3_def)
  with n show ?thesis
    by (auto simp: uuid_text_def sample_uuid_parse_def sample_print_def)
qed

end
