(* ===== verification/Pod_Document.thy ===== *)
theory Pod_Document
  imports Pod_Annotations
begin

text \<open>
  What becomes of a pod when the injector's patch is applied to it as a JSON document. The patch is a list of \<^verbatim>\<open>add\<close>
  operations with pointers; \<open>inject\<close> says directly what an injected pod is, and the theorem of this theory is that
  applying the operations one by one gives exactly that. \<open>add_member\<close> is what RFC 6902 makes of \<^verbatim>\<open>add\<close> on such
  documents. The API server that applies a patch is the parameter \<open>app\<close>, of which no more is assumed than that it
  agrees with \<open>add_member\<close> where that is defined.
\<close>

section \<open>Documents\<close>

text \<open>A pod's document: the pod, whether it has a member for annotations, and the members the model of a pod
  leaves out.\<close>

record pod_document =
  pd_pod :: pod
  pd_annotated :: bool
  pd_dns_policy :: "string option"
  pd_dns_config :: "PodDNSConfig option"
  pd_image_pull_secrets :: "string list option"

definition document_of :: "pod \<Rightarrow> string list option \<Rightarrow> pod_document" where
  "document_of p secrets =
     \<lparr>pd_pod = p, pd_annotated = (meta_annotations (pod_meta p) \<noteq> []), pd_dns_policy = None, pd_dns_config = None,
      pd_image_pull_secrets = secrets\<rparr>"

definition set_spec :: "pod_spec \<Rightarrow> pod_document \<Rightarrow> pod_document" where
  "set_spec s d = d\<lparr>pd_pod := (pd_pod d)\<lparr>pod_spec_of := Some s\<rparr>\<rparr>"

definition document_spec :: "(pod_spec \<Rightarrow> pod_spec option) \<Rightarrow> pod_document \<Rightarrow> pod_document option" where
  "document_spec f d = map_option (\<lambda>s. set_spec s d) (Option.bind (pod_spec_of (pd_pod d)) f)"

definition set_annotations :: "string_map \<Rightarrow> pod_document \<Rightarrow> pod_document" where
  "set_annotations m d =
     d\<lparr>pd_pod := (pd_pod d)\<lparr>pod_meta := (pod_meta (pd_pod d))\<lparr>meta_annotations := m\<rparr>\<rparr>, pd_annotated := True\<rparr>"

definition document_annotations :: "pod_document \<Rightarrow> string_map" where
  "document_annotations d = meta_annotations (pod_meta (pd_pod d))"

text \<open>\<^verbatim>\<open>add\<close> at the pointers the injector uses; \<^term>\<open>None\<close> where the parent of the target is missing.\<close>

fun add_member :: "string \<Rightarrow> patch_value \<Rightarrow> pod_document \<Rightarrow> pod_document option" where
  "add_member path (VMap m) d = (if path = ''/metadata/annotations'' then Some (set_annotations m d) else None)"
| "add_member path (VString v) d =
     (if path = ''/spec/dnsPolicy'' then document_spec Some (d\<lparr>pd_dns_policy := Some v\<rparr>)
      else if prefix ''/metadata/annotations/'' path \<and> pd_annotated d
      then Some (set_annotations
        (AList.update (unescape (drop (length ''/metadata/annotations/'') path)) v (document_annotations d)) d)
      else None)"
| "add_member path (VContainer c) d =
     (if path = ''/spec/containers/-'' then document_spec (\<lambda>s. Some (s\<lparr>ps_containers := ps_containers s @ [c]\<rparr>)) d else None)"
| "add_member path (VContainers cs) d =
     (if path = ''/spec/initContainers'' then document_spec (\<lambda>s. Some (s\<lparr>ps_init_containers := Some cs\<rparr>)) d else None)"
| "add_member path (VVolume v) d =
     (if path = ''/spec/volumes/-''
      then document_spec (\<lambda>s. map_option (\<lambda>vs. s\<lparr>ps_volumes := Some (vs @ [v])\<rparr>) (ps_volumes s)) d else None)"
| "add_member path (VVolumes vs) d =
     (if path = ''/spec/volumes'' then document_spec (\<lambda>s. Some (s\<lparr>ps_volumes := Some vs\<rparr>)) d else None)"
| "add_member path (VDNSConfig dc) d =
     (if path = ''/spec/dnsConfig'' then document_spec Some (d\<lparr>pd_dns_config := Some dc\<rparr>) else None)"
| "add_member path (VSecurityContext sc) d =
     (if path = ''/spec/securityContext'' then document_spec (\<lambda>s. Some (s\<lparr>ps_security_context := Some sc\<rparr>)) d else None)"

type_synonym json_add = "AddOperation \<Rightarrow> pod_document \<Rightarrow> string + pod_document"

definition adds_members :: "json_add \<Rightarrow> bool" where
  "adds_members app \<longleftrightarrow> (\<forall>op d d'. add_member (op_path op) (op_value op) d = Some d' \<longrightarrow> app op d = Inr d')"

text \<open>A patch is applied operation by operation, and fails with the first that fails.\<close>

fun apply_patch :: "json_add \<Rightarrow> Patch \<Rightarrow> pod_document \<Rightarrow> string + pod_document" where
  "apply_patch app [] d = Inr d"
| "apply_patch app (op # ops) d = (case app op d of Inr d' \<Rightarrow> apply_patch app ops d' | Inl err \<Rightarrow> Inl err)"

section \<open>The injected pod\<close>

text \<open>The annotations of an injected pod.\<close>

definition injected_annotations :: "ServiceEnvironment \<Rightarrow> string_map \<Rightarrow> string_map" where
  "injected_annotations se m =
     fold (\<lambda>(k, v). AList.update k v)
       [(SDP_INJECTOR_ANNOTATION_STRATEGY, SDPInjectionStrategy_to_string (injection_strategy (Some m))),
        (SDP_INJECTOR_ANNOTATION_ENABLED, unwrap_or (annotation (Some m) SDP_INJECTOR_ANNOTATION_ENABLED)
           (bool_to_string (injection_strategy (Some m) = EnabledByDefault))),
        (SDP_ANNOTATION_CLIENT_DEVICE_ID, client_device_id se),
        (SDP_INJECTOR_ANNOTATION_SERVICE_NAME, se_service_name se),
        (SDP_INJECTOR_ANNOTATION_SERVICE_ID, se_service_id se),
        (SDP_INJECTOR_ANNOTATION_POD_NAME, se_pod_name se)] m"

definition init_containers_disabled :: "string_map \<Rightarrow> bool" where
  "init_containers_disabled m \<longleftrightarrow>
     (case annotation (Some m) SDP_INJECTOR_ANNOTATION_DISABLE_INIT_CONTAINERS of
        None \<Rightarrow> False | Some v \<Rightarrow> eq_ignore_ascii_case v ''true'')"

definition injected_init_containers ::
  "SDPSidecars \<Rightarrow> string \<Rightarrow> PodDNSConfig \<Rightarrow> string_map \<Rightarrow> container list option \<Rightarrow> container list option" where
  "injected_init_containers ss ip dc m own =
     (case own of
        Some (x # xs) \<Rightarrow>
          if init_containers_disabled m then own
          else Some ((fst (ss_init_containers ss))\<lparr>c_env := Some (dns_env ip dc)\<rparr> # (x # xs) @
                     [(snd (ss_init_containers ss))\<lparr>c_env := Some (dns_env ip dc)\<rparr>])
      | _ \<Rightarrow> own)"

definition injected_security_context :: "nat \<Rightarrow> pod_security_context option \<Rightarrow> pod_security_context option" where
  "injected_security_context version own =
     (if version < K8S_VERSION_FOR_SAFE_SYSCTL then own
      else (let sc = unwrap_or own \<lparr>sc_sysctls = None, sc_rest = []\<rparr>
            in Some (sc\<lparr>sc_sysctls := Some (\<lparr>sysctl_name = ''net.ipv4.ip_unprivileged_port_start'', sysctl_value = ''0''\<rparr> #
                 unwrap_or (sc_sysctls sc) [])\<rparr>)))"

definition injected_spec ::
  "SDPPod \<Rightarrow> ServiceEnvironment \<Rightarrow> string \<Rightarrow> string \<Rightarrow> PodDNSConfig \<Rightarrow> string_map \<Rightarrow> pod_spec \<Rightarrow> pod_spec" where
  "injected_spec sp se ip version dc m s =
     s\<lparr>ps_containers := ps_containers s @ map (sidecar_for se version) (ss_containers (sp_sidecars sp)),
       ps_init_containers := injected_init_containers (sp_sidecars sp) ip dc m (ps_init_containers s),
       ps_volumes := Some (unwrap_or (ps_volumes s) [] @ ss_volumes (sp_sidecars sp)),
       ps_security_context := injected_security_context (sp_server_version sp) (ps_security_context s)\<rparr>"

text \<open>
  The injected document, from the pod's namespace, the address of the name server and the default version of the
  client: the environment counts the pod's own containers, and the search list and the client version are the
  pod's own where it has annotations for them.
\<close>

definition inject ::
  "SDPPod \<Rightarrow> ServiceEnvironment \<Rightarrow> string \<Rightarrow> string \<Rightarrow> string \<Rightarrow> pod_document \<Rightarrow> pod_document" where
  "inject sp se ns ip default_version d =
     (case pod_spec_of (pd_pod d) of
        None \<Rightarrow> d
      | Some s \<Rightarrow>
          (let m = document_annotations d;
               se' = se\<lparr>n_containers := show_nat (length (ps_containers s)), k8s_dns_service_ip := Some ip\<rparr>;
               dc = dns_config (sp_sidecars sp) ns
                      (map_option searches_string_to_vec (annotation (Some m) SDP_ANNOTATION_DNS_SEARCHES));
               version = unwrap_or (annotation (Some m) SDP_INJECTOR_ANNOTATION_CLIENT_VERSION) default_version
           in (set_spec (injected_spec sp se' ip version dc m s) (set_annotations (injected_annotations se m) d))
                \<lparr>pd_dns_policy := Some ''None'', pd_dns_config := Some dc\<rparr>))"

section \<open>Applying the operations\<close>

fun add_all :: "(string \<times> patch_value) list \<Rightarrow> pod_document \<Rightarrow> pod_document option" where
  "add_all [] d = Some d"
| "add_all (pv # pvs) d = Option.bind (add_member (fst pv) (snd pv) d) (add_all pvs)"

lemma add_all_append: "add_all (pvs @ qvs) d = Option.bind (add_all pvs d) (add_all qvs)"
  by (induction pvs arbitrary: d) (auto simp: bind_eq_Some_conv split: bind_split)

lemma apply_patch_add_all:
  assumes "adds_members app" and "add_all pvs d = Some d'"
  shows "apply_patch app (map op_of pvs) d = Inr d'"
  using assms(2)
proof (induction pvs arbitrary: d)
  case (Cons pv pvs)
  then obtain d1 where d1: "add_member (fst pv) (snd pv) d = Some d1" "add_all pvs d1 = Some d'"
    by (auto simp: bind_eq_Some_conv)
  with assms(1) have "app (op_of pv) d = Inr d1" by (simp add: adds_members_def op_of_def)
  with Cons.IH [OF d1(2)] show ?case by simp
qed simp

text \<open>A crate that does no more than RFC 6902 says: it fails on every other operation.\<close>

definition rfc_add :: json_add where
  "rfc_add op d = (case add_member (op_path op) (op_value op) d of Some d' \<Rightarrow> Inr d' | None \<Rightarrow> Inl ''not found'')"

lemma rfc_adds_members: "adds_members rfc_add"
  by (simp add: adds_members_def rfc_add_def)

lemma apply_patch_rfc:
  assumes "adds_members app" and "apply_patch rfc_add ops d = Inr d'"
  shows "apply_patch app ops d = Inr d'"
  using assms(2)
proof (induction ops arbitrary: d)
  case (Cons op ops)
  then obtain d1 where d1: "rfc_add op d = Inr d1" "apply_patch rfc_add ops d1 = Inr d'"
    by (auto split: sum.splits)
  then have "app op d = Inr d1" using assms(1) by (auto simp: adds_members_def rfc_add_def split: option.splits)
  with Cons.IH [OF d1(2)] show ?case by simp
qed simp

lemma set_spec_simps [simp]:
  "set_spec s (set_spec t d) = set_spec s d" "pod_spec_of (pd_pod (set_spec s d)) = Some s"
  "document_annotations (set_spec s d) = document_annotations d" "pd_annotated (set_spec s d) = pd_annotated d"
  by (simp_all add: set_spec_def document_annotations_def)

lemma set_annotations_simps [simp]:
  "set_annotations m (set_annotations m' d) = set_annotations m d" "document_annotations (set_annotations m d) = m"
  "pd_annotated (set_annotations m d)" "pod_spec_of (pd_pod (set_annotations m d)) = pod_spec_of (pd_pod d)"
  by (simp_all add: set_annotations_def document_annotations_def)

lemma document_spec_set [simp]: "document_spec f (set_spec s d) = map_option (\<lambda>s'. set_spec s' d) (f s)"
  by (cases "f s") (simp_all add: document_spec_def)

lemma add_containers:
  "add_all (map (\<lambda>c. (''/spec/containers/-'', VContainer (g c))) cs) (set_spec s d) =
     Some (set_spec (s\<lparr>ps_containers := ps_containers s @ map g cs\<rparr>) d)"
  by (induction cs arbitrary: s) simp_all

lemma add_volumes:
  "ps_volumes s = Some vs \<Longrightarrow> add_all (map (\<lambda>v. (''/spec/volumes/-'', VVolume v)) us) (set_spec s d) =
     Some (set_spec (s\<lparr>ps_volumes := Some (vs @ us)\<rparr>) d)"
proof (induction us arbitrary: s vs)
  case Nil
  then show ?case by (cases s) simp
qed simp

lemma add_annotation:
  assumes "pd_annotated d" and "CHR ''~'' \<notin> set k"
  shows "add_member (annotation_path k) (VString v) d = Some (set_annotations (AList.update k v (document_annotations d)) d)"
  using assms unescape_patch_annotation [of k] by (simp add: annotation_path_def)

text \<open>The annotation operations, each applied to what the one before left.\<close>

lemma annotation_keys_free: "CHR ''~'' \<notin> set (appgate_annotate a) \<longleftrightarrow> CHR ''~'' \<notin> set a"
  by (rule annotation_keys_plain)

lemma add_annotations:
  assumes "pd_annotated d" and "\<forall>(k, v) \<in> set kvs. CHR ''~'' \<notin> set k"
  shows "add_all (map (\<lambda>(k, v). (annotation_path k, VString v)) kvs) d =
    Some (if kvs = [] then d else set_annotations (fold (\<lambda>(k, v). AList.update k v) kvs (document_annotations d)) d)"
  using assms
proof (induction kvs arbitrary: d)
  case (Cons kv kvs)
  obtain k v where kv: "kv = (k, v)" by force
  have "add_member (annotation_path k) (VString v) d = Some (set_annotations (AList.update k v (document_annotations d)) d)"
    using Cons.prems by (intro add_annotation) (auto simp: kv)
  with Cons.IH [of "set_annotations (AList.update k v (document_annotations d)) d"] Cons.prems show ?case
    by (auto simp: kv)
qed simp

lemma set_own_annotations: "pd_annotated d \<Longrightarrow> set_annotations (document_annotations d) d = d"
  by (cases d) (simp add: set_annotations_def document_annotations_def)

lemma add_annotation_patches:
  assumes "m = meta_annotations (pod_meta p)" and "d = document_of p secrets"
  shows "add_all (annotation_patches se p) d = Some (set_annotations (injected_annotations se m) d)"
proof -
  let ?kvs = "[(SDP_INJECTOR_ANNOTATION_STRATEGY, SDPInjectionStrategy_to_string (injection_strategy (Some m))),
        (SDP_INJECTOR_ANNOTATION_ENABLED, unwrap_or (annotation (Some m) SDP_INJECTOR_ANNOTATION_ENABLED)
           (bool_to_string (injection_strategy (Some m) = EnabledByDefault))),
        (SDP_ANNOTATION_CLIENT_DEVICE_ID, client_device_id se),
        (SDP_INJECTOR_ANNOTATION_SERVICE_NAME, se_service_name se),
        (SDP_INJECTOR_ANNOTATION_SERVICE_ID, se_service_id se),
        (SDP_INJECTOR_ANNOTATION_POD_NAME, se_pod_name se)]"
  have patches: "annotation_patches se p =
      (if m = [] then [(''/metadata/annotations'', VMap [])] else []) @ map (\<lambda>(k, v). (annotation_path k, VString v)) ?kvs"
    by (cases "annotation (Some m) SDP_INJECTOR_ANNOTATION_ENABLED")
      (simp_all add: annotation_patches_def Let_def pod_annotations_def assms(1))
  have keys: "\<forall>(k, v) \<in> set ?kvs. CHR ''~'' \<notin> set k"
    by (simp add: annotation_defs annotation_keys_free)
  have doc: "document_annotations d = m" "pd_annotated d \<longleftrightarrow> m \<noteq> []"
    by (simp_all add: assms document_annotations_def document_of_def)
  show ?thesis
  proof (cases "m = []")
    case True
    then have "add_all (annotation_patches se p) d =
        add_all (map (\<lambda>(k, v). (annotation_path k, VString v)) ?kvs) (set_annotations [] d)"
      by (simp only: patches if_True add_all_append) (simp add: op_of_def)
    also have "\<dots> = Some (set_annotations (injected_annotations se m) d)"
      using add_annotations [of "set_annotations [] d", OF _ keys] True by (simp only: injected_annotations_def) simp
    finally show ?thesis .
  next
    case False
    then show ?thesis
      using add_annotations [of d, OF _ keys] doc by (simp only: patches injected_annotations_def) simp
  qed
qed

text \<open>The operations on the specification.\<close>

lemma add_container_patches:
  "add_all (container_patches se version ss) (set_spec s d) =
     Some (set_spec (s\<lparr>ps_containers := ps_containers s @ map (sidecar_for se version) (ss_containers ss)\<rparr>) d)"
  unfolding container_patches_def by (rule add_containers)

lemma add_init_container_patches:
  assumes "pod_spec_of p = Some s0" and "ps_init_containers s = ps_init_containers s0"
    and "m = meta_annotations (pod_meta p)"
  shows "add_all (init_container_patches ss ip dc p) (set_spec s d) =
    Some (set_spec (s\<lparr>ps_init_containers := injected_init_containers ss ip dc m (ps_init_containers s0)\<rparr>) d)"
proof -
  have same: "s\<lparr>ps_init_containers := ps_init_containers s0\<rparr> = s" by (simp flip: assms(2))
  have off: "unwrap_or (map_option (\<lambda>s. eq_ignore_ascii_case s ''true'')
      (annotation (pod_annotations p) SDP_INJECTOR_ANNOTATION_DISABLE_INIT_CONTAINERS)) False = init_containers_disabled m"
    by (simp add: init_containers_disabled_def pod_annotations_def assms(3) unwrap_or_def split: option.split)
  show ?thesis
  proof (cases "ps_init_containers s0")
    case None
    with assms(1) same show ?thesis
      by (simp add: init_container_patches_def init_containers_def injected_init_containers_def)
  next
    case (Some xs)
    then show ?thesis
      using assms(1) same
      by (cases xs) (auto simp: init_container_patches_def init_containers_def injected_init_containers_def off)
  qed
qed

lemma add_volume_patches:
  assumes "pod_spec_of p = Some s0" and "ps_volumes s = ps_volumes s0"
  shows "add_all (volume_patches ss p) (set_spec s d) =
    Some (set_spec (s\<lparr>ps_volumes := Some (unwrap_or (ps_volumes s0) [] @ ss_volumes ss)\<rparr>) d)"
  using assms add_volumes [of s]
  by (cases "ps_volumes s0") (simp_all add: volume_patches_def volumes_def)

lemma add_sysctl_patches:
  assumes "pod_spec_of p = Some s0" and "ps_security_context s = ps_security_context s0"
  shows "add_all (sysctl_patches version p) (set_spec s d) =
    Some (set_spec (s\<lparr>ps_security_context := injected_security_context version (ps_security_context s0)\<rparr>) d)"
proof -
  have same: "s\<lparr>ps_security_context := ps_security_context s0\<rparr> = s" by (simp flip: assms(2))
  show ?thesis
    by (simp add: sysctl_patches_def injected_security_context_def security_context_def Let_def assms(1) same)
qed

lemma add_dns_patches:
  "add_all [(''/spec/dnsConfig'', VDNSConfig dc), (''/spec/dnsPolicy'', VString ''None'')] (set_spec s d) =
     Some (set_spec s (d\<lparr>pd_dns_policy := Some ''None'', pd_dns_config := Some dc\<rparr>))"
  by (simp add: document_spec_def set_spec_def)

section \<open>The patch injects\<close>

text \<open>
  C6: the patch of a pod does what it is for, whatever the pod: applied operation by operation to the pod's
  document it never fails and gives exactly the injected document. That is the pod with the sidecars after its own
  containers, its own init containers between the two of the injector unless it has none or an annotation
  disables them, the volumes of the sidecars after its own, the port sysctl in front of its own where the
  cluster's version has it, the six annotations, and the name server of the sidecars; every other member is as it was.\<close>
theorem patch_injects_sidecars:
  assumes "adds_members app" and "pod_patch e sp se r = Ok ops" and "needs_patching sp r"
    and "ar_object r = Some p" and "podreq_namespace r = Some ns" and "maybe_ip (sp_dns_service sp) = Some ip"
    and "ie_client_version e = Some version"
  shows "apply_patch app ops (document_of p secrets) = Inr (inject sp se ns ip version (document_of p secrets))"
proof -
  let ?m = "meta_annotations (pod_meta p)" and ?ss = "sp_sidecars sp" and ?d = "document_of p secrets"
  obtain s where s: "pod_spec_of p = Some s"
    using assms(3,4) by (cases "pod_spec_of p") (auto simp: needs_patching_def containers_def unwrap_or_def)
  let ?se = "se\<lparr>n_containers := show_nat (length (ps_containers s)), k8s_dns_service_ip := Some ip\<rparr>"
  let ?dc = "dns_config ?ss ns (map_option searches_string_to_vec (annotation (Some ?m) SDP_ANNOTATION_DNS_SEARCHES))"
  let ?v = "unwrap_or (annotation (Some ?m) SDP_INJECTOR_ANNOTATION_CLIENT_VERSION) version"
  have ops: "ops = map op_of (annotation_patches ?se p @ container_patches ?se ?v ?ss @
      init_container_patches ?ss ip ?dc p @ volume_patches ?ss p @
      [(''/spec/dnsConfig'', VDNSConfig ?dc), (''/spec/dnsPolicy'', VString ''None'')] @
      sysctl_patches (sp_server_version sp) p)"
    using assms(2-7) s
    by (auto simp: pod_patch_def Let_def and_then_Ok_iff container_patches_def containers_def pod_annotations_def
        dest!: add_ops_Ok)
  define dns where "dns = [(''/spec/dnsConfig'', VDNSConfig ?dc), (''/spec/dnsPolicy'', VString ''None'')]"
  note dns_ops = add_dns_patches [of ?dc, folded dns_def]
  define D where "D = set_annotations (injected_annotations se ?m) ?d"
  have D: "D = set_spec s D" using s by (simp add: D_def set_spec_def set_annotations_def document_of_def)
  have "injected_annotations ?se ?m = injected_annotations se ?m"
    by (simp add: injected_annotations_def)
  with D have anns: "add_all (annotation_patches ?se p) ?d = Some (set_spec s D)"
    by (simp add: add_annotation_patches [OF refl refl] D_def)
  have "inject sp se ns ip version ?d =
      set_spec (injected_spec sp ?se ip ?v ?dc ?m s) (D\<lparr>pd_dns_policy := Some ''None'', pd_dns_config := Some ?dc\<rparr>)"
    using s by (simp add: inject_def D_def document_annotations_def document_of_def set_spec_def Let_def)
  moreover have "add_all (annotation_patches ?se p @ container_patches ?se ?v ?ss @
      init_container_patches ?ss ip ?dc p @ volume_patches ?ss p @
      dns @
      sysctl_patches (sp_server_version sp) p) ?d = Some (set_spec (injected_spec sp ?se ip ?v ?dc ?m s)
        (D\<lparr>pd_dns_policy := Some ''None'', pd_dns_config := Some ?dc\<rparr>))"
    by (simp add: add_all_append anns add_container_patches add_init_container_patches [OF s _ refl]
        add_volume_patches [OF s] dns_ops add_sysctl_patches [OF s] injected_spec_def del: add_all.simps)
  ultimately have "add_all (annotation_patches ?se p @ container_patches ?se ?v ?ss @
      init_container_patches ?ss ip ?dc p @ volume_patches ?ss p @
      dns @
      sysctl_patches (sp_server_version sp) p) ?d = Some (inject sp se ns ip version ?d)"
    by simp
  then show ?thesis unfolding ops dns_def by (rule apply_patch_add_all [OF assms(1)])
qed

theorem patch_injects_sidecars_witness:
  "\<exists>ops. pod_patch sample_env sample_sdp_pod sample_environment sample_request = Ok ops \<and>
     apply_patch rfc_add ops (document_of sample_pod (Some [''registry''])) =
       Inr (inject sample_sdp_pod sample_environment ''shop'' ''10.0.0.10'' ''6.0.1'' (document_of sample_pod (Some [''registry''])))"
proof -
  obtain ops where ops: "pod_patch sample_env sample_sdp_pod sample_environment sample_request = Ok ops"
    using sample_patch_ok by blast
  have "apply_patch rfc_add ops (document_of sample_pod (Some [''registry''])) =
      Inr (inject sample_sdp_pod sample_environment ''shop'' ''10.0.0.10'' ''6.0.1'' (document_of sample_pod (Some [''registry''])))"
    by (rule patch_injects_sidecars [OF rfc_adds_members ops sample_needs_patching])
      (simp_all add: sample_request_def sample_sdp_pod_def sample_env_def sample_service_def podreq_namespace_def
        admission_request_namespace_def maybe_ip_def)
  with ops show ?thesis by blast
qed

end
