(* ===== verification/Patch_Tests.thy ===== *)
theory Patch_Tests
  imports Test_Objects Pod_Document
begin

text \<open>
  The unit tests of the injector (\<^verbatim>\<open>injector.rs\<close>), each as the boolean its assertions make. The tests
  apply patches with the \<^verbatim>\<open>json_patch\<close> crate to the pod as a JSON document; the crate is the parameter \<open>app\<close>
  of \<^verbatim>\<open>Pod_Document\<close>, of which they need that it adds members as RFC 6902 says.

  The first test of \<^verbatim>\<open>from_identity_store\<close> is left out: it compares the error text of a requester of its own.
\<close>

section \<open>The setting\<close>

text \<open>The sidecars of \<^verbatim>\<open>tests/sdp-sidecars.json\<close>, but for the members the model does not read.\<close>

definition json_container :: "string \<Rightarrow> string \<Rightarrow> container" where
  "json_container n img = \<lparr>c_name = n, c_image = Some img, c_env = None, c_rest = []\<rparr>"

definition test_sidecars :: SDPSidecars where
  "test_sidecars =
     \<lparr>ss_init_containers = (json_container ''sdp-init-container-0'' ''busybox'', json_container ''sdp-init-container-f'' ''busybox''),
      ss_containers =
        [json_container ''sdp-service'' ''ghcr.io/appgate/sdp-k8s-injector/sdp-headless-service:5.5.1'',
         json_container ''sdp-driver'' ''ghcr.io/appgate/sdp-k8s-injector/sdp-headless-driver:5.5.1'',
         json_container ''sdp-dnsmasq'' ''ghcr.io/appgate/sdp-k8s-injector/sdp-dnsmasq:5.5.1''],
      ss_volumes = map default_volume [''run-sdp-driver'', ''run-sdp-dnsmasq'', ''tun-device'', ''pod-info''],
      ss_dns_searches = ''svc.cluster.local cluster.local''\<rparr>"

definition test_dns_service :: "string \<Rightarrow> kube_service" where
  "test_dns_service ip = \<lparr>ks_labels = None, ks_cluster_ip = Some (Some ip)\<rparr>"

definition lease_text :: string where
  "lease_text = ''0f74690e-b99b-46dc-828b-6162638d7a77''"

text \<open>
  What the injector reads in the tests: the client version the tests set, pointers and values that are
  well formed, the lease the requester of the test has for its \<open>n\<close>-th service, and a text \<open>u\<close> for what
  is drawn at random.
\<close>

definition test_env :: "string \<Rightarrow> nat \<Rightarrow> injector_env" where
  "test_env u n =
     \<lparr>ie_pointer_parse = \<lambda>_. None, ie_to_value = \<lambda>_. None, ie_client_version = Some ''6.0.1'',
      ie_device = \<lambda>sid. Answered (Some
        (if sid = si_service_id (test_service_identity n) then AssignedDeviceId (test_service_identity n) 1 else NotFound)),
      ie_uuid_to_string = \<lambda>_. lease_text, ie_uuid = \<lambda>_. u, ie_services = Inr [], ie_namespace = \<lambda>_. Inr None,
      ie_utf8 = Inr, ie_parse_resource = Inl, ie_parse_pod = Inl, ie_parse_deployment = Inl, ie_parse_pod_review = Inl,
      ie_response = \<lambda>uid. \<lparr>resp_uid = uid, resp_allowed = True, resp_code = 0, resp_message = [], resp_patch = None\<rparr>,
      ie_invalid = \<lambda>m. \<lparr>resp_uid = [], resp_allowed = False, resp_code = 400, resp_message = m, resp_patch = None\<rparr>,
      ie_with_patch = \<lambda>resp ops. Inr (resp\<lparr>resp_patch := Some ops\<rparr>), ie_print_review = \<lambda>_. Inl [],
      ie_print_response = \<lambda>_. Inl [], ie_print_service = \<lambda>_. Inl []\<rparr>"

text \<open>\<^verbatim>\<open>TestObjectRequest\<close>: every question goes to the pod.\<close>

definition test_object_request :: "pod \<Rightarrow> pod AdmissionRequest" where
  "test_object_request p = \<lparr>ar_uid = [], ar_namespace = None, ar_object = Some p\<rparr>"

section \<open>The table of pods\<close>

text \<open>\<open>tp_pod_secrets\<close> are the pull secrets the entry's pod has, \<open>tp_image_pull_secrets\<close> the expected ones.\<close>

record TestPatch =
  tp_pod :: pod
  tp_pod_secrets :: "string list option"
  tp_needs_patching :: bool
  tp_client_config_map :: string
  tp_client_secrets :: string
  tp_envs :: "(string \<times> string option) list"
  tp_service :: kube_service
  tp_dns_searches :: "string list option"
  tp_image_pull_secrets :: "string list option"
  tp_sysctls :: "sysctl list option"
  tp_server_version :: nat
  tp_annotations :: "(string \<times> string) list option"

definition TestPatch_default :: TestPatch where
  "TestPatch_default =
     \<lparr>tp_pod = test_pod 0 [], tp_pod_secrets = None, tp_needs_patching = False, tp_client_config_map = ''ns0-srv0-service-config'',
      tp_client_secrets = ''ns0-srv0-service-user'', tp_envs = [], tp_service = test_dns_service ''10.10.10.10'',
      tp_dns_searches = Some [''svc.cluster.local'', ''cluster.local''], tp_image_pull_secrets = None,
      tp_sysctls = None, tp_server_version = 22, tp_annotations = None\<rparr>"

text \<open>What the entries that are patched share: the variables, the searches and the annotations of the \<open>n\<close>-th pod.\<close>

definition numbered :: "string \<Rightarrow> string \<Rightarrow> nat \<Rightarrow> string" where
  "numbered sep rest n = ''ns'' @ show_nat n @ sep @ ''srv'' @ show_nat n @ rest"

definition expected_envs :: "nat \<Rightarrow> string \<Rightarrow> string \<Rightarrow> string \<Rightarrow> (string \<times> string option) list" where
  "expected_envs n nc ip device =
     [(''POD_N_CONTAINERS'', Some nc), (''K8S_DNS_SERVICE'', Some ip), (''APPGATE_DEVICE_ID'', Some device),
      (''SERVICE_ID'', Some (numbered ''_'' [] n)), (''SERVICE_NAME'', Some (numbered ''-'' [] n)),
      (''POD_NAME'', Some (''srv'' @ show_nat n))]"

definition expected_searches :: "nat \<Rightarrow> string list option" where
  "expected_searches n = Some [''ns'' @ show_nat n @ ''.svc.cluster.local'', ''svc.cluster.local'', ''cluster.local'']"

definition expected_annotations :: "nat \<Rightarrow> (string \<times> string) list option" where
  "expected_annotations n = Some
     [(SDP_INJECTOR_ANNOTATION_SERVICE_NAME, numbered ''-'' [] n), (SDP_INJECTOR_ANNOTATION_SERVICE_ID, numbered ''_'' [] n),
      (SDP_INJECTOR_ANNOTATION_POD_NAME, ''srv'' @ show_nat n)]"

definition user_sysctl :: sysctl where
  "user_sysctl = \<lparr>sysctl_name = ''some.sysctl.specified.by.user'', sysctl_value = ''666''\<rparr>"

definition port_sysctl :: sysctl where
  "port_sysctl = \<lparr>sysctl_name = ''net.ipv4.ip_unprivileged_port_start'', sysctl_value = ''0''\<rparr>"

text \<open>An entry whose pod is patched and gets its lease, with what most of them expect.\<close>

definition patched_entry :: "nat \<Rightarrow> pod_field list \<Rightarrow> TestPatch" where
  "patched_entry n fs = TestPatch_default
     \<lparr>tp_pod := test_pod n fs, tp_needs_patching := True,
      tp_client_config_map := numbered ''-'' ''-service-config'' n, tp_client_secrets := numbered ''-'' ''-service-user'' n,
      tp_envs := expected_envs n ''1'' ''10.10.10.10'' lease_text, tp_dns_searches := expected_searches n,
      tp_annotations := expected_annotations n\<rparr>"

definition sidecar_no :: "nat \<Rightarrow> string" where
  "sidecar_no i = container_names test_sidecars ! i"

definition patch_test_0 :: TestPatch where
  "patch_test_0 = TestPatch_default\<lparr>tp_pod := test_pod 0 []\<rparr>"

definition patch_test_1 :: TestPatch where
  "patch_test_1 = (patched_entry 1 [PF_containers [''random-service''],
       PF_annotations [(SDP_ANNOTATION_CLIENT_DEVICE_ID, ''00000000-0000-0000-0000-000000000001'')], PF_sysctls [user_sysctl]])
     \<lparr>tp_pod_secrets := Some [''secret1'', ''secret2''], tp_image_pull_secrets := Some [''secret1'', ''secret2''],
      tp_sysctls := Some [port_sysctl, user_sysctl]\<rparr>"

definition patch_test_2 :: TestPatch where
  "patch_test_2 = patched_entry 2 [PF_containers [''random-service''], PF_annotations [(''sdp-injector'', ''false'')]]"

definition patch_test_3 :: TestPatch where
  "patch_test_3 = (patched_entry 3 [PF_containers [''random-service''], PF_annotations
       [(''sdp-injector'', ''who-knows''), (SDP_ANNOTATION_CLIENT_SECRETS, ''some-secrets''),
        (SDP_ANNOTATION_CLIENT_CONFIG, ''some-config-map''),
        (SDP_ANNOTATION_CLIENT_DEVICE_ID, ''00000000-0000-0000-0000-000000000003''),
        (SDP_ANNOTATION_DNS_SEARCHES, ''one.svc.local two.svc.local svc.local'')]])
     \<lparr>tp_client_config_map := ''some-config-map'', tp_client_secrets := ''some-secrets'',
      tp_envs := expected_envs 3 ''1'' ''10.10.10.10'' ''00000000-0000-0000-0000-000000000003'',
      tp_dns_searches := Some [''ns3.one.svc.local'', ''one.svc.local'', ''two.svc.local'', ''svc.local'']\<rparr>"

definition patch_test_4 :: TestPatch where
  "patch_test_4 = (patched_entry 4 [PF_containers [''random-service''], PF_annotations
       [(''sdp-injector'', ''true''), (SDP_ANNOTATION_CLIENT_DEVICE_ID, ''00000000-0000-0000-0000-000000000004''),
        (SDP_ANNOTATION_DNS_SEARCHES, ''ns4.one.svc.local two.svc.local svc.local''),
        (SDP_ANNOTATION_CLIENT_SECRETS, ''some-secrets'')]])
     \<lparr>tp_client_secrets := ''some-secrets'',
      tp_envs := expected_envs 4 ''1'' ''10.10.10.10'' ''00000000-0000-0000-0000-000000000004'',
      tp_dns_searches := Some [''ns4.one.svc.local'', ''one.svc.local'', ''two.svc.local'', ''svc.local'']\<rparr>"

definition patch_test_5 :: TestPatch where
  "patch_test_5 = (patched_entry 5 [PF_containers [''some-random-service-1'', ''some-random-service-2''],
       PF_annotations [(SDP_ANNOTATION_CLIENT_CONFIG, ''some-config-map'')]])
     \<lparr>tp_envs := expected_envs 5 ''2'' ''10.0.0.10'' lease_text, tp_service := test_dns_service ''10.0.0.10''\<rparr>"

definition patch_test_6 :: TestPatch where
  "patch_test_6 = TestPatch_default\<lparr>tp_pod := test_pod 6 [PF_containers [sidecar_no 0, sidecar_no 1, ''some-random-service'']]\<rparr>"

definition patch_test_7 :: TestPatch where
  "patch_test_7 = TestPatch_default\<lparr>tp_pod := test_pod 7
     [PF_containers [sidecar_no 0, sidecar_no 1, ''some-random-service''], PF_annotations [(''sdp-injector'', ''true'')]]\<rparr>"

definition patch_test_8 :: TestPatch where
  "patch_test_8 = TestPatch_default\<lparr>tp_pod := test_pod 8 [PF_containers [sidecar_no 1, ''some-random-service'']]\<rparr>"

definition patch_test_9 :: TestPatch where
  "patch_test_9 = TestPatch_default\<lparr>tp_pod := test_pod 9
     [PF_containers [sidecar_no 1, ''some-random-service''], PF_annotations [(''sdp-injector'', ''true'')]]\<rparr>"

definition patch_test_10 :: TestPatch where
  "patch_test_10 = patched_entry 10 [PF_containers [''random-service''], PF_init_containers [''random-init-container'']]"

definition patch_test_11 :: TestPatch where
  "patch_test_11 = (patched_entry 11 [PF_containers [''random-service''], PF_sysctls [user_sysctl]])
     \<lparr>tp_server_version := 11, tp_sysctls := Some [user_sysctl]\<rparr>"

definition patch_test_12 :: TestPatch where
  "patch_test_12 = (patched_entry 12 [PF_containers [''random-service'']])\<lparr>tp_sysctls := Some [port_sysctl]\<rparr>"

definition patch_tests :: "TestPatch list" where
  "patch_tests =
     [patch_test_0, patch_test_1, patch_test_2, patch_test_3, patch_test_4, patch_test_5, patch_test_6, patch_test_7,
      patch_test_8, patch_test_9, patch_test_10, patch_test_11, patch_test_12]"

text \<open>Every entry with its number, which is the number of its pod too.\<close>

definition numbered_tests :: "(nat \<times> TestPatch) list" where
  "numbered_tests = zip [0..<13] patch_tests"

section \<open>Who is patched\<close>

definition test_sdp_pod :: "kube_service \<Rightarrow> nat \<Rightarrow> SDPPod" where
  "test_sdp_pod s v = \<lparr>sp_sidecars = test_sidecars, sp_dns_service = Some s, sp_server_version = v\<rparr>"

definition test_needs_patching :: bool where
  "test_needs_patching \<longleftrightarrow>
     list_all (\<lambda>t. tp_needs_patching t = needs_patching (test_sdp_pod (tp_service t) 22) (test_object_request (tp_pod t)))
       patch_tests"

definition test_is_candidate_pod :: bool where
  "test_is_candidate_pod \<longleftrightarrow>
     pod_is_candidate (test_pod 0 []) \<and>
     \<not> pod_is_candidate (test_pod 0 [PF_annotations [(SDP_INJECTOR_ANNOTATION_ENABLED, ''false'')]]) \<and>
     pod_is_candidate (test_pod 0 [PF_annotations [(SDP_INJECTOR_ANNOTATION_ENABLED, ''true'')]])"

section \<open>The patched pod\<close>

definition expected_containers :: "string list \<Rightarrow> string list" where
  "expected_containers vs = container_names test_sidecars @ vs"

definition expected_init_containers :: "string list \<Rightarrow> string list" where
  "expected_init_containers xs = ''sdp-init-container-0'' # xs @ [''sdp-init-container-f'']"

definition expected_volumes :: "string list \<Rightarrow> string list" where
  "expected_volumes vs = map v_name (ss_volumes test_sidecars) @ vs"

definition assert_volumes :: "pod \<Rightarrow> string list \<Rightarrow> bool" where
  "assert_volumes p unpatched \<longleftrightarrow> set (unwrap_or (volume_names p) []) = set (expected_volumes unpatched)"

definition assert_containers :: "pod \<Rightarrow> string list \<Rightarrow> bool" where
  "assert_containers p unpatched \<longleftrightarrow>
     (case containers p of None \<Rightarrow> False | Some cs \<Rightarrow> set (map c_name cs) = set (expected_containers unpatched))"

definition assert_init_containers :: "pod \<Rightarrow> string list \<Rightarrow> bool" where
  "assert_init_containers p unpatched \<longleftrightarrow>
     (case init_containers p of None \<Rightarrow> False | Some cs \<Rightarrow> map c_name cs = expected_init_containers unpatched)"

definition assert_annotations :: "pod \<Rightarrow> TestPatch \<Rightarrow> bool" where
  "assert_annotations p t \<longleftrightarrow>
     list_all (\<lambda>(k, v). annotation (pod_annotations p) k = Some v) (unwrap_or (tp_annotations t) [])"

fun env_expected :: "TestPatch \<Rightarrow> env_var_t \<Rightarrow> bool" where
  "env_expected t v =
     (case ev_value_from v of
        Some (SecretKeyRef s _ _) \<Rightarrow> s = tp_client_secrets t
      | Some (ConfigMapKeyRef m _ _) \<Rightarrow> m = tp_client_config_map t
      | Some (FieldRef _) \<Rightarrow> True
      | None \<Rightarrow> ev_value v \<noteq> None \<and> (ev_name v, ev_value v) \<in> set (tp_envs t))"

definition assert_envs :: "pod \<Rightarrow> TestPatch \<Rightarrow> bool" where
  "assert_envs p t \<longleftrightarrow>
     (case containers p of
        None \<Rightarrow> False
      | Some css \<Rightarrow>
          (case filter (\<lambda>c. c_name c = SDP_SERVICE_CONTAINER_NAME) css of
             [] \<Rightarrow> False
           | c # _ \<Rightarrow> (case c_env c of None \<Rightarrow> False | Some env_vars \<Rightarrow> list_all (env_expected t) env_vars)))"

definition assert_dnsconfig :: "pod_document \<Rightarrow> string list option \<Rightarrow> bool" where
  "assert_dnsconfig d searches \<longleftrightarrow>
     pod_spec_of (pd_pod d) \<noteq> None \<and> pd_dns_policy d = Some ''None'' \<and>
     (case pd_dns_config d of
        None \<Rightarrow> False
      | Some dc \<Rightarrow> dc_nameservers dc = Some [''127.0.0.1''] \<and> dc_searches dc = searches)"

definition assert_security_context :: "pod \<Rightarrow> TestPatch \<Rightarrow> bool" where
  "assert_security_context p t \<longleftrightarrow>
     (case tp_sysctls t of
        None \<Rightarrow> True
      | Some expected \<Rightarrow> Option.bind (security_context p) sc_sysctls = Some expected)"

text \<open>The assertions on the patched document of the pod \<open>p\<close>.\<close>

definition assert_document :: "pod_document \<Rightarrow> pod \<Rightarrow> TestPatch \<Rightarrow> bool" where
  "assert_document d p t \<longleftrightarrow>
     (let patched = pd_pod d
      in assert_volumes patched (unwrap_or (volume_names p) []) \<and>
         (case containers p of
            None \<Rightarrow> False
          | Some cs \<Rightarrow> assert_containers patched (map c_name cs)) \<and>
         (case init_containers p of
            None \<Rightarrow> True
          | Some cs \<Rightarrow> assert_init_containers patched (map c_name cs)) \<and>
         assert_envs patched t \<and>
         assert_dnsconfig d (tp_dns_searches t) \<and>
         pd_image_pull_secrets d = tp_image_pull_secrets t \<and>
         assert_security_context patched t \<and>
         assert_annotations patched t)"

definition assert_patch :: "json_add \<Rightarrow> pod \<Rightarrow> Patch \<Rightarrow> TestPatch \<Rightarrow> bool" where
  "assert_patch app p ops t \<longleftrightarrow>
     (case apply_patch app ops (document_of p (tp_pod_secrets t)) of Inl _ \<Rightarrow> False | Inr d \<Rightarrow> assert_document d p t)"

definition pod_patched_as_expected :: "json_add \<Rightarrow> string \<Rightarrow> nat \<times> TestPatch \<Rightarrow> bool" where
  "pod_patched_as_expected app u nt \<longleftrightarrow>
     (let (n, t) = nt; p = tp_pod t; e = test_env u n; r = test_object_request p;
          sp = test_sdp_pod (tp_service t) (tp_server_version t)
      in unwrapping (ServiceEnvironment_create e r) (\<lambda>env.
           if tp_needs_patching t \<and> needs_patching sp r
           then unwrapping (pod_patch e sp env r) (\<lambda>ops. assert_patch app p ops t)
           else tp_needs_patching t = needs_patching sp r))"

definition test_pod_patch_sidecars :: "json_add \<Rightarrow> string \<Rightarrow> bool" where
  "test_pod_patch_sidecars app u \<longleftrightarrow> list_all (pod_patched_as_expected app u) numbered_tests"

section \<open>Responses\<close>

definition test_admission_request :: "nat \<Rightarrow> pod \<Rightarrow> pod AdmissionRequest" where
  "test_admission_request n p =
     \<lparr>ar_uid = ''705ab4f5-6393-11e8-b7cc-42010a800002'', ar_namespace = Some (si_namespace (test_service_identity n)),
      ar_object = Some p\<rparr>"

text \<open>The patch of a response is its text, which is two bytes long exactly when there is no operation.\<close>

definition response_as_expected :: "string \<Rightarrow> nat \<times> TestPatch \<Rightarrow> bool" where
  "response_as_expected u nt \<longleftrightarrow>
     (let (n, t) = nt
      in case patch_pod (test_env u n) (test_admission_request n (tp_pod t))
                \<lparr>pc_sidecars = test_sidecars, pc_dns_service = Some (tp_service t), pc_server_version = 22\<rparr> of
           Ok (Allow response) \<Rightarrow>
             resp_allowed response \<and>
             (case resp_patch response of None \<Rightarrow> False | Some ops \<Rightarrow> tp_needs_patching t = (ops \<noteq> []))
         | _ \<Rightarrow> False)"

definition test_mutate_responses :: "string \<Rightarrow> bool" where
  "test_mutate_responses u \<longleftrightarrow> list_all (response_as_expected u) numbered_tests"

section \<open>Validation\<close>

text \<open>Pods with the error their validation gives.\<close>

definition validation_tests :: "(pod \<times> string option) list" where
  "validation_tests =
     [
      (test_pod 0 [],
       Some (''Unable to run SDP client on Pod: Pod is missing required containers: sdp-dnsmasq, sdp-driver, sdp-service'' @ [CHR 0x0A] @
         ''Pod is missing required volumes: pod-info, run-sdp-dnsmasq, run-sdp-driver, tun-device'')),
      (test_pod 1 [PF_containers [''sdp-dnsmasq'']],
       Some (''Unable to run SDP client on Pod: Pod is missing required containers: sdp-driver, sdp-service'' @ [CHR 0x0A] @
         ''Pod is missing required volumes: pod-info, run-sdp-dnsmasq, run-sdp-driver, tun-device'')),
      (test_pod 2 [PF_containers [''sdp-dnsmasq'', ''sdp-service'']],
       Some (''Unable to run SDP client on Pod: Pod is missing required containers: sdp-driver'' @ [CHR 0x0A] @
         ''Pod is missing required volumes: pod-info, run-sdp-dnsmasq, run-sdp-driver, tun-device'')),
      (test_pod 3 [PF_containers [''sdp-service'', ''sdp-dnsmasq'', ''sdp-driver'']],
       Some (''Unable to run SDP client on Pod: Pod is missing required volumes: pod-info, run-sdp-dnsmasq, run-sdp-driver, tun-device'')),
      (test_pod 4 [PF_containers [''sdp-service'', ''sdp-dnsmasq'', ''sdp-driver''], PF_volumes [''run-sdp-dnsmasq'', ''run-sdp-driver'']],
       Some (''Unable to run SDP client on Pod: Pod is missing required volumes: pod-info, tun-device'')),
      (test_pod 5 [PF_containers [''sdp-service'', ''sdp-dnsmasq'', ''sdp-driver''], PF_volumes [''run-sdp-driver'', ''run-sdp-dnsmasq'']],
       Some (''Unable to run SDP client on Pod: Pod is missing required volumes: pod-info, tun-device'')),
      (test_pod 6 [PF_containers [''sdp-driver''], PF_volumes [''run-sdp-driver'', ''tun-device'', ''pod-info'', ''run-sdp-dnsmasq'']],
       Some (''Unable to run SDP client on Pod: Pod is missing required containers: sdp-dnsmasq, sdp-service'')),
      (test_pod 7 [PF_containers [''sdp-service'', ''sdp-dnsmasq'', ''sdp-driver''], PF_volumes [''run-sdp-driver'', ''run-sdp-dnsmasq'', ''tun-device'', ''pod-info'']],
       None),
      (test_pod 8 [PF_containers [''_sdp-service'', ''_sdp-dnsmasq'', ''_sdp-driver''], PF_volumes [''_run-appgate'', ''_tun-device'']],
       Some (''Unable to run SDP client on Pod: Pod is missing required containers: sdp-dnsmasq, sdp-driver, sdp-service'' @ [CHR 0x0A] @
         ''Pod is missing required volumes: pod-info, run-sdp-dnsmasq, run-sdp-driver, tun-device''))]"

definition test_pod_validation :: bool where
  "test_pod_validation \<longleftrightarrow>
     list_all (\<lambda>(p, validation_errors).
       case (pod_validate (test_sdp_pod (test_dns_service ''10.10.10.10'') 22) (test_object_request p), validation_errors) of
         (Inr _, None) \<Rightarrow> True
       | (Inl err, Some expected) \<Rightarrow> err = expected
       | _ \<Rightarrow> False) validation_tests"

section \<open>Service environments and searches\<close>

definition env_is ::
  "ServiceEnvironment \<Rightarrow> string \<Rightarrow> string \<Rightarrow> string \<Rightarrow> string \<Rightarrow> string \<Rightarrow> string \<Rightarrow> bool" where
  "env_is env sid config secret url_key pwd_key user_key \<longleftrightarrow>
     se_service_id env = sid \<and> client_config env = config \<and> client_secret_name env = secret \<and>
     client_secret_controller_url_key env = url_key \<and> client_secret_pwd_key env = pwd_key \<and>
     client_secret_user_key env = user_key \<and> n_containers env = ''0'' \<and> k8s_dns_service_ip env = None"

definition test_service_environment_from_identity_store_1 :: "string \<Rightarrow> bool" where
  "test_service_environment_from_identity_store_1 u \<longleftrightarrow>
     (let p = test_pod 1 []
      in unwrapping (from_identity_store (test_env u 1) (test_object_request p)) (\<lambda>env.
         unwrapping (pod_service_id u p) (\<lambda>sid.
           env_is env sid ''ns1-srv1-service-config'' ''ns1-srv1-service-user'' ''service-url'' ''service-password''
             ''service-username'')))"

definition env_of_pod :: "string \<Rightarrow> nat \<Rightarrow> (string \<times> string) list \<Rightarrow> (SDPServiceError, ServiceEnvironment option) res" where
  "env_of_pod u n as = from_pod (test_env u n) (test_object_request (test_pod n (if as = [] then [] else [PF_annotations as])))"

definition test_service_environment_from_pod :: "string \<Rightarrow> bool" where
  "test_service_environment_from_pod u \<longleftrightarrow>
     unwrapping (env_of_pod u 0 []) (\<lambda>env. env = None) \<and>
     unwrapping (env_of_pod u 0 [(SDP_ANNOTATION_CLIENT_SECRETS, ''some-secrets''), (SDP_ANNOTATION_CLIENT_CONFIG, ''some-config-map'')])
       (\<lambda>env. case env of
          None \<Rightarrow> False
        | Some env \<Rightarrow> env_is env ''ns0_srv0'' ''some-config-map'' ''some-secrets'' ''ns0_srv0-password'' ''ns0_srv0-password''
            ''ns0_srv0-user'') \<and>
     unwrapping (env_of_pod u 1 [(SDP_ANNOTATION_CLIENT_SECRETS, ''some-secrets'')])
       (\<lambda>env. case env of
          None \<Rightarrow> False
        | Some env \<Rightarrow> env_is env ''ns1_srv1'' ''ns1-srv1-service-config'' ''some-secrets'' ''ns1_srv1-password''
            ''ns1_srv1-password'' ''ns1_srv1-user'') \<and>
     unwrapping (env_of_pod u 1 [(SDP_ANNOTATION_CLIENT_CONFIG, ''some-config-map'')]) (\<lambda>env. env = None)"

definition sidecars_searching :: "string \<Rightarrow> SDPSidecars" where
  "sidecars_searching s =
     \<lparr>ss_init_containers = (default_container [], default_container []), ss_containers = [], ss_volumes = [],
      ss_dns_searches = s\<rparr>"

definition searches_in_ns1 :: "string \<Rightarrow> string list option \<Rightarrow> string list option" where
  "searches_in_ns1 s custom = dc_searches (dns_config (sidecars_searching s) ''ns1'' custom)"

definition test_prefix_searches_1 :: bool where
  "test_prefix_searches_1 \<longleftrightarrow>
     searches_in_ns1 ''svc.cluster.local cluster.local'' None =
       Some [''ns1.svc.cluster.local'', ''svc.cluster.local'', ''cluster.local'']"

definition test_prefix_searches_2 :: bool where
  "test_prefix_searches_2 \<longleftrightarrow>
     searches_in_ns1 ''ns1.svc.cluster.local cluster.local'' None =
       Some [''ns1.svc.cluster.local'', ''svc.cluster.local'', ''cluster.local'']"

definition test_prefix_searches_3 :: bool where
  "test_prefix_searches_3 \<longleftrightarrow>
     searches_in_ns1 ''ns1.svc.cluster.local cluster.local'' (Some [''svc.test.local'', ''test.local'']) =
       Some [''ns1.svc.test.local'', ''svc.test.local'', ''test.local'']"

definition test_prefix_searches_4 :: bool where
  "test_prefix_searches_4 \<longleftrightarrow>
     searches_in_ns1 ''ns1.svc.cluster.local cluster.local'' (Some [''ns1.svc.test.local'', ''test.local'']) =
       Some [''ns1.svc.test.local'', ''svc.test.local'', ''test.local'']"

section \<open>The tests pass\<close>

lemma selection_tests_pass: "test_needs_patching \<and> test_is_candidate_pod \<and> test_pod_validation"
  by code_simp

lemma environment_tests_pass:
  "test_service_environment_from_identity_store_1 u \<and> test_service_environment_from_pod u"
  by code_simp

lemma searches_tests_pass:
  "test_prefix_searches_1 \<and> test_prefix_searches_2 \<and> test_prefix_searches_3 \<and> test_prefix_searches_4"
  by code_simp

text \<open>
  The patch tests by way of the injected document: what is left to compute of an entry is its environment and
  that the injected document meets the assertions.
\<close>

definition injection_expected :: "string \<Rightarrow> nat \<times> TestPatch \<Rightarrow> bool" where
  "injection_expected u nt \<longleftrightarrow>
     (let (n, t) = nt; p = tp_pod t; r = test_object_request p; sp = test_sdp_pod (tp_service t) (tp_server_version t);
          ns = si_namespace (test_service_identity n)
      in podreq_namespace r = Some ns \<and>
         unwrapping (ServiceEnvironment_create (test_env u n) r) (\<lambda>env.
           case maybe_ip (sp_dns_service sp) of
             Some ip \<Rightarrow>
               tp_needs_patching t \<longrightarrow> assert_document (inject sp env ns ip ''6.0.1'' (document_of p (tp_pod_secrets t))) p t
           | None \<Rightarrow> False))"

lemma injections_1:
  "list_all (injection_expected u)
     [(0, patch_test_0), (1, patch_test_1), (2, patch_test_2), (3, patch_test_3)]"
  by code_simp

lemma injections_2:
  "list_all (injection_expected u)
     [(4, patch_test_4), (5, patch_test_5), (6, patch_test_6)]"
  by code_simp

lemma injections_3:
  "list_all (injection_expected u)
     [(7, patch_test_7), (8, patch_test_8), (9, patch_test_9), (10, patch_test_10)]"
  by code_simp

lemma injections_4:
  "list_all (injection_expected u)
     [(11, patch_test_11), (12, patch_test_12)]"
  by code_simp

lemma numbered_tests_eq:
  "numbered_tests =
     [(0, patch_test_0), (1, patch_test_1), (2, patch_test_2), (3, patch_test_3), (4, patch_test_4), (5, patch_test_5),
      (6, patch_test_6), (7, patch_test_7), (8, patch_test_8), (9, patch_test_9), (10, patch_test_10),
      (11, patch_test_11), (12, patch_test_12)]"
  by (simp add: numbered_tests_def patch_tests_def upt_rec)

lemma all_injections: "list_all (injection_expected u) numbered_tests"
  using injections_1 [of u] injections_2 [of u] injections_3 [of u] injections_4 [of u]
  by (simp only: numbered_tests_eq list.pred_inject simp_thms)

lemma numbered_test:
  assumes "(n, t) \<in> set numbered_tests"
  shows "injection_expected u (n, t)"
    and "tp_needs_patching t = needs_patching (test_sdp_pod (tp_service t) v) (test_object_request (tp_pod t))"
proof -
  show "injection_expected u (n, t)"
    using assms all_injections [of u] by (auto simp: list_all_iff)
  have "t \<in> set patch_tests"
    using assms by (auto simp: numbered_tests_def dest: set_zip_rightD)
  then have "tp_needs_patching t = needs_patching (test_sdp_pod (tp_service t) 22) (test_object_request (tp_pod t))"
    using selection_tests_pass [THEN conjunct1, unfolded test_needs_patching_def list_all_iff] by blast
  then show "tp_needs_patching t = needs_patching (test_sdp_pod (tp_service t) v) (test_object_request (tp_pod t))"
    by (simp add: needs_patching_def has_any_sidecars_def sidecars_def test_sdp_pod_def)
qed

text \<open>With the library's calls succeeding, a pod that needs it gets a patch with operations.\<close>

lemma add_ops_test: "add_ops (test_env u n) pvs = Ok (map op_of pvs)"
  by (induction pvs) (auto simp: add_op_def json_ptr_def test_env_def op_of_def)

lemma test_env_version: "ie_client_version (test_env u n) = Some ''6.0.1''"
  by (simp add: test_env_def)

lemma pod_patch_test:
  assumes "ar_object r = Some p" and "podreq_namespace r = Some ns" and "maybe_ip (sp_dns_service sp) = Some ip"
  shows "\<exists>ops. pod_patch (test_env u n) sp se r = Ok ops \<and> (ops \<noteq> []) = needs_patching sp r"
  using assms by (auto simp: pod_patch_def ok_or_def add_ops_test Let_def annotation_patches_def test_env_version)

lemma patch_tests_pass:
  assumes "adds_members app"
  shows "test_pod_patch_sidecars app u"
  unfolding test_pod_patch_sidecars_def list_all_iff
proof
  fix nt assume mem: "nt \<in> set numbered_tests"
  obtain n t where "nt = (n, t)" by force
  with mem have nt: "nt = (n, t)" "(n, t) \<in> set numbered_tests" by simp_all
  let ?r = "test_object_request (tp_pod t)" and ?sp = "test_sdp_pod (tp_service t) (tp_server_version t)"
  let ?ns = "si_namespace (test_service_identity n)"
  have needs: "tp_needs_patching t = needs_patching ?sp ?r" by (rule numbered_test(2) [OF nt(2)])
  obtain env ip where env: "podreq_namespace ?r = Some ?ns" "ServiceEnvironment_create (test_env u n) ?r = Ok env"
    "maybe_ip (sp_dns_service ?sp) = Some ip"
    "tp_needs_patching t \<longrightarrow> assert_document (inject ?sp env ?ns ip ''6.0.1'' (document_of (tp_pod t) (tp_pod_secrets t))) (tp_pod t) t"
    using numbered_test(1) [OF nt(2), of u] unfolding injection_expected_def
    by (auto simp: Let_def dest!: unwrapping_Ok split: option.splits)
  obtain ops where ops: "pod_patch (test_env u n) ?sp env ?r = Ok ops"
    using pod_patch_test [of ?r "tp_pod t" ?ns ?sp ip u n env] env(1,3) by (auto simp: test_object_request_def)
  have "assert_patch app (tp_pod t) ops t" if "tp_needs_patching t"
    using patch_injects_sidecars [OF assms ops _ _ env(1,3) test_env_version, of "tp_pod t" "tp_pod_secrets t"] that needs env(4)
    by (simp add: assert_patch_def test_object_request_def)
  with needs env(2) ops show "pod_patched_as_expected app u nt"
    by (simp add: pod_patched_as_expected_def nt(1))
qed

text \<open>The environment depends on the request through its pod and the namespace it reports.\<close>

lemma environment_of_request:
  assumes "ar_object r = ar_object r'" and "podreq_namespace r = podreq_namespace r'"
  shows "ServiceEnvironment_create e r = ServiceEnvironment_create e r'"
proof -
  have name: "podreq_name u r = podreq_name u r'" for u
    by (simp add: podreq_name_def admission_request_name_def assms(1))
  have "podreq_service_id u r = podreq_service_id u r'" "podreq_service_name u r = podreq_service_name u r'" for u
    by (simp_all only: podreq_service_id_def podreq_service_name_def name assms(2))
  then show ?thesis
    by (simp only: ServiceEnvironment_create_def from_pod_def from_identity_store_def name assms(1))
qed

lemma response_tests_pass: "test_mutate_responses u"
  unfolding test_mutate_responses_def list_all_iff
proof
  fix nt assume mem: "nt \<in> set numbered_tests"
  obtain n t where "nt = (n, t)" by force
  with mem have nt: "nt = (n, t)" "(n, t) \<in> set numbered_tests" by simp_all
  let ?r = "test_object_request (tp_pod t)" and ?a = "test_admission_request n (tp_pod t)"
  let ?sp = "test_sdp_pod (tp_service t) 22" and ?e = "test_env u n" and ?ns = "si_namespace (test_service_identity n)"
  have ns: "podreq_namespace ?a = Some ?ns"
    by (simp add: test_admission_request_def podreq_namespace_def admission_request_namespace_def)
  obtain env ip where env: "podreq_namespace ?r = Some ?ns" "ServiceEnvironment_create ?e ?r = Ok env"
    "maybe_ip (sp_dns_service ?sp) = Some ip"
    using numbered_test(1) [OF nt(2), of u] unfolding injection_expected_def
    by (auto simp: Let_def test_sdp_pod_def dest!: unwrapping_Ok split: option.splits)
  have "ServiceEnvironment_create ?e ?a = Ok env"
    using environment_of_request [of ?a ?r ?e] env(1,2) ns by (simp add: test_object_request_def test_admission_request_def)
  moreover have "needs_patching ?sp ?a = tp_needs_patching t"
    using numbered_test(2) [OF nt(2), of 22]
    by (simp add: needs_patching_def has_any_sidecars_def sidecars_def test_object_request_def test_admission_request_def)
  then obtain ops where "pod_patch ?e ?sp env ?a = Ok ops" "(ops \<noteq> []) = tp_needs_patching t"
    using pod_patch_test [of ?a "tp_pod t" ?ns ?sp ip u n env] ns env(3) by (auto simp: test_admission_request_def)
  moreover have "podreq_service_id (ie_uuid ?e 8) ?a = Ok (?ns @ ''_'' @ podreq_name (ie_uuid ?e 8) ?a)"
    by (simp add: podreq_service_id_def maybe_service_id_def ns)
  ultimately show "response_as_expected u nt"
    by (simp add: response_as_expected_def nt(1) patch_pod_def Let_def with_response_def map_err_def with_patch_def
        test_sdp_pod_def) (simp add: test_env_def)
qed

definition injector_tests :: "json_add \<Rightarrow> string \<Rightarrow> (string \<times> bool) list" where
  "injector_tests app u =
     [(''test_needs_patching'', test_needs_patching),
      (''test_is_candidate_pod'', test_is_candidate_pod),
      (''test_pod_patch_sidecars'', test_pod_patch_sidecars app u),
      (''test_mutate_responses'', test_mutate_responses u),
      (''test_pod_validation'', test_pod_validation),
      (''test_service_environment_from_identity_store_1'', test_service_environment_from_identity_store_1 u),
      (''test_prefix_searches_1'', test_prefix_searches_1),
      (''test_prefix_searches_2'', test_prefix_searches_2),
      (''test_prefix_searches_3'', test_prefix_searches_3),
      (''test_prefix_searches_4'', test_prefix_searches_4),
      (''test_service_environment_from_pod'', test_service_environment_from_pod u)]"

lemma injector_tests_pass:
  assumes "adds_members app"
  shows "filter (\<lambda>t. \<not> snd t) (injector_tests app u) = []"
  by (simp add: injector_tests_def selection_tests_pass environment_tests_pass searches_tests_pass response_tests_pass
      patch_tests_pass [OF assms])

end
