(* ===== verification/Early_Tests.thy ===== *)
theory Early_Tests
  imports Patch_Tests Early_Injector
begin

text \<open>
  The unit tests of the earlier injector (\<^verbatim>\<open>src/bin/sdp-injector/main.rs\<close>), over the same sidecars and with
  the JSON patch crate as in \<^verbatim>\<open>Patch_Tests\<close>.
\<close>

section \<open>The table of pods\<close>

text \<open>\<^verbatim>\<open>test_pod!\<close>: a pod with an empty specification, no name and no namespace, and these fields.\<close>

definition early_test_pod :: "pod_field list \<Rightarrow> pod" where
  "early_test_pod fs = fold set_pod_field fs default_pod"

definition early_test_sidecars :: EarlySidecars where
  "early_test_sidecars =
     \<lparr>el_containers = ss_containers test_sidecars, el_volumes = ss_volumes test_sidecars,
      el_dns_searches = ss_dns_searches test_sidecars\<rparr>"

text \<open>\<^verbatim>\<open>Service::default()\<close>: no specification, so no address.\<close>

definition default_kube_service :: kube_service where
  "default_kube_service = \<lparr>ks_labels = None, ks_cluster_ip = None\<rparr>"

record EarlyTestPatch =
  etp_pod :: pod
  etp_needs_patching :: bool
  etp_client_config_map :: string
  etp_client_secrets :: string
  etp_envs :: "(string \<times> string option) list"
  etp_service :: kube_service
  etp_dns_searches :: "string list option"

definition EarlyTestPatch_default :: EarlyTestPatch where
  "EarlyTestPatch_default =
     \<lparr>etp_pod = early_test_pod [], etp_needs_patching = False, etp_client_config_map = SDP_DEFAULT_CLIENT_CONFIG,
      etp_client_secrets = SDP_DEFAULT_CLIENT_SECRETS, etp_envs = [], etp_service = default_kube_service,
      etp_dns_searches = Some [''svc.cluster.local'', ''cluster.local'']\<rparr>"

definition early_envs :: "string \<Rightarrow> string option \<Rightarrow> (string \<times> string option) list" where
  "early_envs nc ip =
     (''POD_N_CONTAINERS'', Some nc) # (case ip of None \<Rightarrow> [] | Some ip \<Rightarrow> [(''K8S_DNS_SERVICE'', Some ip)])"

definition early_patch_tests_1 :: "EarlyTestPatch list" where
  "early_patch_tests_1 =
     [EarlyTestPatch_default\<lparr>etp_envs := early_envs ''0'' None\<rparr>,
      EarlyTestPatch_default\<lparr>etp_pod := early_test_pod [PF_containers [''random-service'']],
        etp_needs_patching := True, etp_envs := early_envs ''1'' (Some [])\<rparr>,
      EarlyTestPatch_default\<lparr>etp_pod := early_test_pod [PF_containers [''random-service''],
          PF_annotations [(''sdp-injector'', ''false'')]],
        etp_envs := early_envs ''1'' None\<rparr>,
      EarlyTestPatch_default\<lparr>etp_pod := early_test_pod [PF_containers [''random-service''],
          PF_annotations [(''sdp-injector'', ''who-knows''), (EARLY_ANNOTATION_CLIENT_SECRETS, ''some-secrets''),
            (EARLY_ANNOTATION_CLIENT_CONFIG, ''some-config-map'')]],
        etp_needs_patching := True, etp_client_config_map := ''some-config-map'',
        etp_client_secrets := ''some-secrets'', etp_envs := early_envs ''1'' (Some [])\<rparr>,
      EarlyTestPatch_default\<lparr>etp_pod := early_test_pod [PF_containers [''random-service''],
          PF_annotations [(''sdp-injector'', ''true''), (EARLY_ANNOTATION_CLIENT_SECRETS, ''some-secrets'')]],
        etp_needs_patching := True, etp_client_secrets := ''some-secrets'', etp_envs := early_envs ''1'' (Some [])\<rparr>]"

definition early_patch_tests_2 :: "EarlyTestPatch list" where
  "early_patch_tests_2 =
     [EarlyTestPatch_default\<lparr>etp_pod := early_test_pod [PF_containers [''some-random-service-1'', ''some-random-service-2''],
          PF_annotations [(EARLY_ANNOTATION_CLIENT_CONFIG, ''some-config-map'')]],
        etp_needs_patching := True, etp_client_config_map := ''some-config-map'',
        etp_envs := early_envs ''2'' (Some ''10.0.0.10''), etp_service := test_dns_service ''10.0.0.10''\<rparr>,
      EarlyTestPatch_default\<lparr>etp_pod := early_test_pod [PF_containers [sidecar_no 0, sidecar_no 1, ''some-random-service'']],
        etp_envs := early_envs ''3'' None\<rparr>,
      EarlyTestPatch_default\<lparr>etp_pod := early_test_pod [PF_containers [sidecar_no 0, sidecar_no 1, ''some-random-service''],
          PF_annotations [(''sdp-injector'', ''true'')]],
        etp_envs := early_envs ''3'' None\<rparr>,
      EarlyTestPatch_default\<lparr>etp_pod := early_test_pod [PF_containers [sidecar_no 1, ''some-random-service'']],
        etp_envs := early_envs ''2'' None\<rparr>,
      EarlyTestPatch_default\<lparr>etp_pod := early_test_pod [PF_containers [sidecar_no 1, ''some-random-service''],
          PF_annotations [(''sdp-injector'', ''true'')]],
        etp_envs := early_envs ''2'' None\<rparr>]"

definition early_patch_tests :: "EarlyTestPatch list" where
  "early_patch_tests = early_patch_tests_1 @ early_patch_tests_2"

section \<open>The tests\<close>

definition early_test_sdp_pod :: "pod \<Rightarrow> kube_service option \<Rightarrow> EarlyPod" where
  "early_test_sdp_pod p s = \<lparr>ep_pod = p, ep_sidecars = early_test_sidecars, ep_dns_service = s\<rparr>"

definition early_test_needs_patching :: bool where
  "early_test_needs_patching \<longleftrightarrow>
     list_all (\<lambda>t. etp_needs_patching t = early_needs_patching (early_test_sdp_pod (etp_pod t) (Some (etp_service t))))
       early_patch_tests"

definition early_assert_containers :: "pod \<Rightarrow> string list \<Rightarrow> bool" where
  "early_assert_containers p unpatched \<longleftrightarrow>
     set (unwrap_or (map_option (map c_name) (containers p)) []) = set (expected_containers unpatched)"

text \<open>The variables of the client container, against the entry's own.\<close>

definition early_assert_envs :: "pod \<Rightarrow> EarlyTestPatch \<Rightarrow> bool" where
  "early_assert_envs p t \<longleftrightarrow>
     assert_envs p (TestPatch_default\<lparr>tp_client_config_map := etp_client_config_map t,
       tp_client_secrets := etp_client_secrets t, tp_envs := etp_envs t\<rparr>)"

definition early_assert_patch :: "json_add \<Rightarrow> pod \<Rightarrow> Patch \<Rightarrow> EarlyTestPatch \<Rightarrow> bool" where
  "early_assert_patch app p ops t \<longleftrightarrow>
     (case apply_patch app ops (document_of p None) of
        Inl _ \<Rightarrow> False
      | Inr d \<Rightarrow>
          assert_volumes (pd_pod d) (unwrap_or (volume_names p) []) \<and>
          early_assert_containers (pd_pod d) (unwrap_or (map_option (map c_name) (containers p)) []) \<and>
          early_assert_envs (pd_pod d) t \<and>
          assert_dnsconfig d (etp_dns_searches t))"

text \<open>Values serialise, the review of the test parses to the pod put into it, and a response starts out allowed.\<close>

definition early_test_env :: "pod \<Rightarrow> early_env" where
  "early_test_env p =
     \<lparr>ee_services = Inr [], ee_to_value = \<lambda>_. None,
      ee_parse = \<lambda>_. Inr (Inr \<lparr>ar_uid = ''705ab4f5-6393-11e8-b7cc-42010a800002'', ar_namespace = Some ''my-namespace'',
        ar_object = Some p\<rparr>),
      ee_response = \<lambda>uid. \<lparr>resp_uid = uid, resp_allowed = True, resp_code = 0, resp_message = [], resp_patch = None\<rparr>,
      ee_with_patch = \<lambda>resp ops. Inr (resp\<lparr>resp_patch := Some ops\<rparr>), ee_cwd = Inr (\<lambda>f. f), ee_open = Inl,
      ee_sidecars = Inl, ee_pem = Inl, ee_tls_config = \<lambda>_. Inl\<rparr>"

definition early_patched_as_expected :: "json_add \<Rightarrow> EarlyTestPatch \<Rightarrow> bool" where
  "early_patched_as_expected app t \<longleftrightarrow>
     (let p = etp_pod t; sp = early_test_sdp_pod p (Some (etp_service t))
      in if etp_needs_patching t \<and> early_needs_patching sp
         then unwrapping (patch_sidecars (early_test_env p) sp) (\<lambda>ops. early_assert_patch app p ops t)
         else etp_needs_patching t = early_needs_patching sp)"

definition early_test_pod_patch_sidecars :: "json_add \<Rightarrow> bool" where
  "early_test_pod_patch_sidecars app \<longleftrightarrow> list_all (early_patched_as_expected app) early_patch_tests"

definition early_response_as_expected :: "string \<Rightarrow> EarlyTestPatch \<Rightarrow> bool" where
  "early_response_as_expected body t \<longleftrightarrow>
     (case patch_request (early_test_env (etp_pod t)) body \<lparr>ex_sidecars = early_test_sidecars, ex_dns_service = None\<rparr> of
        Ok response \<Rightarrow>
          resp_allowed response \<and>
          (case resp_patch response of None \<Rightarrow> False | Some ops \<Rightarrow> etp_needs_patching t = (ops \<noteq> []))
      | _ \<Rightarrow> False)"

definition early_test_mutate_responses :: "string \<Rightarrow> bool" where
  "early_test_mutate_responses body \<longleftrightarrow> list_all (early_response_as_expected body) early_patch_tests"

definition early_validation_tests :: "(pod \<times> string option) list" where
  "early_validation_tests =
     [
      (early_test_pod [],
       Some (''Unable to run SDP client on POD: POD is missing needed containers: sdp-dnsmasq, sdp-driver, sdp-service'' @ [CHR 0x0A] @
         ''POD is missing needed volumes: pod-info, run-sdp-dnsmasq, run-sdp-driver, tun-device'')),
      (early_test_pod [PF_containers [''sdp-dnsmasq'']],
       Some (''Unable to run SDP client on POD: POD is missing needed containers: sdp-driver, sdp-service'' @ [CHR 0x0A] @
         ''POD is missing needed volumes: pod-info, run-sdp-dnsmasq, run-sdp-driver, tun-device'')),
      (early_test_pod [PF_containers [''sdp-dnsmasq'', ''sdp-service'']],
       Some (''Unable to run SDP client on POD: POD is missing needed containers: sdp-driver'' @ [CHR 0x0A] @
         ''POD is missing needed volumes: pod-info, run-sdp-dnsmasq, run-sdp-driver, tun-device'')),
      (early_test_pod [PF_containers [''sdp-service'', ''sdp-dnsmasq'', ''sdp-driver'']],
       Some (''Unable to run SDP client on POD: POD is missing needed volumes: pod-info, run-sdp-dnsmasq, run-sdp-driver, tun-device'')),
      (early_test_pod [PF_containers [''sdp-service'', ''sdp-dnsmasq'', ''sdp-driver''], PF_volumes [''run-sdp-dnsmasq'', ''run-sdp-driver'']],
       Some (''Unable to run SDP client on POD: POD is missing needed volumes: pod-info, tun-device'')),
      (early_test_pod [PF_containers [''sdp-service'', ''sdp-dnsmasq'', ''sdp-driver''], PF_volumes [''run-sdp-driver'', ''run-sdp-dnsmasq'']],
       Some (''Unable to run SDP client on POD: POD is missing needed volumes: pod-info, tun-device'')),
      (early_test_pod [PF_containers [''sdp-driver''], PF_volumes [''run-sdp-driver'', ''tun-device'', ''pod-info'', ''run-sdp-dnsmasq'']],
       Some (''Unable to run SDP client on POD: POD is missing needed containers: sdp-dnsmasq, sdp-service'')),
      (early_test_pod [PF_containers [''sdp-service'', ''sdp-dnsmasq'', ''sdp-driver''], PF_volumes [''run-sdp-driver'', ''run-sdp-dnsmasq'', ''tun-device'', ''pod-info'']],
       None),
      (early_test_pod [PF_containers [''_sdp-service'', ''_sdp-dnsmasq'', ''_sdp-driver''], PF_volumes [''_run-appgate'', ''_tun-device'']],
       Some (''Unable to run SDP client on POD: POD is missing needed containers: sdp-dnsmasq, sdp-driver, sdp-service'' @ [CHR 0x0A] @
         ''POD is missing needed volumes: pod-info, run-sdp-dnsmasq, run-sdp-driver, tun-device''))]"

definition early_test_pod_validation :: bool where
  "early_test_pod_validation \<longleftrightarrow>
     list_all (\<lambda>(p, validation_errors).
       case (validate_sidecars (early_test_sdp_pod p (Some default_kube_service)), validation_errors) of
         (Inr _, None) \<Rightarrow> True
       | (Inl err, Some expected) \<Rightarrow> err = expected
       | _ \<Rightarrow> False) early_validation_tests"

section \<open>The tests pass\<close>

lemma early_selection_passes: "early_test_needs_patching \<and> early_test_pod_validation"
  by code_simp

lemma early_rfc_1: "list_all (early_patched_as_expected rfc_add) early_patch_tests_1"
  by code_simp

lemma early_rfc_2: "list_all (early_patched_as_expected rfc_add) early_patch_tests_2"
  by code_simp

lemma early_assert_patch_rfc: "adds_members app \<Longrightarrow> early_assert_patch rfc_add p ops t \<Longrightarrow> early_assert_patch app p ops t"
  by (auto simp: early_assert_patch_def dest: apply_patch_rfc split: sum.splits)

lemma early_patches_pass:
  assumes "adds_members app"
  shows "early_test_pod_patch_sidecars app"
proof -
  have "early_patched_as_expected app t" if "early_patched_as_expected rfc_add t" for t
    using that unfolding early_patched_as_expected_def Let_def
    by (auto elim!: unwrapping_mono dest: early_assert_patch_rfc [OF assms] split: if_splits)
  then show ?thesis
    using early_rfc_1 early_rfc_2
    by (auto simp: early_test_pod_patch_sidecars_def early_patch_tests_def list_all_iff)
qed

lemma early_test_env_sel:
  "ee_parse (early_test_env p) body = Inr (Inr \<lparr>ar_uid = ''705ab4f5-6393-11e8-b7cc-42010a800002'',
     ar_namespace = Some ''my-namespace'', ar_object = Some p\<rparr>)"
  "ee_response (early_test_env p) uid =
     \<lparr>resp_uid = uid, resp_allowed = True, resp_code = 0, resp_message = [], resp_patch = None\<rparr>"
  "ee_with_patch (early_test_env p) resp ops = Inr (resp\<lparr>resp_patch := Some ops\<rparr>)"
  by (simp_all add: early_test_env_def)

lemma early_ops_test: "early_ops (early_test_env p) pvs = Ok (map (\<lambda>(p, v). \<lparr>op_path = p, op_value = v\<rparr>) pvs)"
  by (induction pvs) (auto simp: early_test_env_def)

lemma patch_sidecars_test:
  "\<exists>ops. patch_sidecars (early_test_env q) sp = Ok ops \<and> (ops \<noteq> []) = early_needs_patching sp"
  by (auto simp: patch_sidecars_def Let_def early_ops_test)

lemma early_needs_patching_no_dns:
  "early_needs_patching (early_test_sdp_pod p s) = early_needs_patching (early_test_sdp_pod p s')"
  by (simp add: early_needs_patching_def has_containers_def early_has_any_sidecars_def early_sidecars_def
      disabled_by_annotations_def early_test_sdp_pod_def)

lemma early_response:
  assumes "etp_needs_patching t = early_needs_patching (early_test_sdp_pod (etp_pod t) (Some (etp_service t)))"
  shows "early_response_as_expected body t"
proof -
  let ?sp = "early_test_sdp_pod (etp_pod t) None"
  obtain ops where ops: "patch_sidecars (early_test_env (etp_pod t)) ?sp = Ok ops" "(ops \<noteq> []) = early_needs_patching ?sp"
    using patch_sidecars_test by blast
  have "etp_needs_patching t = (ops \<noteq> [])"
    using assms ops(2) early_needs_patching_no_dns by metis
  with ops(1) show ?thesis
    by (simp add: early_response_as_expected_def patch_request_def early_request_def early_test_env_sel
        early_test_sdp_pod_def Let_def of_sum_res_def)
qed

lemma early_responses_pass: "early_test_mutate_responses body"
  unfolding early_test_mutate_responses_def list_all_iff
  using early_selection_passes [THEN conjunct1, unfolded early_test_needs_patching_def list_all_iff] early_response by blast

definition early_tests :: "json_add \<Rightarrow> string \<Rightarrow> (string \<times> bool) list" where
  "early_tests app body =
     [(''needs_patching'', early_test_needs_patching),
      (''test_pod_patch_sidecars'', early_test_pod_patch_sidecars app),
      (''test_mutate_responses'', early_test_mutate_responses body),
      (''test_pod_validation'', early_test_pod_validation)]"

lemma early_tests_pass: "adds_members app \<Longrightarrow> filter (\<lambda>t. \<not> snd t) (early_tests app body) = []"
  by (simp add: early_tests_def early_selection_passes early_patches_pass early_responses_pass)

end
