(* ===== verification/Repo_Tests.thy ===== *)
theory Repo_Tests
  imports Common_Tests Identity_Tests Early_Tests
begin

text \<open>
  The model passes the unit tests of the repository. Each test is a boolean definition with the test's name, made
  from its objects and assertions; a suite lists them with their names, and what is stated of a suite is
  that the list of the tests that fail is empty.
\<close>





end
