(* ===== verification/Spec2Isabelle.thy ===== *)
theory Spec2Isabelle
  imports Admission_Laws Manager_Startup Creator_Laws Watcher_Laws Boot_Laws Early_Injector_Laws Repo_Tests
begin

text \<open>
  A verification library for the Appgate SDP Kubernetes injector: two services written in Rust, the
  identity service and the injector, with the crate they share.

  \<^bold>\<open>The program\<close>. The identity service gives every service of the cluster that wants it an identity in the
  SDP system. Its tasks exchange messages: the candidate watchers report deployments and SDP services,
  the pod watcher the device ids of deleted pods, the identity creator the users it finds or creates at
  the SDP controller, and the identity manager assigns users to services, stores them as
  \<^verbatim>\<open>ServiceIdentity\<close> objects and orders activations and deletions. The injector is an admission
  controller: it patches pods and deployments with the sidecar containers of the SDP client. Its
  device id provider follows the \<^verbatim>\<open>ServiceIdentity\<close> objects through a watcher and hands out a device id
  for every pod. The device id comes back to the identity service when the pod is deleted.

  \<^bold>\<open>Theories\<close>, with the files under \<^verbatim>\<open>src/\<close> they translate.

  \<^item> \<open>Sdp_Prelude\<close>: results with panics (\<open>res\<close>), operations on a state (\<open>act\<close>, \<open>bindR\<close>, \<open>for_each\<close>, \<open>try_each\<close>),
    Rust's string operations on UTF-8 bytes, the lemma collections.
  \<^item> \<open>Kube_Objects\<close>: the constants, the service error, the Kubernetes objects and custom resources
    (\<^verbatim>\<open>sdp-common/src\<close>: \<^verbatim>\<open>annotations.rs\<close>, \<^verbatim>\<open>constants.rs\<close>, \<^verbatim>\<open>errors.rs\<close>, \<^verbatim>\<open>crd.rs\<close>).
  \<^item> \<open>Service_Model\<close>: how resources are named, labelled and selected (\<^verbatim>\<open>traits.rs\<close>, \<^verbatim>\<open>kubernetes.rs\<close>, \<^verbatim>\<open>service.rs\<close>),
    with the naming contracts as locales and their interpretations for every kind of resource.
  \<^item> \<open>Device_Id\<close>: the identity store and the provider of the injector (\<^verbatim>\<open>sdp-injector/src/deviceid.rs\<close>), the
    locale \<open>identity_store\<close> and its interpretation \<open>mem\<close>, and what runs of the provider guarantee.
  \<^item> \<open>Service_Secrets\<close>, \<open>Secret_Store\<close>: names, fields and operations of the secrets and config maps
    (\<^verbatim>\<open>service.rs\<close>).
  \<^item> \<open>Injector\<close>, \<open>Injector_Laws\<close>, \<open>Pod_Annotations\<close>: the admission controller (\<^verbatim>\<open>sdp-injector/src/injector.rs\<close>), its
    laws, and the annotations of a patched pod.
  \<^item> \<open>Admission\<close>, \<open>Admission_Laws\<close>: the injector with the provider that answers it and the messages of the watcher,
    as a run over events (\<^verbatim>\<open>injector.rs\<close>, \<^verbatim>\<open>deviceid.rs\<close>, the injector's \<^verbatim>\<open>main.rs\<close>).
  \<^item> \<open>Protocols\<close>: the messages of the identity service.
  \<^item> \<open>Identity_Manager\<close>, \<open>Manager_Laws\<close>: the manager (\<^verbatim>\<open>sdp-identity-service/src/identity_manager.rs\<close>);
    \<open>Manager_Startup\<close>: its start up to the end of the reconciliation.
  \<^item> \<open>World\<close>, \<open>Sdp_System\<close>: the data of the controller and its client (\<^verbatim>\<open>sdp-common/src/sdp\<close>).
  \<^item> \<open>Identity_Creator\<close>, \<open>Creator_Laws\<close>: the creator (\<^verbatim>\<open>identity_creator.rs\<close>); the locale \<open>traced\<close> states
    what an operation adds to the record of what was done, and is interpreted for the client, for the
    Kubernetes calls and for the creator.
  \<^item> \<open>Watcher\<close>, \<open>Watcher_Laws\<close>: the generic watcher (\<^verbatim>\<open>sdp-common/src/watcher.rs\<close>) and the protocols of
    deployments, SDP services, pods and identities; the locales \<open>keyed_watching\<close> and \<open>silent_watching\<close>
    are their contracts, interpreted for the two candidate watchers.
  \<^item> \<open>Startup\<close>, \<open>Startup_Laws\<close>: settings, the configuration of the SDP client, the command that releases
    device ids, and the injector's loop that reloads its certificates (both \<^verbatim>\<open>main.rs\<close>, \<^verbatim>\<open>files_watcher.rs\<close>).
  \<^item> \<open>Service_Net\<close>, \<open>Service_Net_Laws\<close>: the identity service as its \<^verbatim>\<open>main.rs\<close> assembles it: manager and creator
    as tasks with bounded channels, what the watchers send, the exit on a panic, as a step relation.
  \<^item> \<open>Boot\<close>, \<open>Boot_Laws\<close>: how both programs come up (both \<^verbatim>\<open>main.rs\<close>, \<^verbatim>\<open>kubernetes.rs\<close>), and that the
    service that comes up meets the hypotheses of the theorems on its tasks.
  \<^item> \<open>Early_Injector\<close>, \<open>Early_Injector_Laws\<close>: the earlier, single-file injector (\<^verbatim>\<open>src/bin/sdp-injector/main.rs\<close>), which
    the workspace no longer builds, and its equivalence with the current one.
  \<^item> \<open>Pod_Document\<close>: a pod as a JSON document, what applying a patch to it means, and the injected pod that the
    patch is shown to give.
  \<^item> \<open>Test_Objects\<close>, \<open>Common_Tests\<close>, \<open>Identity_Tests\<close>, \<open>Patch_Tests\<close>, \<open>Early_Tests\<close>, \<open>Repo_Tests\<close>: the repository's own unit
    tests, from the \<^verbatim>\<open>tests\<close> modules of \<^verbatim>\<open>sdp-common\<close>, \<^verbatim>\<open>deviceid.rs\<close>, \<^verbatim>\<open>identity_manager.rs\<close>, \<^verbatim>\<open>identity_creator.rs\<close>,
    \<^verbatim>\<open>injector.rs\<close> and the earlier injector, with the macros of \<^verbatim>\<open>sdp-macros\<close> and \<^verbatim>\<open>sdp-test-macros\<close> that build their
    objects. Each test is the boolean of its assertions, and the model passes them.
  \<^item> This theory: properties that span components.

  \<^bold>\<open>How the code is modelled\<close>. A struct is a record, an enum a datatype, an operation one definition of
  the same name; where two files use one name, the receiver's name stands in front. A \<^verbatim>\<open>Result\<close> is a
  value of \<open>res\<close>, which has a third case for a panic; every early return, error and panic of the code is
  a branch. State is passed explicitly; a task is its handler folded over the messages it receives, in the
  order it receives them, so a theorem about all message lists is one about all interleavings of the
  senders. Code that is not in the repository (the Kubernetes client, HTTP, channels, random UUIDs, clocks,
  JSON) is an environment: a record of functions that give its answers from everything done before, so the
  theorems hold for every behaviour of it that their hypotheses do not exclude. What a task does to the
  outside is recorded in order, as \<open>im_action\<close>, \<open>action\<close> or as a list of messages. Integers that can
  overflow are words: the attempts counter and the number of watchers have 8 bits, UUIDs 128, the seconds of
  a duration 64. Hash maps and sets are lists, and theorems hold for every order. All loops end by
  structural recursion or by a measure and no fuel is used: an endless loop of the code is modelled by the
  state after a finite number of messages or events. The injector's server loop and its file watcher run
  in parallel and are an inductive step relation, as are the tasks of the identity service with their
  channels of 50 messages: there a sender waits while the channel is full, and each task is shown to be a
  run of its handler.

  \<^bold>\<open>What is shown\<close>. For the manager: that readiness is signalled once, that no user is shared, what the
  reconciliation leaves, that after the start every announced candidate is served, how a request is served, and
  that it never panics; where a failed call leaves a
  state the code does not recover from, that is a theorem too. For the creator and its client: that the
  pool is filled, that tokens are renewed in time, which devices are unregistered, what is answered to the
  manager. For the injector: that its patch gives, for every pod, the pod that an abstract specification of the injection
  describes, that a patched pod is valid and not patched again, that no candidate passes
  unpatched before the sixteenth failure, that every request is answered, and, with the provider, what becomes
  of the pod of a known and of an unknown service and that two pods never get the same device id. For the device
  id provider: that its store is consistent and that no id is leased twice. For the watchers: an abstract
  specification of the order of their messages, and that the provider mirrors the cluster. Across the
  components: that a request ends in an active identity, and that the device id written into a pod is the one
  released when the pod is deleted and then given to the next pod of the service. Of the assembled identity
  service: that its messages die out, by a height of each message and the multiset order; that it can stop only
  idle, on exit or in one of two kinds of deadlock; that the manager can in fact block itself; and that a candidate
  deleted and created again can be left without an identity. Last, that the model passes the unit tests of the
  repository, for all values the tests draw at random.

  \<^bold>\<open>Not modelled\<close>. Logging and the debug output of the program; parsing the command line; the TLS listener;
  the capacity of the injector's channels. In
  \<open>Service_Net\<close> the watchers may send any of their messages at any time, and a handler's sends happen after
  all its other calls. JSON and YAML conversions are
  arguments. The file \<^verbatim>\<open>sdp-injector/src/watchers.rs\<close> is no module of the crate and names types that no
  longer exist. Of the tests, those that check \<^verbatim>\<open>serde\<close>, a mock of the manager, or the error text of a mock
  are left out, and those that are commented out.
\<close>

section \<open>From a request to an active identity\<close>

text \<open>
  C4: The manager and the creator together complete a request. When the manager serves a request for a
  candidate, the last thing it does is to order the activation of the user it chose; the creator answers
  that order with one message, whatever the controller says; that message does not break the manager's
  invariant that no user is shared; and once the manager handled it, the service's identity holds the
  chosen user under the name the creator gave it.\<close>
theorem requested_identity_activated:
  assumes "named_candidate c" and "candidate_namespace c = Some ns" and "candidate_labels [] c = Ok ls"
    and "\<not> has_external_queue m"
    and "provider_lookup (provider m) (ns @ ''_'' @ n) = None" and "n = candidate_name [] c"
    and "pool (provider m) = u # us"
    and "si = identity_for (ServiceLookup_new ns n (Some ls)) (ns @ ''-'' @ n) u"
    and "e_get_opt e (trace m) (ns @ ''_'' @ n) = Inr None"
    and "e_create e (trace m @ [ApiGetOpt (ns @ ''_'' @ n)]) si = Inr si"
    and "creator_ok k cr" and "get_service_username (we_sample we (done_actions cr)) (cluster_id m) ns n = Some uname"
  shows "\<exists>m1 order reply. handle e (RequestServiceIdentity c) m = (Ok (), m1) \<and> last (trace m1) = SendCreator order \<and>
    sent (snd (creator_handle we order cr)) = sent cr @ [reply] \<and> admissible_msg reply (provider m1) \<and>
    provider_lookup (provider (snd (handle e reply m1))) (ns @ ''_'' @ n) = Some (si_set_user (u\<lparr>su_name := uname\<rparr>) si)"
proof -
  let ?sid = "ns @ ''_'' @ n" and ?order = "ActivateServiceUser u (cluster_id m) ns n ls"
  let ?reply = "ActivatedServiceUser (u\<lparr>su_name := uname\<rparr>) ns n"
  obtain m1 where m1: "handle e (RequestServiceIdentity c) m = (Ok (), m1)"
      "provider m1 = \<lparr>pool = us, services = services (provider m) @ [(?sid, si)]\<rparr>" "last (trace m1) = SendCreator ?order"
    using serve_request [OF assms(1-10)] by (auto simp: append_assoc [symmetric] simp del: append_assoc)
  have si: "si_service_id si = ?sid" "su_id (si_credentials si) = su_id u" by (simp_all add: assms(8) lookup_id_def)
  have lookup: "provider_lookup (provider m1) ?sid = Some si"
    using assms(5) by (simp add: m1(2) provider_lookup_def map_add_def split: option.splits)
  have "provider_lookup (provider (snd (handle e ?reply m1))) ?sid = Some (si_set_user (u\<lparr>su_name := uname\<rparr>) si)"
    unfolding handle.simps provider_activated lookup
    using si(1) by (simp add: provider_lookup_def register_or_update_identity_def)
  moreover have "admissible_msg ?reply (provider m1)" using lookup si(2) by simp
  moreover have "sent (snd (creator_handle we ?order cr)) = sent cr @ [?reply]"
    using activate_sent [OF assms(11,12), of u ls] by auto
  ultimately show ?thesis using m1(1,3) by blast
qed

theorem requested_identity_activated_witness:
  "\<exists>m1 order reply. handle calm (RequestServiceIdentity sample_candidate) (stocked [sample_user ''a'']) = (Ok (), m1) \<and>
     last (trace m1) = SendCreator order \<and>
     sent (snd (creator_handle failing_world order sample_creator)) = sent sample_creator @ [reply] \<and>
     admissible_msg reply (provider m1) \<and>
     provider_lookup (provider (snd (handle calm reply m1))) (''shop'' @ ''_'' @ ''web'') =
       Some (si_set_user ((sample_user ''a'')\<lparr>su_name := ''c_shop_web_aaaaa''\<rparr>)
         (identity_for (ServiceLookup_new ''shop'' ''web'' (Some sample_labels)) (''shop'' @ ''-'' @ ''web'') (sample_user ''a'')))"
proof -
  have "get_service_username (we_sample failing_world (done_actions sample_creator)) ''c'' ''shop'' ''web'' =
      Some ''c_shop_web_aaaaa''" by code_simp
  then show ?thesis
    by (intro requested_identity_activated [OF sample_candidate_facts(1-3) stocked_sel(1) _ _ _ _ _ _ sample_creator_ok])
      (simp_all add: sample_candidate_facts calm_def)
qed

section \<open>The life of a device id\<close>

text \<open>
  C7: The device id the injector gives to a pod is the one that comes back. When a candidate pod is
  patched with a device id the provider assigned to its service, the patch is applied as RFC 6902 says
  and the pod is created in the namespace of the request, then the deletion of that pod makes the pod
  watcher send the manager exactly this device id, for exactly the service it was assigned to.\<close>
theorem assigned_id_released:
  assumes "rfc6902_annotations app" and "ServiceEnvironment_create e r = Ok se" and "pod_patch e sp se r = Ok ops"
    and "needs_patching sp r" and "ar_object r = Some p" and "pod_is_candidate p"
    and "annotation (pod_annotations p) SDP_ANNOTATION_CLIENT_SECRETS = None"
    and "podreq_service_id (ie_uuid e 5) r = Ok sid" and "ie_device e sid = Answered (Some (AssignedDeviceId si d))"
    and "podreq_name (ie_uuid e 7) r = podreq_name (ie_uuid e 5) r"
    and "pod_annotations p' = pod_annotations (fold app ops p)" and "pod_namespace p' = podreq_namespace r"
    and "parse (ie_uuid_to_string e d) = Some d"
  shows "\<exists>l. pod_deleted parse u p' nsp = Some (ReleaseDeviceId l d) \<and> lookup_service_id l = Ok sid"
proof -
  obtain se' where se': "client_device_id se' = client_device_id se" "se_pod_name se' = se_pod_name se"
    and p': "pod_annotations p' = pod_annotations (fold app (map op_of (annotation_patches se' p)) p)"
    using patched_annotations [OF assms(1,3,4,5)] assms(11) by metis
  note env = environment_of_assigned [OF assms(2,5,7,8,9)]
  have device: "annotation (pod_annotations p') SDP_ANNOTATION_CLIENT_DEVICE_ID = Some (ie_uuid_to_string e d)"
    and "annotation (pod_annotations p') SDP_INJECTOR_ANNOTATION_POD_NAME = Some (podreq_name (ie_uuid e 7) r)"
    using annotated_pod [OF assms(1) refl, of se' p] se' p' env by simp_all
  then have name: "pod_name w p' = podreq_name (ie_uuid e 5) r" for w using assms(10) by (simp add: pod_name_def)
  have cand: "pod_is_candidate p'"
    using annotated_candidate [OF assms(1) refl assms(6), of se'] p' by (simp add: pod_is_candidate_def)
  obtain ns where ns: "podreq_namespace r = Some ns" and sid: "sid = ns @ ''_'' @ podreq_name (ie_uuid e 5) r"
    using assms(8) by (cases "podreq_namespace r") (auto simp: podreq_service_id_def maybe_service_id_def)
  have "pod_deleted parse u p' nsp = Some (ReleaseDeviceId (ServiceLookup_new ns (podreq_name (ie_uuid e 5) r) None) d)"
    using assms(12,13) ns device cand name
    by (simp add: pod_deleted_def when_ok_def pod_service_id_def maybe_service_id_def pod_release_def device_id_release_message_def)
  then show ?thesis using sid by (simp add: lookup_service_id_def lookup_namespace_def maybe_service_id_def)
qed

theorem assigned_id_released_witness:
  "\<exists>p' l. pod_deleted (\<lambda>s. if s = ''dev'' then Some 1 else None) (\<lambda>_. ''u'') p' None = Some (ReleaseDeviceId l 1) \<and>
     lookup_service_id l = Ok ''shop_web''"
proof -
  obtain se where se: "ServiceEnvironment_create sample_env sample_request = Ok se" using sample_environment_ok by blast
  obtain ops where ops: "pod_patch sample_env sample_sdp_pod se sample_request = Ok ops" using sample_patch_ok by blast
  let ?q = "fold pod_annotate ops sample_pod"
  let ?p' = "?q\<lparr>pod_meta := (pod_meta ?q)\<lparr>meta_namespace := Some ''shop''\<rparr>\<rparr>"
  have "\<exists>l. pod_deleted (\<lambda>s. if s = ''dev'' then Some 1 else None) (\<lambda>_. ''u'') ?p' None = Some (ReleaseDeviceId l 1) \<and>
      lookup_service_id l = Ok ''shop_web''"
    by (rule assigned_id_released [OF pod_annotate_rfc6902 se ops sample_needs_patching sample_request_facts(1,5,6,3)])
      (simp_all add: sample_request_facts sample_env_def pod_annotations_def pod_namespace_def)
  then show ?thesis by blast
qed

lemma release_replaces:
  assumes "provider_wf (provider m)" and "provider_lookup (provider m) (lookup_id l) = Some si"
    and "e_get_opt e (trace m) (si_service_name si) = Inr (Some obj)"
  shows "ApiReplace (si_service_name si) (obj\<lparr>si_spec := si_spec (add_device_id (e_uuid_to_string e u) si)\<rparr>)
    \<in> set (trace (snd (handle e (ReleaseDeviceId l u) m)))"
proof -
  have name: "si_service_name (add_device_id d si) = si_service_name si" for d
    by (simp add: add_device_id_def Let_def si_service_name_def si_set_user_def si_namespace_def si_name_def split: option.split)
  show ?thesis
    using assms
    by (auto simp: release_device_id_def identity_lookup lookup_service_id_lookup_id Let_def api_update_def bindR_def
        api_get_opt_def kube_replace_def perform_def name send_creator_def split: sum.splits)
qed


definition deleted_pod :: pod where
  "deleted_pod = sample_pod\<lparr>pod_meta := sample_meta\<lparr>meta_annotations :=
     [(SDP_ANNOTATION_CLIENT_DEVICE_ID, ''xxx''), (SDP_INJECTOR_ANNOTATION_POD_NAME, ''web'')]\<rparr>\<rparr>"

definition parse_xxx :: "string \<Rightarrow> uuid option" where
  "parse_xxx x = (if x = ''xxx'' then Some 3 else None)"

definition reading_manager :: im_env where
  "reading_manager = calm\<lparr>e_uuid_to_string := \<lambda>_. ''xxx'', e_get_opt := \<lambda>_ _. Inr (Some (web_identity (sample_user ''a'')))\<rparr>"

definition recorded_state :: injector_state where
  "recorded_state = \<lparr>inj_store = \<lparr>identities = [(''shop_web'', sample_identity (Some []))], registered_device_ids = [(''shop_web'', [])]\<rparr>,
     inj_attempts = []\<rparr>"


section \<open>The secrets a pod refers to\<close>

lemma environment_of_identity:
  assumes "from_identity_store e r = Ok se" and "podreq_service_id (ie_uuid e 5) r = Ok sid"
    and "ie_device e sid = Answered (Some (AssignedDeviceId si d))"
  shows "client_config se = config_name (si_namespace si) (si_name si)"
    and "client_secret_name se = secrets_name (si_namespace si) (si_name si)"
    and "client_secret_user_key se = ''service-username''" and "client_secret_pwd_key se = ''service-password''"
    and "client_secret_controller_url_key se = ''service-url''"
  using assms
  by (auto simp: and_then_Ok_iff from_identity_store_def request_device_id_def secrets_field_names_def Let_def
      si_namespace_def si_name_def)

lemma service_secrets_namespaced: "is_secrets_namespaced (secrets_name ns n)"
proof -
  have "last (secrets_name ns n) = CHR ''r''" by (simp add: secrets_name_def)
  then show ?thesis by (auto simp: is_secrets_namespaced_def IDENTITY_MANAGER_SECRET_NAME_def)
qed

text \<open>
  C9: The injector and the creator agree on the secrets. The secret, the fields and the config map that the
  injector makes a pod's sidecar read, for the identity it was given, are those that the creator writes for
  that service: whether the secret is there already or not, the last thing the creator does is to write the
  user's name, password and profile URL under exactly these fields of that secret, and the config map is
  created under that name.\<close>
theorem sidecar_reads_creators_secret:
  assumes "from_identity_store e r = Ok se" and "podreq_service_id (ie_uuid e 5) r = Ok sid"
    and "ie_device e sid = Answered (Some (AssignedDeviceId si d))"
    and "ns = si_namespace si" and "n = si_name si"
    and "we_exists we w (SecretGetOpt ns (secrets_name ns n)) = Inr found"
    and "we_exists we v (ConfigGetOpt ns (configmap_name ns n)) = Inr False"
  shows "\<exists>data. last (snd (create_or_update_secrets we su ns n w)) =
      (if found then SecretPatchMerge ns (client_secret_name se) data else SecretCreate ns (client_secret_name se) data) \<and>
    map_of data (client_secret_user_key se) = Some (su_name su) \<and>
    map_of data (client_secret_pwd_key se) = Some (su_password su) \<and>
    map_of data (client_secret_controller_url_key se) = Some (su_profile_url su) \<and>
    last (snd (create_config we ns n v)) = ConfigCreate ns (client_config se) [(''appgate-loglevel'', ''INFO'')]"
proof -
  note env = environment_of_identity [OF assms(1-3)]
  let ?data = "[(''service-username'', su_name su), (''service-password'', su_password su), (''service-url'', su_profile_url su)]"
  have config: "last (snd (create_config we ns n v)) = ConfigCreate ns (client_config se) [(''appgate-loglevel'', ''INFO'')]"
    using assms(7)
    by (simp add: create_config_def bindR_def exists_action_def do_action_def env config_name_def configmap_name_def assms(4,5))
  have "last (snd (create_or_update_secrets we su ns n w)) =
      (if found then SecretPatchMerge ns (client_secret_name se) ?data else SecretCreate ns (client_secret_name se) ?data)"
  proof (cases found)
    case True
    obtain b w' where "has_secrets_fields we su ns (secrets_name ns n) (w @ [SecretGetOpt ns (secrets_name ns n)]) = (b, w')"
      by fastforce
    with True assms(6) show ?thesis
      by (cases b) (simp add: create_or_update_secrets_def bindR_def exists_action_def update_secrets_fields_def
          service_secrets_namespaced secrets_field_names_def do_action_def env assms(4,5) Let_def)
  next
    case False
    with assms(6) show ?thesis
      by (simp add: create_or_update_secrets_def bindR_def exists_action_def secrets_field_names_def do_action_def env assms(4,5) Let_def)
  qed
  then show ?thesis using config env by (intro exI [of _ ?data]) simp
qed

theorem sidecar_reads_creators_secret_witness:
  "\<exists>se data. from_identity_store sample_env sample_request = Ok se \<and>
     last (snd (create_or_update_secrets sample_world sample_service_user (si_namespace (sample_identity None)) (si_name (sample_identity None)) [])) =
       SecretCreate (si_namespace (sample_identity None)) (client_secret_name se) data \<and>
     map_of data (client_secret_pwd_key se) = Some ''secret''"
proof -
  have "case from_identity_store sample_env sample_request of Ok se \<Rightarrow> True | _ \<Rightarrow> False" by code_simp
  then obtain se where se: "from_identity_store sample_env sample_request = Ok se"
    by (cases "from_identity_store sample_env sample_request") auto
  have "ie_device sample_env ''shop_web'' = Answered (Some (AssignedDeviceId (sample_identity None) 1))"
    by (simp add: sample_env_def)
  from sidecar_reads_creators_secret [OF se sample_request_facts(3) this refl refl, where we = sample_world and found = False and w = "[]" and v = "[]" and su = sample_service_user]
  show ?thesis using se by (auto simp: sample_world_def sample_service_user_def)
qed

end
